(* ===== verification/Tee_Prelude.thy ===== *)
theory Tee_Prelude
  imports Main "HOL-Library.Word"
begin

text \<open>
  Prelude of the development: the machine types of the program (LP64: C \<open>int\<close> is 32 bits, \<open>long\<close>,
  \<open>size_t\<close>, \<open>off_t\<close> and pointers are 64 bits), the conversions C performs between them, the faults
  that stand for undefined behaviour, byte memory as a map from block numbers to byte lists with
  bounds-checked accesses, and the list operations that \<open>memcpy\<close>, \<open>lseek\<close> and \<open>write\<close> are made of.
\<close>

section \<open>Machine types\<close>

type_synonym byte = "8 word"
type_synonym s32 = "32 word"
type_synonym u32 = "32 word"
type_synonym s64 = "64 word"
type_synonym u64 = "64 word"

text \<open>
  The value conversions of C: a signed \<open>int\<close> stored in a \<open>uint64_t\<close> is sign-extended, an unsigned
  one is zero-extended, and the way back keeps the low 32 bits.
\<close>

abbreviation int_to_u64 :: "s32 \<Rightarrow> u64" where
  "int_to_u64 \<equiv> scast"

abbreviation uint_to_u64 :: "u32 \<Rightarrow> u64" where
  "uint_to_u64 \<equiv> ucast"

abbreviation u64_to_int :: "u64 \<Rightarrow> s32" where
  "u64_to_int \<equiv> ucast"

lemma u64_to_int_of_int [simp]: "u64_to_int (int_to_u64 x) = x"
proof (rule bit_word_eqI)
  fix n
  assume "n < LENGTH(32)"
  then show "bit (u64_to_int (int_to_u64 x)) n = bit x n"
    by (simp add: bit_simps)
qed

lemma u64_to_int_of_uint [simp]: "u64_to_int (uint_to_u64 x) = x"
proof (rule bit_word_eqI)
  fix n
  assume "n < LENGTH(32)"
  then show "bit (u64_to_int (uint_to_u64 x)) n = bit x n"
    by (simp add: bit_simps)
qed

lemma int_to_u64_inj: "int_to_u64 x = int_to_u64 y \<longleftrightarrow> x = y"
  by (metis u64_to_int_of_int)

lemma int_to_u64_minus_one [simp]: "int_to_u64 (- 1) = - 1"
  by (rule bit_word_eqI) (simp add: bit_simps)

lemma minus_one_int: "u64_to_int (- 1) = - 1"
  by (metis int_to_u64_minus_one u64_to_int_of_int)

section \<open>Faults\<close>

text \<open>
  What the C code does outside its defined behaviour ends the run of the model with a fault: a
  dereferenced null pointer, an access outside the object or to a freed one, the read of a
  variable that was never assigned, an overflow of signed arithmetic, a failed \<open>assert\<close>, and
  \<open>exit\<close> from a library wrapper.
\<close>

datatype fault =
    NullDeref | OutOfBounds | UseAfterFree | InvalidFree | UninitRead | SignedOverflow | AssertFailed
  | ExitFailure

type_synonym 'a outcome = "fault + 'a"

section \<open>Pointers and byte memory\<close>

datatype ptr = Null | Ptr nat nat

type_synonym memory = "nat \<Rightarrow> byte list option"

text \<open>\<open>fit n bs\<close> is an object of exactly \<open>n\<close> bytes that starts with \<open>bs\<close>.\<close>

definition fit :: "nat \<Rightarrow> byte list \<Rightarrow> byte list" where
  "fit n bs = take n bs @ replicate (n - length bs) 0"

lemma length_fit [simp]: "length (fit n bs) = n"
  by (simp add: fit_def)

lemma fit_length [simp]: "fit (length bs) bs = bs"
  by (simp add: fit_def)

text \<open>
  \<open>overwrite xs i ys\<close> is what a write of \<open>ys\<close> at offset \<open>i\<close> makes of \<open>xs\<close>: a gap is filled with
  zero bytes, as a sparse file reads, and the object grows when \<open>ys\<close> ends behind its end; a write of
  no bytes changes nothing.
\<close>

definition overwrite :: "byte list \<Rightarrow> nat \<Rightarrow> byte list \<Rightarrow> byte list" where
  "overwrite xs i ys = (if ys = [] then xs else fit i xs @ ys @ drop (i + length ys) xs)"

lemma overwrite_Nil [simp]: "overwrite xs i [] = xs"
  by (simp add: overwrite_def)

lemma length_overwrite:
  "length (overwrite xs i ys) = (if ys = [] then length xs else max (length xs) (i + length ys))"
  by (auto simp: overwrite_def)

lemma length_overwrite_within [simp]:
  "i + length ys \<le> length xs \<Longrightarrow> length (overwrite xs i ys) = length xs"
  by (simp add: length_overwrite)

lemma overwrite_within: "i + length ys \<le> length xs \<Longrightarrow>
    overwrite xs i ys = take i xs @ ys @ drop (i + length ys) xs"
  by (auto simp: overwrite_def fit_def)

lemma overwrite_all: "length ys = length xs \<Longrightarrow> overwrite xs 0 ys = ys"
  by (simp add: overwrite_within)

lemma nth_overwrite:
  "k < length (overwrite xs i ys) \<Longrightarrow>
   overwrite xs i ys ! k =
     (if i \<le> k \<and> k < i + length ys then ys ! (k - i)
      else if k < length xs then xs ! k else 0)"
  by (auto simp: overwrite_def fit_def nth_append min_def split: if_splits)

text \<open>Two adjacent writes are one write of the concatenation.\<close>

lemma overwrite_append :
  "overwrite (overwrite xs i ys) (i + length ys) zs = overwrite xs i (ys @ zs)"
proof (cases "ys = [] \<or> zs = []")
  case True
  then show ?thesis by auto
next
  case False
  show ?thesis
  proof (rule nth_equalityI)
    show "length (overwrite (overwrite xs i ys) (i + length ys) zs) = length (overwrite xs i (ys @ zs))"
      using False by (simp add: length_overwrite)
  next
    fix k
    assume k: "k < length (overwrite (overwrite xs i ys) (i + length ys) zs)"
    then have k': "k < length (overwrite xs i (ys @ zs))" using False by (simp add: length_overwrite)
    have "k < length (overwrite xs i ys) \<Longrightarrow>
        overwrite xs i ys ! k = (if i \<le> k \<and> k < i + length ys then ys ! (k - i)
          else if k < length xs then xs ! k else 0)"
      by (rule nth_overwrite)
    then show "overwrite (overwrite xs i ys) (i + length ys) zs ! k = overwrite xs i (ys @ zs) ! k"
      unfolding nth_overwrite [OF k] nth_overwrite [OF k'] using False
      by (auto simp: nth_append length_overwrite)
  qed
qed

text \<open>\<open>subbytes xs i n\<close> is what a read of \<open>n\<close> bytes at offset \<open>i\<close> returns.\<close>

definition subbytes :: "byte list \<Rightarrow> nat \<Rightarrow> nat \<Rightarrow> byte list" where
  "subbytes xs i n = take n (drop i xs)"

lemma length_subbytes [simp]: "length (subbytes xs i n) = min n (length xs - i)"
  by (simp add: subbytes_def)

lemma subbytes_overwrite [simp]: "subbytes (overwrite xs i ys) i (length ys) = ys"
  by (simp add: subbytes_def overwrite_def)

lemma subbytes_all [simp]: "length xs \<le> n \<Longrightarrow> subbytes xs 0 n = xs"
  by (simp add: subbytes_def)

lemma subbytes_fit [simp]: "subbytes (fit n xs) 0 n = fit n xs"
  by (simp add: subbytes_def)

text \<open>
  Reading \<open>n\<close> bytes, or a C string, through a pointer that is passed on to the operating system: a
  null pointer is passed on as \<open>None\<close>; a read that leaves its object is a fault.
\<close>

definition bind_outcome :: "'a outcome \<Rightarrow> ('a \<Rightarrow> 'b outcome) \<Rightarrow> 'b outcome" where
  "bind_outcome m f = (case m of Inl e \<Rightarrow> Inl e | Inr x \<Rightarrow> f x)"

lemma bind_outcome_simps [simp]:
  "bind_outcome (Inl e) f = Inl e"
  "bind_outcome (Inr x) f = f x"
  by (simp_all add: bind_outcome_def)

lemma bind_outcome_InrE:
  assumes "bind_outcome m f = Inr y"
  obtains x where "m = Inr x" and "f x = Inr y"
  using assms by (cases m) auto

fun region :: "memory \<Rightarrow> ptr \<Rightarrow> nat \<Rightarrow> byte list option outcome" where
  "region m Null n = Inr None"
| "region m (Ptr blk off) n =
     (case m blk of
        None \<Rightarrow> Inl UseAfterFree
      | Some bs \<Rightarrow> if off + n \<le> length bs then Inr (Some (subbytes bs off n)) else Inl OutOfBounds)"

fun cstring :: "memory \<Rightarrow> ptr \<Rightarrow> byte list option outcome" where
  "cstring m Null = Inr None"
| "cstring m (Ptr blk off) =
     (case m blk of
        None \<Rightarrow> Inl UseAfterFree
      | Some bs \<Rightarrow>
          if 0 \<in> set (drop off bs) then Inr (Some (takeWhile (\<lambda>c. c \<noteq> 0) (drop off bs)))
          else Inl OutOfBounds)"

text \<open>A write of no bytes touches nothing, whatever the pointer is.\<close>

fun poke :: "memory \<Rightarrow> ptr \<Rightarrow> byte list \<Rightarrow> memory outcome" where
  "poke m Null bs = (if bs = [] then Inr m else Inl NullDeref)"
| "poke m (Ptr blk off) bs =
     (if bs = [] then Inr m else
      case m blk of
        None \<Rightarrow> Inl UseAfterFree
      | Some old \<Rightarrow>
          if off + length bs \<le> length old then Inr (m(blk \<mapsto> overwrite old off bs))
          else Inl OutOfBounds)"

lemma cstring_terminated [simp]:
  "0 \<notin> set bs \<Longrightarrow> m blk = Some (bs @ 0 # rest) \<Longrightarrow> cstring m (Ptr blk 0) = Inr (Some bs)"
proof -
  assume "0 \<notin> set bs" and m: "m blk = Some (bs @ 0 # rest)"
  then have "\<forall>c \<in> set bs. c \<noteq> 0" by metis
  then have "takeWhile (\<lambda>c. c \<noteq> 0) (bs @ 0 # rest) = bs" by (simp add: takeWhile_append2)
  with m show ?thesis by simp
qed

lemma region_full [simp]:
  "m blk = Some bs \<Longrightarrow> length bs = n \<Longrightarrow> region m (Ptr blk 0) n = Inr (Some bs)"
  by (simp add: subbytes_def)

lemma poke_block_length:
  "poke m (Ptr blk off) bs = Inr m' \<Longrightarrow> m blk = Some old \<Longrightarrow>
     \<exists>new. m' blk = Some new \<and> length new = length old"
  by (auto split: if_splits option.splits)

lemma poke_other_block: "poke m (Ptr blk off) bs = Inr m' \<Longrightarrow> b \<noteq> blk \<Longrightarrow> m' b = m b"
  by (auto split: if_splits option.splits)

lemma poke_dom: "poke m p bs = Inr m' \<Longrightarrow> dom m' = dom m"
  by (cases p) (auto split: if_splits option.splits)

end
