(* ===== verification/Vfs_Proto.thy ===== *)
theory Vfs_Proto
  imports Tee_Prelude
begin

unbundle bit_operations_syntax

text \<open>
  The protocol between the secure world and \<open>tee-supplicant\<close>: the VFS command numbers as both
  sides define them (\<open>optee_os/core/include/vfs.h\<close> and \<open>optee_msg_supplicant.h\<close>), the remote
  procedure numbers, the parameter structures of both sides, and the result codes and parameter
  attributes of the GlobalPlatform and Linux TEE interfaces (documented constants).
\<close>

section \<open>VFS commands\<close>

text \<open>The commands the macros \<open>OPTEE_VFS_*\<close> name.\<close>

datatype vfs_cmd =
    VFS_OPEN | VFS_CLOSE | VFS_ACCESS | VFS_GETCWD | VFS_STAT | VFS_WRITE
  | VFS_READ | VFS_FCHMOD | VFS_FCHOWN | VFS_MKDIR | VFS_RMDIR | VFS_UNLINK
  | VFS_FTRUNCATE | VFS_GETEUID | VFS_GETPID | VFS_GETENV | VFS_LSEEK | VFS_FSYNC
  | VFS_SLEEP | VFS_PREAD | VFS_GETTIMEOFDAY | VFS_PWRITE | VFS_TRUNCATE | VFS_FSTAT
  | VFS_FCNTL_VOID | VFS_FCNTL_INT | VFS_FCNTL_FLOCK | VFS_UTIMES | VFS_TIME | VFS_USLEEP
  | VFS_FILESIZE

text \<open>The numbers of \<open>core/include/vfs.h\<close>, which the secure world sends.\<close>

primrec optee_vfs :: "vfs_cmd \<Rightarrow> u64" where
  "optee_vfs VFS_OPEN = 0"
| "optee_vfs VFS_CLOSE = 1"
| "optee_vfs VFS_ACCESS = 2"
| "optee_vfs VFS_GETCWD = 3"
| "optee_vfs VFS_STAT = 4"
| "optee_vfs VFS_WRITE = 5"
| "optee_vfs VFS_READ = 6"
| "optee_vfs VFS_FCHMOD = 7"
| "optee_vfs VFS_FCHOWN = 8"
| "optee_vfs VFS_MKDIR = 9"
| "optee_vfs VFS_RMDIR = 10"
| "optee_vfs VFS_UNLINK = 11"
| "optee_vfs VFS_FTRUNCATE = 12"
| "optee_vfs VFS_GETEUID = 13"
| "optee_vfs VFS_GETPID = 14"
| "optee_vfs VFS_GETENV = 15"
| "optee_vfs VFS_LSEEK = 16"
| "optee_vfs VFS_FSYNC = 17"
| "optee_vfs VFS_SLEEP = 18"
| "optee_vfs VFS_PREAD = 19"
| "optee_vfs VFS_GETTIMEOFDAY = 20"
| "optee_vfs VFS_PWRITE = 21"
| "optee_vfs VFS_TRUNCATE = 22"
| "optee_vfs VFS_FSTAT = 23"
| "optee_vfs VFS_FCNTL_VOID = 24"
| "optee_vfs VFS_FCNTL_INT = 25"
| "optee_vfs VFS_FCNTL_FLOCK = 26"
| "optee_vfs VFS_UTIMES = 27"
| "optee_vfs VFS_TIME = 28"
| "optee_vfs VFS_USLEEP = 29"
| "optee_vfs VFS_FILESIZE = 30"

text \<open>The numbers of \<open>optee_msg_supplicant.h\<close>, which the supplicant compares with.\<close>

primrec supp_vfs :: "vfs_cmd \<Rightarrow> u64" where
  "supp_vfs VFS_OPEN = 0"
| "supp_vfs VFS_CLOSE = 1"
| "supp_vfs VFS_ACCESS = 2"
| "supp_vfs VFS_GETCWD = 3"
| "supp_vfs VFS_STAT = 4"
| "supp_vfs VFS_WRITE = 5"
| "supp_vfs VFS_READ = 6"
| "supp_vfs VFS_FCHMOD = 7"
| "supp_vfs VFS_FCHOWN = 8"
| "supp_vfs VFS_MKDIR = 9"
| "supp_vfs VFS_RMDIR = 10"
| "supp_vfs VFS_UNLINK = 11"
| "supp_vfs VFS_FTRUNCATE = 12"
| "supp_vfs VFS_GETEUID = 13"
| "supp_vfs VFS_GETPID = 14"
| "supp_vfs VFS_GETENV = 15"
| "supp_vfs VFS_LSEEK = 16"
| "supp_vfs VFS_FSYNC = 17"
| "supp_vfs VFS_SLEEP = 18"
| "supp_vfs VFS_PREAD = 19"
| "supp_vfs VFS_GETTIMEOFDAY = 20"
| "supp_vfs VFS_PWRITE = 21"
| "supp_vfs VFS_TRUNCATE = 22"
| "supp_vfs VFS_FSTAT = 23"
| "supp_vfs VFS_FCNTL_VOID = 24"
| "supp_vfs VFS_FCNTL_INT = 25"
| "supp_vfs VFS_FCNTL_FLOCK = 26"
| "supp_vfs VFS_UTIMES = 27"
| "supp_vfs VFS_TIME = 28"
| "supp_vfs VFS_USLEEP = 29"
| "supp_vfs VFS_FILESIZE = 30"

text \<open>Both headers define the same command numbers, and no two commands share one.\<close>

lemma supp_vfs_optee_vfs [simp]: "supp_vfs c = optee_vfs c"
  by (cases c) simp_all

lemma optee_vfs_bound: "optee_vfs c \<le> 30"
  by (cases c) simp_all

definition vfs_cmds :: "vfs_cmd list" where
  "vfs_cmds =
    [VFS_OPEN, VFS_CLOSE, VFS_ACCESS, VFS_GETCWD, VFS_STAT, VFS_WRITE,
     VFS_READ, VFS_FCHMOD, VFS_FCHOWN, VFS_MKDIR, VFS_RMDIR, VFS_UNLINK,
     VFS_FTRUNCATE, VFS_GETEUID, VFS_GETPID, VFS_GETENV, VFS_LSEEK, VFS_FSYNC,
     VFS_SLEEP, VFS_PREAD, VFS_GETTIMEOFDAY, VFS_PWRITE, VFS_TRUNCATE, VFS_FSTAT,
     VFS_FCNTL_VOID, VFS_FCNTL_INT, VFS_FCNTL_FLOCK, VFS_UTIMES, VFS_TIME, VFS_USLEEP,
     VFS_FILESIZE]"

lemma optee_vfs_enumeration: "map (\<lambda>c. unat (optee_vfs c)) vfs_cmds = [0..<31]"
  by (simp add: vfs_cmds_def upt_rec)

lemma in_vfs_cmds: "c \<in> set vfs_cmds"
  by (cases c) (simp_all add: vfs_cmds_def)

lemma inj_optee_vfs: "inj optee_vfs"
proof (rule injI)
  fix c d
  assume eq: "optee_vfs c = optee_vfs d"
  have "distinct (map (\<lambda>c. unat (optee_vfs c)) vfs_cmds)"
    by (simp add: optee_vfs_enumeration)
  then have "inj_on (\<lambda>c. unat (optee_vfs c)) (set vfs_cmds)"
    by (simp add: distinct_map)
  then show "c = d"
    by (rule inj_onD) (simp_all add: eq in_vfs_cmds)
qed

section \<open>Remote procedure numbers\<close>

text \<open>
  \<open>OPTEE_MSG_RPC_CMD_*\<close> of \<open>optee_msg_supplicant.h\<close>: which subsystem of the supplicant serves a
  request.  The VFS commands arrive under \<open>OPTEE_MSG_RPC_CMD_OPEN\<close>.
\<close>

datatype rpc_service = LOAD_TA | RPMB | FS | SHM_ALLOC | SHM_FREE | GPROF | SOCKET | FTRACE | PLUGIN | VFS

primrec rpc_cmd_number :: "rpc_service \<Rightarrow> u32" where
  "rpc_cmd_number VFS = 30"
| "rpc_cmd_number LOAD_TA = 0"
| "rpc_cmd_number RPMB = 1"
| "rpc_cmd_number FS = 2"
| "rpc_cmd_number SHM_ALLOC = 6"
| "rpc_cmd_number SHM_FREE = 7"
| "rpc_cmd_number GPROF = 9"
| "rpc_cmd_number SOCKET = 10"
| "rpc_cmd_number FTRACE = 11"
| "rpc_cmd_number PLUGIN = 12"

lemma inj_rpc_cmd_number: "inj rpc_cmd_number"
proof (rule injI)
  fix x y
  show "rpc_cmd_number x = rpc_cmd_number y \<Longrightarrow> x = y"
    by (cases x; cases y) simp_all
qed

section \<open>Result codes\<close>

text \<open>The result codes of the GlobalPlatform TEE Client and Internal APIs that the code uses.\<close>

abbreviation TEEC_SUCCESS :: u32 where "TEEC_SUCCESS \<equiv> 0"
abbreviation TEEC_ERROR_GENERIC :: u32 where "TEEC_ERROR_GENERIC \<equiv> 0xFFFF0000"
abbreviation TEEC_ERROR_BAD_FORMAT :: u32 where "TEEC_ERROR_BAD_FORMAT \<equiv> 0xFFFF0005"
abbreviation TEEC_ERROR_BAD_PARAMETERS :: u32 where "TEEC_ERROR_BAD_PARAMETERS \<equiv> 0xFFFF0006"
abbreviation TEEC_ERROR_ITEM_NOT_FOUND :: u32 where "TEEC_ERROR_ITEM_NOT_FOUND \<equiv> 0xFFFF0008"
abbreviation TEEC_ERROR_NOT_SUPPORTED :: u32 where "TEEC_ERROR_NOT_SUPPORTED \<equiv> 0xFFFF000A"
abbreviation TEEC_ERROR_OUT_OF_MEMORY :: u32 where "TEEC_ERROR_OUT_OF_MEMORY \<equiv> 0xFFFF000C"
abbreviation TEEC_ERROR_COMMUNICATION :: u32 where "TEEC_ERROR_COMMUNICATION \<equiv> 0xFFFF000E"
abbreviation TEEC_ERROR_SHORT_BUFFER :: u32 where "TEEC_ERROR_SHORT_BUFFER \<equiv> 0xFFFF0010"

section \<open>Parameters\<close>

text \<open>
  \<open>struct tee_ioctl_param\<close> of the Linux TEE driver: an attribute word and three values.  For a
  memory reference \<open>a\<close>, \<open>b\<close> and \<open>c\<close> hold offset, size and shared memory id
  (\<open>MEMREF_SHM_OFFS\<close>, \<open>MEMREF_SIZE\<close>, \<open>MEMREF_SHM_ID\<close>).
\<close>

record tee_ioctl_param =
  p_attr :: u64
  p_a :: u64
  p_b :: u64
  p_c :: u64

abbreviation TEE_IOCTL_PARAM_ATTR_META :: u64 where "TEE_IOCTL_PARAM_ATTR_META \<equiv> 0x100"
abbreviation TEE_IOCTL_PARAM_ATTR_TYPE_MASK :: u64 where "TEE_IOCTL_PARAM_ATTR_TYPE_MASK \<equiv> 0xff"

definition attr_type :: "tee_ioctl_param \<Rightarrow> u64" where
  "attr_type p = p_attr p AND TEE_IOCTL_PARAM_ATTR_TYPE_MASK"

abbreviation VALUE_INPUT :: u64 where "VALUE_INPUT \<equiv> 1"
abbreviation VALUE_OUTPUT :: u64 where "VALUE_OUTPUT \<equiv> 2"
abbreviation VALUE_INOUT :: u64 where "VALUE_INOUT \<equiv> 3"
abbreviation MEMREF_INPUT :: u64 where "MEMREF_INPUT \<equiv> 5"
abbreviation MEMREF_OUTPUT :: u64 where "MEMREF_OUTPUT \<equiv> 6"
abbreviation MEMREF_INOUT :: u64 where "MEMREF_INOUT \<equiv> 7"

text \<open>A zeroed parameter, as \<open>memset (\<dots>, 0, \<dots>)\<close> leaves it.\<close>

definition zero_param :: tee_ioctl_param where
  "zero_param = \<lparr>p_attr = 0, p_a = 0, p_b = 0, p_c = 0\<rparr>"

end
