(* ===== verification/Supp_Os.thy ===== *)
theory Supp_Os
  imports Vfs_Proto
begin

text \<open>
  The normal-world process \<open>tee-supplicant\<close> and the operating system under it.  The C library and
  the Linux kernel are not part of the repository: they are a parameter \<open>os\<close> of the model, a
  function that takes a call with its argument values and the state of the system and returns the
  C return value, the \<open>errno\<close> the call sets (0: left alone), the bytes it stores through a pointer
  argument and the integers it stores through others, and the new state.  Return values are 64-bit
  register contents; \<open>ret_int\<close> and its kin read them at the type of the C prototype.
\<close>

section \<open>Calls into the C library and the kernel\<close>

text \<open>
  A string or buffer argument is the bytes the pointer designates, \<open>None\<close> for a null pointer; a
  \<open>bool\<close> argument says whether an output buffer was given.
\<close>

datatype (plugins only: code size) os_call =
    Posix_memalign u64
  | Calloc
  | Ioctl_shm_alloc s32 u64
  | Ioctl_shm_register s32 u64
  | Mmap s32 u64
  | Munmap u64
  | Open "byte list option" s32 s32
  | Close s32
  | Access "byte list option" s32
  | Write s32 "byte list option" u64
  | Getcwd bool u64
  | Stat "byte list option" bool
  | Fstat s32 bool
  | Mkdir "byte list option" u32
  | Rmdir "byte list option"
  | Unlink "byte list option"
  | Ftruncate s32 s64
  | Read s32 bool u64
  | Fchmod s32 u32
  | Fchown s32 u32 u32
  | Geteuid
  | Getpid
  | Getenv "byte list"
  | Lseek s32 s64 s32
  | Fsync s32
  | Sleep u32
  | Pread s32 bool u64 s64
  | Pwrite s32 "byte list option" u64 s64
  | Truncate "byte list option" s64
  | Gettimeofday bool bool
  | Fcntl_void s32 s32
  | Fcntl_int s32 s32 s32
  | Fcntl_flock s32 s32 "byte list option"
  | Utimes "byte list option" "byte list option"
  | Time
  | Usleep u32
  | Pthread_create
  | Pthread_detach
  | Pthread_mutex_init
  | Ioctl_version s32
  | Plugin_load_all
  | Strdup
  | Malloc u64
  | Pipe
  | Fork
  | Setsid
  | Chdir "byte list"
  | Dup2 s32 s32

record os_ret =
  o_ret :: u64
  o_errno :: s32
  o_out :: "byte list"
  o_out2 :: "byte list"
  o_val1 :: u64
  o_val2 :: u64

type_synonym 'w os = "os_call \<Rightarrow> 'w \<Rightarrow> os_ret \<times> 'w"

text \<open>The 64-bit image of a result of C type \<open>int\<close>, \<open>unsigned int\<close>, \<open>long\<close>.\<close>

definition ret_int :: "os_ret \<Rightarrow> u64" where
  "ret_int r = int_to_u64 (u64_to_int (o_ret r))"

definition ret_uint :: "os_ret \<Rightarrow> u64" where
  "ret_uint r = uint_to_u64 (u64_to_int (o_ret r))"

definition ret_long :: "os_ret \<Rightarrow> u64" where
  "ret_long r = o_ret r"

definition simple_ret :: "u64 \<Rightarrow> os_ret" where
  "simple_ret x = \<lparr>o_ret = x, o_errno = 0, o_out = [], o_out2 = [], o_val1 = 0, o_val2 = 0\<rparr>"

section \<open>The state of the process\<close>

text \<open>\<open>struct tee_shm\<close> (\<open>tee_supplicant.c\<close>); its \<open>next\<close> field is the order of the list it is in.\<close>

record tee_shm =
  shm_id :: s32
  shm_p :: nat
  shm_size :: u64
  shm_registered :: bool
  shm_fd :: s32

text \<open>\<open>struct thread_arg\<close>; the mutex is implicit, each critical section being one step.\<close>

record thread_arg =
  ta_fd :: s32
  ta_gen_caps :: u32
  ta_abort :: bool
  num_waiters :: u64

text \<open>
  The process: the system under it, \<open>errno\<close>, its memory blocks and the next fresh one, the list
  \<open>shm_head\<close> of shared memory objects, and the argument its threads share.
\<close>

record 'w supp =
  world :: 'w
  errno :: s32
  mem :: memory
  next_blk :: nat
  shm_head :: "tee_shm list"
  targ :: thread_arg

text \<open>\<open>errno\<close> is never set to zero by a call.\<close>

definition os_do :: "'w os \<Rightarrow> os_call \<Rightarrow> 'w supp \<Rightarrow> os_ret \<times> 'w supp" where
  "os_do os call s =
     (let (r, w) = os call (world s)
      in (r, s\<lparr>world := w, errno := (if o_errno r = 0 then errno s else o_errno r)\<rparr>))"

definition set_errno :: "s32 \<Rightarrow> 'w supp \<Rightarrow> 'w supp" where
  "set_errno e s = s\<lparr>errno := e\<rparr>"

text \<open>\<open>errno = 0\<close> followed by the call: what the C handlers do.\<close>

definition os_call0 :: "'w os \<Rightarrow> os_call \<Rightarrow> 'w supp \<Rightarrow> os_ret \<times> 'w supp" where
  "os_call0 os call s = os_do os call (set_errno 0 s)"

definition store :: "ptr \<Rightarrow> byte list \<Rightarrow> 'w supp \<Rightarrow> 'w supp outcome" where
  "store p bs s = (case poke (mem s) p bs of Inl f \<Rightarrow> Inl f | Inr m \<Rightarrow> Inr (s\<lparr>mem := m\<rparr>))"

definition new_block :: "byte list \<Rightarrow> 'w supp \<Rightarrow> nat \<times> 'w supp" where
  "new_block bs s =
     (next_blk s, s\<lparr>mem := (mem s)(next_blk s \<mapsto> bs), next_blk := Suc (next_blk s)\<rparr>)"

definition free_block :: "nat \<Rightarrow> 'w supp \<Rightarrow> 'w supp" where
  "free_block p s = s\<lparr>mem := (mem s)(p := None)\<rparr>"

lemma os_call0_state:
  "os_call0 os call s =
     (fst (os call (world s)),
      s\<lparr>world := snd (os call (world s)), errno := o_errno (fst (os call (world s)))\<rparr>)"
  by (simp add: os_call0_def os_do_def set_errno_def split: prod.split)

lemma os_call0_fields:
  assumes "os_call0 os call s = (r, t)"
  shows "mem t = mem s" and "shm_head t = shm_head s" and "next_blk t = next_blk s"
    and "targ t = targ s" and "errno t = o_errno r" and "os call (world s) = (r, world t)"
  using assms by (auto simp: os_call0_state)

lemma store_fields:
  assumes "store p bs s = Inr t"
  shows "world t = world s" and "shm_head t = shm_head s" and "next_blk t = next_blk s"
    and "targ t = targ s" and "errno t = errno s" and "dom (mem t) = dom (mem s)"
proof -
  from assms obtain m where m: "poke (mem s) p bs = Inr m" "t = s\<lparr>mem := m\<rparr>"
    by (auto simp: store_def split: sum.splits)
  show "world t = world s" and "shm_head t = shm_head s" and "next_blk t = next_blk s"
    and "targ t = targ s" and "errno t = errno s"
    using m by simp_all
  show "dom (mem t) = dom (mem s)"
    using m(2) poke_dom [OF m(1)] by simp
qed

end
