(* ===== verification/Supp_Shm.thy ===== *)
theory Supp_Shm
  imports Supp_Os
begin

text \<open>
  Shared memory objects and parameters of \<open>tee_supplicant.c\<close>: the list \<open>shm_head\<close>
  (\<open>find_tshm\<close>, \<open>pop_tshm\<close>, \<open>push_tshm\<close>), the checked accesses to request parameters
  (\<open>get_value\<close>, \<open>get_param\<close>, \<open>tee_supp_param_to_va\<close>), and allocation and release
  (\<open>process_alloc\<close>, \<open>process_free\<close>).  The locale \<open>shm_registry\<close> states what the list promises its
  clients; the invariant \<open>supp_inv\<close> ties the list to the memory it describes.
\<close>

section \<open>The list of shared memory objects\<close>

text \<open>\<open>while (tshm && tshm->id != id) tshm = tshm->next;\<close>\<close>

fun find_tshm_list :: "s32 \<Rightarrow> tee_shm list \<Rightarrow> tee_shm option" where
  "find_tshm_list i [] = None"
| "find_tshm_list i (t # ts) = (if shm_id t = i then Some t else find_tshm_list i ts)"

definition find_tshm :: "s32 \<Rightarrow> 'w supp \<Rightarrow> tee_shm option" where
  "find_tshm i s = find_tshm_list i (shm_head s)"

text \<open>
  The node with the given id is unlinked: the head by moving \<open>shm_head\<close>, an inner node by
  \<open>prev->next = tshm->next\<close>.
\<close>

fun pop_tshm_list :: "s32 \<Rightarrow> tee_shm list \<Rightarrow> tee_shm option \<times> tee_shm list" where
  "pop_tshm_list i [] = (None, [])"
| "pop_tshm_list i (t # ts) =
     (if shm_id t = i then (Some t, ts)
      else let (r, ts') = pop_tshm_list i ts in (r, t # ts'))"

definition pop_tshm :: "s32 \<Rightarrow> 'w supp \<Rightarrow> tee_shm option \<times> 'w supp" where
  "pop_tshm i s = (let (r, ts) = pop_tshm_list i (shm_head s) in (r, s\<lparr>shm_head := ts\<rparr>))"

definition push_tshm :: "tee_shm \<Rightarrow> 'w supp \<Rightarrow> 'w supp" where
  "push_tshm t s = s\<lparr>shm_head := t # shm_head s\<rparr>"

text \<open>What a registry of shared memory objects promises: lookups see the latest push, a pop returns
  what a lookup would and undoes the push before it.\<close>

locale shm_registry =
  fixes find :: "'i \<Rightarrow> 's \<Rightarrow> 'e option"
    and push :: "'e \<Rightarrow> 's \<Rightarrow> 's"
    and pop :: "'i \<Rightarrow> 's \<Rightarrow> 'e option \<times> 's"
    and key :: "'e \<Rightarrow> 'i"
  assumes find_push: "find i (push e s) = (if key e = i then Some e else find i s)"
    and pop_push: "pop i (push e s) =
      (if key e = i then (Some e, s) else (fst (pop i s), push e (snd (pop i s))))"
    and pop_find: "fst (pop i s) = find i s"
    and find_key: "find i s = Some e \<Longrightarrow> key e = i"
    and pop_missing: "find i s = None \<Longrightarrow> pop i s = (None, s)"
    and find_pop_other: "i \<noteq> j \<Longrightarrow> find i (snd (pop j s)) = find i s"
begin

lemma find_push_same: "find (key e) (push e s) = Some e"
  by (simp add: find_push)

lemma alloc_free_roundtrip: "pop (key e) (push e s) = (Some e, s)"
  by (simp add: pop_push)

lemma pop_returns_key: "fst (pop i s) = Some e \<Longrightarrow> key e = i"
  by (simp add: pop_find find_key)

lemma push_pop_commute:
  "key e \<noteq> i \<Longrightarrow> snd (pop i (push e s)) = push e (snd (pop i s))"
  by (simp add: pop_push)

lemma double_pop:
  assumes "find i (snd (pop i s)) = None"
  shows "pop i (snd (pop i s)) = (None, snd (pop i s))"
  using assms by (rule pop_missing)

end

lemma pop_tshm_list_find: "fst (pop_tshm_list i ts) = find_tshm_list i ts"
  by (induction ts) (auto split: prod.split)

lemma find_tshm_list_id: "find_tshm_list i ts = Some t \<Longrightarrow> shm_id t = i"
  by (induction ts) (auto split: if_splits)

lemma find_tshm_list_set: "find_tshm_list i ts = Some t \<Longrightarrow> t \<in> set ts"
  by (induction ts) (auto split: if_splits)

lemma find_tshm_list_None: "find_tshm_list i ts = None \<longleftrightarrow> i \<notin> shm_id ` set ts"
  by (induction ts) auto

lemma pop_tshm_list_None: "find_tshm_list i ts = None \<Longrightarrow> pop_tshm_list i ts = (None, ts)"
  by (induction ts) (auto split: if_splits)

lemma find_pop_tshm_list_other:
  "i \<noteq> jd \<Longrightarrow> find_tshm_list i (snd (pop_tshm_list jd ts)) = find_tshm_list i ts"
  by (induction ts) (auto split: prod.split)

text \<open>A pop removes exactly the first node with the id and keeps the order of the others.\<close>

lemma pop_tshm_list_Some:
  "find_tshm_list i ts = Some t \<Longrightarrow>
     \<exists>us vs. ts = us @ t # vs \<and> pop_tshm_list i ts = (Some t, us @ vs) \<and> i \<notin> shm_id ` set us"
proof (induction ts)
  case Nil
  then show ?case by simp
next
  case (Cons u ts)
  show ?case
  proof (cases "shm_id u = i")
    case True
    with Cons.prems show ?thesis by (intro exI [of _ "[]"] exI [of _ ts]) simp
  next
    case False
    with Cons obtain us vs where "ts = us @ t # vs" "pop_tshm_list i ts = (Some t, us @ vs)"
      "i \<notin> shm_id ` set us" by auto
    with False show ?thesis by (intro exI [of _ "u # us"] exI [of _ vs]) simp
  qed
qed

lemma fst_pop_tshm: "fst (pop_tshm i s) = fst (pop_tshm_list i (shm_head s))"
  and snd_pop_tshm: "snd (pop_tshm i s) = s\<lparr>shm_head := snd (pop_tshm_list i (shm_head s))\<rparr>"
  by (simp_all add: pop_tshm_def split: prod.split)

interpretation tshm: shm_registry find_tshm push_tshm pop_tshm shm_id
proof
  fix i j :: s32 and e :: tee_shm and s :: "'w supp"
  show "find_tshm i (push_tshm e s) = (if shm_id e = i then Some e else find_tshm i s)"
    by (simp add: find_tshm_def push_tshm_def)
  show "pop_tshm i (push_tshm e s) =
      (if shm_id e = i then (Some e, s) else (fst (pop_tshm i s), push_tshm e (snd (pop_tshm i s))))"
    by (simp add: pop_tshm_def push_tshm_def split: prod.split)
  show "fst (pop_tshm i s) = find_tshm i s"
    by (simp add: fst_pop_tshm find_tshm_def pop_tshm_list_find)
  show "find_tshm i s = Some e \<Longrightarrow> shm_id e = i"
    by (simp add: find_tshm_def find_tshm_list_id)
  show "find_tshm i s = None \<Longrightarrow> pop_tshm i s = (None, s)"
    by (simp add: find_tshm_def pop_tshm_def pop_tshm_list_None)
  show "i \<noteq> j \<Longrightarrow> find_tshm i (snd (pop_tshm j s)) = find_tshm i s"
    by (simp add: find_tshm_def snd_pop_tshm find_pop_tshm_list_other)
qed

section \<open>Checked access to the parameters of a request\<close>

text \<open>
  \<open>get_value\<close> yields a pointer to the three values of parameter \<open>idx\<close>, here its index; \<open>None\<close> is the
  return value -1.
\<close>

definition get_value :: "u64 \<Rightarrow> tee_ioctl_param list \<Rightarrow> nat \<Rightarrow> nat option" where
  "get_value num_params params idx =
     (if unat num_params \<le> idx then None
      else if attr_type (params ! idx) \<in> {VALUE_INPUT, VALUE_OUTPUT, VALUE_INOUT} then Some idx
      else None)"

definition tee_supp_param_is_memref :: "tee_ioctl_param \<Rightarrow> bool" where
  "tee_supp_param_is_memref p \<longleftrightarrow> attr_type p \<in> {MEMREF_INPUT, MEMREF_OUTPUT, MEMREF_INOUT}"

definition tee_supp_param_is_value :: "tee_ioctl_param \<Rightarrow> bool" where
  "tee_supp_param_is_value p \<longleftrightarrow> attr_type p \<in> {VALUE_INPUT, VALUE_OUTPUT, VALUE_INOUT}"

text \<open>\<open>TEEC_SharedMemory\<close>, the fields the code uses.\<close>

record shared_mem =
  sm_buffer :: ptr
  sm_size :: u64
  sm_flags :: u32
  sm_id :: s32

definition zero_shared_mem :: shared_mem where
  "zero_shared_mem = \<lparr>sm_buffer = Null, sm_size = 0, sm_flags = 0, sm_id = 0\<rparr>"

text \<open>\<open>None\<close> is the return value -1; the sum of size and offset is checked for wrap-around.\<close>

definition get_param :: "u64 \<Rightarrow> tee_ioctl_param list \<Rightarrow> nat \<Rightarrow> 'w supp \<Rightarrow> shared_mem option" where
  "get_param num_params params idx s =
     (if unat num_params \<le> idx then None
      else if attr_type (params ! idx) \<notin> {MEMREF_INPUT, MEMREF_OUTPUT, MEMREF_INOUT} then None
      else
        case find_tshm (u64_to_int (p_c (params ! idx))) s of
          None \<Rightarrow>
            (if attr_type (params ! idx) = MEMREF_INPUT then None else Some zero_shared_mem)
        | Some tshm \<Rightarrow>
            let sz = p_b (params ! idx); offs = p_a (params ! idx) in
            if sz + offs < sz then None
            else if shm_size tshm < sz + offs then None
            else Some \<lparr>sm_buffer = Ptr (shm_p tshm) (unat offs), sm_size = sz, sm_flags = 3,
                       sm_id = u64_to_int (p_c (params ! idx))\<rparr>)"

definition tee_supp_param_to_va :: "tee_ioctl_param \<Rightarrow> 'w supp \<Rightarrow> ptr" where
  "tee_supp_param_to_va p s =
     (if \<not> tee_supp_param_is_memref p then Null
      else
        let end_offs = p_b p + p_a p in
        if end_offs < p_b p \<or> end_offs < p_a p then Null
        else case find_tshm (u64_to_int (p_c p)) s of
               None \<Rightarrow> Null
             | Some tshm \<Rightarrow>
                 if shm_size tshm < end_offs then Null
                 else Ptr (shm_p tshm) (unat (p_a p)))"

section \<open>Allocation and release\<close>

type_synonym 'w handler =
  "u64 \<Rightarrow> tee_ioctl_param list \<Rightarrow> 'w supp \<Rightarrow> (u32 \<times> tee_ioctl_param list \<times> 'w supp) outcome"

text \<open>A handler that returns a code and leaves parameters and state alone.\<close>

definition ret_code :: "u32 \<Rightarrow> 'w handler" where
  "ret_code c num_params params s = Inr (c, params, s)"

text \<open>\<open>posix_memalign (&p, page size, sz)\<close>; the block has \<open>sz\<close> bytes of unspecified content.\<close>

definition paged_aligned_alloc :: "'w os \<Rightarrow> u64 \<Rightarrow> 'w supp \<Rightarrow> nat option \<times> 'w supp" where
  "paged_aligned_alloc os sz s =
     (let (r, s) = os_do os (Posix_memalign sz) s in
      if u64_to_int (o_ret r) = 0
      then let (p, s) = new_block (fit (unat sz) (o_out r)) s in (Some p, s)
      else (None, s))"

definition alloc_shm :: "'w os \<Rightarrow> s32 \<Rightarrow> u64 \<Rightarrow> 'w supp \<Rightarrow> tee_shm option \<times> 'w supp" where
  "alloc_shm os fd sz s =
     (let (c, s) = os_do os Calloc s in
      if o_ret c = 0 then (None, s)
      else
        let (r, s) = os_do os (Ioctl_shm_alloc fd sz) s;
            shmfd = u64_to_int (o_ret r);
            data_id = u64_to_int (o_val1 r);
            data_size = o_val2 r in
        if sint shmfd < 0 then (None, s)
        else
          let (m, s) = os_do os (Mmap shmfd data_size) s in
          if o_ret m = - 1 then let (_, s) = os_do os (Close shmfd) s in (None, s)
          else
            let (p, s) = new_block (fit (unat data_size) (o_out m)) s in
            (Some \<lparr>shm_id = data_id, shm_p = p, shm_size = 0, shm_registered = False,
                   shm_fd = shmfd\<rparr>, s))"

definition register_local_shm :: "'w os \<Rightarrow> s32 \<Rightarrow> u64 \<Rightarrow> 'w supp \<Rightarrow> tee_shm option \<times> 'w supp" where
  "register_local_shm os fd sz s =
     (let (buf, s) = paged_aligned_alloc os sz s in
      case buf of
        None \<Rightarrow> (None, s)
      | Some p \<Rightarrow>
          let (c, s) = os_do os Calloc s in
          if o_ret c = 0 then (None, free_block p s)
          else
            let (r, s) = os_do os (Ioctl_shm_register fd sz) s;
                shmfd = u64_to_int (o_ret r) in
            if sint shmfd < 0 then (None, free_block p s)
            else
              (Some \<lparr>shm_id = u64_to_int (o_val1 r), shm_p = p, shm_size = 0,
                     shm_registered = True, shm_fd = shmfd\<rparr>, s))"

abbreviation TEE_GEN_CAP_REG_MEM :: u32 where "TEE_GEN_CAP_REG_MEM \<equiv> 4"

definition process_alloc :: "'w os \<Rightarrow> 'w handler" where
  "process_alloc os num_params params s =
     (case (if num_params \<noteq> 1 then None else get_value num_params params 0) of
        None \<Rightarrow> Inr (TEEC_ERROR_BAD_PARAMETERS, params, s)
      | Some val \<Rightarrow>
          let sz = p_b (params ! val);
              (shm, s) = (if ta_gen_caps (targ s) AND TEE_GEN_CAP_REG_MEM \<noteq> 0
                          then register_local_shm os (ta_fd (targ s)) sz s
                          else alloc_shm os (ta_fd (targ s)) sz s) in
          case shm of
            None \<Rightarrow> Inr (TEEC_ERROR_OUT_OF_MEMORY, params, s)
          | Some t \<Rightarrow>
              Inr (TEEC_SUCCESS,
                   params[val := (params ! val)\<lparr>p_c := int_to_u64 (shm_id t)\<rparr>],
                   push_tshm (t\<lparr>shm_size := sz\<rparr>) s))"

definition process_free :: "'w os \<Rightarrow> 'w handler" where
  "process_free os num_params params s =
     (case (if num_params \<noteq> 1 then None else get_value num_params params 0) of
        None \<Rightarrow> Inr (TEEC_ERROR_BAD_PARAMETERS, params, s)
      | Some val \<Rightarrow>
          let i = u64_to_int (p_b (params ! val));
              (shm, s) = pop_tshm i s in
          case shm of
            None \<Rightarrow> Inr (TEEC_ERROR_BAD_PARAMETERS, params, s)
          | Some t \<Rightarrow>
              let (_, s) = os_do os (Close (shm_fd t)) s in
              if shm_registered t then Inr (TEEC_SUCCESS, params, free_block (shm_p t) s)
              else
                let (r, s) = os_do os (Munmap (shm_size t)) s in
                if u64_to_int (o_ret r) \<noteq> 0 then Inr (TEEC_ERROR_BAD_PARAMETERS, params, s)
                else Inr (TEEC_SUCCESS, params, free_block (shm_p t) s))"

section \<open>The invariant of the process\<close>

text \<open>
  Every listed object has a block of at least \<open>shm_size\<close> bytes, no two objects share a block, and
  every block is older than \<open>next_blk\<close>.
\<close>

definition shm_backed :: "memory \<Rightarrow> tee_shm \<Rightarrow> bool" where
  "shm_backed m t \<longleftrightarrow> (case m (shm_p t) of None \<Rightarrow> False | Some bs \<Rightarrow> unat (shm_size t) \<le> length bs)"

definition supp_inv :: "'w supp \<Rightarrow> bool" where
  "supp_inv s \<longleftrightarrow>
     (\<forall>t \<in> set (shm_head s). shm_backed (mem s) t) \<and> distinct (map shm_p (shm_head s)) \<and>
     (\<forall>p \<in> dom (mem s). p < next_blk s)"

lemma shm_backed_dom: "shm_backed m t \<Longrightarrow> shm_p t \<in> dom m"
  by (auto simp: shm_backed_def split: option.splits)

lemma shm_backed_upd_other: "shm_p t \<noteq> p \<Longrightarrow> shm_backed (m(p := x)) t = shm_backed m t"
  by (simp add: shm_backed_def)

text \<open>\<open>mem_shape s t\<close>: \<open>t\<close> has the blocks of \<open>s\<close>, each with its size, and the same list of objects.\<close>

definition mem_shape :: "'w supp \<Rightarrow> 'w supp \<Rightarrow> bool" where
  "mem_shape s t \<longleftrightarrow> shm_head t = shm_head s \<and> next_blk t = next_blk s \<and> targ t = targ s \<and>
     (\<forall>b. map_option length (mem t b) = map_option length (mem s b))"

named_theorems shape_rules

lemma mem_shape_refl [simp, shape_rules]: "mem_shape s s"
  by (simp add: mem_shape_def)

lemma mem_shape_trans: "mem_shape s t \<Longrightarrow> mem_shape t u \<Longrightarrow> mem_shape s u"
  by (simp add: mem_shape_def)

lemma mem_shape_os_do [shape_rules]: "os_do os call s = (r, t) \<Longrightarrow> mem_shape s t"
  by (auto simp: mem_shape_def os_do_def split: prod.splits)

lemma mem_shape_os_call0 [shape_rules]: "os_call0 os call s = (r, t) \<Longrightarrow> mem_shape s t"
  by (auto simp: mem_shape_def os_call0_state)

lemma mem_shape_call0: "mem_shape s t \<Longrightarrow> mem_shape s (snd (os_call0 os c t))"
  by (simp add: mem_shape_def os_call0_state)

lemma poke_lengths: "poke m p bs = Inr m' \<Longrightarrow> map_option length (m' b) = map_option length (m b)"
  by (cases p) (auto split: if_splits option.splits)

lemma mem_shape_store [shape_rules]: "store p bs s = Inr t \<Longrightarrow> mem_shape s t"
  by (auto simp: mem_shape_def store_def poke_lengths split: sum.splits)

lemma mem_shape_backed:
  assumes "mem_shape s t"
  shows "shm_backed (mem t) x = shm_backed (mem s) x"
proof -
  have "map_option length (mem t (shm_p x)) = map_option length (mem s (shm_p x))"
    using assms by (simp add: mem_shape_def)
  then show ?thesis by (auto simp: shm_backed_def split: option.splits)
qed

lemma mem_shape_dom: "mem_shape s t \<Longrightarrow> dom (mem t) = dom (mem s)"
  by (auto simp: mem_shape_def dom_def) (metis not_None_eq option.map_disc_iff)+

lemma supp_inv_shape: "mem_shape s t \<Longrightarrow> supp_inv s \<Longrightarrow> supp_inv t"
  by (simp add: supp_inv_def mem_shape_backed mem_shape_dom) (simp add: mem_shape_def)

text \<open>The three ways the list and the memory change together.\<close>

lemma supp_inv_new_block:
  assumes "supp_inv s" and "new_block bs s = (p, t)"
  shows "supp_inv t" and "p \<notin> dom (mem s)" and "mem t p = Some bs"
    and "shm_head t = shm_head s" and "p \<notin> shm_p ` set (shm_head s)"
proof -
  from assms(2) have t: "p = next_blk s" "t = s\<lparr>mem := (mem s)(p \<mapsto> bs), next_blk := Suc p\<rparr>"
    by (auto simp: new_block_def)
  from assms(1) have fresh: "\<forall>q \<in> dom (mem s). q < p" by (simp add: supp_inv_def t(1))
  then show nd: "p \<notin> dom (mem s)" by auto
  have ne: "shm_p x \<noteq> p" if "x \<in> set (shm_head s)" for x
    using assms(1) that nd by (auto simp: supp_inv_def dest: shm_backed_dom)
  then show "p \<notin> shm_p ` set (shm_head s)" by auto
  show "supp_inv t"
    using assms(1) fresh ne by (auto simp: supp_inv_def t(2) shm_backed_upd_other dest: less_SucI)
  show "mem t p = Some bs" and "shm_head t = shm_head s" by (simp_all add: t(2))
qed

lemma supp_inv_free_block:
  assumes "supp_inv s" and "p \<notin> shm_p ` set (shm_head s)"
  shows "supp_inv (free_block p s)"
  using assms by (auto simp: supp_inv_def free_block_def shm_backed_upd_other image_iff)

lemma supp_inv_push:
  assumes "supp_inv s" and "shm_backed (mem s) t" and "shm_p t \<notin> shm_p ` set (shm_head s)"
  shows "supp_inv (push_tshm t s)"
  using assms by (auto simp: supp_inv_def push_tshm_def)

lemma supp_inv_pop:
  assumes "supp_inv s" and "pop_tshm i s = (Some t, u)"
  shows "supp_inv u" and "shm_p t \<notin> shm_p ` set (shm_head u)" and "shm_id t = i"
    and "mem u = mem s" and "next_blk u = next_blk s" and "t \<in> set (shm_head s)"
proof -
  from assms(2) have f: "find_tshm_list i (shm_head s) = Some t"
    and u: "u = s\<lparr>shm_head := snd (pop_tshm_list i (shm_head s))\<rparr>"
    by (auto simp: pop_tshm_def pop_tshm_list_find [symmetric] split: prod.splits)
  from pop_tshm_list_Some [OF f] obtain xs ys where l: "shm_head s = xs @ t # ys"
    "pop_tshm_list i (shm_head s) = (Some t, xs @ ys)" by auto
  show "supp_inv u" and "shm_p t \<notin> shm_p ` set (shm_head u)"
    and "mem u = mem s" and "next_blk u = next_blk s" and "t \<in> set (shm_head s)"
    using assms(1) l by (auto simp: supp_inv_def u)
  show "shm_id t = i" by (rule find_tshm_list_id [OF f])
qed

section \<open>Memory references stay inside their object\<close>

lemma find_tshm_backed: "supp_inv s \<Longrightarrow> find_tshm i s = Some t \<Longrightarrow> shm_backed (mem s) t"
  by (auto simp: supp_inv_def find_tshm_def dest: find_tshm_list_set)

lemma no_wrap_sum:
  fixes a b c :: u64
  assumes "\<not> b + a < b" and "b + a \<le> c"
  shows "unat a + unat b \<le> unat c"
proof -
  have "unat (b + a) = unat b + unat a"
    using assms(1) by (simp add: unat_plus_simple [symmetric] not_less)
  with assms(2) show ?thesis by (simp add: word_le_nat_alt)
qed

text \<open>A pointer is usable for \<open>n\<close> bytes when it is null or its block has them.\<close>

fun ptr_ok :: "memory \<Rightarrow> ptr \<Rightarrow> nat \<Rightarrow> bool" where
  "ptr_ok m Null n = True"
| "ptr_ok m (Ptr blk off) n = (case m blk of None \<Rightarrow> False | Some bs \<Rightarrow> off + n \<le> length bs)"

lemma ptr_ok_region: "ptr_ok m p n \<Longrightarrow> \<exists>bs. region m p n = Inr bs"
  by (cases p) (auto split: option.splits)

lemma ptr_ok_poke: "ptr_ok m p n \<Longrightarrow> p \<noteq> Null \<Longrightarrow> length bs \<le> n \<Longrightarrow> \<exists>m'. poke m p bs = Inr m'"
  by (cases p) (auto split: option.splits)

lemma shm_backed_ptr_ok:
  assumes "shm_backed (mem s) t" and "\<not> b + a < b" and "\<not> shm_size t < b + (a :: u64)"
  shows "ptr_ok (mem s) (Ptr (shm_p t) (unat a)) (unat b)"
  using no_wrap_sum [of b a "shm_size t"] assms
  by (auto simp: shm_backed_def not_less split: option.splits)

lemma get_param_ptr_ok:
  assumes "supp_inv s" and "get_param n ps i s = Some m"
  shows "ptr_ok (mem s) (sm_buffer m) (unat (sm_size m))"
  using assms
  by (auto simp: get_param_def zero_shared_mem_def Let_def simp del: ptr_ok.simps(2)
      split: if_splits option.splits) (metis shm_backed_ptr_ok find_tshm_backed)+

lemma to_va_ptr_ok:
  assumes "supp_inv s"
  shows "ptr_ok (mem s) (tee_supp_param_to_va p s) (unat (p_b p))"
  using assms
  by (auto simp: tee_supp_param_to_va_def Let_def simp del: ptr_ok.simps(2)
      split: option.splits) (metis shm_backed_ptr_ok find_tshm_backed)+

section \<open>Allocation and release keep the invariant\<close>

text \<open>
  What the allocations rely on: the TEE driver answers \<open>TEE_IOC_SHM_ALLOC\<close> with at least the size
  asked for (\<open>data.size\<close> is in and out, rounded up).
\<close>

definition shm_alloc_rounds_up :: "'w os \<Rightarrow> bool" where
  "shm_alloc_rounds_up os \<longleftrightarrow>
     (\<forall>fd sz w. 0 \<le> sint (u64_to_int (o_ret (fst (os (Ioctl_shm_alloc fd sz) w)))) \<longrightarrow>
        sz \<le> o_val2 (fst (os (Ioctl_shm_alloc fd sz) w)))"

text \<open>A fresh object: its block is new, long enough, and the old blocks are untouched.\<close>

definition fresh_shm :: "u64 \<Rightarrow> tee_shm \<Rightarrow> 'w supp \<Rightarrow> 'w supp \<Rightarrow> bool" where
  "fresh_shm sz t s u \<longleftrightarrow>
     supp_inv u \<and> shm_head u = shm_head s \<and> shm_p t \<notin> dom (mem s) \<and>
     shm_p t \<notin> shm_p ` set (shm_head u) \<and> shm_backed (mem u) (t\<lparr>shm_size := sz\<rparr>) \<and>
     (\<forall>b. b \<noteq> shm_p t \<longrightarrow> mem u b = mem s b) \<and> targ u = targ s"

lemma os_do_fields:
  assumes "os_do os call s = (r, t)"
  shows "mem t = mem s" and "shm_head t = shm_head s" and "next_blk t = next_blk s"
    and "targ t = targ s" and "os call (world s) = (r, world t)"
  using assms by (auto simp: os_do_def split: prod.splits)

lemma supp_inv_cong:
  "mem t = mem s \<Longrightarrow> shm_head t = shm_head s \<Longrightarrow> next_blk t = next_blk s \<Longrightarrow> supp_inv t = supp_inv s"
  by (simp add: supp_inv_def)

lemma new_block_fresh:
  assumes inv: "supp_inv s" and same: "mem u = mem s" "shm_head u = shm_head s"
      "next_blk u = next_blk s" "targ u = targ s"
    and nb: "new_block bs u = (p, v)" and len: "unat sz \<le> length bs" and t: "shm_p t = p"
  shows "fresh_shm sz t s v"
proof -
  have invu: "supp_inv u" using inv supp_inv_cong [OF same(1-3)] by simp
  note b = supp_inv_new_block [OF invu nb]
  have "\<forall>q. q \<noteq> p \<longrightarrow> mem v q = mem u q" and "targ v = targ u"
    using nb by (auto simp: new_block_def)
  then show ?thesis
    using b len t same by (simp add: fresh_shm_def shm_backed_def)
qed

lemma alloc_shm_fresh:
  assumes inv: "supp_inv s" and drv: "shm_alloc_rounds_up os"
    and "alloc_shm os fd sz s = (Some t, u)"
  shows "fresh_shm sz t s u \<and> \<not> shm_registered t"
proof -
  obtain c s1 where c: "os_do os Calloc s = (c, s1)" by fastforce
  obtain r s2 where r: "os_do os (Ioctl_shm_alloc fd sz) s1 = (r, s2)" by fastforce
  obtain m s3 where m: "os_do os (Mmap (u64_to_int (o_ret r)) (o_val2 r)) s2 = (m, s3)" by fastforce
  obtain p s4 where p: "new_block (fit (unat (o_val2 r)) (o_out m)) s3 = (p, s4)" by fastforce
  from assms(3) c r m p have ok: "0 \<le> sint (u64_to_int (o_ret r))" and u: "u = s4"
    and t: "shm_p t = p" "\<not> shm_registered t"
    by (auto simp: alloc_shm_def Let_def not_less split: if_splits prod.splits)
  have "os (Ioctl_shm_alloc fd sz) (world s1) = (r, world s2)" using os_do_fields(5) [OF r] .
  with drv ok have "sz \<le> o_val2 r"
    unfolding shm_alloc_rounds_up_def by (metis fst_conv)
  then have "unat sz \<le> length (fit (unat (o_val2 r)) (o_out m))" by (simp add: word_le_nat_alt)
  from new_block_fresh [OF inv _ _ _ _ p this t(1)] t(2) u show ?thesis
    by (simp add: os_do_fields [OF m] os_do_fields [OF r] os_do_fields [OF c])
qed

lemma register_local_shm_fresh:
  assumes inv: "supp_inv s" and "register_local_shm os fd sz s = (Some t, u)"
  shows "fresh_shm sz t s u \<and> shm_registered t"
proof -
  obtain a s1 where a: "os_do os (Posix_memalign sz) s = (a, s1)" by fastforce
  obtain p s2 where p: "new_block (fit (unat sz) (o_out a)) s1 = (p, s2)" by fastforce
  obtain c s3 where c: "os_do os Calloc s2 = (c, s3)" by fastforce
  obtain r s4 where r: "os_do os (Ioctl_shm_register fd sz) s3 = (r, s4)" by fastforce
  from assms(2) a p c r have u: "u = s4" and t: "shm_p t = p" "shm_registered t"
    by (auto simp: register_local_shm_def paged_aligned_alloc_def Let_def split: if_splits prod.splits)
  have "fresh_shm sz t s s2"
    using new_block_fresh [OF inv _ _ _ _ p _ t(1), of sz] by (simp add: os_do_fields [OF a])
  moreover have "mem u = mem s2" "shm_head u = shm_head s2" "next_blk u = next_blk s2" "targ u = targ s2"
    using u by (simp_all add: os_do_fields [OF r] os_do_fields [OF c])
  ultimately show ?thesis using t(2) supp_inv_cong [of u s2] by (auto simp: fresh_shm_def)
qed

text \<open>A failed allocation leaves the invariant and the list as they were.\<close>

lemma supp_inv_unused_block:
  assumes inv: "supp_inv s" and u: "mem u = (mem s)(p := None)" "shm_head u = shm_head s"
    and p: "p = next_blk s" "next_blk u = Suc p"
  shows "supp_inv u"
proof -
  have "mem s p = None" using inv p(1) by (auto simp: supp_inv_def)
  then have "mem u = mem s" using u(1) by auto
  then show ?thesis using inv p u(2) by (auto simp: supp_inv_def dest: less_SucI)
qed

lemma mem_shape_inv: "mem_shape s t \<Longrightarrow> supp_inv s \<Longrightarrow> supp_inv t \<and> shm_head t = shm_head s"
  by (simp add: supp_inv_shape) (simp add: mem_shape_def)

lemma alloc_shm_None:
  assumes "supp_inv s" and "alloc_shm os fd sz s = (None, u)"
  shows "supp_inv u \<and> shm_head u = shm_head s"
proof (rule mem_shape_inv [OF _ assms(1)])
  show "mem_shape s u"
    using assms(2)
    by (auto simp: alloc_shm_def Let_def dest!: mem_shape_os_do elim!: mem_shape_trans
        split: if_splits prod.splits)
qed

lemma register_local_shm_None:
  assumes inv: "supp_inv s" and "register_local_shm os fd sz s = (None, u)"
  shows "supp_inv u \<and> shm_head u = shm_head s"
proof -
  obtain a s1 where a: "os_do os (Posix_memalign sz) s = (a, s1)" by fastforce
  obtain p s2 where p: "new_block (fit (unat sz) (o_out a)) s1 = (p, s2)" by fastforce
  obtain c s3 where c: "os_do os Calloc s2 = (c, s3)" by fastforce
  obtain r s4 where r: "os_do os (Ioctl_shm_register fd sz) s3 = (r, s4)" by fastforce
  have s2: "p = next_blk s" "mem s2 = (mem s)(p \<mapsto> fit (unat sz) (o_out a))"
    "next_blk s2 = Suc p" "shm_head s2 = shm_head s"
    using p os_do_fields [OF a] by (auto simp: new_block_def)
  from assms(2) a p c r have "u = s1 \<or> u = free_block p s3 \<or> u = free_block p s4"
    by (auto simp: register_local_shm_def paged_aligned_alloc_def Let_def split: if_splits prod.splits)
  then show ?thesis
  proof (elim disjE)
    assume "u = s1"
    then show ?thesis using inv supp_inv_cong os_do_fields [OF a] by metis
  next
    assume "u = free_block p s3"
    then show ?thesis
      using supp_inv_unused_block [OF inv _ _ s2(1), of u] s2
      by (simp add: os_do_fields [OF c] free_block_def)
  next
    assume "u = free_block p s4"
    then show ?thesis
      using supp_inv_unused_block [OF inv _ _ s2(1), of u] s2
      by (simp add: os_do_fields [OF c] os_do_fields [OF r] free_block_def)
  qed
qed

lemma process_alloc_cases:
  assumes inv: "supp_inv s" and drv: "shm_alloc_rounds_up os"
    and run: "process_alloc os n ps s = Inr (c, ps', u)"
  obtains (bad) "c = TEEC_ERROR_BAD_PARAMETERS" "ps' = ps" "u = s"
  | (none) "c = TEEC_ERROR_OUT_OF_MEMORY" "ps' = ps" "supp_inv u" "shm_head u = shm_head s"
  | (some) t v where "c = TEEC_SUCCESS" "n = 1" "get_value n ps 0 = Some 0"
      "ps' = ps[0 := (ps ! 0)\<lparr>p_c := int_to_u64 (shm_id t)\<rparr>]"
      "fresh_shm (p_b (ps ! 0)) t s v" "u = push_tshm (t\<lparr>shm_size := p_b (ps ! 0)\<rparr>) v"
proof (cases "n = 1 \<and> get_value n ps 0 \<noteq> None")
  case False
  then have "(if n \<noteq> 1 then None else get_value n ps 0) = None" by auto
  then show ?thesis using run by (auto simp: process_alloc_def intro: bad)
next
  case True
  then have g: "n = 1" "get_value n ps 0 = Some 0" by (auto simp: get_value_def split: if_splits)
  obtain a v where a: "(if ta_gen_caps (targ s) AND TEE_GEN_CAP_REG_MEM \<noteq> 0
        then register_local_shm os (ta_fd (targ s)) (p_b (ps ! 0)) s
        else alloc_shm os (ta_fd (targ s)) (p_b (ps ! 0)) s) = (a, v)" by fastforce
  show ?thesis
  proof (cases a)
    case None
    with a have "supp_inv v \<and> shm_head v = shm_head s"
      using alloc_shm_None [OF inv] register_local_shm_None [OF inv] by (auto split: if_splits)
    moreover have "c = TEEC_ERROR_OUT_OF_MEMORY" "ps' = ps" "u = v"
      using run g a None by (auto simp: process_alloc_def Let_def)
    ultimately show ?thesis by (intro none) auto
  next
    case (Some t)
    with a have "fresh_shm (p_b (ps ! 0)) t s v"
      using alloc_shm_fresh [OF inv drv] register_local_shm_fresh [OF inv] by (auto split: if_splits)
    then show ?thesis using run g a Some by (intro some) (auto simp: process_alloc_def Let_def)
  qed
qed

lemma fresh_shm_push:
  assumes "fresh_shm sz t s v"
  shows "supp_inv (push_tshm (t\<lparr>shm_size := sz\<rparr>) v)"
  using assms by (intro supp_inv_push) (auto simp: fresh_shm_def)

lemma process_alloc_inv:
  assumes "supp_inv s" and "shm_alloc_rounds_up os" and "process_alloc os n ps s = Inr (c, ps', u)"
  shows "supp_inv u"
  using assms(1) fresh_shm_push
  by (cases rule: process_alloc_cases [OF assms]) auto

lemma pop_tshm_None: "fst (pop_tshm i s) = None \<Longrightarrow> pop_tshm i s = (None, s)"
  by (metis tshm.pop_missing tshm.pop_find)

text \<open>The release of an object found in the list, by its kind.\<close>

lemma process_free_cases:
  assumes run: "process_free os n ps s = Inr (c, ps', u)"
  obtains (bad) "c = TEEC_ERROR_BAD_PARAMETERS" "ps' = ps" "u = s"
  | (some) t v w where "n = 1" "pop_tshm (u64_to_int (p_b (ps ! 0))) s = (Some t, v)" "ps' = ps"
      "mem_shape v w"
      "c = TEEC_SUCCESS \<and> u = free_block (shm_p t) w
       \<or> c = TEEC_ERROR_BAD_PARAMETERS \<and> \<not> shm_registered t \<and> u = w"
proof (cases "n = 1 \<and> get_value n ps 0 \<noteq> None \<and> fst (pop_tshm (u64_to_int (p_b (ps ! 0))) s) \<noteq> None")
  case False
  then consider "n \<noteq> 1 \<or> get_value n ps 0 = None"
    | "n = 1" "get_value n ps 0 = Some 0" "pop_tshm (u64_to_int (p_b (ps ! 0))) s = (None, s)"
    using False pop_tshm_None [of "u64_to_int (p_b (ps ! 0))" s]
    by (auto simp: get_value_def split: if_splits)
  then have "c = TEEC_ERROR_BAD_PARAMETERS \<and> ps' = ps \<and> u = s"
    using run by cases (auto simp: process_free_def Let_def split: if_splits)
  then show ?thesis by (auto intro: bad)
next
  case True
  then obtain t v where pop: "pop_tshm (u64_to_int (p_b (ps ! 0))) s = (Some t, v)"
    and g: "n = 1" "get_value n ps 0 = Some 0"
    by (cases "pop_tshm (u64_to_int (p_b (ps ! 0))) s") (auto simp: get_value_def split: if_splits)
  obtain r1 s1 where r1: "os_do os (Close (shm_fd t)) v = (r1, s1)" by fastforce
  obtain r2 s2 where r2: "os_do os (Munmap (shm_size t)) s1 = (r2, s2)" by fastforce
  have "mem_shape v s1" "mem_shape v s2"
    using mem_shape_os_do [OF r1] mem_shape_os_do [OF r2] by (auto intro: mem_shape_trans)
  then show ?thesis
    using run pop g r1 r2
    by (auto simp: process_free_def Let_def split: if_splits intro: some)
qed

lemma process_free_inv:
  assumes inv: "supp_inv s" and run: "process_free os n ps s = Inr (c, ps', u)"
  shows "supp_inv u"
  using run
proof (cases rule: process_free_cases)
  case bad
  with inv show ?thesis by simp
next
  case (some t v w)
  note pop = supp_inv_pop [OF inv some(2)]
  have w: "supp_inv w" "shm_head w = shm_head v"
    using mem_shape_inv [OF some(4) pop(1)] by auto
  then show ?thesis using some(5) pop(2) supp_inv_free_block [OF w(1), of "shm_p t"] by auto
qed

section \<open>Properties\<close>

text \<open>Releasing the id that an allocation answered takes exactly the new object off the list
  again, and, unless \<open>munmap\<close> fails, gives its memory back; nothing else changes.\<close>

theorem alloc_free_undone:
  assumes inv: "supp_inv s" and drv: "shm_alloc_rounds_up os"
    and alloc: "process_alloc os 1 [p] s = Inr (TEEC_SUCCESS, [q], t)"
    and "tee_supp_param_is_value v" and "p_b v = p_c q"
  shows "\<exists>c u. process_free os 1 [v] t = Inr (c, [v], u) \<and> shm_head u = shm_head s \<and>
           (c = TEEC_SUCCESS \<longrightarrow> mem u = mem s) \<and> (c \<noteq> TEEC_SUCCESS \<longrightarrow> c = TEEC_ERROR_BAD_PARAMETERS)"
proof -
  from alloc obtain x w where x: "q = p\<lparr>p_c := int_to_u64 (shm_id x)\<rparr>" "fresh_shm (p_b p) x s w"
      "t = push_tshm (x\<lparr>shm_size := p_b p\<rparr>) w"
    by (cases rule: process_alloc_cases [OF inv drv alloc]) auto
  let ?x = "x\<lparr>shm_size := p_b p\<rparr>"
  have pop: "pop_tshm (shm_id x) t = (Some ?x, w)"
    using tshm.alloc_free_roundtrip [of ?x w] x(3) by simp
  have val: "get_value 1 [v] 0 = Some 0"
    using assms(4) by (simp add: get_value_def tee_supp_param_is_value_def)
  obtain r1 s1 where r1: "os_do os (Close (shm_fd x)) w = (r1, s1)" by fastforce
  obtain r2 s2 where r2: "os_do os (Munmap (p_b p)) s1 = (r2, s2)" by fastforce
  have mems: "mem s1 = mem w" "mem s2 = mem w" "shm_head s1 = shm_head s" "shm_head s2 = shm_head s"
    using x(2) os_do_fields [OF r1] os_do_fields [OF r2] by (simp_all add: fresh_shm_def)
  have undo: "mem (free_block (shm_p x) w') = mem s" if "mem w' = mem w" for w' :: "'a supp"
    using x(2) that by (auto simp: fresh_shm_def free_block_def fun_eq_iff)
  show ?thesis
    using pop val assms(5) x(1) undo [OF mems(1)] undo [OF mems(2)] mems r1 r2
    by (auto simp: process_free_def Let_def free_block_def)
qed

end
