(* ===== verification/Supp_Vfs.thy ===== *)
theory Supp_Vfs
  imports Supp_Shm
begin

text \<open>
  The VFS service of \<open>tee_supplicant.c\<close>: one handler per command, which checks the number and kind
  of the parameters, reads the arguments out of them, calls the C library, and answers the return
  value in \<open>b\<close> and \<open>errno\<close> in \<open>c\<close> of parameter 0; and the dispatcher \<open>tee_supp_vfs_process\<close>.
\<close>

section \<open>Reading arguments and writing answers\<close>

definition values1 :: "u64 \<Rightarrow> u64 \<Rightarrow> tee_ioctl_param list \<Rightarrow> nat \<Rightarrow> nat option" where
  "values1 n num_params params i = (if num_params \<noteq> n then None else get_value num_params params i)"

definition values2 :: "u64 \<Rightarrow> u64 \<Rightarrow> tee_ioctl_param list \<Rightarrow> nat \<Rightarrow> nat \<Rightarrow> (nat \<times> nat) option" where
  "values2 n num_params params i j =
     (if num_params \<noteq> n then None
      else case get_value num_params params i of
             None \<Rightarrow> None
           | Some vi \<Rightarrow> map_option (\<lambda>vj. (vi, vj)) (get_value num_params params j))"

definition put_b :: "nat \<Rightarrow> u64 \<Rightarrow> tee_ioctl_param list \<Rightarrow> tee_ioctl_param list" where
  "put_b v x params = params[v := (params ! v)\<lparr>p_b := x\<rparr>]"

definition put_c :: "nat \<Rightarrow> u64 \<Rightarrow> tee_ioctl_param list \<Rightarrow> tee_ioctl_param list" where
  "put_c v x params = params[v := (params ! v)\<lparr>p_c := x\<rparr>]"

definition put_bc :: "nat \<Rightarrow> u64 \<Rightarrow> u64 \<Rightarrow> tee_ioctl_param list \<Rightarrow> tee_ioctl_param list" where
  "put_bc v x y params = params[v := (params ! v)\<lparr>p_b := x, p_c := y\<rparr>]"

text \<open>\<open>errno\<close> as it is stored into an answer.\<close>

definition errno64 :: "'w supp \<Rightarrow> u64" where
  "errno64 s = int_to_u64 (errno s)"

text \<open>The string, or the \<open>n\<close> bytes, that memory reference \<open>params + i\<close> designates.\<close>

definition path_arg :: "tee_ioctl_param list \<Rightarrow> nat \<Rightarrow> 'w supp \<Rightarrow> byte list option outcome" where
  "path_arg params i s = cstring (mem s) (tee_supp_param_to_va (params ! i) s)"

definition data_arg :: "tee_ioctl_param list \<Rightarrow> nat \<Rightarrow> u64 \<Rightarrow> 'w supp \<Rightarrow> byte list option outcome" where
  "data_arg params i n s = region (mem s) (tee_supp_param_to_va (params ! i) s) (unat n)"

section \<open>The handlers\<close>

definition vfs_open :: "'w os \<Rightarrow> 'w handler" where
  "vfs_open os num_params params s =
     (case values2 3 num_params params 0 2 of
        None \<Rightarrow> Inr (TEEC_ERROR_BAD_PARAMETERS, params, s)
      | Some (val0, val2) \<Rightarrow>
          bind_outcome (path_arg params 1 s) (\<lambda>path.
          let oflag = u64_to_int (p_a (params ! val2)) in
          let arg1 = u64_to_int (p_b (params ! val2)) in
          let (r, s) = os_call0 os (Open path oflag arg1) s in
          Inr (TEEC_SUCCESS, put_bc val0 (ret_int r) (errno64 s) params, s)))"

definition vfs_close :: "'w os \<Rightarrow> 'w handler" where
  "vfs_close os num_params params s =
     (case values2 2 num_params params 0 1 of
        None \<Rightarrow> Inr (TEEC_ERROR_BAD_PARAMETERS, params, s)
      | Some (val0, val1) \<Rightarrow>
          let fd = u64_to_int (p_a (params ! val1)) in
          let (r, s) = os_call0 os (Close fd) s in
          Inr (TEEC_SUCCESS, put_bc val0 (ret_int r) (errno64 s) params, s))"

definition vfs_access :: "'w os \<Rightarrow> 'w handler" where
  "vfs_access os num_params params s =
     (case values2 3 num_params params 0 1 of
        None \<Rightarrow> Inr (TEEC_ERROR_BAD_PARAMETERS, params, s)
      | Some (val0, val1) \<Rightarrow>
          bind_outcome (path_arg params 2 s) (\<lambda>name.
          let type = u64_to_int (p_a (params ! val1)) in
          let (r, s) = os_call0 os (Access name type) s in
          Inr (TEEC_SUCCESS, put_bc val0 (ret_int r) (errno64 s) params, s)))"

definition vfs_write :: "'w os \<Rightarrow> 'w handler" where
  "vfs_write os num_params params s =
     (case values2 3 num_params params 0 1 of
        None \<Rightarrow> Inr (TEEC_ERROR_BAD_PARAMETERS, params, s)
      | Some (val0, val1) \<Rightarrow>
          let fd = u64_to_int (p_a (params ! val1)) in
          let n = p_b (params ! val1) in
          bind_outcome (data_arg params 2 n s) (\<lambda>write_data.
          let (r, s) = os_call0 os (Write fd write_data n) s in
          Inr (TEEC_SUCCESS, put_bc val0 (ret_long r) (errno64 s) params, s)))"

text \<open>Only \<open>c\<close> is answered: the returned pointer is the buffer itself.\<close>

definition vfs_getcwd :: "'w os \<Rightarrow> 'w handler" where
  "vfs_getcwd os num_params params s =
     (case values2 3 num_params params 0 2 of
        None \<Rightarrow> Inr (TEEC_ERROR_BAD_PARAMETERS, params, s)
      | Some (val0, val2) \<Rightarrow>
          (case get_param num_params params 1 s of
             None \<Rightarrow> Inr (TEEC_ERROR_BAD_PARAMETERS, params, s)
           | Some shm_buf \<Rightarrow>
          let size' = p_a (params ! val2) in
          let (r, s) = os_call0 os (Getcwd (sm_buffer shm_buf \<noteq> Null) size') s in
          bind_outcome (store (sm_buffer shm_buf) (o_out r) s) (\<lambda>s.
          Inr (TEEC_SUCCESS, put_c val0 (errno64 s) params, s))))"

definition vfs_stat :: "'w os \<Rightarrow> 'w handler" where
  "vfs_stat os num_params params s =
     (case values1 3 num_params params 0 of
        None \<Rightarrow> Inr (TEEC_ERROR_BAD_PARAMETERS, params, s)
      | Some val \<Rightarrow>
          (case get_param num_params params 2 s of
             None \<Rightarrow> Inr (TEEC_ERROR_BAD_PARAMETERS, params, s)
           | Some shm_buf \<Rightarrow>
          bind_outcome (path_arg params 1 s) (\<lambda>file_name.
          let (r, s) = os_call0 os (Stat file_name (sm_buffer shm_buf \<noteq> Null)) s in
          bind_outcome (store (sm_buffer shm_buf) (o_out r) s) (\<lambda>s.
          Inr (TEEC_SUCCESS, put_bc val (ret_int r) (errno64 s) params, s)))))"

text \<open>The file is queried twice, the second time into a local \<open>struct stat\<close> whose \<open>st_size\<close>
  (\<open>o_val1\<close>) is answered in \<open>c\<close>, where the other handlers answer \<open>errno\<close>.\<close>

definition vfs_fstat :: "'w os \<Rightarrow> 'w handler" where
  "vfs_fstat os num_params params s =
     (case values2 3 num_params params 0 1 of
        None \<Rightarrow> Inr (TEEC_ERROR_BAD_PARAMETERS, params, s)
      | Some (val0, val1) \<Rightarrow>
          (case get_param num_params params 2 s of
             None \<Rightarrow> Inr (TEEC_ERROR_BAD_PARAMETERS, params, s)
           | Some shm_buf \<Rightarrow>
          let fd = u64_to_int (p_a (params ! val1)) in
          let (r, s) = os_call0 os (Fstat fd (sm_buffer shm_buf \<noteq> Null)) s in
          bind_outcome (store (sm_buffer shm_buf) (o_out r) s) (\<lambda>s.
          let (r, s) = os_do os (Fstat fd True) s in
          Inr (TEEC_SUCCESS, put_bc val0 (ret_int r) (o_val1 r) params, s))))"

definition vfs_mkdir :: "'w os \<Rightarrow> 'w handler" where
  "vfs_mkdir os num_params params s =
     (case values2 3 num_params params 0 2 of
        None \<Rightarrow> Inr (TEEC_ERROR_BAD_PARAMETERS, params, s)
      | Some (val0, val2) \<Rightarrow>
          bind_outcome (path_arg params 1 s) (\<lambda>path.
          let mode = u64_to_int (p_a (params ! val2)) in
          let (r, s) = os_call0 os (Mkdir path mode) s in
          Inr (TEEC_SUCCESS, put_bc val0 (ret_int r) (errno64 s) params, s)))"

definition vfs_rmdir :: "'w os \<Rightarrow> 'w handler" where
  "vfs_rmdir os num_params params s =
     (case values1 2 num_params params 0 of
        None \<Rightarrow> Inr (TEEC_ERROR_BAD_PARAMETERS, params, s)
      | Some val \<Rightarrow>
          bind_outcome (path_arg params 1 s) (\<lambda>path.
          let (r, s) = os_call0 os (Rmdir path) s in
          Inr (TEEC_SUCCESS, put_bc val (ret_int r) (errno64 s) params, s)))"

definition vfs_unlink :: "'w os \<Rightarrow> 'w handler" where
  "vfs_unlink os num_params params s =
     (case values1 2 num_params params 0 of
        None \<Rightarrow> Inr (TEEC_ERROR_BAD_PARAMETERS, params, s)
      | Some val \<Rightarrow>
          bind_outcome (path_arg params 1 s) (\<lambda>path.
          let (r, s) = os_call0 os (Unlink path) s in
          Inr (TEEC_SUCCESS, put_bc val (ret_int r) (errno64 s) params, s)))"

definition vfs_ftruncate :: "'w os \<Rightarrow> 'w handler" where
  "vfs_ftruncate os num_params params s =
     (case values2 2 num_params params 0 1 of
        None \<Rightarrow> Inr (TEEC_ERROR_BAD_PARAMETERS, params, s)
      | Some (val0, val1) \<Rightarrow>
          let fd = u64_to_int (p_a (params ! val1)) in
          let size' = p_b (params ! val1) in
          let (r, s) = os_call0 os (Ftruncate fd size') s in
          Inr (TEEC_SUCCESS, put_bc val0 (ret_int r) (errno64 s) params, s))"

text \<open>The number of bytes comes from the request alone: it is not compared with the buffer's size.\<close>

definition vfs_read :: "'w os \<Rightarrow> 'w handler" where
  "vfs_read os num_params params s =
     (case values2 3 num_params params 0 2 of
        None \<Rightarrow> Inr (TEEC_ERROR_BAD_PARAMETERS, params, s)
      | Some (val0, val2) \<Rightarrow>
          (case get_param num_params params 1 s of
             None \<Rightarrow> Inr (TEEC_ERROR_BAD_PARAMETERS, params, s)
           | Some shm_buf \<Rightarrow>
          let fd = u64_to_int (p_a (params ! val2)) in
          let nbytes = p_b (params ! val2) in
          let (r, s) = os_call0 os (Read fd (sm_buffer shm_buf \<noteq> Null) nbytes) s in
          bind_outcome (store (sm_buffer shm_buf) (o_out r) s) (\<lambda>s.
          Inr (TEEC_SUCCESS, put_bc val0 (ret_long r) (errno64 s) params, s))))"

definition vfs_fchmod :: "'w os \<Rightarrow> 'w handler" where
  "vfs_fchmod os num_params params s =
     (case values2 2 num_params params 0 1 of
        None \<Rightarrow> Inr (TEEC_ERROR_BAD_PARAMETERS, params, s)
      | Some (val0, val1) \<Rightarrow>
          let fd = u64_to_int (p_a (params ! val1)) in
          let mode = u64_to_int (p_b (params ! val1)) in
          let (r, s) = os_call0 os (Fchmod fd mode) s in
          Inr (TEEC_SUCCESS, put_bc val0 (ret_int r) (errno64 s) params, s))"

definition vfs_fchown :: "'w os \<Rightarrow> 'w handler" where
  "vfs_fchown os num_params params s =
     (case values2 2 num_params params 0 1 of
        None \<Rightarrow> Inr (TEEC_ERROR_BAD_PARAMETERS, params, s)
      | Some (val0, val1) \<Rightarrow>
          let fd = u64_to_int (p_a (params ! val1)) in
          let owner = u64_to_int (p_b (params ! val1)) in
          let group = u64_to_int (p_c (params ! val1)) in
          let (r, s) = os_call0 os (Fchown fd owner group) s in
          Inr (TEEC_SUCCESS, put_bc val0 (ret_int r) (errno64 s) params, s))"

definition vfs_geteuid :: "'w os \<Rightarrow> 'w handler" where
  "vfs_geteuid os num_params params s =
     (case values1 1 num_params params 0 of
        None \<Rightarrow> Inr (TEEC_ERROR_BAD_PARAMETERS, params, s)
      | Some val \<Rightarrow>
          let (r, s) = os_call0 os (Geteuid) s in
          Inr (TEEC_SUCCESS, put_bc val (ret_uint r) (errno64 s) params, s))"

definition vfs_getpid :: "'w os \<Rightarrow> 'w handler" where
  "vfs_getpid os num_params params s =
     (case values1 1 num_params params 0 of
        None \<Rightarrow> Inr (TEEC_ERROR_BAD_PARAMETERS, params, s)
      | Some val \<Rightarrow>
          let (r, s) = os_call0 os (Getpid) s in
          Inr (TEEC_SUCCESS, put_bc val (ret_int r) (errno64 s) params, s))"

text \<open>\<open>strlen (getenv (name))\<close> is taken without a test for null; the length is answered even when the
  caller gave no buffer.\<close>

definition vfs_getenv :: "'w os \<Rightarrow> 'w handler" where
  "vfs_getenv os num_params params s =
     (case values1 3 num_params params 0 of
        None \<Rightarrow> Inr (TEEC_ERROR_BAD_PARAMETERS, params, s)
      | Some val \<Rightarrow>
          (case get_param num_params params 2 s of
             None \<Rightarrow> Inr (TEEC_ERROR_BAD_PARAMETERS, params, s)
           | Some shm_buf \<Rightarrow>
          bind_outcome (path_arg params 1 s) (\<lambda>name.
          (case name of
             None \<Rightarrow> Inl NullDeref
           | Some nm \<Rightarrow>
               let (r, s) = os_call0 os (Getenv nm) s in
               if o_ret r = 0 then Inl NullDeref
               else
                 let len = word_of_nat (length (o_out r)) + 1 :: s32;
                     params = put_b val (int_to_u64 len) params in
                 if sm_buffer shm_buf = Null then Inr (TEEC_ERROR_SHORT_BUFFER, params, s)
                 else bind_outcome (store (sm_buffer shm_buf) (o_out r @ [0]) s) (\<lambda>s.
                      Inr (TEEC_SUCCESS, params, s))))))"

definition vfs_lseek :: "'w os \<Rightarrow> 'w handler" where
  "vfs_lseek os num_params params s =
     (case values2 2 num_params params 0 1 of
        None \<Rightarrow> Inr (TEEC_ERROR_BAD_PARAMETERS, params, s)
      | Some (val0, val1) \<Rightarrow>
          let fd = u64_to_int (p_a (params ! val1)) in
          let offset = p_b (params ! val1) in
          let whence = u64_to_int (p_c (params ! val1)) in
          let (r, s) = os_call0 os (Lseek fd offset whence) s in
          Inr (TEEC_SUCCESS, put_bc val0 (ret_long r) (errno64 s) params, s))"

definition vfs_fsync :: "'w os \<Rightarrow> 'w handler" where
  "vfs_fsync os num_params params s =
     (case values2 2 num_params params 0 1 of
        None \<Rightarrow> Inr (TEEC_ERROR_BAD_PARAMETERS, params, s)
      | Some (val0, val1) \<Rightarrow>
          let fd = u64_to_int (p_a (params ! val1)) in
          let (r, s) = os_call0 os (Fsync fd) s in
          Inr (TEEC_SUCCESS, put_bc val0 (ret_int r) (errno64 s) params, s))"

definition vfs_sleep :: "'w os \<Rightarrow> 'w handler" where
  "vfs_sleep os num_params params s =
     (case values2 2 num_params params 0 1 of
        None \<Rightarrow> Inr (TEEC_ERROR_BAD_PARAMETERS, params, s)
      | Some (val0, val1) \<Rightarrow>
          let seconds = u64_to_int (p_a (params ! val1)) in
          let (r, s) = os_call0 os (Sleep seconds) s in
          Inr (TEEC_SUCCESS, put_bc val0 (ret_uint r) (errno64 s) params, s))"

definition vfs_pread :: "'w os \<Rightarrow> 'w handler" where
  "vfs_pread os num_params params s =
     (case values2 3 num_params params 0 2 of
        None \<Rightarrow> Inr (TEEC_ERROR_BAD_PARAMETERS, params, s)
      | Some (val0, val2) \<Rightarrow>
          (case get_param num_params params 1 s of
             None \<Rightarrow> Inr (TEEC_ERROR_BAD_PARAMETERS, params, s)
           | Some shm_buf \<Rightarrow>
          let fd = u64_to_int (p_a (params ! val2)) in
          let nbytes = p_b (params ! val2) in
          let offset = p_c (params ! val2) in
          let (r, s) = os_call0 os (Pread fd (sm_buffer shm_buf \<noteq> Null) nbytes offset) s in
          bind_outcome (store (sm_buffer shm_buf) (o_out r) s) (\<lambda>s.
          Inr (TEEC_SUCCESS, put_bc val0 (ret_long r) (errno64 s) params, s))))"

text \<open>The handler looks up \<open>val0\<close> at index 1 and never sets \<open>val1\<close>, which it then reads through:
  \<open>int fd = val1->a\<close> with \<open>val1 == NULL\<close>.\<close>

definition vfs_pwrite :: "'w os \<Rightarrow> 'w handler" where
  "vfs_pwrite os num_params params s =
     (case values1 3 num_params params 1 of
        None \<Rightarrow> Inr (TEEC_ERROR_BAD_PARAMETERS, params, s)
      | Some val0 \<Rightarrow> Inl NullDeref)"

definition vfs_truncate :: "'w os \<Rightarrow> 'w handler" where
  "vfs_truncate os num_params params s =
     (case values2 3 num_params params 0 2 of
        None \<Rightarrow> Inr (TEEC_ERROR_BAD_PARAMETERS, params, s)
      | Some (val0, val2) \<Rightarrow>
          let size' = p_a (params ! val2) in
          bind_outcome (path_arg params 1 s) (\<lambda>path.
          let (r, s) = os_call0 os (Truncate path size') s in
          Inr (TEEC_SUCCESS, put_bc val0 (ret_int r) (errno64 s) params, s)))"

definition vfs_getdayoftime :: "'w os \<Rightarrow> 'w handler" where
  "vfs_getdayoftime os num_params params s =
     (case values1 3 num_params params 0 of
        None \<Rightarrow> Inr (TEEC_ERROR_BAD_PARAMETERS, params, s)
      | Some val0 \<Rightarrow>
          (case get_param num_params params 1 s of
             None \<Rightarrow> Inr (TEEC_ERROR_BAD_PARAMETERS, params, s)
           | Some tv_buf \<Rightarrow>
          (case get_param num_params params 2 s of
             None \<Rightarrow> Inr (TEEC_ERROR_BAD_PARAMETERS, params, s)
           | Some tz_buf \<Rightarrow>
          let (r, s) = os_call0 os (Gettimeofday (sm_buffer tv_buf \<noteq> Null) (sm_buffer tz_buf \<noteq> Null)) s in
          bind_outcome (store (sm_buffer tv_buf) (o_out r) s) (\<lambda>s.
          bind_outcome (store (sm_buffer tz_buf) (o_out2 r) s) (\<lambda>s.
          Inr (TEEC_SUCCESS, put_bc val0 (ret_int r) (errno64 s) params, s))))))"

definition vfs_fcntl_void :: "'w os \<Rightarrow> 'w handler" where
  "vfs_fcntl_void os num_params params s =
     (case values2 2 num_params params 0 1 of
        None \<Rightarrow> Inr (TEEC_ERROR_BAD_PARAMETERS, params, s)
      | Some (val0, val1) \<Rightarrow>
          let fd = u64_to_int (p_a (params ! val1)) in
          let cmd = u64_to_int (p_b (params ! val1)) in
          let (r, s) = os_call0 os (Fcntl_void fd cmd) s in
          Inr (TEEC_SUCCESS, put_bc val0 (ret_int r) (errno64 s) params, s))"

definition vfs_fcntl_int :: "'w os \<Rightarrow> 'w handler" where
  "vfs_fcntl_int os num_params params s =
     (case values2 2 num_params params 0 1 of
        None \<Rightarrow> Inr (TEEC_ERROR_BAD_PARAMETERS, params, s)
      | Some (val0, val1) \<Rightarrow>
          let fd = u64_to_int (p_a (params ! val1)) in
          let cmd = u64_to_int (p_b (params ! val1)) in
          let pa = u64_to_int (p_c (params ! val1)) in
          let (r, s) = os_call0 os (Fcntl_int fd cmd pa) s in
          Inr (TEEC_SUCCESS, put_bc val0 (ret_int r) (errno64 s) params, s))"

text \<open>\<open>struct flock\<close> has 32 bytes.\<close>

definition vfs_fcntl_flock :: "'w os \<Rightarrow> 'w handler" where
  "vfs_fcntl_flock os num_params params s =
     (case values2 3 num_params params 0 1 of
        None \<Rightarrow> Inr (TEEC_ERROR_BAD_FORMAT, params, s)
      | Some (val0, val1) \<Rightarrow>
          (case get_param num_params params 2 s of
             None \<Rightarrow> Inr (TEEC_ERROR_BAD_FORMAT, params, s)
           | Some shm_buf \<Rightarrow>
          let fd = u64_to_int (p_a (params ! val1)) in
          let cmd = u64_to_int (p_b (params ! val1)) in
          bind_outcome (region (mem s) (sm_buffer shm_buf) 32) (\<lambda>flock.
          let (r, s) = os_call0 os (Fcntl_flock fd cmd flock) s in
          bind_outcome (store (sm_buffer shm_buf) (o_out r) s) (\<lambda>s.
          Inr (TEEC_SUCCESS, put_bc val0 (ret_int r) (errno64 s) params, s)))))"

text \<open>\<open>struct timeval times[2]\<close> has 32 bytes.\<close>

definition vfs_utimes :: "'w os \<Rightarrow> 'w handler" where
  "vfs_utimes os num_params params s =
     (case values1 3 num_params params 0 of
        None \<Rightarrow> Inr (TEEC_ERROR_BAD_PARAMETERS, params, s)
      | Some val0 \<Rightarrow>
          bind_outcome (path_arg params 1 s) (\<lambda>filename.
          bind_outcome (data_arg params 2 32 s) (\<lambda>times.
          let (r, s) = os_call0 os (Utimes filename times) s in
          Inr (TEEC_SUCCESS, put_bc val0 (ret_int r) (errno64 s) params, s))))"

definition vfs_time :: "'w os \<Rightarrow> 'w handler" where
  "vfs_time os num_params params s =
     (case values1 1 num_params params 0 of
        None \<Rightarrow> Inr (TEEC_ERROR_BAD_PARAMETERS, params, s)
      | Some val0 \<Rightarrow>
          let (r, s) = os_call0 os (Time) s in
          Inr (TEEC_SUCCESS, put_bc val0 (ret_long r) (errno64 s) params, s))"

definition vfs_usleep :: "'w os \<Rightarrow> 'w handler" where
  "vfs_usleep os num_params params s =
     (case values2 2 num_params params 0 1 of
        None \<Rightarrow> Inr (TEEC_ERROR_BAD_PARAMETERS, params, s)
      | Some (val0, val1) \<Rightarrow>
          let usec = u64_to_int (p_a (params ! val1)) in
          let (r, s) = os_call0 os (Usleep usec) s in
          Inr (TEEC_SUCCESS, put_c val0 (errno64 s) params, s))"

definition vfs_filesize :: "'w os \<Rightarrow> 'w handler" where
  "vfs_filesize os num_params params s =
     (case values2 2 num_params params 0 1 of
        None \<Rightarrow> Inr (TEEC_ERROR_BAD_PARAMETERS, params, s)
      | Some (val0, val1) \<Rightarrow>
          let fd = u64_to_int (p_a (params ! val1)) in
          let (r, s) = os_call0 os (Fstat fd True) s in
          Inr (TEEC_SUCCESS, put_bc val0 (if u64_to_int (o_ret r) \<noteq> - 1 then o_val1 r else - 1)
            (errno64 s) params, s))"

section \<open>The dispatcher\<close>

text \<open>\<open>switch (params->a)\<close>: the number of parameters is not checked before the first one is read.\<close>

definition tee_supp_vfs_process :: "'w os \<Rightarrow> 'w handler" where
  "tee_supp_vfs_process os num_params params s =
     (if params = [] then Inl OutOfBounds
      else let cmd = p_a (params ! 0) in
      if cmd = supp_vfs VFS_OPEN then vfs_open os num_params params s else
      if cmd = supp_vfs VFS_CLOSE then vfs_close os num_params params s else
      if cmd = supp_vfs VFS_ACCESS then vfs_access os num_params params s else
      if cmd = supp_vfs VFS_GETCWD then vfs_getcwd os num_params params s else
      if cmd = supp_vfs VFS_STAT then vfs_stat os num_params params s else
      if cmd = supp_vfs VFS_WRITE then vfs_write os num_params params s else
      if cmd = supp_vfs VFS_MKDIR then vfs_mkdir os num_params params s else
      if cmd = supp_vfs VFS_RMDIR then vfs_rmdir os num_params params s else
      if cmd = supp_vfs VFS_UNLINK then vfs_unlink os num_params params s else
      if cmd = supp_vfs VFS_FTRUNCATE then vfs_ftruncate os num_params params s else
      if cmd = supp_vfs VFS_READ then vfs_read os num_params params s else
      if cmd = supp_vfs VFS_FCHMOD then vfs_fchmod os num_params params s else
      if cmd = supp_vfs VFS_FCHOWN then vfs_fchown os num_params params s else
      if cmd = supp_vfs VFS_GETEUID then vfs_geteuid os num_params params s else
      if cmd = supp_vfs VFS_GETPID then vfs_getpid os num_params params s else
      if cmd = supp_vfs VFS_GETENV then vfs_getenv os num_params params s else
      if cmd = supp_vfs VFS_LSEEK then vfs_lseek os num_params params s else
      if cmd = supp_vfs VFS_FSYNC then vfs_fsync os num_params params s else
      if cmd = supp_vfs VFS_SLEEP then vfs_sleep os num_params params s else
      if cmd = supp_vfs VFS_GETTIMEOFDAY then vfs_getdayoftime os num_params params s else
      if cmd = supp_vfs VFS_PWRITE then vfs_pwrite os num_params params s else
      if cmd = supp_vfs VFS_PREAD then vfs_pread os num_params params s else
      if cmd = supp_vfs VFS_TRUNCATE then vfs_truncate os num_params params s else
      if cmd = supp_vfs VFS_FSTAT then vfs_fstat os num_params params s else
      if cmd = supp_vfs VFS_FCNTL_VOID then vfs_fcntl_void os num_params params s else
      if cmd = supp_vfs VFS_FCNTL_INT then vfs_fcntl_int os num_params params s else
      if cmd = supp_vfs VFS_FCNTL_FLOCK then vfs_fcntl_flock os num_params params s else
      if cmd = supp_vfs VFS_UTIMES then vfs_utimes os num_params params s else
      if cmd = supp_vfs VFS_TIME then vfs_time os num_params params s else
      if cmd = supp_vfs VFS_USLEEP then vfs_usleep os num_params params s else
      if cmd = supp_vfs VFS_FILESIZE then vfs_filesize os num_params params s else
      Inr (TEEC_ERROR_NOT_SUPPORTED, params, s))"

lemmas vfs_handler_defs =
  vfs_open_def vfs_close_def vfs_access_def vfs_write_def vfs_getcwd_def vfs_stat_def vfs_fstat_def
  vfs_mkdir_def vfs_rmdir_def vfs_unlink_def vfs_ftruncate_def vfs_read_def vfs_fchmod_def
  vfs_fchown_def vfs_geteuid_def vfs_getpid_def vfs_getenv_def vfs_lseek_def vfs_fsync_def
  vfs_sleep_def vfs_pread_def vfs_pwrite_def vfs_truncate_def vfs_getdayoftime_def
  vfs_fcntl_void_def vfs_fcntl_int_def vfs_fcntl_flock_def vfs_utimes_def vfs_time_def
  vfs_usleep_def vfs_filesize_def

section \<open>What every request leaves alone\<close>

text \<open>
  An answer changes \<open>b\<close> and \<open>c\<close> of parameter 0 and nothing else.
\<close>

definition answered :: "tee_ioctl_param list \<Rightarrow> tee_ioctl_param list \<Rightarrow> bool" where
  "answered ps ps' \<longleftrightarrow> length ps' = length ps \<and> tl ps' = tl ps \<and>
     map (\<lambda>p. (p_attr p, p_a p)) ps' = map (\<lambda>p. (p_attr p, p_a p)) ps"

lemma answered_refl [simp]: "answered ps ps"
  by (simp add: answered_def)

lemma answered_put [simp]:
  "answered ps (put_b 0 x ps)" "answered ps (put_c 0 x ps)" "answered ps (put_bc 0 x y ps)"
  by (cases ps; simp add: answered_def put_b_def put_c_def put_bc_def)+

lemma values1_Some: "values1 n k ps i = Some v \<Longrightarrow> v = i"
  by (auto simp: values1_def get_value_def split: if_splits)

lemma values2_Some: "values2 n k ps i j = Some (v, w) \<Longrightarrow> v = i \<and> w = j"
  by (auto simp: values2_def get_value_def split: if_splits)

text \<open>\<open>shapes s ps x\<close>: the result \<open>x\<close> of a request made in \<open>s\<close> is a fault, or keeps the shape of the
  memory, the list of objects and the request.\<close>

definition shapes ::
    "'w supp \<Rightarrow> tee_ioctl_param list \<Rightarrow> (u32 \<times> tee_ioctl_param list \<times> 'w supp) outcome \<Rightarrow> bool" where
  "shapes s ps x \<longleftrightarrow> (case x of Inl _ \<Rightarrow> True | Inr (c, ps', t) \<Rightarrow> mem_shape s t \<and> answered ps ps')"

lemma shapes_simps [simp]:
  "shapes s ps (Inl f)" "shapes s ps (Inr (c, ps', t)) = (mem_shape s t \<and> answered ps ps')"
  by (simp_all add: shapes_def)

lemma shapes_bind: "(\<And>y. m = Inr y \<Longrightarrow> shapes s ps (f y)) \<Longrightarrow> shapes s ps (bind_outcome m f)"
  by (cases m) simp_all

lemma shapes_store:
  "mem_shape s t \<Longrightarrow> (\<And>u. mem_shape s u \<Longrightarrow> shapes s ps (f u)) \<Longrightarrow>
     shapes s ps (bind_outcome (store p bs t) f)"
  by (cases "store p bs t") (simp_all, metis mem_shape_store mem_shape_trans)

lemma shapes_os_call0:
  "mem_shape s t \<Longrightarrow> (\<And>r u. mem_shape s u \<Longrightarrow> shapes s ps (f (r, u))) \<Longrightarrow>
     shapes s ps (let y = os_call0 os call t in f y)"
  by (cases "os_call0 os call t") (simp, metis mem_shape_os_call0 mem_shape_trans)

lemma shapes_os_do:
  "mem_shape s t \<Longrightarrow> (\<And>r u. mem_shape s u \<Longrightarrow> shapes s ps (f (r, u))) \<Longrightarrow>
     shapes s ps (let y = os_do os call t in f y)"
  by (cases "os_do os call t") (simp, metis mem_shape_os_do mem_shape_trans)

lemma shapes_option:
  "(m = None \<Longrightarrow> shapes s ps x) \<Longrightarrow> (\<And>y. m = Some y \<Longrightarrow> shapes s ps (f y)) \<Longrightarrow>
     shapes s ps (case m of None \<Rightarrow> x | Some y \<Rightarrow> f y)"
  by (cases m) auto

lemma shapes_values1:
  "shapes s ps x \<Longrightarrow> shapes s ps (f i) \<Longrightarrow>
     shapes s ps (case values1 n k qs i of None \<Rightarrow> x | Some y \<Rightarrow> f y)"
  by (cases "values1 n k qs i") (auto dest: values1_Some)

lemma shapes_values2:
  "shapes s ps x \<Longrightarrow> shapes s ps (f (i, j)) \<Longrightarrow>
     shapes s ps (case values2 n k qs i j of None \<Rightarrow> x | Some y \<Rightarrow> f y)"
  by (cases "values2 n k qs i j") (auto dest: values2_Some)

lemma shapes_Let: "shapes s ps (f x) \<Longrightarrow> shapes s ps (let y = x in f y)"
  by simp

lemma shapes_if: "shapes s ps x \<Longrightarrow> shapes s ps y \<Longrightarrow> shapes s ps (if b then x else y)"
  by simp

lemmas shapes_intros =
  shapes_store shapes_os_call0 shapes_os_do shapes_values1 shapes_values2 shapes_option shapes_if
  shapes_bind shapes_Let

lemma vfs_process_shapes: "shapes s ps (tee_supp_vfs_process os n ps s)"
  unfolding tee_supp_vfs_process_def vfs_handler_defs prod.case_eq_if
  by (intro shapes_intros | simp)+

lemma vfs_process_inv:
  assumes "supp_inv s" and "tee_supp_vfs_process os n ps s = Inr (c, ps', t)"
  shows "supp_inv t \<and> shm_head t = shm_head s \<and> answered ps ps'"
proof -
  have "mem_shape s t \<and> answered ps ps'"
    using vfs_process_shapes [of s ps os n] assms(2) by simp
  then show ?thesis using mem_shape_inv [of s t] assms(1) by simp
qed

section \<open>Reachable states\<close>

text \<open>The requests the supplicant serves itself, as steps of its state.\<close>

inductive supp_step :: "'w os \<Rightarrow> 'w supp \<Rightarrow> 'w supp \<Rightarrow> bool" for os where
  step_alloc: "process_alloc os n ps s = Inr (c, ps', t) \<Longrightarrow> supp_step os s t"
| step_free: "process_free os n ps s = Inr (c, ps', t) \<Longrightarrow> supp_step os s t"
| step_vfs: "tee_supp_vfs_process os n ps s = Inr (c, ps', t) \<Longrightarrow> supp_step os s t"

inductive supp_reach :: "'w os \<Rightarrow> 'w supp \<Rightarrow> 'w supp \<Rightarrow> bool" for os where
  reach_refl: "supp_reach os s s"
| reach_step: "supp_reach os s t \<Longrightarrow> supp_step os t u \<Longrightarrow> supp_reach os s u"

inductive_cases supp_stepE: "supp_step os s t"

lemma supp_step_inv:
  assumes "supp_step os s t" and "shm_alloc_rounds_up os" and "supp_inv s"
  shows "supp_inv t"
  using assms(1)
  by (cases rule: supp_stepE)
    (auto intro: process_alloc_inv [OF assms(3,2)] process_free_inv [OF assms(3)]
      dest: vfs_process_inv [OF assms(3)])

lemma supp_reach_inv:
  assumes "supp_reach os s t" and "shm_alloc_rounds_up os" and "supp_inv s"
  shows "supp_inv t"
  using assms by (induction rule: supp_reach.induct) (auto intro: supp_step_inv)

definition fresh_supp :: "'w \<Rightarrow> thread_arg \<Rightarrow> 'w supp" where
  "fresh_supp w a =
     \<lparr>world = w, errno = 0, mem = Map.empty, next_blk = 0, shm_head = [], targ = a\<rparr>"

lemma supp_inv_fresh [simp]: "supp_inv (fresh_supp w a)"
  by (simp add: supp_inv_def fresh_supp_def)

text \<open>The number of parameters each command wants.\<close>

definition vfs_arity :: "vfs_cmd \<Rightarrow> u64" where
  "vfs_arity c =
     (if c \<in> {VFS_GETEUID, VFS_GETPID, VFS_TIME} then 1
      else if c \<in> {VFS_CLOSE, VFS_RMDIR, VFS_UNLINK, VFS_FTRUNCATE, VFS_FCHMOD, VFS_FCHOWN,
                   VFS_LSEEK, VFS_FSYNC, VFS_SLEEP, VFS_FCNTL_VOID, VFS_FCNTL_INT, VFS_USLEEP,
                   VFS_FILESIZE} then 2
      else 3)"

section \<open>Properties\<close>

text \<open>C15. In every state the supplicant's own services can reach from its start, each listed shared
  memory object has a block of its own, at least as large as the size recorded for it.\<close>

theorem reachable_shm_backed:
  assumes "shm_alloc_rounds_up os" and "supp_reach os (fresh_supp w a) s"
  shows "(\<forall>t \<in> set (shm_head s). \<exists>bs. mem s (shm_p t) = Some bs \<and> unat (shm_size t) \<le> length bs)
    \<and> distinct (map shm_p (shm_head s))"
  using supp_reach_inv [OF assms(2,1) supp_inv_fresh]
  by (auto simp: supp_inv_def shm_backed_def split: option.splits)

text \<open>C17. In every reachable state a memory reference that \<open>get_param\<close> accepts is null or designates
  as many bytes as it says inside one object; the sum of offset and size cannot wrap around.\<close>

theorem get_param_in_bounds:
  assumes "shm_alloc_rounds_up os" and "supp_reach os (fresh_supp w a) s"
    and "get_param n ps i s = Some m"
  shows "\<exists>bs. region (mem s) (sm_buffer m) (unat (sm_size m)) = Inr bs"
  using get_param_ptr_ok [OF supp_reach_inv [OF assms(2,1) supp_inv_fresh] assms(3)]
  by (rule ptr_ok_region)

text \<open>C18. The same for \<open>tee_supp_param_to_va\<close>, which the path and data arguments go through.\<close>

theorem param_to_va_in_bounds:
  assumes "shm_alloc_rounds_up os" and "supp_reach os (fresh_supp w a) s"
  shows "\<exists>bs. region (mem s) (tee_supp_param_to_va p s) (unat (p_b p)) = Inr bs"
  using to_va_ptr_ok [OF supp_reach_inv [OF assms(2,1) supp_inv_fresh]] by (rule ptr_ok_region)

text \<open>A request with the wrong number of parameters is refused by every command, before any
  call into the system, with request and process unchanged.\<close>

theorem vfs_wrong_arity_refused:
  assumes "ps \<noteq> []" and "p_a (ps ! 0) = supp_vfs c" and "n \<noteq> vfs_arity c"
  shows "tee_supp_vfs_process os n ps s =
    Inr (if c = VFS_FCNTL_FLOCK then TEEC_ERROR_BAD_FORMAT else TEEC_ERROR_BAD_PARAMETERS, ps, s)"
  using assms
  by (cases c) (simp_all add: tee_supp_vfs_process_def vfs_handler_defs values1_def values2_def
      vfs_arity_def)

text \<open>A request whose command is none of the 31 numbers is answered \<open>NOT_SUPPORTED\<close>.\<close>

theorem vfs_unknown_command:
  assumes "ps \<noteq> []" and "p_a (ps ! 0) \<notin> range supp_vfs"
  shows "tee_supp_vfs_process os n ps s = Inr (TEEC_ERROR_NOT_SUPPORTED, ps, s)"
proof -
  have "\<And>c. p_a (ps ! 0) \<noteq> supp_vfs c" using assms(2) by auto
  then show ?thesis
    using assms(1) by (simp add: tee_supp_vfs_process_def Let_def del: supp_vfs.simps supp_vfs_optee_vfs)
qed

text \<open>Whatever a VFS request does, its answer is \<open>b\<close> and \<open>c\<close> of parameter 0: attributes, commands
  and all other parameters return as they came, and the list of shared memory objects and the sizes
  of all blocks are unchanged.\<close>

theorem vfs_request_frame:
  assumes "tee_supp_vfs_process os n ps s = Inr (c, ps', t)"
  shows "tl ps' = tl ps \<and> map (\<lambda>p. (p_attr p, p_a p)) ps' = map (\<lambda>p. (p_attr p, p_a p)) ps
    \<and> shm_head t = shm_head s \<and> (\<forall>b. map_option length (mem t b) = map_option length (mem s b))"
  using vfs_process_shapes [of s ps os n] assms by (simp add: answered_def mem_shape_def)

text \<open>A \<open>pwrite\<close> request with the parameters the handler asks for never returns: \<open>val1\<close> is
  dereferenced while it is null.\<close>

theorem pwrite_request_faults:
  assumes "p_a (ps ! 0) = supp_vfs VFS_PWRITE" and "ps \<noteq> []" and "tee_supp_param_is_value (ps ! 1)"
  shows "tee_supp_vfs_process os 3 ps s = Inl NullDeref"
  using assms
  by (simp add: tee_supp_vfs_process_def vfs_pwrite_def values1_def get_value_def
      tee_supp_param_is_value_def)

end
