(* ===== verification/Supp_Main.thy ===== *)
theory Supp_Main
  imports Supp_Vfs
begin

text \<open>
  The request loop of \<open>tee_supplicant.c\<close>: the count of waiting threads, loading of trusted
  applications, receiving a request (\<open>read_request\<close>, \<open>find_params\<close>), the service switch and the
  answer (\<open>process_one_request\<close>), the loops of \<open>thread_main\<close> and \<open>main\<close>, and start-up.
\<close>

section \<open>The count of waiting threads\<close>

text \<open>The counter is a \<open>size_t\<close>; both functions return the new value.\<close>

definition num_waiters_inc :: "'w supp \<Rightarrow> (u64 \<times> 'w supp) outcome" where
  "num_waiters_inc s =
     (let n = num_waiters (targ s) + 1;
          s = s\<lparr>targ := (targ s)\<lparr>num_waiters := n\<rparr>\<rparr> in
      if n = 0 then Inl AssertFailed else Inr (n, s))"

definition num_waiters_dec :: "'w supp \<Rightarrow> (u64 \<times> 'w supp) outcome" where
  "num_waiters_dec s =
     (if num_waiters (targ s) = 0 then Inl AssertFailed
      else let n = num_waiters (targ s) - 1 in
           Inr (n, s\<lparr>targ := (targ s)\<lparr>num_waiters := n\<rparr>\<rparr>))"

section \<open>Identifiers of trusted applications\<close>

record teec_uuid =
  timeLow :: u32
  timeMid :: "16 word"
  timeHiAndVersion :: "16 word"
  clockSeqAndNode :: "byte list"

text \<open>\<open>(s[0] << 24) | (s[1] << 16) | (s[2] << 8) | s[3]\<close>, and the rest likewise.\<close>

definition uuid_from_octets :: "byte list \<Rightarrow> teec_uuid" where
  "uuid_from_octets s =
     \<lparr>timeLow = push_bit 24 (ucast (s ! 0)) OR push_bit 16 (ucast (s ! 1))
                OR push_bit 8 (ucast (s ! 2)) OR ucast (s ! 3),
      timeMid = push_bit 8 (ucast (s ! 4)) OR ucast (s ! 5),
      timeHiAndVersion = push_bit 8 (ucast (s ! 6)) OR ucast (s ! 7),
      clockSeqAndNode = take 8 (drop 8 s)\<rparr>"

text \<open>The memory of a \<open>uint64_t\<close> on a little-endian machine.\<close>

definition le_bytes :: "u64 \<Rightarrow> byte list" where
  "le_bytes x = map (\<lambda>i. ucast (drop_bit (8 * i) x)) [0..<8]"

section \<open>The parts of the supplicant that are not in this repository\<close>

text \<open>
  \<open>TEECI_LoadSecureModule\<close>, the other services, and the two \<open>ioctl\<close>s of the TEE driver that receive
  a request and send its answer.  \<open>load_module\<close> is given the directory, the identifier, whether a
  buffer was given and its size, and returns whether the module was found, its size and the bytes it
  stored.
\<close>

record rpc_request =
  rq_func :: u32
  rq_num_params :: u32
  rq_params :: "tee_ioctl_param list"

record 'w supp_env =
  e_os :: "'w os"
  ta_dir :: string
  load_module :: "string \<Rightarrow> teec_uuid \<Rightarrow> bool \<Rightarrow> u64 \<Rightarrow> 'w \<Rightarrow> (bool \<times> u64 \<times> byte list) \<times> 'w"
  tee_supp_fs_process :: "'w handler"
  rpmb_process_request :: "ptr \<Rightarrow> u64 \<Rightarrow> ptr \<Rightarrow> u64 \<Rightarrow> 'w supp \<Rightarrow> (u32 \<times> 'w supp) outcome"
  prof_process :: "string \<Rightarrow> 'w handler"
  tee_socket_process :: "'w handler"
  plugin_process :: "'w handler"
  suppl_recv :: "s32 \<Rightarrow> rpc_request \<Rightarrow> 'w \<Rightarrow> rpc_request option \<times> 'w"
  suppl_send :: "s32 \<Rightarrow> rpc_request \<Rightarrow> u64 \<Rightarrow> 'w \<Rightarrow> bool \<times> 'w"

section \<open>Services\<close>

definition load_ta :: "'w supp_env \<Rightarrow> 'w handler" where
  "load_ta env num_params params s =
     (case values1 2 num_params params 0 of
        None \<Rightarrow> Inr (TEEC_ERROR_BAD_PARAMETERS, params, s)
      | Some val_cmd \<Rightarrow>
          (case get_param num_params params 1 s of
             None \<Rightarrow> Inr (TEEC_ERROR_BAD_PARAMETERS, params, s)
           | Some shm_ta \<Rightarrow>
          let p = params ! val_cmd;
              uuid = uuid_from_octets (le_bytes (p_a p) @ le_bytes (p_b p));
              ((found, sz, bytes), w) =
                load_module env (ta_dir env) uuid (sm_buffer shm_ta \<noteq> Null) (sm_size shm_ta) (world s);
              s = s\<lparr>world := w\<rparr> in
          bind_outcome (store (sm_buffer shm_ta) bytes s) (\<lambda>s.
          if \<not> found then Inr (TEEC_ERROR_ITEM_NOT_FOUND, params, s)
          else
            let params = put_b 1 sz params in
            if sm_buffer shm_ta \<noteq> Null \<and> sm_size shm_ta < sz
            then Inr (TEEC_ERROR_SHORT_BUFFER, params, s)
            else Inr (TEEC_SUCCESS, params, s))))"

definition process_rpmb :: "'w supp_env \<Rightarrow> 'w handler" where
  "process_rpmb env num_params params s =
     (case get_param num_params params 0 s of
        None \<Rightarrow> Inr (TEEC_ERROR_BAD_PARAMETERS, params, s)
      | Some req \<Rightarrow>
          (case get_param num_params params 1 s of
             None \<Rightarrow> Inr (TEEC_ERROR_BAD_PARAMETERS, params, s)
           | Some rsp \<Rightarrow>
               bind_outcome
                 (rpmb_process_request env (sm_buffer req) (sm_size req) (sm_buffer rsp) (sm_size rsp) s)
                 (\<lambda>(r, s). Inr (r, params, s))))"

text \<open>The \<open>switch (func)\<close> of \<open>process_one_request\<close>.\<close>

definition rpc_switch :: "'w supp_env \<Rightarrow> u32 \<Rightarrow> 'w handler" where
  "rpc_switch env func num_params params s =
     (if func = rpc_cmd_number LOAD_TA then load_ta env num_params params s
      else if func = rpc_cmd_number FS then tee_supp_fs_process env num_params params s
      else if func = rpc_cmd_number RPMB then process_rpmb env num_params params s
      else if func = rpc_cmd_number SHM_ALLOC then process_alloc (e_os env) num_params params s
      else if func = rpc_cmd_number SHM_FREE then process_free (e_os env) num_params params s
      else if func = rpc_cmd_number GPROF then prof_process env ''gmon-'' num_params params s
      else if func = rpc_cmd_number SOCKET then tee_socket_process env num_params params s
      else if func = rpc_cmd_number FTRACE then prof_process env ''ftrace-'' num_params params s
      else if func = rpc_cmd_number PLUGIN then plugin_process env num_params params s
      else if func = rpc_cmd_number VFS then tee_supp_vfs_process (e_os env) num_params params s
      else Inr (TEEC_ERROR_NOT_SUPPORTED, params, s))"

section \<open>Receiving a request\<close>

definition RPC_NUM_PARAMS :: nat where
  "RPC_NUM_PARAMS = 5"

text \<open>
  \<open>union tee_rpc_invoke\<close>: the header of the received request (\<open>func\<close>) and of the answer (\<open>ret\<close>)
  are the same word, and the parameters follow it; the union has room for \<open>RPC_NUM_PARAMS\<close> of them.
\<close>

definition new_request :: rpc_request where
  "new_request =
     \<lparr>rq_func = 0, rq_num_params = word_of_nat RPC_NUM_PARAMS,
      rq_params = (replicate RPC_NUM_PARAMS zero_param)
                    [0 := zero_param\<lparr>p_attr := TEE_IOCTL_PARAM_ATTR_META\<rparr>]\<rparr>"

definition read_request :: "'w supp_env \<Rightarrow> s32 \<Rightarrow> rpc_request \<Rightarrow> 'w supp \<Rightarrow> rpc_request option \<times> 'w supp" where
  "read_request env fd request s =
     (let (r, w) = suppl_recv env fd request (world s) in (r, s\<lparr>world := w\<rparr>))"

text \<open>The answer is the header of 8 bytes and \<open>num_params\<close> parameters of 32 bytes.\<close>

definition write_response :: "'w supp_env \<Rightarrow> s32 \<Rightarrow> rpc_request \<Rightarrow> 'w supp \<Rightarrow> bool \<times> 'w supp" where
  "write_response env fd request s =
     (let buf_len = 8 + 32 * uint_to_u64 (rq_num_params request);
          (ok, w) = suppl_send env fd request buf_len (world s) in (ok, s\<lparr>world := w\<rparr>))"

definition is_meta :: "tee_ioctl_param \<Rightarrow> bool" where
  "is_meta p \<longleftrightarrow> p_attr p AND TEE_IOCTL_PARAM_ATTR_META \<noteq> 0"

text \<open>The first loop of \<open>find_params\<close> counts the leading meta parameters of the \<open>k\<close> announced ones.\<close>

fun skip_meta :: "nat \<Rightarrow> tee_ioctl_param list \<Rightarrow> nat outcome" where
  "skip_meta 0 ps = Inr 0"
| "skip_meta (Suc k) [] = Inl OutOfBounds"
| "skip_meta (Suc k) (p # ps) =
     (if \<not> is_meta p then Inr 0 else bind_outcome (skip_meta k ps) (\<lambda>n. Inr (Suc n)))"

text \<open>The second loop looks for a meta parameter among the rest.\<close>

fun no_meta :: "nat \<Rightarrow> tee_ioctl_param list \<Rightarrow> bool outcome" where
  "no_meta 0 ps = Inr True"
| "no_meta (Suc k) [] = Inl OutOfBounds"
| "no_meta (Suc k) (p # ps) = (if is_meta p then Inr False else no_meta k ps)"

text \<open>\<open>func\<close>, \<open>num_params\<close>, \<open>params\<close> and \<open>num_meta\<close>; \<open>Inr None\<close> is the return value \<open>false\<close>.\<close>

definition find_params :: "rpc_request \<Rightarrow> (u32 \<times> u64 \<times> tee_ioctl_param list \<times> u64) option outcome" where
  "find_params request =
     (let total = unat (rq_num_params request) in
      bind_outcome (skip_meta total (rq_params request)) (\<lambda>n.
      bind_outcome (no_meta (total - n) (drop n (rq_params request))) (\<lambda>ok.
      Inr (if ok then Some (rq_func request, word_of_nat (total - n), drop n (rq_params request),
                            word_of_nat n)
           else None))))"

section \<open>One request\<close>

definition spawn_thread :: "'w supp_env \<Rightarrow> 'w supp \<Rightarrow> (bool \<times> 'w supp) outcome" where
  "spawn_thread env s =
     bind_outcome (num_waiters_inc s) (\<lambda>(_, s).
     let (e, s) = os_do (e_os env) Pthread_create s in
     if u64_to_int (o_ret e) \<noteq> 0
     then bind_outcome (num_waiters_dec s) (\<lambda>(_, s). Inr (False, s))
     else let (_, s) = os_do (e_os env) Pthread_detach s in Inr (True, s))"

text \<open>
  \<open>num_meta && !num_waiters_dec (arg) && !spawn_thread (arg)\<close>: the result says whether the
  condition holds, that is, whether the function returns \<open>false\<close>.
\<close>

definition waiter_check :: "'w supp_env \<Rightarrow> u64 \<Rightarrow> 'w supp \<Rightarrow> (bool \<times> 'w supp) outcome" where
  "waiter_check env num_meta s =
     (if num_meta = 0 then Inr (False, s)
      else bind_outcome (num_waiters_dec s) (\<lambda>(n, s).
           if n \<noteq> 0 then Inr (False, s)
           else bind_outcome (spawn_thread env s) (\<lambda>(ok, s). Inr (\<not> ok, s))))"

text \<open>
  The answer is written over the request: \<open>ret\<close> in the place of \<open>func\<close>, and the handlers change the
  parameters in place, behind the meta parameters.
\<close>

definition answer_request :: "rpc_request \<Rightarrow> u64 \<Rightarrow> u32 \<Rightarrow> tee_ioctl_param list \<Rightarrow> rpc_request" where
  "answer_request request num_meta ret params =
     request\<lparr>rq_func := ret, rq_params := take (unat num_meta) (rq_params request) @ params\<rparr>"

definition process_one_request :: "'w supp_env \<Rightarrow> 'w supp \<Rightarrow> (bool \<times> 'w supp) outcome" where
  "process_one_request env s =
     bind_outcome (num_waiters_inc s) (\<lambda>(_, s).
     let (received, s) = read_request env (ta_fd (targ s)) new_request s in
     case received of
       None \<Rightarrow> Inr (False, s)
     | Some request \<Rightarrow>
         bind_outcome (find_params request) (\<lambda>found.
         case found of
           None \<Rightarrow> Inr (False, s)
         | Some (func, num_params, params, num_meta) \<Rightarrow>
             bind_outcome (waiter_check env num_meta s) (\<lambda>(failed, s).
             if failed then Inr (False, s)
             else
               bind_outcome (rpc_switch env func num_params params s) (\<lambda>(ret, params, s).
               Inr (write_response env (ta_fd (targ s)) (answer_request request num_meta ret params) s)))))"

text \<open>
  \<open>while (!arg->abort) if (!process_one_request (arg)) arg->abort = true;\<close>  The loop need not end:
  \<open>None\<close> is a run that goes on for ever.
\<close>

partial_function (option) request_loop :: "'w supp_env \<Rightarrow> 'w supp \<Rightarrow> 'w supp outcome option" where
  "request_loop env s =
     (if ta_abort (targ s) then Some (Inr s)
      else case process_one_request env s of
             Inl f \<Rightarrow> Some (Inl f)
           | Inr (ok, s) \<Rightarrow>
               request_loop env (if ok then s else s\<lparr>targ := (targ s)\<lparr>ta_abort := True\<rparr>\<rparr>))"

definition thread_main :: "'w supp_env \<Rightarrow> 'w supp \<Rightarrow> 'w supp outcome option" where
  "thread_main env s =
     (case num_waiters_dec s of Inl f \<Rightarrow> Some (Inl f) | Inr (_, s) \<Rightarrow> request_loop env s)"

end
