(* ===== verification/Ta_Vfs.thy ===== *)
theory Ta_Vfs
  imports Tee_Prelude "HOL-Library.Signed_Division"
begin

unbundle bit_operations_syntax

text \<open>
  The SQLite VFS of the trusted application, \<open>tee_vfs.c\<close>: the file methods (\<open>demoDirectWrite\<close>,
  \<open>demoFlushBuffer\<close>, \<open>demoClose\<close>, \<open>demoRead\<close>, \<open>demoWrite\<close>, \<open>demoSync\<close>, \<open>demoFileSize\<close>, \<dots>) and the VFS
  methods (\<open>demoOpen\<close>, \<open>demoDelete\<close>, \<open>demoAccess\<close>, \<open>demoFullPathname\<close>, \<dots>).

  The system calls \<open>utee_vfs_*\<close> and the two functions of the SQLite library the code calls are the
  fields of \<open>vfs_io\<close>.  The locale \<open>file_io\<close> states what an open file promises, and the refinement at
  the end shows the write buffer of a journal file to be invisible: the file a SQLite client sees is
  the file below with the buffered bytes laid over it.

  Values of C type \<open>int\<close> and \<open>sqlite_int64\<close> are integers here; the additions that could leave the 64
  bits of a file offset are checked and fault, as C leaves them undefined.
\<close>

section \<open>Result codes and flags\<close>

text \<open>Constants of \<open>sqlite3.h\<close> and of \<open>demovfs.h\<close>.\<close>

abbreviation SQLITE_OK :: int where "SQLITE_OK \<equiv> 0"
abbreviation SQLITE_NOMEM :: int where "SQLITE_NOMEM \<equiv> 7"
abbreviation SQLITE_IOERR :: int where "SQLITE_IOERR \<equiv> 10"
abbreviation SQLITE_NOTFOUND :: int where "SQLITE_NOTFOUND \<equiv> 12"
abbreviation SQLITE_CANTOPEN :: int where "SQLITE_CANTOPEN \<equiv> 14"
abbreviation SQLITE_IOERR_READ :: int where "SQLITE_IOERR_READ \<equiv> 266"
abbreviation SQLITE_IOERR_SHORT_READ :: int where "SQLITE_IOERR_SHORT_READ \<equiv> 522"
abbreviation SQLITE_IOERR_WRITE :: int where "SQLITE_IOERR_WRITE \<equiv> 778"
abbreviation SQLITE_IOERR_FSYNC :: int where "SQLITE_IOERR_FSYNC \<equiv> 1034"
abbreviation SQLITE_IOERR_FSTAT :: int where "SQLITE_IOERR_FSTAT \<equiv> 1802"
abbreviation SQLITE_IOERR_DELETE :: int where "SQLITE_IOERR_DELETE \<equiv> 2570"

abbreviation SQLITE_OPEN_READONLY :: s32 where "SQLITE_OPEN_READONLY \<equiv> 1"
abbreviation SQLITE_OPEN_READWRITE :: s32 where "SQLITE_OPEN_READWRITE \<equiv> 2"
abbreviation SQLITE_OPEN_CREATE :: s32 where "SQLITE_OPEN_CREATE \<equiv> 4"
abbreviation SQLITE_OPEN_EXCLUSIVE :: s32 where "SQLITE_OPEN_EXCLUSIVE \<equiv> 16"
abbreviation SQLITE_OPEN_MAIN_JOURNAL :: s32 where "SQLITE_OPEN_MAIN_JOURNAL \<equiv> 0x800"

abbreviation O_RDONLY :: s32 where "O_RDONLY \<equiv> 0"
abbreviation O_RDWR :: s32 where "O_RDWR \<equiv> 2"
abbreviation O_CREAT :: s32 where "O_CREAT \<equiv> 64"
abbreviation O_EXCL :: s32 where "O_EXCL \<equiv> 128"
abbreviation ENOENT :: s32 where "ENOENT \<equiv> 2"
abbreviation SEEK_SET :: s32 where "SEEK_SET \<equiv> 0"
abbreviation F_OK :: s32 where "F_OK \<equiv> 0"
abbreviation W_OK :: s32 where "W_OK \<equiv> 2"
abbreviation R_OK :: s32 where "R_OK \<equiv> 4"

definition SQLITE_TEEVFS_BUFFERSZ :: int where
  "SQLITE_TEEVFS_BUFFERSZ = 8192"

definition MAXPATHNAME :: int where
  "MAXPATHNAME = 512"

section \<open>What the VFS is built on\<close>

text \<open>
  The system calls, over a state \<open>'s\<close>.  \<open>io_write\<close> and \<open>io_read\<close> return the value at its C type on the
  caller's side, widened to 64 bits; \<open>io_getcwd\<close> returns whether the result is not null and what is
  stored in the buffer, \<open>io_unlink\<close> the return value and what is stored through the pointer \<open>errno\<close>,
  \<open>io_read\<close> the return value and what is stored in the buffer.  \<open>sqlite3_malloc\<close> returns the content
  of the new block; \<open>sqlite3_snprintf\<close> takes the size of the buffer and the expanded format and
  returns the bytes stored.
\<close>

record 's vfs_io =
  io_open :: "byte list \<Rightarrow> s32 \<Rightarrow> s32 \<Rightarrow> 's \<Rightarrow> s32 \<times> 's"
  io_close :: "s32 \<Rightarrow> 's \<Rightarrow> s32 \<times> 's"
  io_access :: "byte list \<Rightarrow> s32 \<Rightarrow> 's \<Rightarrow> s32 \<times> 's"
  io_getcwd :: "u64 \<Rightarrow> 's \<Rightarrow> (bool \<times> byte list option) \<times> 's"
  io_write :: "s32 \<Rightarrow> byte list \<Rightarrow> u64 \<Rightarrow> 's \<Rightarrow> s64 \<times> 's"
  io_unlink :: "byte list \<Rightarrow> 's \<Rightarrow> (s32 \<times> s32 option) \<times> 's"
  io_read :: "s32 \<Rightarrow> u64 \<Rightarrow> 's \<Rightarrow> (s64 \<times> byte list option) \<times> 's"
  io_lseek :: "s32 \<Rightarrow> s64 \<Rightarrow> s32 \<Rightarrow> 's \<Rightarrow> s64 \<times> 's"
  io_fsync :: "s32 \<Rightarrow> 's \<Rightarrow> s32 \<times> 's"
  io_sleep :: "u32 \<Rightarrow> 's \<Rightarrow> u32 \<times> 's"
  io_usleep :: "u64 \<Rightarrow> 's \<Rightarrow> 's"
  io_filesize :: "s32 \<Rightarrow> 's \<Rightarrow> s64 \<times> 's"
  sqlite3_malloc :: "u64 \<Rightarrow> 's \<Rightarrow> byte list option \<times> 's"
  sqlite3_snprintf :: "int \<Rightarrow> byte list \<Rightarrow> byte list"

text \<open>\<open>struct DemoFile\<close>; \<open>pMethods\<close> says whether the method table is set.\<close>

record DemoFile =
  pMethods :: bool
  df_fd :: s32
  aBuffer :: "byte list option"
  nBuffer :: int
  iBufferOfst :: int

text \<open>\<open>memset (p, 0, sizeof (DemoFile))\<close>.\<close>

definition zero_file :: DemoFile where
  "zero_file = \<lparr>pMethods = False, df_fd = 0, aBuffer = None, nBuffer = 0, iBufferOfst = 0\<rparr>"

text \<open>An addition of file offsets.\<close>

definition s64_add :: "int \<Rightarrow> int \<Rightarrow> int outcome" where
  "s64_add a b = (if - (2 ^ 63) \<le> a + b \<and> a + b < 2 ^ 63 then Inr (a + b) else Inl SignedOverflow)"

section \<open>The methods of a file\<close>

text \<open>The system call reads \<open>iAmt\<close> bytes (converted to \<open>size_t\<close>) at \<open>zBuf\<close>; reading past the object
  is a fault.\<close>

definition demoDirectWrite ::
    "'s vfs_io \<Rightarrow> DemoFile \<Rightarrow> byte list \<Rightarrow> int \<Rightarrow> int \<Rightarrow> 's \<Rightarrow> (int \<times> 's) outcome" where
  "demoDirectWrite io p zBuf iAmt iOfst s =
     (let (ofst, s) = io_lseek io (df_fd p) (word_of_int iOfst) SEEK_SET s in
      if sint ofst \<noteq> iOfst then Inr (SQLITE_IOERR_WRITE, s)
      else if length zBuf < unat (word_of_int iAmt :: u64) then Inl OutOfBounds
      else
        let (nWrite, s) = io_write io (df_fd p) zBuf (word_of_int iAmt) s in
        if nWrite \<noteq> word_of_int iAmt then Inr (SQLITE_IOERR_WRITE, s) else Inr (SQLITE_OK, s))"

text \<open>\<open>nBuffer\<close> is reset whether or not the write succeeded.\<close>

definition demoFlushBuffer :: "'s vfs_io \<Rightarrow> DemoFile \<Rightarrow> 's \<Rightarrow> (int \<times> DemoFile \<times> 's) outcome" where
  "demoFlushBuffer io p s =
     (if nBuffer p \<noteq> 0 then
        case aBuffer p of
          None \<Rightarrow> Inl NullDeref
        | Some buf \<Rightarrow>
            bind_outcome (demoDirectWrite io p buf (nBuffer p) (iBufferOfst p) s) (\<lambda>(rc, s).
            Inr (rc, p\<lparr>nBuffer := 0\<rparr>, s))
      else Inr (SQLITE_OK, p, s))"

text \<open>\<open>sqlite3_free (p->aBuffer)\<close>: the buffer is gone, the pointer dangles.\<close>

definition demoClose :: "'s vfs_io \<Rightarrow> DemoFile \<Rightarrow> 's \<Rightarrow> (int \<times> DemoFile \<times> 's) outcome" where
  "demoClose io p s =
     bind_outcome (demoFlushBuffer io p s) (\<lambda>(rc, p, s).
     let (_, s) = io_close io (df_fd p) s in
     Inr (rc, p\<lparr>aBuffer := None\<rparr>, s))"

text \<open>The result has the new content of \<open>zBuf\<close>; \<open>nRead\<close> is the low half of the returned value.\<close>

definition demoRead ::
    "'s vfs_io \<Rightarrow> DemoFile \<Rightarrow> byte list \<Rightarrow> int \<Rightarrow> int \<Rightarrow> 's \<Rightarrow>
       (int \<times> byte list \<times> DemoFile \<times> 's) outcome" where
  "demoRead io p zBuf iAmt iOfst s =
     bind_outcome (demoFlushBuffer io p s) (\<lambda>(rc, p, s).
     if rc \<noteq> SQLITE_OK then Inr (rc, zBuf, p, s)
     else
       let (ofst, s) = io_lseek io (df_fd p) (word_of_int iOfst) SEEK_SET s in
       if sint ofst \<noteq> iOfst then Inr (SQLITE_IOERR_READ, zBuf, p, s)
       else
         let ((r, bytes), s) = io_read io (df_fd p) (word_of_int iAmt) s;
             nRead = sint (u64_to_int r);
             stored = (case bytes of None \<Rightarrow> [] | Some bs \<Rightarrow> bs) in
         if length zBuf < length stored then Inl OutOfBounds
         else
           let zBuf = overwrite zBuf 0 stored in
           if nRead = iAmt then Inr (SQLITE_OK, zBuf, p, s)
           else if nRead \<ge> 0 then
             (if nRead < iAmt then
                if length zBuf < nat iAmt then Inl OutOfBounds
                else Inr (SQLITE_IOERR_SHORT_READ,
                          overwrite zBuf (nat nRead) (replicate (nat (iAmt - nRead)) 0), p, s)
              else Inr (SQLITE_IOERR_SHORT_READ, zBuf, p, s))
           else Inr (SQLITE_IOERR_READ, zBuf, p, s))"

text \<open>
  One round of the loop of \<open>demoWrite\<close>: \<open>z\<close> is the data that remains, \<open>i\<close> its file offset.  The
  result is the code of a failed flush, or 0 and the number \<open>nCopy\<close> of bytes copied.
\<close>

definition demoWrite_chunk ::
    "'s vfs_io \<Rightarrow> DemoFile \<Rightarrow> byte list \<Rightarrow> int \<Rightarrow> int \<Rightarrow> 's \<Rightarrow>
       (int \<times> int \<times> DemoFile \<times> 's) outcome" where
  "demoWrite_chunk io p z n i s =
     bind_outcome
       (if nBuffer p = SQLITE_TEEVFS_BUFFERSZ then Inr True
        else bind_outcome (s64_add (iBufferOfst p) (nBuffer p)) (\<lambda>e. Inr (e \<noteq> i))) (\<lambda>flush.
     bind_outcome (if flush then demoFlushBuffer io p s else Inr (SQLITE_OK, p, s)) (\<lambda>(rc, p, s).
     if rc \<noteq> SQLITE_OK then Inr (rc, 0, p, s)
     else if nBuffer p \<noteq> 0 \<and> iBufferOfst p + nBuffer p \<noteq> i then Inl AssertFailed
     else
       bind_outcome (s64_add i (- nBuffer p)) (\<lambda>ofst.
       let p = p\<lparr>iBufferOfst := ofst\<rparr>;
           nCopy = min (SQLITE_TEEVFS_BUFFERSZ - nBuffer p) n in
       case aBuffer p of
         None \<Rightarrow> Inl NullDeref
       | Some buf \<Rightarrow>
           if nCopy < 0 \<or> nBuffer p < 0 \<or> int (length buf) < nBuffer p + nCopy \<or> int (length z) < nCopy
           then Inl OutOfBounds
           else Inr (SQLITE_OK, nCopy,
                     p\<lparr>aBuffer := Some (overwrite buf (nat (nBuffer p)) (take (nat nCopy) z)),
                       nBuffer := nBuffer p + nCopy\<rparr>, s))))"

lemma flush_nBuffer:
  "demoFlushBuffer io p s = Inr (rc, p', s') \<Longrightarrow> nBuffer p' = 0"
  by (auto simp: demoFlushBuffer_def split: if_splits option.splits elim!: bind_outcome_InrE)

text \<open>Every round copies at least one byte: a full buffer has been flushed.\<close>

lemma chunk_progress:
  assumes "demoWrite_chunk io p z n i s = Inr (SQLITE_OK, nCopy, p', s')" and "0 < n"
  shows "0 < nCopy"
  using assms flush_nBuffer
  by (fastforce simp: demoWrite_chunk_def SQLITE_TEEVFS_BUFFERSZ_def Let_def min_def
      split: if_splits option.splits prod.splits elim!: bind_outcome_InrE)

function demoWrite_loop ::
    "'s vfs_io \<Rightarrow> DemoFile \<Rightarrow> byte list \<Rightarrow> int \<Rightarrow> int \<Rightarrow> 's \<Rightarrow> (int \<times> DemoFile \<times> 's) outcome" where
  "demoWrite_loop io p z n i s =
     (if n \<le> 0 then Inr (SQLITE_OK, p, s)
      else case demoWrite_chunk io p z n i s of
             Inl f \<Rightarrow> Inl f
           | Inr (rc, nCopy, p, s) \<Rightarrow>
               if rc \<noteq> SQLITE_OK then Inr (rc, p, s)
               else case s64_add i nCopy of
                      Inl f \<Rightarrow> Inl f
                    | Inr i \<Rightarrow> demoWrite_loop io p (drop (nat nCopy) z) (n - nCopy) i s)"
  by pat_completeness auto
termination
  by (relation "measure (\<lambda>(io, p, z, n, i, s). nat n)") (auto dest: chunk_progress)

declare demoWrite_loop.simps [simp del]

definition demoWrite ::
    "'s vfs_io \<Rightarrow> DemoFile \<Rightarrow> byte list \<Rightarrow> int \<Rightarrow> int \<Rightarrow> 's \<Rightarrow> (int \<times> DemoFile \<times> 's) outcome" where
  "demoWrite io p zBuf iAmt iOfst s =
     (if aBuffer p \<noteq> None then demoWrite_loop io p zBuf iAmt iOfst s
      else bind_outcome (demoDirectWrite io p zBuf iAmt iOfst s) (\<lambda>(rc, s). Inr (rc, p, s)))"

definition demoTruncate :: "'s vfs_io \<Rightarrow> DemoFile \<Rightarrow> int \<Rightarrow> 's \<Rightarrow> (int \<times> DemoFile \<times> 's) outcome" where
  "demoTruncate io p sz s = Inr (SQLITE_OK, p, s)"

definition demoSync :: "'s vfs_io \<Rightarrow> DemoFile \<Rightarrow> 's \<Rightarrow> (int \<times> DemoFile \<times> 's) outcome" where
  "demoSync io p s =
     bind_outcome (demoFlushBuffer io p s) (\<lambda>(rc, p, s).
     if rc \<noteq> SQLITE_OK then Inr (rc, p, s)
     else let (rc, s) = io_fsync io (df_fd p) s in
          Inr (if rc = 0 then SQLITE_OK else SQLITE_IOERR_FSYNC, p, s))"

text \<open>The second component is what is stored through \<open>pSize\<close>.\<close>

definition demoFileSize ::
    "'s vfs_io \<Rightarrow> DemoFile \<Rightarrow> 's \<Rightarrow> (int \<times> int option \<times> DemoFile \<times> 's) outcome" where
  "demoFileSize io p s =
     bind_outcome (demoFlushBuffer io p s) (\<lambda>(rc, p, s).
     if rc \<noteq> SQLITE_OK then Inr (rc, None, p, s)
     else let (rc, s) = io_filesize io (df_fd p) s in
          if rc = - 1 then Inr (SQLITE_IOERR_FSTAT, None, p, s)
          else Inr (SQLITE_OK, Some (sint rc), p, s))"

text \<open>The methods that do nothing; \<open>demoCheckReservedLock\<close> also stores 0 through \<open>pResOut\<close>.\<close>

definition demoLock :: "DemoFile \<Rightarrow> int \<Rightarrow> int" where
  "demoLock p eLock = SQLITE_OK"

definition demoUnlock :: "DemoFile \<Rightarrow> int \<Rightarrow> int" where
  "demoUnlock p eLock = SQLITE_OK"

definition demoCheckReservedLock :: "DemoFile \<Rightarrow> int \<times> int" where
  "demoCheckReservedLock p = (SQLITE_OK, 0)"

definition demoFileControl :: "DemoFile \<Rightarrow> int \<Rightarrow> int" where
  "demoFileControl p op = SQLITE_NOTFOUND"

definition demoSectorSize :: "DemoFile \<Rightarrow> int" where
  "demoSectorSize p = 0"

definition demoDeviceCharacteristics :: "DemoFile \<Rightarrow> int" where
  "demoDeviceCharacteristics p = 0"

section \<open>The methods of the VFS\<close>

text \<open>\<open>zName\<close> is \<open>None\<close> for the null pointer.  The results: the code, the file structure, what is
  stored through \<open>pOutFlags\<close>.\<close>

definition open_flags :: "s32 \<Rightarrow> s32" where
  "open_flags flags =
     (let oflags = (if flags AND SQLITE_OPEN_EXCLUSIVE \<noteq> 0 then O_EXCL else 0);
          oflags = (if flags AND SQLITE_OPEN_CREATE \<noteq> 0 then oflags OR O_CREAT else oflags);
          oflags = (if flags AND SQLITE_OPEN_READONLY \<noteq> 0 then oflags OR O_RDONLY else oflags) in
      if flags AND SQLITE_OPEN_READWRITE \<noteq> 0 then oflags OR O_RDWR else oflags)"

definition demoOpen ::
    "'s vfs_io \<Rightarrow> byte list option \<Rightarrow> DemoFile \<Rightarrow> s32 \<Rightarrow> 's \<Rightarrow> (int \<times> DemoFile \<times> s32 option) \<times> 's" where
  "demoOpen io zName p flags s =
     (case zName of
        None \<Rightarrow> ((SQLITE_IOERR, p, None), s)
      | Some name \<Rightarrow>
          let journal = flags AND SQLITE_OPEN_MAIN_JOURNAL \<noteq> 0;
              (aBuf, s) = (if journal then sqlite3_malloc io (word_of_int SQLITE_TEEVFS_BUFFERSZ) s
                           else (None, s)) in
          if journal \<and> aBuf = None then ((SQLITE_NOMEM, p, None), s)
          else
            let (fd, s) = io_open io name (open_flags flags) 0x180 s;
                p = zero_file\<lparr>df_fd := fd\<rparr> in
            if sint fd < 0 then ((SQLITE_CANTOPEN, p, None), s)
            else ((SQLITE_OK,
                   p\<lparr>aBuffer := map_option (fit (nat SQLITE_TEEVFS_BUFFERSZ)) aBuf, pMethods := True\<rparr>,
                   Some flags), s))"

text \<open>\<open>strrchr\<close>, as the index of the last occurrence.\<close>

fun strrchr :: "byte \<Rightarrow> byte list \<Rightarrow> nat option" where
  "strrchr c [] = None"
| "strrchr c (x # xs) =
     (case strrchr c xs of Some k \<Rightarrow> Some (Suc k) | None \<Rightarrow> if x = c then Some 0 else None)"

text \<open>
  The string in a local array of \<open>n + 1\<close> characters, of which \<open>stored\<close> have been written, after
  \<open>a[n] = 0\<close>.
\<close>

definition local_string :: "nat \<Rightarrow> byte list \<Rightarrow> byte list outcome" where
  "local_string n stored =
     (if Suc n < length stored then Inl OutOfBounds
      else if 0 \<in> set (take n stored) \<or> n \<le> length stored
      then Inr (takeWhile (\<lambda>c. c \<noteq> 0) (take n stored))
      else Inl UninitRead)"

text \<open>\<open>errno\<close> is the local variable that shadows the library's.\<close>

definition demoDelete :: "'s vfs_io \<Rightarrow> byte list \<Rightarrow> bool \<Rightarrow> 's \<Rightarrow> (int \<times> 's) outcome" where
  "demoDelete io zPath dirSync s =
     (let ((rc, e), s) = io_unlink io zPath s;
          errno = (case e of None \<Rightarrow> 0 | Some x \<Rightarrow> x) in
      if rc \<noteq> 0 \<and> errno = ENOENT then Inr (SQLITE_OK, s)
      else if rc = 0 \<and> dirSync then
        bind_outcome (local_string (nat MAXPATHNAME) (sqlite3_snprintf io MAXPATHNAME zPath)) (\<lambda>zDir.
        case strrchr 47 zDir of
          None \<Rightarrow> Inr (SQLITE_OK, s)
        | Some zSlash \<Rightarrow>
            let (dfd, s) = io_open io (take zSlash zDir) O_RDONLY 0 s in
            if sint dfd < 0 then Inr (SQLITE_IOERR_DELETE, s)
            else
              let (rc, s) = io_fsync io dfd s;
                  (_, s) = io_close io dfd s in
              Inr (if rc = 0 then SQLITE_OK else SQLITE_IOERR_DELETE, s))
      else Inr (if rc = 0 then SQLITE_OK else SQLITE_IOERR_DELETE, s))"

abbreviation SQLITE_ACCESS_EXISTS :: int where "SQLITE_ACCESS_EXISTS \<equiv> 0"
abbreviation SQLITE_ACCESS_READWRITE :: int where "SQLITE_ACCESS_READWRITE \<equiv> 1"
abbreviation SQLITE_ACCESS_READ :: int where "SQLITE_ACCESS_READ \<equiv> 2"

text \<open>The second component is what is stored through \<open>pResOut\<close>.\<close>

definition demoAccess :: "'s vfs_io \<Rightarrow> byte list \<Rightarrow> int \<Rightarrow> 's \<Rightarrow> (int \<times> bool \<times> 's) outcome" where
  "demoAccess io zPath flags s =
     (if flags \<notin> {SQLITE_ACCESS_EXISTS, SQLITE_ACCESS_READ, SQLITE_ACCESS_READWRITE}
      then Inl AssertFailed
      else
        let eAccess = (if flags = SQLITE_ACCESS_READWRITE then R_OK OR W_OK else F_OK);
            eAccess = (if flags = SQLITE_ACCESS_READ then R_OK else eAccess);
            (rc, s) = io_access io zPath eAccess s in
        Inr (SQLITE_OK, rc = 0, s))"

text \<open>The text is expanded into \<open>zPathOut\<close>, an object of the caller, whose last byte is then set to 0.\<close>

definition print_into :: "'s vfs_io \<Rightarrow> int \<Rightarrow> byte list \<Rightarrow> byte list \<Rightarrow> byte list outcome" where
  "print_into io n txt out =
     (let stored = sqlite3_snprintf io n txt in
      if length out < length stored \<or> n < 1 \<or> int (length out) < n then Inl OutOfBounds
      else Inr ((overwrite out 0 stored)[nat (n - 1) := 0]))"

definition demoFullPathname ::
    "'s vfs_io \<Rightarrow> byte list \<Rightarrow> int \<Rightarrow> byte list \<Rightarrow> 's \<Rightarrow> (int \<times> byte list \<times> 's) outcome" where
  "demoFullPathname io zPath nPathOut zPathOut s =
     (let absolute = (zPath \<noteq> [] \<and> hd zPath = 47);
          ((ok, dir), s) =
            (if absolute then ((True, Some [0]), s)
             else io_getcwd io (word_of_int (MAXPATHNAME + 1)) s) in
      if \<not> ok then Inr (SQLITE_IOERR, zPathOut, s)
      else
        bind_outcome (local_string (nat MAXPATHNAME) (case dir of None \<Rightarrow> [] | Some d \<Rightarrow> d)) (\<lambda>zDir.
        bind_outcome (print_into io nPathOut (zDir @ [47] @ zPath) zPathOut) (\<lambda>out.
        Inr (SQLITE_OK, out, s))))"

text \<open>Extensions cannot be loaded: the null pointer, a message, the null pointer.\<close>

definition demoDlOpen :: "byte list \<Rightarrow> ptr" where
  "demoDlOpen zPath = Null"

definition demoDlError :: "'s vfs_io \<Rightarrow> int \<Rightarrow> byte list \<Rightarrow> byte list outcome" where
  "demoDlError io nByte zErrMsg =
     print_into io nByte (map of_char ''Loadable extensions are not supported'') zErrMsg"

definition demoDlSym :: "byte list \<Rightarrow> ptr" where
  "demoDlSym z = Null"

text \<open>Nothing is stored in the caller's buffer.\<close>

definition demoRandomness :: "int \<Rightarrow> byte list \<Rightarrow> int \<times> byte list" where
  "demoRandomness nByte zByte = (SQLITE_OK, zByte)"

definition demoSleep :: "'s vfs_io \<Rightarrow> int \<Rightarrow> 's \<Rightarrow> int \<times> 's" where
  "demoSleep io nMicro s =
     (let (_, s) = io_sleep io (word_of_int (nMicro sdiv 1000000)) s;
          s = io_usleep io (word_of_int (nMicro smod 1000000)) s in
      (nMicro, s))"

section \<open>What an open file promises\<close>

text \<open>
  \<open>view s fd\<close> is the content of the open file \<open>fd\<close> and the position of its next transfer.  Seeking may
  fail and writes and reads may be short or fail, as POSIX allows.
\<close>

locale file_io =
  fixes io :: "'s vfs_io" and view :: "'s \<Rightarrow> s32 \<Rightarrow> (byte list \<times> nat) option"
  assumes lseek_law: "view s fd = Some (bs, pos) \<Longrightarrow> 0 \<le> sint ofst \<Longrightarrow>
      io_lseek io fd ofst SEEK_SET s = (r, t) \<Longrightarrow>
        r = ofst \<and> view t fd = Some (bs, unat ofst) \<or> r \<noteq> ofst \<and> view t fd = Some (bs, pos)"
    and write_law: "view s fd = Some (bs, pos) \<Longrightarrow> unat n \<le> length buf \<Longrightarrow> unat n < 2 ^ 31 \<Longrightarrow>
      io_write io fd buf n s = (r, t) \<Longrightarrow>
        (\<exists>k \<le> unat n. r = word_of_nat k \<and> view t fd = Some (overwrite bs pos (take k buf), pos + k))
        \<or> r = - 1 \<and> view t fd = Some (bs, pos)"
    and read_law: "view s fd = Some (bs, pos) \<Longrightarrow> unat n < 2 ^ 31 \<Longrightarrow>
      io_read io fd n s = ((r, data), t) \<Longrightarrow>
        (\<exists>k d. r = word_of_nat k \<and> k \<le> length bs - pos \<and> data = Some d \<and> k \<le> length d \<and>
           length d \<le> unat n \<and> take k d = subbytes bs pos k \<and> view t fd = Some (bs, pos + k))
        \<or> r = - 1 \<and> view t fd = Some (bs, pos) \<and>
          (case data of None \<Rightarrow> True | Some d \<Rightarrow> length d \<le> unat n)"
    and fsync_law: "view s fd = Some v \<Longrightarrow> io_fsync io fd s = (r0, t) \<Longrightarrow> view t fd = Some v"
    and filesize_law: "view s fd = Some (bs, pos) \<Longrightarrow> io_filesize io fd s = (r, t) \<Longrightarrow>
        (r = - 1 \<or> r = word_of_nat (length bs)) \<and> view t fd = Some (bs, pos)"

text \<open>The state of a file structure between calls.\<close>

definition file_ok :: "DemoFile \<Rightarrow> bool" where
  "file_ok p \<longleftrightarrow>
     (case aBuffer p of None \<Rightarrow> nBuffer p = 0 | Some buf \<Rightarrow> int (length buf) = SQLITE_TEEVFS_BUFFERSZ) \<and>
     0 \<le> nBuffer p \<and> nBuffer p \<le> SQLITE_TEEVFS_BUFFERSZ \<and> 0 \<le> iBufferOfst p \<and>
     iBufferOfst p + nBuffer p < 2 ^ 63"

text \<open>The bytes in the buffer, and the content of the file with them laid over it.\<close>

definition pending :: "DemoFile \<Rightarrow> byte list" where
  "pending p = (case aBuffer p of None \<Rightarrow> [] | Some buf \<Rightarrow> take (nat (nBuffer p)) buf)"

definition client_view :: "DemoFile \<Rightarrow> byte list \<Rightarrow> byte list" where
  "client_view p bs = overwrite bs (nat (iBufferOfst p)) (pending p)"

text \<open>\<open>sees view s p c\<close>: the client of the open file \<open>p\<close> sees the content \<open>c\<close>.\<close>

definition sees :: "('s \<Rightarrow> s32 \<Rightarrow> (byte list \<times> nat) option) \<Rightarrow> 's \<Rightarrow> DemoFile \<Rightarrow> byte list \<Rightarrow> bool" where
  "sees view s p c \<longleftrightarrow> file_ok p \<and> (case view s (df_fd p) of None \<Rightarrow> False | Some (bs, _) \<Rightarrow> client_view p bs = c)"

lemma pending_empty [simp]: "nBuffer p = 0 \<Longrightarrow> pending p = []"
  by (simp add: pending_def split: option.split)

lemma client_view_flushed [simp]: "nBuffer p = 0 \<Longrightarrow> client_view p bs = bs"
  by (simp add: client_view_def)

lemma file_ok_reset [simp]: "file_ok p \<Longrightarrow> file_ok (p\<lparr>nBuffer := 0\<rparr>)"
  by (auto simp: file_ok_def SQLITE_TEEVFS_BUFFERSZ_def split: option.splits)

lemma length_pending: "file_ok p \<Longrightarrow> length (pending p) = nat (nBuffer p)"
  by (auto simp: file_ok_def pending_def split: option.splits)

lemma sint_word_of_int_s64 [simp]: "0 \<le> x \<Longrightarrow> x < 2 ^ 63 \<Longrightarrow> sint (word_of_int x :: s64) = x"
  by (simp add: sint_sbintrunc' signed_take_bit_int_eq_self)

lemma unat_word_of_int_64 [simp]: "0 \<le> x \<Longrightarrow> x < 2 ^ 64 \<Longrightarrow> unat (word_of_int x :: 64 word) = nat x"
  by (simp add: unsigned_of_int take_bit_int_eq_self)

text \<open>Copying into a buffer that has room and ends where the data belongs.\<close>

lemma fill_buffer:
  assumes ok: "file_ok p" and buf: "aBuffer p = Some buf"
    and room: "nBuffer p < SQLITE_TEEVFS_BUFFERSZ" "nBuffer p \<noteq> 0 \<longrightarrow> iBufferOfst p + nBuffer p = i"
    and n: "0 < n" and i: "0 \<le> i" "i + n < 2 ^ 63" and z: "nat n \<le> length z"
    and c: "c = min (SQLITE_TEEVFS_BUFFERSZ - nBuffer p) n"
    and p': "p' = p\<lparr>iBufferOfst := i - nBuffer p,
        aBuffer := Some (overwrite buf (nat (nBuffer p)) (take (nat c) z)), nBuffer := nBuffer p + c\<rparr>"
  shows "file_ok p'" and "client_view p' bs = overwrite (client_view p bs) (nat i) (take (nat c) z)"
proof -
  have rng: "0 \<le> nBuffer p" "0 < c" "c \<le> n" "int (length buf) = SQLITE_TEEVFS_BUFFERSZ"
    "0 \<le> iBufferOfst p" and sz: "nBuffer p + c \<le> SQLITE_TEEVFS_BUFFERSZ"
    using ok buf n room(1) c by (auto simp: file_ok_def)
  have zl: "length (take (nat c) z) = nat c" using z rng by simp
  then have fits: "nat (nBuffer p) + length (take (nat c) z) \<le> length buf"
    using rng sz by linarith
  show "file_ok p'"
    using rng sz i room(2) fits ok zl
    by (auto simp: p' file_ok_def split: option.splits)
  have pend: "pending p' = pending p @ take (nat c) z"
  proof -
    have "overwrite buf (nat (nBuffer p)) (take (nat c) z) =
        take (nat (nBuffer p)) buf @ take (nat c) z @ drop (nat (nBuffer p) + nat c) buf"
      using overwrite_within [OF fits] zl by simp
    moreover have "nat (nBuffer p + c) = nat (nBuffer p) + nat c" using rng by simp
    ultimately show ?thesis using buf zl fits by (simp add: pending_def p')
  qed
  show "client_view p' bs = overwrite (client_view p bs) (nat i) (take (nat c) z)"
  proof (cases "nBuffer p = 0")
    case True
    then show ?thesis by (simp add: client_view_def pend) (simp add: p')
  next
    case False
    with room(2) have "nat (iBufferOfst p) + length (pending p) = nat i"
      using length_pending [OF ok] rng by (simp add: nat_add_distrib [symmetric])
    moreover have "iBufferOfst p' = iBufferOfst p" using False room(2) by (simp add: p')
    ultimately show ?thesis
      using overwrite_append [of bs "nat (iBufferOfst p)" "pending p"] by (simp add: client_view_def pend)
  qed
qed

lemma low_half_nat: "k < 2 ^ 31 \<Longrightarrow> sint (u64_to_int (word_of_nat k)) = int k"
proof -
  assume k: "k < 2 ^ 31"
  then have "u64_to_int (word_of_nat k) = word_of_nat k"
    by (simp add: unsigned_of_nat take_bit_nat_eq_self)
  moreover have "sint (word_of_nat k :: s32) = signed_take_bit 31 (int k)"
    by (simp add: signed_of_nat)
  ultimately show ?thesis using k by (simp add: signed_take_bit_int_eq_self)
qed

text \<open>A write that covers the tail of the one before it.\<close>

lemma overwrite_shadow:
  assumes "k \<le> length e" and "length e \<le> k + length r" and "k + length r \<le> length xs"
  shows "overwrite (overwrite xs 0 e) k r = overwrite xs 0 (take k e @ r)"
proof -
  have a: "overwrite xs 0 e = e @ drop (length e) xs"
    and b: "overwrite xs 0 (take k e @ r) = take k e @ r @ drop (k + length r) xs"
    using assms by (simp_all add: overwrite_within)
  have "k + length r \<le> length (e @ drop (length e) xs)" using assms by simp
  then show ?thesis unfolding a b using assms by (simp add: overwrite_within)
qed

text \<open>
  A round of the loop once the flush, if one is due, has been made: \<open>p1\<close> is the file structure after it,
  \<open>q\<close> that with the bytes copied.
\<close>

lemma chunk_run:
  assumes ok: "file_ok p" "aBuffer p = Some b" and n: "0 < n" and i: "0 \<le> i" "i + n < 2 ^ 63" and z: "nat n \<le> length z"
    and due: "due \<longleftrightarrow> nBuffer p = SQLITE_TEEVFS_BUFFERSZ \<or> iBufferOfst p + nBuffer p \<noteq> i"
    and st: "(if due then demoFlushBuffer io p s else Inr (SQLITE_OK, p, s)) = Inr (rc, p1, t)"
    and p1: "p1 = (if due then p\<lparr>nBuffer := 0\<rparr> else p)"
    and c: "c = min (SQLITE_TEEVFS_BUFFERSZ - nBuffer p1) n"
    and q: "q = p1\<lparr>iBufferOfst := i - nBuffer p1,
        aBuffer := Some (overwrite b (nat (nBuffer p1)) (take (nat c) z)), nBuffer := nBuffer p1 + c\<rparr>"
  shows "demoWrite_chunk io p z n i s = Inr (if rc = SQLITE_OK then (SQLITE_OK, c, q, t) else (rc, 0, p1, t))"
    and "file_ok p1" and "file_ok q" and "0 < c" and "c \<le> n"
    and "client_view q bs = overwrite (client_view p1 bs) (nat i) (take (nat c) z)"
proof -
  have cond: "(if nBuffer p = SQLITE_TEEVFS_BUFFERSZ then Inr True
        else bind_outcome (s64_add (iBufferOfst p) (nBuffer p)) (\<lambda>e. Inr (e \<noteq> i))) = Inr due"
    using ok by (auto simp: due s64_add_def file_ok_def)
  have "nBuffer p \<le> SQLITE_TEEVFS_BUFFERSZ" using ok by (simp add: file_ok_def)
  then have room: "nBuffer p1 < SQLITE_TEEVFS_BUFFERSZ" "nBuffer p1 \<noteq> 0 \<longrightarrow> iBufferOfst p1 + nBuffer p1 = i"
    by (auto simp: p1 due SQLITE_TEEVFS_BUFFERSZ_def)
  show ok1: "file_ok p1" using ok by (simp add: p1)
  have b: "aBuffer p1 = Some b" using ok by (simp add: p1)
  show "file_ok q" "client_view q bs = overwrite (client_view p1 bs) (nat i) (take (nat c) z)"
    by (rule fill_buffer [OF ok1 b room n i z c q])+
  have rng: "0 \<le> nBuffer p1" "int (length b) = SQLITE_TEEVFS_BUFFERSZ" "nBuffer p1 + c \<le> SQLITE_TEEVFS_BUFFERSZ"
    using ok1 b by (auto simp: file_ok_def c)
  show c0: "0 < c" and cn: "c \<le> n" using room(1) n by (simp_all add: c)
  have bounds: "\<not> c < 0" "\<not> nBuffer p1 < 0" "\<not> int (length b) < nBuffer p1 + c" "\<not> int (length z) < c"
    using rng z c0 cn by linarith+
  have noassert: "nBuffer p1 = 0 \<or> iBufferOfst p1 + nBuffer p1 = i" using room(2) by auto
  have "s64_add i (- nBuffer p1) = Inr (i - nBuffer p1)"
    using i n rng room(1) by (auto simp: s64_add_def SQLITE_TEEVFS_BUFFERSZ_def)
  then show "demoWrite_chunk io p z n i s = Inr (if rc = SQLITE_OK then (SQLITE_OK, c, q, t) else (rc, 0, p1, t))"
    using st b bounds noassert
    by (simp add: demoWrite_chunk_def cond Let_def c [symmetric] q) blast
qed

context file_io
begin

lemma direct_write:
  assumes v: "view s (df_fd p) = Some (bs, pos)"
    and amt: "0 \<le> iAmt" "iAmt < 2 ^ 31" "nat iAmt \<le> length zBuf" and ofs: "0 \<le> iOfst" "iOfst < 2 ^ 63"
  obtains rc t bs' pos' where "demoDirectWrite io p zBuf iAmt iOfst s = Inr (rc, t)"
    and "view t (df_fd p) = Some (bs', pos')"
    and "rc = SQLITE_OK \<and> bs' = overwrite bs (nat iOfst) (take (nat iAmt) zBuf) \<or>
         rc = SQLITE_IOERR_WRITE \<and> (\<exists>k \<le> nat iAmt. bs' = overwrite bs (nat iOfst) (take k zBuf))"
proof -
  let ?n = "word_of_int iAmt :: u64"
  obtain o' s1 where sk: "io_lseek io (df_fd p) (word_of_int iOfst) SEEK_SET s = (o', s1)" by fastforce
  obtain r s2 where wr: "io_write io (df_fd p) zBuf ?n s1 = (r, s2)" by fastforce
  have n: "unat ?n = nat iAmt" and ofst: "sint (word_of_int iOfst :: s64) = iOfst"
    "unat (word_of_int iOfst :: s64) = nat iOfst"
    using amt ofs by simp_all
  have eq: "o' = word_of_int iOfst" if "sint o' = iOfst"
    using that [symmetric] by simp
  have sk': "o' = word_of_int iOfst \<and> view s1 (df_fd p) = Some (bs, nat iOfst) \<or>
      sint o' \<noteq> iOfst \<and> view s1 (df_fd p) = Some (bs, pos)"
    using lseek_law [OF v _ sk] ofst ofs(1) eq by auto
  show ?thesis
  proof (cases "sint o' = iOfst")
    case False
    have "bs = overwrite bs (nat iOfst) (take 0 zBuf)" by simp
    with False sk sk' ofst show ?thesis
      by (intro that [of SQLITE_IOERR_WRITE s1 bs pos]) (auto simp: demoDirectWrite_def)
  next
    case True
    with sk' ofst have v1: "view s1 (df_fd p) = Some (bs, nat iOfst)" by auto
    have len: "unat ?n \<le> length zBuf" "unat ?n < 2 ^ 31" using n amt by auto
    from write_law [OF v1 len wr] show ?thesis
    proof (elim disjE exE conjE)
      fix k
      assume k: "k \<le> unat ?n" "r = word_of_nat k"
        "view s2 (df_fd p) = Some (overwrite bs (nat iOfst) (take k zBuf), nat iOfst + k)"
      show ?thesis
      proof (cases "r = ?n")
        case True
        then have "k = nat iAmt"
          using k(1,2) n len(2) by (metis le_unat_uoi)
        with True k sk wr \<open>sint o' = iOfst\<close> len show ?thesis
          by (intro that [of SQLITE_OK s2]) (auto simp: demoDirectWrite_def)
      next
        case False
        with k sk wr \<open>sint o' = iOfst\<close> len n show ?thesis
          by (intro that [of SQLITE_IOERR_WRITE s2]) (auto simp: demoDirectWrite_def)
      qed
    next
      assume r: "r = - 1" "view s2 (df_fd p) = Some (bs, nat iOfst)"
      have "sint ?n = iAmt" using amt by simp
      have ne: "r \<noteq> ?n"
      proof
        assume "r = ?n"
        then have "sint ?n = - 1" using r(1) by (metis sint_n1)
        with \<open>sint ?n = iAmt\<close> amt show False by simp
      qed
      have "bs = overwrite bs (nat iOfst) (take 0 zBuf)" by simp
      with ne r sk wr \<open>sint o' = iOfst\<close> len show ?thesis
        by (intro that [of SQLITE_IOERR_WRITE s2 bs]) (auto simp: demoDirectWrite_def)
    qed
  qed
qed

text \<open>A flush makes the buffered bytes part of the file, or drops what was not written.\<close>

lemma flush:
  assumes ok: "file_ok p" and v: "view s (df_fd p) = Some (bs, pos)"
  obtains rc t bs' pos' where "demoFlushBuffer io p s = Inr (rc, p\<lparr>nBuffer := 0\<rparr>, t)"
    and "view t (df_fd p) = Some (bs', pos')"
    and "rc = SQLITE_OK \<and> bs' = client_view p bs \<or>
         rc = SQLITE_IOERR_WRITE \<and>
           (\<exists>k \<le> length (pending p). bs' = overwrite bs (nat (iBufferOfst p)) (take k (pending p)))"
proof (cases "nBuffer p = 0")
  case True
  then have "p\<lparr>nBuffer := 0\<rparr> = p" by simp
  with True v show ?thesis by (intro that [of SQLITE_OK s bs]) (simp_all add: demoFlushBuffer_def)
next
  case False
  with ok obtain buf where buf: "aBuffer p = Some buf" by (auto simp: file_ok_def split: option.splits)
  have r: "0 \<le> nBuffer p" "nBuffer p < 2 ^ 31" "nat (nBuffer p) \<le> length buf"
      "0 \<le> iBufferOfst p" "iBufferOfst p < 2 ^ 63"
    using ok buf by (auto simp: file_ok_def SQLITE_TEEVFS_BUFFERSZ_def)
  have pend: "pending p = take (nat (nBuffer p)) buf" "length (pending p) = nat (nBuffer p)"
    using buf r(3) by (simp_all add: pending_def)
  obtain rc t bs' pos' where d: "demoDirectWrite io p buf (nBuffer p) (iBufferOfst p) s = Inr (rc, t)"
    "view t (df_fd p) = Some (bs', pos')"
    "rc = SQLITE_OK \<and> bs' = overwrite bs (nat (iBufferOfst p)) (take (nat (nBuffer p)) buf) \<or>
     rc = SQLITE_IOERR_WRITE \<and>
       (\<exists>k \<le> nat (nBuffer p). bs' = overwrite bs (nat (iBufferOfst p)) (take k buf))"
    by (rule direct_write [OF v r]) blast
  show ?thesis
  proof (rule that [of rc t bs' pos'])
    show "demoFlushBuffer io p s = Inr (rc, p\<lparr>nBuffer := 0\<rparr>, t)"
      using False buf d(1) by (simp add: demoFlushBuffer_def)
    show "view t (df_fd p) = Some (bs', pos')" by (rule d(2))
    show "rc = SQLITE_OK \<and> bs' = client_view p bs \<or> rc = SQLITE_IOERR_WRITE \<and>
        (\<exists>k \<le> length (pending p). bs' = overwrite bs (nat (iBufferOfst p)) (take k (pending p)))"
      using d(3) pend by (auto simp: client_view_def min_def)
  qed
qed

lemma write_chunk:
  assumes ok: "file_ok p" and buf: "aBuffer p \<noteq> None" and v: "view s (df_fd p) = Some (bs, pos)"
    and n: "0 < n" and i: "0 \<le> i" "i + n < 2 ^ 63" and z: "nat n \<le> length z"
  obtains rc c p' t bs' pos' where "demoWrite_chunk io p z n i s = Inr (rc, c, p', t)"
    and "view t (df_fd p') = Some (bs', pos')" and "file_ok p'" and "df_fd p' = df_fd p"
    and "aBuffer p' \<noteq> None"
    and "rc = SQLITE_OK \<and> 0 < c \<and> c \<le> n \<and>
           client_view p' bs' = overwrite (client_view p bs) (nat i) (take (nat c) z) \<or>
         rc = SQLITE_IOERR_WRITE"
proof -
  define due where "due \<longleftrightarrow> nBuffer p = SQLITE_TEEVFS_BUFFERSZ \<or> iBufferOfst p + nBuffer p \<noteq> i"
  obtain rc p1 t bs1 pos1 where st: "(if due then demoFlushBuffer io p s else Inr (SQLITE_OK, p, s)) = Inr (rc, p1, t)"
    "view t (df_fd p) = Some (bs1, pos1)" "p1 = (if due then p\<lparr>nBuffer := 0\<rparr> else p)"
    "rc = SQLITE_OK \<and> client_view p1 bs1 = client_view p bs \<or> rc = SQLITE_IOERR_WRITE"
  proof (cases due)
    case True
    show ?thesis by (rule flush [OF ok v]) (use True that in auto)
  next
    case False
    then show ?thesis using that v by auto
  qed
  from buf obtain b where b: "aBuffer p = Some b" by auto
  define c where "c = min (SQLITE_TEEVFS_BUFFERSZ - nBuffer p1) n"
  define q where "q = p1\<lparr>iBufferOfst := i - nBuffer p1,
      aBuffer := Some (overwrite b (nat (nBuffer p1)) (take (nat c) z)), nBuffer := nBuffer p1 + c\<rparr>"
  note run = chunk_run [OF ok b n i z due_def st(1,3) c_def q_def]
  have fd: "df_fd p1 = df_fd p" "aBuffer p1 = Some b" using st(3) b by auto
  show ?thesis
  proof (cases "rc = SQLITE_OK")
    case False
    then show ?thesis using run(1,2) st fd by (intro that [of rc 0 p1 t bs1 pos1]) auto
  next
    case True
    then show ?thesis using run st(2,4) fd by (intro that [of SQLITE_OK c q t bs1 pos1]) (auto simp: q_def)
  qed
qed

lemma write_loop:
  assumes "file_ok p" and "aBuffer p \<noteq> None" and "view s (df_fd p) = Some (bs, pos)"
    and "0 \<le> i" and "i + max n 0 < 2 ^ 63" and "nat n \<le> length z"
  shows "\<exists>rc p' t bs' pos'. demoWrite_loop io p z n i s = Inr (rc, p', t) \<and>
    view t (df_fd p') = Some (bs', pos') \<and> file_ok p' \<and> df_fd p' = df_fd p \<and> aBuffer p' \<noteq> None \<and>
    (rc = SQLITE_OK \<and> client_view p' bs' = overwrite (client_view p bs) (nat i) (take (nat n) z) \<or>
     rc = SQLITE_IOERR_WRITE)"
  using assms
proof (induction "nat n" arbitrary: p z n i s bs pos rule: less_induct)
  case less
  show ?case
  proof (cases "n \<le> 0")
    case True
    then show ?thesis using less.prems by (subst demoWrite_loop.simps) auto
  next
    case False
    then have n: "0 < n" and i: "i + n < 2 ^ 63" using less.prems(5) by auto
    obtain rc c p' t bs' pos' where ch: "demoWrite_chunk io p z n i s = Inr (rc, c, p', t)"
      "view t (df_fd p') = Some (bs', pos')" "file_ok p'" "df_fd p' = df_fd p" "aBuffer p' \<noteq> None"
      "rc = SQLITE_OK \<and> 0 < c \<and> c \<le> n \<and>
         client_view p' bs' = overwrite (client_view p bs) (nat i) (take (nat c) z) \<or>
       rc = SQLITE_IOERR_WRITE"
      by (rule write_chunk [OF less.prems(1-3) n less.prems(4) i less.prems(6)]) blast
    show ?thesis
    proof (cases "rc = SQLITE_OK")
      case False
      then have "demoWrite_loop io p z n i s = Inr (rc, p', t)"
        using n ch(1) by (subst demoWrite_loop.simps) simp
      with False ch show ?thesis by auto
    next
      case True
      with ch(6) have c: "0 < c" "c \<le> n"
        and cv: "client_view p' bs' = overwrite (client_view p bs) (nat i) (take (nat c) z)" by auto
      have add: "s64_add i c = Inr (i + c)" using c i less.prems(4) by (simp add: s64_add_def)
      have run: "demoWrite_loop io p z n i s = demoWrite_loop io p' (drop (nat c) z) (n - c) (i + c) t"
        using n ch(1) True add by (subst demoWrite_loop.simps) simp
      have tk: "take (nat n) z = take (nat c) z @ take (nat (n - c)) (drop (nat c) z)"
        using c by (simp add: take_add [symmetric] nat_diff_distrib)
      have len: "length (take (nat c) z) = nat c" using c less.prems(6) by simp
      have "overwrite (client_view p' bs') (nat (i + c)) (take (nat (n - c)) (drop (nat c) z)) =
          overwrite (client_view p bs) (nat i) (take (nat n) z)"
        using overwrite_append [of "client_view p bs" "nat i" "take (nat c) z"] len c less.prems(4)
        by (simp add: cv tk nat_add_distrib)
      moreover have "nat (n - c) < nat n" "0 \<le> i + c" "i + c + max (n - c) 0 < 2 ^ 63"
        "nat (n - c) \<le> length (drop (nat c) z)"
        using c n i less.prems(4,6) by auto
      ultimately show ?thesis
        using less.hyps [of "n - c" p' t bs' pos' "i + c" "drop (nat c) z"] ch(2-5) run by auto
    qed
  qed
qed

lemma sees_open:
  assumes "sees view s p c"
  obtains bs pos where "file_ok p" and "view s (df_fd p) = Some (bs, pos)" and "client_view p bs = c"
  using assms by (auto simp: sees_def split: option.splits)

lemma write_spec:
  assumes sees: "sees view s p c" and amt: "0 \<le> iAmt" "iAmt < 2 ^ 31" "nat iAmt \<le> length zBuf"
    and ofs: "0 \<le> iOfst" "iOfst + iAmt < 2 ^ 63"
  shows "\<exists>rc p' t. demoWrite io p zBuf iAmt iOfst s = Inr (rc, p', t) \<and>
    (rc = SQLITE_OK \<and> sees view t p' (overwrite c (nat iOfst) (take (nat iAmt) zBuf)) \<or>
     rc = SQLITE_IOERR_WRITE \<and> (\<exists>c'. sees view t p' c'))"
proof -
  from sees obtain bs pos where b: "file_ok p" "view s (df_fd p) = Some (bs, pos)" "client_view p bs = c"
    by (rule sees_open)
  show ?thesis
  proof (cases "aBuffer p = None")
    case True
    have nb: "nBuffer p = 0" using b(1) True by (simp add: file_ok_def)
    have ofs': "iOfst < 2 ^ 63" using ofs amt by simp
    obtain rc t bs' pos' where d: "demoDirectWrite io p zBuf iAmt iOfst s = Inr (rc, t)"
      "view t (df_fd p) = Some (bs', pos')"
      "rc = SQLITE_OK \<and> bs' = overwrite bs (nat iOfst) (take (nat iAmt) zBuf) \<or> rc = SQLITE_IOERR_WRITE"
      by (rule direct_write [OF b(2) amt ofs(1) ofs']) blast
    then show ?thesis using True nb b by (auto simp: demoWrite_def sees_def)
  next
    case False
    have "iOfst + max iAmt 0 < 2 ^ 63" using ofs amt by simp
    from write_loop [OF b(1) False b(2) ofs(1) this amt(3)] b(3) False show ?thesis
      by (fastforce simp: demoWrite_def sees_def)
  qed
qed

lemma flush_spec:
  assumes sees: "sees view s p c"
  obtains rc p' t bs pos where "demoFlushBuffer io p s = Inr (rc, p', t)" and "nBuffer p' = 0"
    and "file_ok p'" and "df_fd p' = df_fd p" and "view t (df_fd p') = Some (bs, pos)"
    and "rc = SQLITE_OK \<and> bs = c \<or> rc = SQLITE_IOERR_WRITE"
proof -
  from sees obtain bs pos where b: "file_ok p" "view s (df_fd p) = Some (bs, pos)" "client_view p bs = c"
    by (rule sees_open)
  show ?thesis
    by (rule flush [OF b(1,2)]) (use b(1,3) that in auto)
qed

lemma sync_spec:
  assumes "sees view s p c"
  shows "\<exists>rc p' t. demoSync io p s = Inr (rc, p', t) \<and> nBuffer p' = 0 \<and>
    (rc \<in> {SQLITE_OK, SQLITE_IOERR_FSYNC} \<and> (\<exists>pos. view t (df_fd p') = Some (c, pos)) \<and> sees view t p' c \<or>
     rc = SQLITE_IOERR_WRITE \<and> (\<exists>c'. sees view t p' c'))"
proof -
  obtain rc p' t bs pos where f: "demoFlushBuffer io p s = Inr (rc, p', t)" "nBuffer p' = 0"
    "file_ok p'" "df_fd p' = df_fd p" "view t (df_fd p') = Some (bs, pos)"
    "rc = SQLITE_OK \<and> bs = c \<or> rc = SQLITE_IOERR_WRITE"
    by (rule flush_spec [OF assms])
  obtain r u where fs: "io_fsync io (df_fd p') t = (r, u)" by fastforce
  show ?thesis
    using f fs fsync_law [OF f(5) fs] by (cases "rc = SQLITE_OK") (auto simp: demoSync_def sees_def)
qed

lemma filesize_spec:
  assumes "sees view s p c" and small: "length c < 2 ^ 63"
  shows "\<exists>rc sz p' t. demoFileSize io p s = Inr (rc, sz, p', t) \<and> nBuffer p' = 0 \<and>
    (rc = SQLITE_OK \<and> sz = Some (int (length c)) \<and> sees view t p' c \<or>
     rc = SQLITE_IOERR_FSTAT \<and> sz = None \<and> sees view t p' c \<or>
     rc = SQLITE_IOERR_WRITE \<and> sz = None \<and> (\<exists>c'. sees view t p' c'))"
proof -
  obtain rc p' t bs pos where f: "demoFlushBuffer io p s = Inr (rc, p', t)" "nBuffer p' = 0"
    "file_ok p'" "df_fd p' = df_fd p" "view t (df_fd p') = Some (bs, pos)"
    "rc = SQLITE_OK \<and> bs = c \<or> rc = SQLITE_IOERR_WRITE"
    by (rule flush_spec [OF assms(1)])
  obtain r u where fs: "io_filesize io (df_fd p') t = (r, u)" by fastforce
  have len: "sint (word_of_nat (length c) :: s64) = int (length c)"
    using sint_word_of_int_s64 [of "int (length c)"] small by simp
  show ?thesis
    using f fs filesize_law [OF f(5) fs] len
    by (cases "rc = SQLITE_OK") (auto simp: demoFileSize_def sees_def)
qed

lemma read_spec:
  assumes sees: "sees view s p c" and amt: "0 \<le> iAmt" "iAmt < 2 ^ 31" "nat iAmt \<le> length zBuf"
    and ofs: "0 \<le> iOfst" "iOfst < 2 ^ 63"
  shows "\<exists>rc zBuf' p' t. demoRead io p zBuf iAmt iOfst s = Inr (rc, zBuf', p', t) \<and>
    (rc = SQLITE_OK \<and> sees view t p' c \<and> nat iAmt \<le> length c - nat iOfst \<and>
       zBuf' = overwrite zBuf 0 (subbytes c (nat iOfst) (nat iAmt)) \<or>
     rc = SQLITE_IOERR_SHORT_READ \<and> sees view t p' c \<and>
       (\<exists>k. k < nat iAmt \<and> k \<le> length c - nat iOfst \<and>
         zBuf' = overwrite zBuf 0 (subbytes c (nat iOfst) k @ replicate (nat iAmt - k) 0)) \<or>
     rc = SQLITE_IOERR_READ \<and> sees view t p' c \<or>
     rc = SQLITE_IOERR_WRITE \<and> zBuf' = zBuf \<and> (\<exists>c'. sees view t p' c'))"
proof -
  let ?n = "word_of_int iAmt :: u64"
  obtain rc p' t bs pos where f: "demoFlushBuffer io p s = Inr (rc, p', t)" "nBuffer p' = 0"
    "file_ok p'" "df_fd p' = df_fd p" "view t (df_fd p') = Some (bs, pos)"
    "rc = SQLITE_OK \<and> bs = c \<or> rc = SQLITE_IOERR_WRITE"
    by (rule flush_spec [OF sees])
  obtain o' s1 where sk: "io_lseek io (df_fd p') (word_of_int iOfst) SEEK_SET t = (o', s1)" by fastforce
  obtain r d s2 where rd: "io_read io (df_fd p') ?n s1 = ((r, d), s2)" by (metis surj_pair)
  have ofst: "sint (word_of_int iOfst :: s64) = iOfst" "unat (word_of_int iOfst :: s64) = nat iOfst"
    and n: "unat ?n = nat iAmt" "unat ?n < 2 ^ 31"
    using amt ofs by simp_all
  consider (wr) "rc \<noteq> SQLITE_OK" | (seek) "rc = SQLITE_OK" "sint o' \<noteq> iOfst"
    | (go) "rc = SQLITE_OK" "sint o' = iOfst" by blast
  then show ?thesis
  proof cases
    case wr
    with f show ?thesis by (auto simp: demoRead_def sees_def)
  next
    case seek
    with f have bs: "bs = c" by simp
    have "view s1 (df_fd p') = Some (c, pos)"
      using lseek_law [OF f(5) _ sk] ofst ofs(1) seek(2) bs by auto
    with seek f sk show ?thesis by (auto simp: demoRead_def sees_def)
  next
    case go
    with f have bs: "bs = c" by simp
    have "o' = word_of_int iOfst" using go(2) [symmetric] by simp
    then have v1: "view s1 (df_fd p') = Some (c, nat iOfst)"
      using lseek_law [OF f(5) _ sk] ofst ofs(1) bs by auto
    from read_law [OF v1 n(2) rd] show ?thesis
    proof (elim disjE exE conjE)
      fix k e
      assume k: "r = word_of_nat k" "k \<le> length c - nat iOfst" "d = Some e" "k \<le> length e"
        "length e \<le> unat ?n" "take k e = subbytes c (nat iOfst) k"
        "view s2 (df_fd p') = Some (c, nat iOfst + k)"
      have nr: "sint (u64_to_int r) = int k" using k(1,4,5) n low_half_nat [of k] by simp
      have se: "sees view s2 p' c" using f(2,3) k(7) by (simp add: sees_def)
      have fits: "length e \<le> length zBuf" using k(5) n(1) amt(3) by simp
      show ?thesis
      proof (cases "int k = iAmt")
        case True
        then have "e = subbytes c (nat iOfst) (nat iAmt)" using k(4-6) n(1) by auto
        with True go f(1) sk rd nr se k(2,3) fits show ?thesis by (auto simp: demoRead_def)
      next
        case False
        moreover have "k \<le> nat iAmt" using k(4,5) n(1) by simp
        ultimately have lt: "k < nat iAmt" using amt(1) by linarith
        have eqn: "nat (iAmt - int k) = nat iAmt - k" using amt(1) lt by linarith
        have sh: "overwrite (overwrite zBuf 0 e) k (replicate (nat (iAmt - int k)) 0) =
            overwrite zBuf 0 (subbytes c (nat iOfst) k @ replicate (nat iAmt - k) 0)"
          using overwrite_shadow [of k e "replicate (nat iAmt - k) 0" zBuf] k(4-6) n(1) amt(3)
          by (simp add: eqn)
        have "demoRead io p zBuf iAmt iOfst s = Inr (SQLITE_IOERR_SHORT_READ,
            overwrite zBuf 0 (subbytes c (nat iOfst) k @ replicate (nat iAmt - k) 0), p', s2)"
          using False lt go f(1) sk rd nr k(3) fits sh amt(3)
          by (simp add: demoRead_def Let_def eqn zless_nat_eq_int_zless)
        with lt se k(2) show ?thesis by auto
      qed
    next
      assume k: "r = - 1" "view s2 (df_fd p') = Some (c, nat iOfst)"
        "case d of None \<Rightarrow> True | Some d \<Rightarrow> length d \<le> unat ?n"
      have se: "sees view s2 p' c" using f(2,3) k(2) by (simp add: sees_def)
      have st: "length (case d of None \<Rightarrow> [] | Some bs \<Rightarrow> bs) \<le> length zBuf"
        using k(3) n(1) amt(3) by (auto split: option.splits)
      have "u64_to_int (- 1) = - 1" by (metis u64_to_int_of_int int_to_u64_minus_one)
      then have "sint (u64_to_int r) = - 1" using k(1) by simp
      with go f(1) sk rd se st amt(1) show ?thesis
        by (auto simp: demoRead_def Let_def)
    qed
  qed
qed

end

section \<open>Properties\<close>

text \<open>C13. \<open>demoWrite\<close> always returns, without a failed assertion or an access outside the buffer.  On
  \<open>SQLITE_OK\<close> the client of the file sees exactly the bytes written laid over what it saw before,
  whether they are on disk, in the buffer, or split between the two; otherwise the code is
  \<open>SQLITE_IOERR_WRITE\<close> and the file structure is still in order.\<close>

theorem demoWrite_correct:
  assumes "file_io io view" and "sees view s p c"
    and "0 \<le> iAmt" and "iAmt < 2 ^ 31" and "nat iAmt \<le> length zBuf"
    and "0 \<le> iOfst" and "iOfst + iAmt < 2 ^ 63"
  shows "\<exists>rc p' t. demoWrite io p zBuf iAmt iOfst s = Inr (rc, p', t) \<and>
    (rc = SQLITE_OK \<and> sees view t p' (overwrite c (nat iOfst) (take (nat iAmt) zBuf)) \<or>
     rc = SQLITE_IOERR_WRITE \<and> (\<exists>c'. sees view t p' c'))"
  by (rule file_io.write_spec [OF assms])

text \<open>C16. \<open>demoRead\<close> returns what the client sees, buffered writes included: on \<open>SQLITE_OK\<close> all \<open>iAmt\<close>
  bytes at the offset, on \<open>SQLITE_IOERR_SHORT_READ\<close> the bytes that exist and zeros behind them.\<close>

theorem demoRead_correct:
  assumes "file_io io view" and "sees view s p c"
    and "0 \<le> iAmt" and "iAmt < 2 ^ 31" and "nat iAmt \<le> length zBuf"
    and "0 \<le> iOfst" and "iOfst < 2 ^ 63"
  shows "\<exists>rc zBuf' p' t. demoRead io p zBuf iAmt iOfst s = Inr (rc, zBuf', p', t) \<and>
    (rc = SQLITE_OK \<and> sees view t p' c \<and> nat iAmt \<le> length c - nat iOfst \<and>
       zBuf' = overwrite zBuf 0 (subbytes c (nat iOfst) (nat iAmt)) \<or>
     rc = SQLITE_IOERR_SHORT_READ \<and> sees view t p' c \<and>
       (\<exists>k. k < nat iAmt \<and> k \<le> length c - nat iOfst \<and>
         zBuf' = overwrite zBuf 0 (subbytes c (nat iOfst) k @ replicate (nat iAmt - k) 0)) \<or>
     rc = SQLITE_IOERR_READ \<and> sees view t p' c \<or>
     rc = SQLITE_IOERR_WRITE \<and> zBuf' = zBuf \<and> (\<exists>c'. sees view t p' c'))"
  by (rule file_io.read_spec [OF assms])

text \<open>C14. After a successful \<open>demoSync\<close> the file below holds everything the client sees and the buffer
  is empty.\<close>

theorem demoSync_durable:
  assumes "file_io io view" and "sees view s p c"
  shows "\<exists>rc p' t. demoSync io p s = Inr (rc, p', t) \<and> nBuffer p' = 0 \<and>
    (rc \<in> {SQLITE_OK, SQLITE_IOERR_FSYNC} \<and> (\<exists>pos. view t (df_fd p') = Some (c, pos)) \<and> sees view t p' c \<or>
     rc = SQLITE_IOERR_WRITE \<and> (\<exists>c'. sees view t p' c'))"
  by (rule file_io.sync_spec [OF assms])

text \<open>\<open>demoFileSize\<close> reports the size of what the client sees, buffered writes included.\<close>

theorem demoFileSize_correct:
  assumes "file_io io view" and "sees view s p c" and "length c < 2 ^ 63"
  shows "\<exists>rc sz p' t. demoFileSize io p s = Inr (rc, sz, p', t) \<and> nBuffer p' = 0 \<and>
    (rc = SQLITE_OK \<and> sz = Some (int (length c)) \<and> sees view t p' c \<or>
     rc = SQLITE_IOERR_FSTAT \<and> sz = None \<and> sees view t p' c \<or>
     rc = SQLITE_IOERR_WRITE \<and> sz = None \<and> (\<exists>c'. sees view t p' c'))"
  by (rule file_io.filesize_spec [OF assms])

text \<open>Data written through the VFS is read back: when \<open>demoWrite\<close> and a following \<open>demoRead\<close> of the
  same range both succeed, the buffer read is the data written, at whatever state of the write
  buffer.\<close>

theorem demoWrite_demoRead_roundtrip:
  assumes "file_io io view" and "sees view s p c"
    and "int (length zBuf) < 2 ^ 31" and "0 \<le> iOfst" and "iOfst + int (length zBuf) < 2 ^ 63"
    and "length out = length zBuf"
    and "demoWrite io p zBuf (int (length zBuf)) iOfst s = Inr (SQLITE_OK, p', t)"
    and "demoRead io p' out (int (length zBuf)) iOfst t = Inr (SQLITE_OK, out', p'', u)"
  shows "out' = zBuf"
proof -
  have "sees view t p' (overwrite c (nat iOfst) zBuf)"
    using file_io.write_spec [OF assms(1,2), of "int (length zBuf)" zBuf iOfst] assms(3-5,7) by auto
  from file_io.read_spec [OF assms(1) this, of "int (length zBuf)" out iOfst] assms(3-6,8)
  have "out' = overwrite out 0 (subbytes (overwrite c (nat iOfst) zBuf) (nat iOfst) (length zBuf))"
    by auto
  with assms(6) show ?thesis by (simp add: overwrite_all)
qed

text \<open>C22. A failed flush loses the buffered data for good: \<open>nBuffer\<close> is reset although nothing may have
  been written, so the next flush reports success without touching the file.\<close>

theorem failed_flush_is_forgotten:
  assumes "demoFlushBuffer io p s = Inr (rc, p', t)"
  shows "demoFlushBuffer io p' u = Inr (SQLITE_OK, p', u)"
  using flush_nBuffer [OF assms] by (simp add: demoFlushBuffer_def)

text \<open>A file that \<open>demoOpen\<close> opened starts in order with an empty buffer, which it has exactly if
  it is a main journal, and the client sees the content of the file below.\<close>

theorem demoOpen_correct:
  assumes "demoOpen io (Some name) p flags s = ((SQLITE_OK, p', out), t)"
  shows "file_ok p' \<and> pending p' = [] \<and> pMethods p' \<and> out = Some flags \<and> 0 \<le> sint (df_fd p') \<and>
    (aBuffer p' \<noteq> None \<longleftrightarrow> flags AND SQLITE_OPEN_MAIN_JOURNAL \<noteq> 0) \<and>
    (\<forall>bs pos. view t (df_fd p') = Some (bs, pos) \<longrightarrow> sees view t p' bs)"
proof -
  have q: "file_ok p' \<and> nBuffer p' = 0 \<and> pMethods p' \<and> out = Some flags \<and> 0 \<le> sint (df_fd p') \<and>
      (aBuffer p' \<noteq> None \<longleftrightarrow> flags AND SQLITE_OPEN_MAIN_JOURNAL \<noteq> 0)"
    using assms
    by (auto simp: demoOpen_def Let_def zero_file_def file_ok_def SQLITE_TEEVFS_BUFFERSZ_def
        not_less split: if_splits prod.splits option.splits)
  then show ?thesis by (auto simp: sees_def)
qed

text \<open>\<open>demoFullPathname\<close> writes inside the caller's buffer and leaves a terminated string in it,
  given what \<open>sqlite3_snprintf\<close> documents: at most \<open>n\<close> bytes are stored.\<close>

theorem demoFullPathname_terminated:
  assumes "\<forall>n txt. int (length (sqlite3_snprintf io n txt)) \<le> max n 0"
    and "0 < nPathOut" and "nPathOut \<le> int (length zPathOut)"
    and "demoFullPathname io zPath nPathOut zPathOut s = Inr (SQLITE_OK, out, t)"
  shows "length out = length zPathOut \<and> out ! nat (nPathOut - 1) = 0 \<and>
    drop (nat nPathOut) out = drop (nat nPathOut) zPathOut"
proof -
  obtain zDir where out: "print_into io nPathOut (zDir @ [47] @ zPath) zPathOut = Inr out"
    using assms(4)
    by (auto simp: demoFullPathname_def Let_def split: if_splits prod.splits elim!: bind_outcome_InrE)
  define st where "st = sqlite3_snprintf io nPathOut (zDir @ 47 # zPath)"
  have st: "length st \<le> nat nPathOut" "length st \<le> length zPathOut"
    using assms(1-3) unfolding st_def by (smt (verit) nat_le_iff of_nat_le_iff)+
  have o': "out = (overwrite zPathOut 0 st)[nat (nPathOut - 1) := 0]"
    using out by (simp add: print_into_def st_def [symmetric] Let_def split: if_splits)
  have ow: "overwrite zPathOut 0 st = st @ drop (length st) zPathOut"
    using st by (simp add: overwrite_within)
  have "drop (nat nPathOut) out = drop (nat nPathOut) (overwrite zPathOut 0 st)"
    using assms(2) unfolding o' by (simp add: drop_update_cancel)
  also have "\<dots> = drop (nat nPathOut) zPathOut"
    unfolding ow using st by simp
  finally show ?thesis using assms(2,3) st by (simp add: o' ow)
qed

end
