(* ===== verification/Supp_Start.thy ===== *)
theory Supp_Start
  imports Supp_Vfs Supp_Main Ta_Vfs
begin

text \<open>
  The supplicant before its request loop, \<open>tee_supplicant.c\<close>: the path of trusted applications, the
  search for the device, becoming a daemon, \<open>main\<close>.  The C library is the parameter \<open>os\<close>, but for
  \<open>strtok_r\<close>, which is modelled, and \<open>getopt_long\<close>, whose results are an argument.  Messages are left
  out, so is the mutex after its initialisation.  Strings are lists of their bytes without the final
  zero.
\<close>

section \<open>Steps that may end the process\<close>

datatype 'a step = Exits int | Goes_on 'a

abbreviation EXIT_SUCCESS :: int where "EXIT_SUCCESS \<equiv> 0"
abbreviation EXIT_FAILURE :: int where "EXIT_FAILURE \<equiv> 1"

text \<open>The \<open>int\<close> a call returns.\<close>

definition call_int :: "'w os \<Rightarrow> os_call \<Rightarrow> 'w \<Rightarrow> int \<times> 'w" where
  "call_int os c w = (let (r, w) = os c w in (sint (u64_to_int (o_ret r)), w))"

section \<open>The path of trusted applications\<close>

definition TEEC_TEST_LOAD_PATH :: "byte list" where
  "TEEC_TEST_LOAD_PATH = map of_char ''/foo:/bar::/baz''"

abbreviation colon :: byte where "colon \<equiv> 58"

text \<open>\<open>strtok_r (p, ":", &saveptr)\<close>: the token, \<open>None\<close> when there is none left, and \<open>saveptr\<close>.\<close>

definition strtok_r :: "byte list option \<Rightarrow> byte list \<Rightarrow> byte list option \<times> byte list" where
  "strtok_r p save =
     (let s = dropWhile (\<lambda>c. c = colon) (case p of None \<Rightarrow> save | Some q \<Rightarrow> q) in
      if s = [] then (None, [])
      else (Some (takeWhile (\<lambda>c. c \<noteq> colon) s), drop 1 (dropWhile (\<lambda>c. c \<noteq> colon) s)))"

definition remaining :: "byte list option \<Rightarrow> byte list \<Rightarrow> nat" where
  "remaining p save = length (case p of None \<Rightarrow> save | Some q \<Rightarrow> q)"

lemma strtok_shorter: "strtok_r p save = (Some t, rest) \<Longrightarrow> length rest < remaining p save"
proof -
  assume a: "strtok_r p save = (Some t, rest)"
  define s where "s = dropWhile (\<lambda>c. c = colon) (case p of None \<Rightarrow> save | Some q \<Rightarrow> q)"
  have "s \<noteq> []" "rest = drop 1 (dropWhile (\<lambda>c. c \<noteq> colon) s)"
    using a by (auto simp: strtok_r_def s_def Let_def split: if_splits)
  moreover have "length (dropWhile (\<lambda>c. c \<noteq> colon) s) \<le> length s" by (rule length_dropWhile_le)
  moreover have "length s \<le> remaining p save"
    unfolding s_def remaining_def by (rule length_dropWhile_le)
  ultimately show ?thesis by (cases s) auto
qed

text \<open>The two loops: counting, then storing, the null pointer included.\<close>

function count_tokens :: "byte list option \<Rightarrow> byte list \<Rightarrow> nat \<Rightarrow> nat" where
  "count_tokens p save n =
     (case strtok_r p save of (None, _) \<Rightarrow> n | (Some _, save) \<Rightarrow> count_tokens None save (Suc n))"
  by pat_completeness auto
termination
  by (relation "measure (\<lambda>(p, save, n). remaining p save)")
    (auto simp: remaining_def dest!: strtok_shorter [OF sym, unfolded remaining_def])

declare count_tokens.simps [simp del]

text \<open>An element \<open>None\<close> of the array was not assigned yet.\<close>

function store_tokens ::
    "byte list option \<Rightarrow> byte list \<Rightarrow> nat \<Rightarrow> byte list option option list \<Rightarrow> byte list option option list outcome" where
  "store_tokens p save n arr =
     (case strtok_r p save of
        (t, save) \<Rightarrow>
          if length arr \<le> n then Inl OutOfBounds
          else if t = None then Inr (arr[n := Some None])
          else store_tokens None save (Suc n) (arr[n := Some t]))"
  by pat_completeness auto
termination
  by (relation "measure (\<lambda>(p, save, n, arr). remaining p save)")
    (auto simp: remaining_def dest!: strtok_shorter [OF sym, unfolded remaining_def])

declare store_tokens.simps [simp del]

text \<open>\<open>load_path\<close> is \<open>TEEC_LOAD_PATH\<close>, which the build sets.  The result is the array \<open>ta_path\<close>.\<close>

definition set_ta_path :: "'w os \<Rightarrow> byte list \<Rightarrow> 'w \<Rightarrow> (byte list option option list step \<times> 'w) outcome" where
  "set_ta_path os load_path w =
     (let path = TEEC_TEST_LOAD_PATH @ [colon] @ load_path;
          (r, w) = os Strdup w in
      if o_ret r = 0 then Inr (Exits EXIT_FAILURE, w)
      else
        let n = count_tokens (Some path) [] 0 + 1;
            (r, w) = os (Malloc (word_of_nat (n * 8))) w in
        if o_ret r = 0 then Inr (Exits EXIT_FAILURE, w)
        else bind_outcome (store_tokens (Some path) [] 0 (replicate n None)) (\<lambda>arr. Inr (Goes_on arr, w)))"

section \<open>The device\<close>

abbreviation TEE_IMPL_ID_OPTEE :: u32 where "TEE_IMPL_ID_OPTEE \<equiv> 1"

text \<open>
  \<open>vers\<close> is cleared and then filled by the \<open>ioctl\<close>, which stores the identifier of the implementation and
  the capabilities.  The descriptor and, on success, the capabilities are returned.
\<close>

definition open_dev :: "'w os \<Rightarrow> byte list \<Rightarrow> 'w \<Rightarrow> (s32 \<times> u32 option) \<times> 'w" where
  "open_dev os devname w =
     (let (r, w) = os (Open (Some devname) O_RDWR 0) w;
          fd = u64_to_int (o_ret r) in
      if sint fd < 0 then ((- 1, None), w)
      else
        let (v, w) = os (Ioctl_version fd) w in
        if u64_to_int (o_ret v) \<noteq> 0 \<or> u64_to_int (o_val1 v) \<noteq> TEE_IMPL_ID_OPTEE
        then let (_, w) = os (Close fd) w in ((- 1, None), w)
        else ((fd, Some (u64_to_int (o_val2 v))), w))"

abbreviation MAX_DEV_SEQ :: nat where "MAX_DEV_SEQ \<equiv> 10"

text \<open>\<open>"/dev/teepriv%zu"\<close>; the numbers have one digit.\<close>

definition teepriv :: "nat \<Rightarrow> byte list" where
  "teepriv n = map of_char ''/dev/teepriv'' @ [48 + word_of_nat n]"

primrec try_devs :: "'w os \<Rightarrow> nat list \<Rightarrow> 'w \<Rightarrow> (s32 \<times> u32 option) \<times> 'w" where
  "try_devs os [] w = ((- 1, None), w)"
| "try_devs os (n # ns) w =
     (let ((fd, caps), w) = open_dev os (teepriv n) w in
      if 0 \<le> sint fd then ((fd, caps), w) else try_devs os ns w)"

definition get_dev_fd :: "'w os \<Rightarrow> 'w \<Rightarrow> (s32 \<times> u32 option) \<times> 'w" where
  "get_dev_fd os w = try_devs os [0..<MAX_DEV_SEQ] w"

section \<open>Becoming a daemon\<close>

text \<open>\<open>dup2\<close> to the three standard descriptors; \<open>Exits\<close> is the parent's \<open>_exit\<close>.\<close>

definition make_daemon :: "'w os \<Rightarrow> s32 \<Rightarrow> s32 \<Rightarrow> 'w \<Rightarrow> int step \<times> 'w" where
  "make_daemon os rd wr w =
     (let (pid, w) = call_int os Fork w in
      if pid = - 1 then (Goes_on (- 1), w)
      else if pid \<noteq> 0 then
        let (_, w) = call_int os (Close wr) w;
            (n, w) = call_int os (Read rd True 1) w;
            (_, w) = call_int os (Close rd) w in
        if n = 0 then (Goes_on (- 1), w) else (Exits EXIT_SUCCESS, w)
      else
        let (_, w) = call_int os (Close rd) w;
            (e, w) = call_int os Setsid w in
        if e < 0 then (Goes_on (- 2), w)
        else
          let (e, w) = call_int os (Chdir [47]) w in
          if e < 0 then (Goes_on (- 3), w)
          else
            let (r, w) = os (Open (Some (map of_char ''/dev/null'')) O_RDWR 0) w;
                fd = u64_to_int (o_ret r) in
            if sint fd < 0 then (Goes_on (- 4), w)
            else
              let (_, w) = call_int os (Dup2 fd 0) w;
                  (_, w) = call_int os (Dup2 fd 1) w;
                  (_, w) = call_int os (Dup2 fd 2) w;
                  (_, w) = call_int os (Close fd) w in
              (Goes_on 0, w))"

section \<open>Options\<close>

record supplicant_params =
  sp_ta_dir :: string
  sp_plugin_load_path :: string
  sp_fs_parent_path :: string
  sp_rpmb_cid :: "string option"

text \<open>The message goes to the standard error; the status is handed on.\<close>

definition usage :: "int \<Rightarrow> int" where
  "usage status = status"

text \<open>\<open>getopt_long\<close> has found the options \<open>opts\<close>, each with its argument.\<close>

fun parse_options :: "(char \<times> string) list \<Rightarrow> bool \<Rightarrow> supplicant_params \<Rightarrow> (bool \<times> supplicant_params) step" where
  "parse_options [] daemonize sp = Goes_on (daemonize, sp)"
| "parse_options ((opt, optarg) # opts) daemonize sp =
     (if opt = CHR ''h'' then Exits (usage EXIT_SUCCESS)
      else if opt = CHR ''d'' then parse_options opts True sp
      else if opt = CHR ''f'' then parse_options opts daemonize (sp\<lparr>sp_fs_parent_path := optarg\<rparr>)
      else if opt = CHR ''t'' then parse_options opts daemonize (sp\<lparr>sp_ta_dir := optarg\<rparr>)
      else if opt = CHR ''p'' then parse_options opts daemonize (sp\<lparr>sp_plugin_load_path := optarg\<rparr>)
      else if opt = CHR ''r'' then parse_options opts daemonize (sp\<lparr>sp_rpmb_cid := Some optarg\<rparr>)
      else Exits (usage EXIT_FAILURE))"

section \<open>The main program\<close>

text \<open>\<open>rest\<close> are the arguments that are no options; a pipe returns its two descriptors.\<close>

definition daemonise :: "'w os \<Rightarrow> bool \<Rightarrow> 'w \<Rightarrow> (s32 step) \<times> 'w" where
  "daemonise os daemonize w =
     (if \<not> daemonize then (Goes_on 0, w)
      else
        let (r, w) = os Pipe w in
        if sint (u64_to_int (o_ret r)) < 0 then (Exits EXIT_FAILURE, w)
        else
          let (e, w) = make_daemon os (u64_to_int (o_val1 r)) (u64_to_int (o_val2 r)) w in
          case e of
            Exits status \<Rightarrow> (Exits status, w)
          | Goes_on e \<Rightarrow> if e < 0 then (Exits EXIT_FAILURE, w) else (Goes_on (u64_to_int (o_val2 r)), w))"

definition release_parent :: "'w os \<Rightarrow> bool \<Rightarrow> s32 \<Rightarrow> 'w \<Rightarrow> unit step \<times> 'w" where
  "release_parent os daemonize wr w =
     (if \<not> daemonize then (Goes_on (), w)
      else
        let (r, w) = os (Write wr (Some [0]) 1) w in
        if o_ret r \<noteq> 1 then (Exits EXIT_FAILURE, w)
        else let (_, w) = os (Close wr) w in (Goes_on (), w))"

text \<open>Up to the loop: the environment with the options in it and the state the loop starts from.\<close>

definition main_setup ::
    "'w supp_env \<Rightarrow> byte list \<Rightarrow> supplicant_params \<Rightarrow> (char \<times> string) list \<Rightarrow> string list \<Rightarrow> 'w \<Rightarrow>
       (('w supp_env \<times> 'w supp) step \<times> 'w) outcome" where
  "main_setup env load_path sp opts rest w =
     (let os = e_os env;
          (e, w) = call_int os Pthread_mutex_init w in
      if e \<noteq> 0 then Inr (Exits EXIT_FAILURE, w)
      else
        case parse_options opts False sp of
          Exits status \<Rightarrow> Inr (Exits status, w)
        | Goes_on (daemonize, sp) \<Rightarrow>
            if 1 < length rest then Inr (Exits (usage EXIT_FAILURE), w)
            else
              bind_outcome (set_ta_path os load_path w) (\<lambda>(path, w).
              case path of
                Exits status \<Rightarrow> Inr (Exits status, w)
              | Goes_on _ \<Rightarrow>
                  let (e, w) = call_int os Plugin_load_all w in
                  if e \<noteq> 0 then Inr (Exits EXIT_FAILURE, w)
                  else
                    let (d, w) = daemonise os daemonize w in
                    case d of
                      Exits status \<Rightarrow> Inr (Exits status, w)
                    | Goes_on wr \<Rightarrow>
                        let ((fd, caps), w) =
                              (case rest of [] \<Rightarrow> get_dev_fd os w | dev # _ \<Rightarrow> open_dev os (map of_char dev) w) in
                        if sint fd < 0 then Inr (Exits EXIT_FAILURE, w)
                        else
                          let (p, w) = release_parent os daemonize wr w in
                          case p of
                            Exits status \<Rightarrow> Inr (Exits status, w)
                          | Goes_on _ \<Rightarrow>
                              Inr (Goes_on (env\<lparr>ta_dir := sp_ta_dir sp\<rparr>,
                                fresh_supp w \<lparr>ta_fd = fd, ta_gen_caps = (case caps of None \<Rightarrow> 0 | Some c \<Rightarrow> c),
                                  ta_abort = False, num_waiters = 0\<rparr>), w)))"

text \<open>\<open>main\<close>: the exit status; \<open>None\<close> is a supplicant that serves for ever.\<close>

definition main ::
    "'w supp_env \<Rightarrow> byte list \<Rightarrow> supplicant_params \<Rightarrow> (char \<times> string) list \<Rightarrow> string list \<Rightarrow> 'w \<Rightarrow>
       (int \<times> 'w) outcome option" where
  "main env load_path sp opts rest w =
     (case main_setup env load_path sp opts rest w of
        Inl f \<Rightarrow> Some (Inl f)
      | Inr (Exits status, w) \<Rightarrow> Some (Inr (status, w))
      | Inr (Goes_on (env, s), w) \<Rightarrow>
          map_option (\<lambda>r. bind_outcome r (\<lambda>s.
            let (_, w) = e_os env (Close (ta_fd (targ s))) (world s) in Inr (EXIT_FAILURE, w)))
            (request_loop env s))"

section \<open>The path is what is between the colons\<close>

fun fields :: "byte list \<Rightarrow> byte list list" where
  "fields [] = [[]]"
| "fields (c # cs) =
     (if c = colon then [] # fields cs
      else case fields cs of [] \<Rightarrow> [[c]] | f # fs \<Rightarrow> (c # f) # fs)"

definition path_dirs :: "byte list \<Rightarrow> byte list list" where
  "path_dirs s = filter (\<lambda>d. d \<noteq> []) (fields s)"

lemma fields_not_Nil [simp]: "fields s \<noteq> []"
  by (induction s) (auto split: list.split)

lemma fields_span:
  "fields s = takeWhile (\<lambda>c. c \<noteq> colon) s #
     (case dropWhile (\<lambda>c. c \<noteq> colon) s of [] \<Rightarrow> [] | _ # rest \<Rightarrow> fields rest)"
  by (induction s) (auto split: list.split)

lemma path_dirs_skip: "path_dirs s = path_dirs (dropWhile (\<lambda>c. c = colon) s)"
  by (induction s) (simp_all add: path_dirs_def)

lemma path_dirs_strtok:
  "path_dirs (case p of None \<Rightarrow> save | Some q \<Rightarrow> q) =
     (case strtok_r p save of (None, _) \<Rightarrow> [] | (Some t, rest) \<Rightarrow> t # path_dirs rest)"
proof -
  define s where "s = dropWhile (\<lambda>c. c = colon) (case p of None \<Rightarrow> save | Some q \<Rightarrow> q)"
  have eq: "path_dirs (case p of None \<Rightarrow> save | Some q \<Rightarrow> q) = path_dirs s"
    unfolding s_def by (rule path_dirs_skip)
  show ?thesis
  proof (cases s)
    case Nil
    then have "strtok_r p save = (None, [])" by (simp add: strtok_r_def s_def Let_def)
    then show ?thesis using eq Nil by (simp add: path_dirs_def)
  next
    case (Cons c cs)
    then have "dropWhile (\<lambda>c. c = colon) (case p of None \<Rightarrow> save | Some q \<Rightarrow> q) = c # cs" by (simp add: s_def)
    then have c: "c \<noteq> colon" by (simp add: dropWhile_eq_Cons_conv)
    have t: "strtok_r p save = (Some (takeWhile (\<lambda>c. c \<noteq> colon) s), drop 1 (dropWhile (\<lambda>c. c \<noteq> colon) s))"
      using Cons by (simp add: strtok_r_def s_def Let_def)
    have "path_dirs s = takeWhile (\<lambda>c. c \<noteq> colon) s # path_dirs (drop 1 (dropWhile (\<lambda>c. c \<noteq> colon) s))"
    proof -
      define r where "r = dropWhile (\<lambda>c. c \<noteq> colon) s"
      have "takeWhile (\<lambda>c. c \<noteq> colon) s \<noteq> []" using Cons c by simp
      then show ?thesis
        using fields_span [of s] unfolding r_def [symmetric]
        by (cases r) (simp_all add: path_dirs_def)
    qed
    with eq t show ?thesis by simp
  qed
qed

lemma count_tokens_dirs:
  "count_tokens p save n = n + length (path_dirs (case p of None \<Rightarrow> save | Some q \<Rightarrow> q))"
proof (induction p save n rule: count_tokens.induct)
  case (1 p save n)
  then show ?case
    by (subst count_tokens.simps, subst path_dirs_strtok) (auto split: prod.split option.split)
qed

lemma store_tokens_dirs:
  assumes "length arr = n + length (path_dirs (case p of None \<Rightarrow> save | Some q \<Rightarrow> q)) + 1"
  shows "store_tokens p save n arr =
    Inr (take n arr @ map (\<lambda>d. Some (Some d)) (path_dirs (case p of None \<Rightarrow> save | Some q \<Rightarrow> q)) @ [Some None])"
  using assms
proof (induction p save n arr rule: store_tokens.induct)
  case (1 p save n arr)
  obtain t rest where t: "strtok_r p save = (t, rest)" by fastforce
  show ?case
  proof (cases t)
    case None
    with t 1(2) show ?thesis
      by (subst store_tokens.simps, simp add: path_dirs_strtok take_Suc_conv_app_nth)
        (simp add: list_update_append1 upd_conv_take_nth_drop)
  next
    case (Some d)
    then have len: "length (arr[n := Some t]) = Suc n + length (path_dirs (case None of None \<Rightarrow> rest | Some q \<Rightarrow> q)) + 1"
      using 1(2) t by (simp add: path_dirs_strtok)
    have n: "n < length arr" using 1(2) by simp
    have "store_tokens None rest (Suc n) (arr[n := Some t]) =
        Inr (take (Suc n) (arr[n := Some t]) @ map (\<lambda>d. Some (Some d)) (path_dirs rest) @ [Some None])"
      using 1(1) [OF t [symmetric] _ _ len] Some n by simp
    then show ?thesis
      using t Some n
      by (subst store_tokens.simps, simp add: path_dirs_strtok take_Suc_conv_app_nth)
  qed
qed

section \<open>Descriptors\<close>

text \<open>
  What is known of the descriptors of the process: \<open>open\<close> adds at most the one it returns, \<open>close\<close> removes
  its own, asking for the version keeps them.
\<close>

definition fds_law :: "'w os \<Rightarrow> ('w \<Rightarrow> s32 set) \<Rightarrow> bool" where
  "fds_law os fds \<longleftrightarrow>
     (\<forall>w p fl m. let (r, w') = os (Open p fl m) w; fd = u64_to_int (o_ret r) in
        fds w' = (if sint fd < 0 then fds w else insert fd (fds w)) \<and> (0 \<le> sint fd \<longrightarrow> fd \<notin> fds w)) \<and>
     (\<forall>w fd. fds (snd (os (Close fd) w)) = fds w - {fd}) \<and>
     (\<forall>w fd. fds (snd (os (Ioctl_version fd) w)) = fds w)"

lemma open_dev_fds:
  assumes "fds_law os fds" and "open_dev os name w = ((fd, caps), w')"
  shows "fds w' = (if sint fd < 0 then fds w else insert fd (fds w)) \<and> (caps = None \<longleftrightarrow> sint fd < 0)"
proof -
  obtain r w1 where o: "os (Open (Some name) O_RDWR 0) w = (r, w1)" by fastforce
  define f where "f = u64_to_int (o_ret r)"
  obtain v w2 where v: "os (Ioctl_version f) w1 = (v, w2)" by fastforce
  obtain x w3 where c: "os (Close f) w2 = (x, w3)" by fastforce
  have "fds w1 = (if sint f < 0 then fds w else insert f (fds w))" "0 \<le> sint f \<Longrightarrow> f \<notin> fds w"
    using assms(1) o unfolding fds_law_def f_def by (metis (mono_tags, lifting) case_prod_conv)+
  moreover have "fds w2 = fds w1" "fds w3 = fds w2 - {f}"
    using assms(1) v c unfolding fds_law_def by (metis snd_conv)+
  ultimately show ?thesis
    using assms(2) o v c by (auto simp: open_dev_def f_def Let_def split: if_splits)
qed

lemma try_devs_fds:
  assumes "fds_law os fds"
  shows "try_devs os ns w = ((fd, caps), w') \<Longrightarrow>
    fds w' = (if sint fd < 0 then fds w else insert fd (fds w)) \<and> (caps = None \<longleftrightarrow> sint fd < 0)"
proof (induction ns arbitrary: w)
  case Nil
  then show ?case by auto
next
  case (Cons n ns)
  obtain f c w1 where o: "open_dev os (teepriv n) w = ((f, c), w1)" by (metis surj_pair)
  from open_dev_fds [OF assms o] Cons o show ?case
    by (auto split: if_splits)
qed

section \<open>Properties\<close>


text \<open>C32. The search for the device leaks no descriptor: afterwards the open ones are those before and, when
  it was found, the one returned.\<close>

theorem get_dev_fd_leaks_nothing:
  assumes "fds_law os fds" and "get_dev_fd os w = ((fd, caps), w')"
  shows "fds w' = (if sint fd < 0 then fds w else insert fd (fds w)) \<and> (caps = None \<longleftrightarrow> sint fd < 0)"
  using try_devs_fds [OF assms(1)] assms(2) by (simp add: get_dev_fd_def)

text \<open>A parent whose \<open>read\<close> from the pipe fails reports success.\<close>

theorem parent_ignores_read_error:
  assumes "call_int os Fork w = (pid, w1)" and "0 < pid" and "call_int os (Close wr) w1 = (c, w2)"
    and "call_int os (Read rd True 1) w2 = (- 1, w3)"
  shows "fst (make_daemon os rd wr w) = Exits EXIT_SUCCESS"
  using assms by (simp add: make_daemon_def split: prod.split)

section \<open>At a concrete input\<close>

text \<open>Of three devices the first is missing, the second is not an OP-TEE, the third is; the world is the set
  of open descriptors.\<close>

definition dev_os :: "s32 set os" where
  "dev_os c w =
     (case c of
        Open p fl m \<Rightarrow>
          (let fd = (if p = Some (teepriv 1) then 4 else if p = Some (teepriv 2) then 5 else - 1) in
           if fd = - 1 \<or> fd \<in> w then (simple_ret (- 1), w) else (simple_ret (int_to_u64 fd), insert fd w))
      | Close fd \<Rightarrow> (simple_ret 0, w - {fd})
      | Ioctl_version fd \<Rightarrow> ((simple_ret 0)\<lparr>o_val1 := (if fd = 5 then 1 else 2), o_val2 := 7\<rparr>, w)
      | _ \<Rightarrow> (simple_ret 0, w))"

lemma dev_os_law: "fds_law dev_os (\<lambda>w. w)"
  by (auto simp: fds_law_def dev_os_def simple_ret_def Let_def minus_one_int)

lemma dev_found: "get_dev_fd dev_os {1} = ((5, Some 7), {1, 5})"
  by (simp add: get_dev_fd_def upt_rec open_dev_def dev_os_def simple_ret_def teepriv_def Let_def
      minus_one_int) auto

theorem get_dev_fd_leaks_nothing_witness:
  "get_dev_fd dev_os {1} = ((5, Some 7), {1, 5}) \<and> {1, 5} = insert (5 :: s32) {1}"
  using get_dev_fd_leaks_nothing [OF dev_os_law dev_found] dev_found by simp

end
