(* ===== verification/Ta_Entry.thy ===== *)
theory Ta_Entry
  imports Tee_Prelude
begin

text \<open>
  The entry points of the trusted application, \<open>ta/tee_sqlite.c\<close>, and the host program, \<open>host/main.c\<close>.
  SQLite and the TEE client library are a parameter: a function from calls to results.  Messages are
  left out.
\<close>

unbundle bit_operations_syntax

section \<open>The libraries\<close>

text \<open>
  A database connection and an error message are numbers, 0 is a null pointer; what \<open>sqlite3_exec\<close> is
  given as callback and as its argument is only null or not.
\<close>

datatype lib_call =
    Now
  | Sqlite3_open "byte list"
  | Sqlite3_key nat "byte list" int
  | Sqlite3_exec nat "byte list" bool bool
  | Sqlite3_free nat
  | Sqlite3_close nat
  | TEEC_InitializeContext
  | TEEC_OpenSession
  | TEEC_InvokeCommand u32 u32 u32
  | TEEC_CloseSession
  | TEEC_FinalizeContext

record lib_ret =
  l_rc :: int
  l_ptr :: nat

type_synonym 's lib = "lib_call \<Rightarrow> 's \<Rightarrow> lib_ret \<times> 's"

abbreviation SQLITE_OK :: int where "SQLITE_OK \<equiv> 0"
abbreviation TEE_SUCCESS :: u32 where "TEE_SUCCESS \<equiv> 0"
abbreviation TEE_ERROR_BAD_PARAMETERS :: u32 where "TEE_ERROR_BAD_PARAMETERS \<equiv> 0xFFFF0006"
abbreviation TA_TEE_SQLITE_EXEC :: u32 where "TA_TEE_SQLITE_EXEC \<equiv> 0"

text \<open>The types of four parameters in one number.\<close>

definition TEE_PARAM_TYPES :: "u32 \<Rightarrow> u32 \<Rightarrow> u32 \<Rightarrow> u32 \<Rightarrow> u32" where
  "TEE_PARAM_TYPES t0 t1 t2 t3 = t0 OR push_bit 4 t1 OR push_bit 8 t2 OR push_bit 12 t3"

abbreviation TEE_PARAM_TYPE_NONE :: u32 where "TEE_PARAM_TYPE_NONE \<equiv> 0"
abbreviation TEE_PARAM_TYPE_VALUE_INOUT :: u32 where "TEE_PARAM_TYPE_VALUE_INOUT \<equiv> 3"

section \<open>The statements\<close>

definition bytes :: "string \<Rightarrow> byte list" where
  "bytes s = map of_char s"

definition create_sql :: "byte list" where
  "create_sql = bytes (''DROP TABLE IF EXISTS Cars;'' @ ''CREATE TABLE Cars(Id INT, Name TEXT, Price INT);''
     @ ''INSERT INTO Cars VALUES(2, '' @ [CHR 0x27] @ ''Mercedes'' @ [CHR 0x27] @ '', 57127);''
     @ ''INSERT INTO Cars VALUES(3, '' @ [CHR 0x27] @ ''Skoda'' @ [CHR 0x27] @ '', 9000);''
     @ ''INSERT INTO Cars VALUES(4, '' @ [CHR 0x27] @ ''Volvo'' @ [CHR 0x27] @ '', 29000);''
     @ ''INSERT INTO Cars VALUES(5, '' @ [CHR 0x27] @ ''Bentley'' @ [CHR 0x27] @ '', 350000);'')"

definition select_sql :: "byte list" where
  "select_sql = bytes ''SELECT * FROM Cars;''"

text \<open>
  A statement is executed; when it fails, its message is released and the connection closed, and the
  caller returns.  The result says whether to go on.
\<close>

definition exec_or_close :: "'s lib \<Rightarrow> nat \<Rightarrow> byte list \<Rightarrow> bool \<Rightarrow> bool \<Rightarrow> 's \<Rightarrow> bool \<times> 's" where
  "exec_or_close lib db sql cb arg s =
     (let (r, s) = lib (Sqlite3_exec db sql cb arg) s in
      if l_rc r \<noteq> SQLITE_OK then
        let (_, s) = lib (Sqlite3_free (l_ptr r)) s;
            (_, s) = lib (Sqlite3_close db) s in
        (False, s)
      else (True, s))"

section \<open>The trusted application\<close>

definition TA_CreateEntryPoint :: u32 where
  "TA_CreateEntryPoint = TEE_SUCCESS"

definition TA_OpenSessionEntryPoint :: "u32 \<Rightarrow> u32" where
  "TA_OpenSessionEntryPoint param_types =
     (let exp_param_types = TEE_PARAM_TYPES TEE_PARAM_TYPE_NONE TEE_PARAM_TYPE_NONE TEE_PARAM_TYPE_NONE TEE_PARAM_TYPE_NONE in
      if param_types \<noteq> exp_param_types then TEE_ERROR_BAD_PARAMETERS else TEE_SUCCESS)"

text \<open>\<open>testWithotKey\<close> returns nothing the caller could use; the second open is not checked.\<close>

definition testWithotKey :: "'s lib \<Rightarrow> 's \<Rightarrow> 's" where
  "testWithotKey lib s =
     (let (r, s) = lib (Sqlite3_open (bytes ''/tmp/test1.db'')) s in
      if l_rc r \<noteq> SQLITE_OK then snd (lib (Sqlite3_close (l_ptr r)) s)
      else
        let (ok, s) = exec_or_close lib (l_ptr r) create_sql False False s in
        if \<not> ok then s
        else
          let (_, s) = lib (Sqlite3_close (l_ptr r)) s;
              (r, s) = lib (Sqlite3_open (bytes ''/tmp/test1.db'')) s;
              (ok, s) = exec_or_close lib (l_ptr r) select_sql True False s in
          if \<not> ok then s else snd (lib (Sqlite3_close (l_ptr r)) s))"

text \<open>\<open>exec\<close>; the parameter types are looked at when all is done.\<close>

definition exec_command :: "'s lib \<Rightarrow> u32 \<Rightarrow> 's \<Rightarrow> u32 \<times> 's" where
  "exec_command lib param_types s =
     (let exp_param_types = TEE_PARAM_TYPES TEE_PARAM_TYPE_VALUE_INOUT TEE_PARAM_TYPE_NONE TEE_PARAM_TYPE_NONE TEE_PARAM_TYPE_NONE;
          (_, s) = lib Now s;
          (r, s) = lib (Sqlite3_open (bytes ''/tmp/test.db'')) s;
          db = l_ptr r;
          (_, s) = lib (Sqlite3_key db (bytes ''123456'' @ [0]) 6) s in
      if l_rc r \<noteq> SQLITE_OK then (1, snd (lib (Sqlite3_close db) s))
      else
        let (ok, s) = exec_or_close lib db create_sql False False s in
        if \<not> ok then (1, s)
        else
          let (ok, s) = exec_or_close lib db select_sql True False s in
          if \<not> ok then (1, s)
          else
            let (_, s) = lib (Sqlite3_close db) s;
                (_, s) = lib Now s;
                s = testWithotKey lib s in
            if param_types \<noteq> exp_param_types then (TEE_ERROR_BAD_PARAMETERS, s) else (TEE_SUCCESS, s))"

definition TA_InvokeCommandEntryPoint :: "'s lib \<Rightarrow> u32 \<Rightarrow> u32 \<Rightarrow> 's \<Rightarrow> u32 \<times> 's" where
  "TA_InvokeCommandEntryPoint lib cmd_id param_types s =
     (if cmd_id = TA_TEE_SQLITE_EXEC then exec_command lib param_types s else (TEE_ERROR_BAD_PARAMETERS, s))"

section \<open>The host program\<close>

text \<open>The loop of 1000 queries; the callback is passed in the place of its argument.\<close>

primrec query_loop :: "nat \<Rightarrow> 's lib \<Rightarrow> nat \<Rightarrow> 's \<Rightarrow> bool \<times> 's" where
  "query_loop 0 lib db s = (True, s)"
| "query_loop (Suc n) lib db s =
     (let (ok, s) = exec_or_close lib db (bytes ''select * from Cars;'') False True s in
      if \<not> ok then (False, s) else query_loop n lib db s)"

text \<open>\<open>errx (1, \<dots>)\<close> ends the process; the result is the exit status.\<close>

definition teec_part :: "'s lib \<Rightarrow> 's \<Rightarrow> int \<times> 's" where
  "teec_part lib s =
     (let (r, s) = lib TEEC_InitializeContext s in
      if l_rc r \<noteq> 0 then (1, s)
      else
        let (r, s) = lib TEEC_OpenSession s in
        if l_rc r \<noteq> 0 then (1, s)
        else
          let (r, s) = lib (TEEC_InvokeCommand TA_TEE_SQLITE_EXEC
                (TEE_PARAM_TYPES TEE_PARAM_TYPE_VALUE_INOUT TEE_PARAM_TYPE_NONE TEE_PARAM_TYPE_NONE TEE_PARAM_TYPE_NONE) 42) s in
          if l_rc r \<noteq> 0 then (1, s)
          else
            let (_, s) = lib TEEC_CloseSession s;
                (_, s) = lib TEEC_FinalizeContext s in
            (0, s))"

definition host_main :: "'s lib \<Rightarrow> 's \<Rightarrow> int \<times> 's" where
  "host_main lib s =
     (let (_, s) = lib Now s;
          (r, s) = lib (Sqlite3_open (bytes ''/tmp/test2.db'')) s;
          db = l_ptr r in
      if l_rc r \<noteq> SQLITE_OK then (1, snd (lib (Sqlite3_close db) s))
      else
        let (ok, s) = exec_or_close lib db
              (bytes (''DROP TABLE IF EXISTS Cars;'' @ ''CREATE TABLE Cars(Id INT, Name TEXT, Price INT);'')) False False s in
        if \<not> ok then (1, s)
        else
          let (_, s) = lib (Sqlite3_close db) s;
              (_, s) = lib Now s;
              (_, s) = lib Now s;
              (r, s) = lib (Sqlite3_open (bytes ''/tmp/test2.db'')) s;
              db = l_ptr r;
              (ok, s) = query_loop 1000 lib db s in
          if \<not> ok then (1, s)
          else
            let (_, s) = lib (Sqlite3_close db) s;
                (_, s) = lib Now s in
            teec_part lib s)"

section \<open>Connections\<close>

text \<open>
  \<open>dbs\<close> are the connections that are open: \<open>sqlite3_open\<close> adds the one it returns, also when it fails,
  unless that is null, \<open>sqlite3_close\<close> removes its own, the rest keeps them.
\<close>

definition connections_law :: "'s lib \<Rightarrow> ('s \<Rightarrow> nat set) \<Rightarrow> bool" where
  "connections_law lib dbs \<longleftrightarrow>
     (\<forall>s p. 0 \<notin> dbs s \<longrightarrow>
        (let (r, t) = lib (Sqlite3_open p) s in
         l_ptr r \<notin> dbs s \<and> dbs t = (if l_ptr r = 0 then dbs s else insert (l_ptr r) (dbs s)))) \<and>
     (\<forall>s db. dbs (snd (lib (Sqlite3_close db) s)) = dbs s - {db}) \<and>
     (\<forall>s c. (\<forall>p. c \<noteq> Sqlite3_open p) \<and> (\<forall>db. c \<noteq> Sqlite3_close db) \<longrightarrow> dbs (snd (lib c s)) = dbs s)"

lemma opened:
  assumes "connections_law lib dbs" and "lib (Sqlite3_open p) s = (r, t)" and "0 \<notin> dbs s"
  shows "l_ptr r \<notin> dbs s \<and> dbs t = (if l_ptr r = 0 then dbs s else insert (l_ptr r) (dbs s))"
proof -
  have "let (r, t) = lib (Sqlite3_open p) s in
      l_ptr r \<notin> dbs s \<and> dbs t = (if l_ptr r = 0 then dbs s else insert (l_ptr r) (dbs s))"
    using assms(1,3) unfolding connections_law_def by blast
  with assms(2) show ?thesis by simp
qed

lemma closed: "lib (Sqlite3_close db) s = (r, t) \<Longrightarrow> connections_law lib dbs \<Longrightarrow> dbs t = dbs s - {db}"
  unfolding connections_law_def by (metis snd_conv)

lemma kept:
  assumes "lib c s = (r, t)" and "connections_law lib dbs"
    and "\<forall>p. c \<noteq> Sqlite3_open p" and "\<forall>db. c \<noteq> Sqlite3_close db"
  shows "dbs t = dbs s"
  using assms unfolding connections_law_def by (metis snd_conv)

lemma exec_or_close_dbs:
  assumes law: "connections_law lib dbs" and run: "exec_or_close lib db sql cb arg s = (ok, t)"
  shows "dbs t = (if ok then dbs s else dbs s - {db})"
proof -
  obtain r s1 where 1: "lib (Sqlite3_exec db sql cb arg) s = (r, s1)" by fastforce
  obtain q s2 where 2: "lib (Sqlite3_free (l_ptr r)) s1 = (q, s2)" by fastforce
  obtain z s3 where 3: "lib (Sqlite3_close db) s2 = (z, s3)" by fastforce
  show ?thesis
    using run 1 2 3 kept [OF 1 law] kept [OF 2 law] closed [OF 3 law]
    by (auto simp: exec_or_close_def split: if_splits)
qed

lemma query_loop_dbs:
  assumes law: "connections_law lib dbs"
  shows "query_loop n lib db s = (ok, t) \<Longrightarrow> dbs t = (if ok then dbs s else dbs s - {db})"
proof (induction n arbitrary: s)
  case 0
  then show ?case by simp
next
  case (Suc n)
  obtain b s1 where 1: "exec_or_close lib db (bytes ''select * from Cars;'') False True s = (b, s1)" by fastforce
  from exec_or_close_dbs [OF law 1] Suc 1 show ?case by (cases b) auto
qed

text \<open>Opening a connection, working on it and closing it.\<close>

lemma open_close_dbs:
  assumes law: "connections_law lib dbs" and none: "0 \<notin> dbs s"
    and "lib (Sqlite3_open p) s = (r, s1)" and "dbs s2 = dbs s1"
    and "lib (Sqlite3_close (l_ptr r)) s2 = (q, t)"
  shows "dbs t = dbs s"
  using opened [OF law assms(3) none] closed [OF assms(5) law] assms(4) none by (auto split: if_splits)

lemma session_dbs:
  assumes law: "connections_law lib dbs" and none: "0 \<notin> dbs s" and o: "lib (Sqlite3_open p) s = (r, s1)"
    and "dbs t = dbs s1 - {l_ptr r}"
  shows "dbs t = dbs s"
  using opened [OF law o none] assms(4) none by (auto split: if_splits)

lemma testWithotKey_dbs:
  assumes law: "connections_law lib dbs" and none: "0 \<notin> dbs s"
  shows "dbs (testWithotKey lib s) = dbs s"
proof -
  let ?p = "bytes ''/tmp/test1.db''"
  obtain r s1 where o: "lib (Sqlite3_open ?p) s = (r, s1)" by fastforce
  obtain q c where c: "lib (Sqlite3_close (l_ptr r)) s1 = (q, c)" by fastforce
  obtain ok s2 where e: "exec_or_close lib (l_ptr r) create_sql False False s1 = (ok, s2)" by fastforce
  obtain q' s3 where c': "lib (Sqlite3_close (l_ptr r)) s2 = (q', s3)" by fastforce
  obtain r' s4 where o': "lib (Sqlite3_open ?p) s3 = (r', s4)" by fastforce
  obtain ok' s5 where e': "exec_or_close lib (l_ptr r') select_sql True False s4 = (ok', s5)" by fastforce
  obtain q'' s6 where c'': "lib (Sqlite3_close (l_ptr r')) s5 = (q'', s6)" by fastforce
  have fail: "dbs c = dbs s" by (rule session_dbs [OF law none o closed [OF c law]])
  have bad: "\<not> ok \<Longrightarrow> dbs s2 = dbs s"
    using session_dbs [OF law none o, of s2] exec_or_close_dbs [OF law e] by simp
  have mid: "ok \<Longrightarrow> dbs s3 = dbs s"
    using session_dbs [OF law none o, of s3] exec_or_close_dbs [OF law e] closed [OF c' law] by simp
  have last: "ok \<Longrightarrow> dbs (if \<not> ok' then s5 else s6) = dbs s"
    using session_dbs [OF law _ o', of "if \<not> ok' then s5 else s6"] exec_or_close_dbs [OF law e'] closed [OF c'' law]
      mid none by simp
  show ?thesis
    using o c e c' o' e' c'' fail bad last by (cases ok; cases ok') (simp_all add: testWithotKey_def)
qed

lemma exec_command_dbs:
  assumes law: "connections_law lib dbs" and none: "0 \<notin> dbs s"
  shows "dbs (snd (exec_command lib pt s)) = dbs s"
proof -
  obtain r0 s0 where n: "lib Now s = (r0, s0)" by fastforce
  obtain r s1 where o: "lib (Sqlite3_open (bytes ''/tmp/test.db'')) s0 = (r, s1)" by fastforce
  obtain r2 s2 where k: "lib (Sqlite3_key (l_ptr r) (bytes ''123456'' @ [0]) 6) s1 = (r2, s2)" by fastforce
  obtain q c where c: "lib (Sqlite3_close (l_ptr r)) s2 = (q, c)" by fastforce
  obtain ok s3 where e: "exec_or_close lib (l_ptr r) create_sql False False s2 = (ok, s3)" by fastforce
  obtain ok' s4 where e': "exec_or_close lib (l_ptr r) select_sql True False s3 = (ok', s4)" by fastforce
  obtain q' s5 where c': "lib (Sqlite3_close (l_ptr r)) s4 = (q', s5)" by fastforce
  obtain r6 s6 where n': "lib Now s5 = (r6, s6)" by fastforce
  have none0: "0 \<notin> dbs s0" using none kept [OF n law] by simp
  have D: "dbs s2 = dbs s1" using kept [OF k law] by simp
  have S: "dbs t = dbs s" if "dbs t = dbs s1 - {l_ptr r}" for t
    using session_dbs [OF law none0 o that] kept [OF n law] by simp
  have "dbs c = dbs s" using S closed [OF c law] D by simp
  moreover have "\<not> ok \<Longrightarrow> dbs s3 = dbs s" using S exec_or_close_dbs [OF law e] D by simp
  moreover have "ok \<Longrightarrow> \<not> ok' \<Longrightarrow> dbs s4 = dbs s"
    using S exec_or_close_dbs [OF law e] exec_or_close_dbs [OF law e'] D by simp
  moreover have "ok \<Longrightarrow> ok' \<Longrightarrow> dbs (testWithotKey lib s6) = dbs s"
    using S [of s5] exec_or_close_dbs [OF law e] exec_or_close_dbs [OF law e'] closed [OF c' law] kept [OF n' law] D
      testWithotKey_dbs [OF law, of s6] none by simp
  ultimately show ?thesis
    using n o k c e e' c' n' by (simp add: exec_command_def Let_def)
qed

section \<open>Properties\<close>

text \<open>C33. Whatever command and parameter types the normal world sends, and wherever SQLite fails, the trusted
  application returns with every connection it opened closed and no other one touched.\<close>

theorem invoke_closes_connections:
  assumes "connections_law lib dbs" and "0 \<notin> dbs s" and "TA_InvokeCommandEntryPoint lib cmd_id pt s = (res, s')"
  shows "dbs s' = dbs s"
  using exec_command_dbs [OF assms(1,2), of pt] assms(3)
  by (auto simp: TA_InvokeCommandEntryPoint_def split: if_splits)

text \<open>The parameter types are looked at too late: a request with the wrong types has all the effects of
  one with the right types before it is refused.\<close>

theorem wrong_types_execute:
  "snd (exec_command lib pt s) = snd (exec_command lib pt' s)"
  by (simp add: exec_command_def Let_def split: prod.split)

section \<open>At a concrete input\<close>

text \<open>A library that numbers its connections and succeeds in everything.\<close>

definition numbering_lib :: "(nat \<times> nat set) lib" where
  "numbering_lib c w =
     (case c of
        Sqlite3_open p \<Rightarrow> (\<lparr>l_rc = 0, l_ptr = Suc (fst w)\<rparr>, (Suc (fst w), insert (Suc (fst w)) (snd w)))
      | Sqlite3_close db \<Rightarrow> (\<lparr>l_rc = 0, l_ptr = 0\<rparr>, (fst w, snd w - {db}))
      | _ \<Rightarrow> (\<lparr>l_rc = 0, l_ptr = 0\<rparr>, w))"

definition open_ones :: "nat \<times> nat set \<Rightarrow> nat set" where
  "open_ones w = {x \<in> snd w. x \<le> fst w}"

lemma numbering_law: "connections_law numbering_lib open_ones"
  unfolding connections_law_def
  by (auto simp: numbering_lib_def open_ones_def split: lib_call.splits)

theorem invoke_closes_connections_witness:
  "fst (TA_InvokeCommandEntryPoint numbering_lib 0 3 (0, {})) = TEE_SUCCESS \<and>
   open_ones (snd (TA_InvokeCommandEntryPoint numbering_lib 0 3 (0, {}))) = {}"
proof -
  have "fst (TA_InvokeCommandEntryPoint numbering_lib 0 3 (0, {})) = TEE_SUCCESS"
    by (simp add: TA_InvokeCommandEntryPoint_def exec_command_def numbering_lib_def exec_or_close_def Let_def
        TEE_PARAM_TYPES_def)
  moreover have "open_ones (snd (TA_InvokeCommandEntryPoint numbering_lib 0 3 (0, {}))) = {}"
    using invoke_closes_connections [OF numbering_law _ prod.collapse [symmetric], of "(0, {})" 0 3]
    by (simp add: open_ones_def)
  ultimately show ?thesis by simp
qed

end
