(* ===== verification/Core_Scall.thy ===== *)
theory Core_Scall
  imports Vfs_Proto
begin

text \<open>
  How a system call of the trusted application reaches its function in the secure world: the stubs of
  \<open>utee_syscalls_asm.S\<close>, the numbers of \<open>tee_syscall_numbers.h\<close>, and the two tables and handlers of
  \<open>kernel/scall.c\<close>.  What the architecture does, taking the number and the arguments out of the registers and
  calling the function with them, is a parameter.
\<close>

section \<open>Numbers, stubs and tables\<close>

text \<open>
  The functions of the secure world: those of the VFS, one for each command, and the others by the name
  a table entry carries.
\<close>

datatype syscall = Sys string | Vfs vfs_cmd | Not_supported

text \<open>The numbers of the VFS calls.\<close>

primrec TEE_SCN :: "vfs_cmd \<Rightarrow> u64" where
  "TEE_SCN VFS_OPEN = 71"
| "TEE_SCN VFS_CLOSE = 72"
| "TEE_SCN VFS_ACCESS = 73"
| "TEE_SCN VFS_GETCWD = 74"
| "TEE_SCN VFS_STAT = 75"
| "TEE_SCN VFS_WRITE = 76"
| "TEE_SCN VFS_MKDIR = 77"
| "TEE_SCN VFS_RMDIR = 78"
| "TEE_SCN VFS_UNLINK = 79"
| "TEE_SCN VFS_FTRUNCATE = 80"
| "TEE_SCN VFS_READ = 81"
| "TEE_SCN VFS_FCHMOD = 82"
| "TEE_SCN VFS_FCHOWN = 83"
| "TEE_SCN VFS_GETEUID = 84"
| "TEE_SCN VFS_GETPID = 85"
| "TEE_SCN VFS_GETENV = 86"
| "TEE_SCN VFS_LSEEK = 87"
| "TEE_SCN VFS_FSYNC = 88"
| "TEE_SCN VFS_SLEEP = 89"
| "TEE_SCN VFS_PREAD = 90"
| "TEE_SCN VFS_PWRITE = 91"
| "TEE_SCN VFS_TRUNCATE = 92"
| "TEE_SCN VFS_GETTIMEOFDAY = 93"
| "TEE_SCN VFS_FSTAT = 94"
| "TEE_SCN VFS_FCNTL_VOID = 95"
| "TEE_SCN VFS_FCNTL_INT = 96"
| "TEE_SCN VFS_FCNTL_FLOCK = 97"
| "TEE_SCN VFS_UTIMES = 98"
| "TEE_SCN VFS_TIME = 99"
| "TEE_SCN VFS_USLEEP = 100"
| "TEE_SCN VFS_FILESIZE = 101"

abbreviation TEE_SCN_RETURN :: u64 where "TEE_SCN_RETURN \<equiv> 0"
abbreviation TEE_SCN_LOG :: u64 where "TEE_SCN_LOG \<equiv> 1"
abbreviation TEE_SCN_PANIC :: u64 where "TEE_SCN_PANIC \<equiv> 2"
abbreviation TEE_SCN_OPEN_TA_SESSION :: u64 where "TEE_SCN_OPEN_TA_SESSION \<equiv> 5"
abbreviation TEE_SCN_CLOSE_TA_SESSION :: u64 where "TEE_SCN_CLOSE_TA_SESSION \<equiv> 6"
abbreviation TEE_SCN_INVOKE_TA_COMMAND :: u64 where "TEE_SCN_INVOKE_TA_COMMAND \<equiv> 7"
abbreviation TEE_SCN_MAX :: u64 where "TEE_SCN_MAX \<equiv> 101"
abbreviation TEE_SVC_MAX_ARGS :: u64 where "TEE_SVC_MAX_ARGS \<equiv> 8"
abbreviation LDELF_SCN_MAX :: u64 where "LDELF_SCN_MAX \<equiv> 11"
abbreviation TEE_ERROR_GENERIC :: u32 where "TEE_ERROR_GENERIC \<equiv> 0xFFFF0000"

text \<open>A stub \<open>utee_vfs_\<dots>\<close> loads a number and says how many arguments it has.\<close>

primrec utee_vfs :: "vfs_cmd \<Rightarrow> u64 \<times> u64" where
  "utee_vfs VFS_OPEN = (TEE_SCN VFS_OPEN, 3)"
| "utee_vfs VFS_CLOSE = (TEE_SCN VFS_CLOSE, 1)"
| "utee_vfs VFS_ACCESS = (TEE_SCN VFS_ACCESS, 2)"
| "utee_vfs VFS_GETCWD = (TEE_SCN VFS_GETCWD, 2)"
| "utee_vfs VFS_STAT = (TEE_SCN VFS_STAT, 2)"
| "utee_vfs VFS_WRITE = (TEE_SCN VFS_WRITE, 3)"
| "utee_vfs VFS_MKDIR = (TEE_SCN VFS_MKDIR, 2)"
| "utee_vfs VFS_RMDIR = (TEE_SCN VFS_RMDIR, 1)"
| "utee_vfs VFS_UNLINK = (TEE_SCN VFS_UNLINK, 2)"
| "utee_vfs VFS_FTRUNCATE = (TEE_SCN VFS_FTRUNCATE, 2)"
| "utee_vfs VFS_READ = (TEE_SCN VFS_READ, 3)"
| "utee_vfs VFS_FCHMOD = (TEE_SCN VFS_FCHMOD, 2)"
| "utee_vfs VFS_FCHOWN = (TEE_SCN VFS_FCHOWN, 3)"
| "utee_vfs VFS_GETEUID = (TEE_SCN VFS_GETEUID, 0)"
| "utee_vfs VFS_GETPID = (TEE_SCN VFS_GETPID, 0)"
| "utee_vfs VFS_GETENV = (TEE_SCN VFS_GETENV, 1)"
| "utee_vfs VFS_LSEEK = (TEE_SCN VFS_LSEEK, 3)"
| "utee_vfs VFS_FSYNC = (TEE_SCN VFS_FSYNC, 1)"
| "utee_vfs VFS_SLEEP = (TEE_SCN VFS_SLEEP, 1)"
| "utee_vfs VFS_PREAD = (TEE_SCN VFS_PREAD, 1)"
| "utee_vfs VFS_PWRITE = (TEE_SCN VFS_PWRITE, 1)"
| "utee_vfs VFS_TRUNCATE = (TEE_SCN VFS_TRUNCATE, 2)"
| "utee_vfs VFS_GETTIMEOFDAY = (TEE_SCN VFS_GETTIMEOFDAY, 2)"
| "utee_vfs VFS_FSTAT = (TEE_SCN VFS_FSTAT, 2)"
| "utee_vfs VFS_FCNTL_VOID = (TEE_SCN VFS_FCNTL_VOID, 2)"
| "utee_vfs VFS_FCNTL_INT = (TEE_SCN VFS_FCNTL_INT, 3)"
| "utee_vfs VFS_FCNTL_FLOCK = (TEE_SCN VFS_FCNTL_FLOCK, 3)"
| "utee_vfs VFS_UTIMES = (TEE_SCN VFS_UTIMES, 2)"
| "utee_vfs VFS_TIME = (TEE_SCN VFS_TIME, 1)"
| "utee_vfs VFS_USLEEP = (TEE_SCN VFS_USLEEP, 1)"
| "utee_vfs VFS_FILESIZE = (TEE_SCN VFS_FILESIZE, 1)"

text \<open>The other numbers of \<open>tee_syscall_numbers.h\<close>, by what follows \<open>TEE_SCN_\<close> in the name.\<close>

definition tee_scn_numbers :: "(string \<times> u64) list" where
  "tee_scn_numbers =
     [(''RETURN'', 0), (''LOG'', 1), (''PANIC'', 2), (''GET_PROPERTY'', 3),
      (''GET_PROPERTY_NAME_TO_INDEX'', 4), (''OPEN_TA_SESSION'', 5), (''CLOSE_TA_SESSION'', 6),
      (''INVOKE_TA_COMMAND'', 7), (''CHECK_ACCESS_RIGHTS'', 8), (''GET_CANCELLATION_FLAG'', 9),
      (''UNMASK_CANCELLATION'', 10), (''MASK_CANCELLATION'', 11), (''WAIT'', 12), (''GET_TIME'', 13),
      (''SET_TA_TIME'', 14), (''CRYP_STATE_ALLOC'', 15), (''CRYP_STATE_COPY'', 16),
      (''CRYP_STATE_FREE'', 17), (''HASH_INIT'', 18), (''HASH_UPDATE'', 19), (''HASH_FINAL'', 20),
      (''CIPHER_INIT'', 21), (''CIPHER_UPDATE'', 22), (''CIPHER_FINAL'', 23), (''CRYP_OBJ_GET_INFO'', 24),
      (''CRYP_OBJ_RESTRICT_USAGE'', 25), (''CRYP_OBJ_GET_ATTR'', 26), (''CRYP_OBJ_ALLOC'', 27),
      (''CRYP_OBJ_CLOSE'', 28), (''CRYP_OBJ_RESET'', 29), (''CRYP_OBJ_POPULATE'', 30),
      (''CRYP_OBJ_COPY'', 31), (''CRYP_DERIVE_KEY'', 32), (''CRYP_RANDOM_NUMBER_GENERATE'', 33),
      (''AUTHENC_INIT'', 34), (''AUTHENC_UPDATE_AAD'', 35), (''AUTHENC_UPDATE_PAYLOAD'', 36),
      (''AUTHENC_ENC_FINAL'', 37), (''AUTHENC_DEC_FINAL'', 38), (''ASYMM_OPERATE'', 39),
      (''ASYMM_VERIFY'', 40), (''STORAGE_OBJ_OPEN'', 41), (''STORAGE_OBJ_CREATE'', 42),
      (''STORAGE_OBJ_DEL'', 43), (''STORAGE_OBJ_RENAME'', 44), (''STORAGE_ENUM_ALLOC'', 45),
      (''STORAGE_ENUM_FREE'', 46), (''STORAGE_ENUM_RESET'', 47), (''STORAGE_ENUM_START'', 48),
      (''STORAGE_ENUM_NEXT'', 49), (''STORAGE_OBJ_READ'', 50), (''STORAGE_OBJ_WRITE'', 51),
      (''STORAGE_OBJ_TRUNC'', 52), (''STORAGE_OBJ_SEEK'', 53), (''CRYP_OBJ_GENERATE_KEY'', 54),
      (''SE_SERVICE_OPEN__DEPRECATED'', 55), (''SE_SERVICE_CLOSE__DEPRECATED'', 56),
      (''SE_SERVICE_GET_READERS__DEPRECATED'', 57), (''SE_READER_GET_PROP__DEPRECATED'', 58),
      (''SE_READER_GET_NAME__DEPRECATED'', 59), (''SE_READER_OPEN_SESSION__DEPRECATED'', 60),
      (''SE_READER_CLOSE_SESSIONS__DEPRECATED'', 61), (''SE_SESSION_IS_CLOSED__DEPRECATED'', 62),
      (''SE_SESSION_GET_ATR__DEPRECATED'', 63), (''SE_SESSION_OPEN_CHANNEL__DEPRECATED'', 64),
      (''SE_SESSION_CLOSE__DEPRECATED'', 65), (''SE_CHANNEL_SELECT_NEXT__DEPRECATED'', 66),
      (''SE_CHANNEL_GET_SELECT_RESP__DEPRECATED'', 67), (''SE_CHANNEL_TRANSMIT__DEPRECATED'', 68),
      (''SE_CHANNEL_CLOSE__DEPRECATED'', 69), (''CACHE_OPERATION'', 70)]"

text \<open>The other stubs: the name, the number it loads, the count of its arguments.\<close>

definition utee_stubs :: "(string \<times> string \<times> u64) list" where
  "utee_stubs =
     [(''_utee_return'', ''RETURN'', 1), (''_utee_log'', ''LOG'', 2), (''__utee_panic'', ''PANIC'', 2),
      (''_utee_get_property'', ''GET_PROPERTY'', 7),
      (''_utee_get_property_name_to_index'', ''GET_PROPERTY_NAME_TO_INDEX'', 4),
      (''_utee_open_ta_session'', ''OPEN_TA_SESSION'', 5),
      (''_utee_close_ta_session'', ''CLOSE_TA_SESSION'', 1),
      (''_utee_invoke_ta_command'', ''INVOKE_TA_COMMAND'', 5),
      (''_utee_get_cancellation_flag'', ''GET_CANCELLATION_FLAG'', 1),
      (''_utee_check_access_rights'', ''CHECK_ACCESS_RIGHTS'', 3),
      (''_utee_unmask_cancellation'', ''UNMASK_CANCELLATION'', 1),
      (''_utee_mask_cancellation'', ''MASK_CANCELLATION'', 1), (''_utee_wait'', ''WAIT'', 1),
      (''_utee_get_time'', ''GET_TIME'', 2), (''_utee_set_ta_time'', ''SET_TA_TIME'', 1),
      (''_utee_cryp_state_alloc'', ''CRYP_STATE_ALLOC'', 5),
      (''_utee_cryp_state_copy'', ''CRYP_STATE_COPY'', 2),
      (''_utee_cryp_state_free'', ''CRYP_STATE_FREE'', 1), (''_utee_hash_init'', ''HASH_INIT'', 3),
      (''_utee_hash_update'', ''HASH_UPDATE'', 3), (''_utee_hash_final'', ''HASH_FINAL'', 5),
      (''_utee_cipher_init'', ''CIPHER_INIT'', 3), (''_utee_cipher_update'', ''CIPHER_UPDATE'', 5),
      (''_utee_cipher_final'', ''CIPHER_FINAL'', 5),
      (''_utee_cryp_obj_get_info'', ''CRYP_OBJ_GET_INFO'', 2),
      (''_utee_cryp_obj_restrict_usage'', ''CRYP_OBJ_RESTRICT_USAGE'', 2),
      (''_utee_cryp_obj_get_attr'', ''CRYP_OBJ_GET_ATTR'', 4),
      (''_utee_cryp_obj_alloc'', ''CRYP_OBJ_ALLOC'', 3), (''_utee_cryp_obj_close'', ''CRYP_OBJ_CLOSE'', 1),
      (''_utee_cryp_obj_reset'', ''CRYP_OBJ_RESET'', 1),
      (''_utee_cryp_obj_populate'', ''CRYP_OBJ_POPULATE'', 3),
      (''_utee_cryp_obj_copy'', ''CRYP_OBJ_COPY'', 2), (''_utee_cryp_derive_key'', ''CRYP_DERIVE_KEY'', 4),
      (''_utee_cryp_random_number_generate'', ''CRYP_RANDOM_NUMBER_GENERATE'', 2),
      (''_utee_authenc_init'', ''AUTHENC_INIT'', 6),
      (''_utee_authenc_update_aad'', ''AUTHENC_UPDATE_AAD'', 3),
      (''_utee_authenc_update_payload'', ''AUTHENC_UPDATE_PAYLOAD'', 5),
      (''_utee_authenc_enc_final'', ''AUTHENC_ENC_FINAL'', 7),
      (''_utee_authenc_dec_final'', ''AUTHENC_DEC_FINAL'', 7),
      (''_utee_asymm_operate'', ''ASYMM_OPERATE'', 7), (''_utee_asymm_verify'', ''ASYMM_VERIFY'', 7),
      (''_utee_storage_obj_open'', ''STORAGE_OBJ_OPEN'', 5),
      (''_utee_storage_obj_create'', ''STORAGE_OBJ_CREATE'', 8),
      (''_utee_storage_obj_del'', ''STORAGE_OBJ_DEL'', 1),
      (''_utee_storage_obj_rename'', ''STORAGE_OBJ_RENAME'', 3),
      (''_utee_storage_alloc_enum'', ''STORAGE_ENUM_ALLOC'', 1),
      (''_utee_storage_free_enum'', ''STORAGE_ENUM_FREE'', 1),
      (''_utee_storage_reset_enum'', ''STORAGE_ENUM_RESET'', 1),
      (''_utee_storage_start_enum'', ''STORAGE_ENUM_START'', 2),
      (''_utee_storage_next_enum'', ''STORAGE_ENUM_NEXT'', 4),
      (''_utee_storage_obj_read'', ''STORAGE_OBJ_READ'', 4),
      (''_utee_storage_obj_write'', ''STORAGE_OBJ_WRITE'', 3),
      (''_utee_storage_obj_trunc'', ''STORAGE_OBJ_TRUNC'', 2),
      (''_utee_storage_obj_seek'', ''STORAGE_OBJ_SEEK'', 3),
      (''_utee_cryp_obj_generate_key'', ''CRYP_OBJ_GENERATE_KEY'', 4),
      (''_utee_cache_operation'', ''CACHE_OPERATION'', 3)]"

text \<open>The prototypes of \<open>utee_syscalls.h\<close> before those of the VFS, with the number of their parameters.\<close>

definition utee_prototypes :: "(string \<times> u64) list" where
  "utee_prototypes =
     [(''_utee_return'', 1), (''_utee_log'', 2), (''_utee_panic'', 1), (''_utee_get_property'', 7),
      (''_utee_get_property_name_to_index'', 4), (''_utee_open_ta_session'', 5),
      (''_utee_close_ta_session'', 1), (''_utee_invoke_ta_command'', 5),
      (''_utee_check_access_rights'', 3), (''_utee_get_cancellation_flag'', 1),
      (''_utee_unmask_cancellation'', 1), (''_utee_mask_cancellation'', 1), (''_utee_wait'', 1),
      (''_utee_get_time'', 2), (''_utee_set_ta_time'', 1), (''_utee_cryp_state_alloc'', 5),
      (''_utee_cryp_state_copy'', 2), (''_utee_cryp_state_free'', 1), (''_utee_hash_init'', 3),
      (''_utee_hash_update'', 3), (''_utee_hash_final'', 5), (''_utee_cipher_init'', 3),
      (''_utee_cipher_update'', 5), (''_utee_cipher_final'', 5), (''_utee_cryp_obj_get_info'', 2),
      (''_utee_cryp_obj_restrict_usage'', 2), (''_utee_cryp_obj_get_attr'', 4),
      (''_utee_cryp_obj_alloc'', 3), (''_utee_cryp_obj_close'', 1), (''_utee_cryp_obj_reset'', 1),
      (''_utee_cryp_obj_populate'', 3), (''_utee_cryp_obj_copy'', 2), (''_utee_cryp_obj_generate_key'', 4),
      (''_utee_cryp_derive_key'', 4), (''_utee_cryp_random_number_generate'', 2),
      (''_utee_authenc_init'', 6), (''_utee_authenc_update_aad'', 3),
      (''_utee_authenc_update_payload'', 5), (''_utee_authenc_enc_final'', 7),
      (''_utee_authenc_dec_final'', 7), (''_utee_asymm_operate'', 7), (''_utee_asymm_verify'', 7),
      (''_utee_storage_obj_open'', 5), (''_utee_storage_obj_create'', 8), (''_utee_storage_obj_del'', 1),
      (''_utee_storage_obj_rename'', 3), (''_utee_storage_alloc_enum'', 1),
      (''_utee_storage_free_enum'', 1), (''_utee_storage_reset_enum'', 1),
      (''_utee_storage_start_enum'', 2), (''_utee_storage_next_enum'', 4), (''_utee_storage_obj_read'', 4),
      (''_utee_storage_obj_write'', 3), (''_utee_storage_obj_trunc'', 2), (''_utee_storage_obj_seek'', 3),
      (''_utee_cache_operation'', 3), (''_utee_gprof_send'', 3)]"

text \<open>The parameters that the prototypes of the VFS stubs declare.\<close>

primrec declared_args :: "vfs_cmd \<Rightarrow> u64" where
  "declared_args VFS_OPEN = 3"
| "declared_args VFS_CLOSE = 1"
| "declared_args VFS_ACCESS = 2"
| "declared_args VFS_GETCWD = 2"
| "declared_args VFS_STAT = 2"
| "declared_args VFS_WRITE = 3"
| "declared_args VFS_MKDIR = 2"
| "declared_args VFS_RMDIR = 1"
| "declared_args VFS_UNLINK = 2"
| "declared_args VFS_FTRUNCATE = 2"
| "declared_args VFS_READ = 3"
| "declared_args VFS_FCHMOD = 2"
| "declared_args VFS_FCHOWN = 3"
| "declared_args VFS_GETEUID = 0"
| "declared_args VFS_GETPID = 0"
| "declared_args VFS_GETENV = 1"
| "declared_args VFS_LSEEK = 3"
| "declared_args VFS_FSYNC = 1"
| "declared_args VFS_SLEEP = 1"
| "declared_args VFS_PREAD = 4"
| "declared_args VFS_PWRITE = 4"
| "declared_args VFS_TRUNCATE = 2"
| "declared_args VFS_GETTIMEOFDAY = 2"
| "declared_args VFS_FSTAT = 2"
| "declared_args VFS_FCNTL_VOID = 2"
| "declared_args VFS_FCNTL_INT = 3"
| "declared_args VFS_FCNTL_FLOCK = 3"
| "declared_args VFS_UTIMES = 2"
| "declared_args VFS_TIME = 1"
| "declared_args VFS_USLEEP = 1"
| "declared_args VFS_FILESIZE = 1"

definition tee_syscall_table :: "syscall list" where
  "tee_syscall_table =
     [Sys ''syscall_sys_return'', Sys ''syscall_log'', Sys ''syscall_panic'', Sys ''syscall_get_property'',
      Sys ''syscall_get_property_name_to_index'', Sys ''syscall_open_ta_session'',
      Sys ''syscall_close_ta_session'', Sys ''syscall_invoke_ta_command'',
      Sys ''syscall_check_access_rights'', Sys ''syscall_get_cancellation_flag'',
      Sys ''syscall_unmask_cancellation'', Sys ''syscall_mask_cancellation'', Sys ''syscall_wait'',
      Sys ''syscall_get_time'', Sys ''syscall_set_ta_time'', Sys ''syscall_cryp_state_alloc'',
      Sys ''syscall_cryp_state_copy'', Sys ''syscall_cryp_state_free'', Sys ''syscall_hash_init'',
      Sys ''syscall_hash_update'', Sys ''syscall_hash_final'', Sys ''syscall_cipher_init'',
      Sys ''syscall_cipher_update'', Sys ''syscall_cipher_final'', Sys ''syscall_cryp_obj_get_info'',
      Sys ''syscall_cryp_obj_restrict_usage'', Sys ''syscall_cryp_obj_get_attr'',
      Sys ''syscall_cryp_obj_alloc'', Sys ''syscall_cryp_obj_close'', Sys ''syscall_cryp_obj_reset'',
      Sys ''syscall_cryp_obj_populate'', Sys ''syscall_cryp_obj_copy'', Sys ''syscall_cryp_derive_key'',
      Sys ''syscall_cryp_random_number_generate'', Sys ''syscall_authenc_init'',
      Sys ''syscall_authenc_update_aad'', Sys ''syscall_authenc_update_payload'',
      Sys ''syscall_authenc_enc_final'', Sys ''syscall_authenc_dec_final'', Sys ''syscall_asymm_operate'',
      Sys ''syscall_asymm_verify'', Sys ''syscall_storage_obj_open'', Sys ''syscall_storage_obj_create'',
      Sys ''syscall_storage_obj_del'', Sys ''syscall_storage_obj_rename'',
      Sys ''syscall_storage_alloc_enum'', Sys ''syscall_storage_free_enum'',
      Sys ''syscall_storage_reset_enum'', Sys ''syscall_storage_start_enum'',
      Sys ''syscall_storage_next_enum'', Sys ''syscall_storage_obj_read'',
      Sys ''syscall_storage_obj_write'', Sys ''syscall_storage_obj_trunc'',
      Sys ''syscall_storage_obj_seek'', Sys ''syscall_obj_generate_key'', Not_supported, Not_supported,
      Not_supported, Not_supported, Not_supported, Not_supported, Not_supported, Not_supported,
      Not_supported, Not_supported, Not_supported, Not_supported, Not_supported, Not_supported,
      Not_supported, Sys ''syscall_cache_operation'', Vfs VFS_OPEN, Vfs VFS_CLOSE, Vfs VFS_ACCESS,
      Vfs VFS_GETCWD, Vfs VFS_STAT, Vfs VFS_WRITE, Vfs VFS_MKDIR, Vfs VFS_RMDIR, Vfs VFS_UNLINK,
      Vfs VFS_FTRUNCATE, Vfs VFS_READ, Vfs VFS_FCHMOD, Vfs VFS_FCHOWN, Vfs VFS_GETEUID, Vfs VFS_GETPID,
      Vfs VFS_GETENV, Vfs VFS_LSEEK, Vfs VFS_FSYNC, Vfs VFS_SLEEP, Vfs VFS_PREAD, Vfs VFS_PWRITE,
      Vfs VFS_TRUNCATE, Vfs VFS_GETTIMEOFDAY, Vfs VFS_FSTAT, Vfs VFS_FCNTL_VOID, Vfs VFS_FCNTL_INT,
      Vfs VFS_FCNTL_FLOCK, Vfs VFS_UTIMES, Vfs VFS_TIME, Vfs VFS_USLEEP, Vfs VFS_FILESIZE]"

definition ldelf_syscall_table :: "syscall list" where
  "ldelf_syscall_table =
     [Sys ''syscall_sys_return'', Sys ''syscall_log'', Sys ''syscall_panic'', Sys ''ldelf_syscall_map_zi'',
      Sys ''ldelf_syscall_unmap'', Sys ''ldelf_syscall_open_bin'', Sys ''ldelf_syscall_close_bin'',
      Sys ''ldelf_syscall_map_bin'', Sys ''ldelf_syscall_copy_from_bin'', Sys ''ldelf_syscall_set_prot'',
      Sys ''ldelf_syscall_remap'', Sys ''ldelf_syscall_gen_rnd_num'']"

definition get_tee_syscall_func :: "u64 \<Rightarrow> syscall" where
  "get_tee_syscall_func num =
     (if TEE_SCN_MAX < num then Not_supported else tee_syscall_table ! unat num)"

definition get_ldelf_syscall_func :: "u64 \<Rightarrow> syscall" where
  "get_ldelf_syscall_func num =
     (if LDELF_SCN_MAX < num then Not_supported else ldelf_syscall_table ! unat num)"

section \<open>The handlers\<close>

text \<open>
  The sessions of the thread, the first one current.  \<open>fbuf\<close> is \<open>syscall_trace_enabled\<close> of its function
  trace buffer, \<open>None\<close> when it has none.  \<open>trace\<close> is what \<open>FMSG\<close> has printed.
\<close>

record ts_session =
  fbuf :: "bool option"

record 's core =
  sess_stack :: "ts_session list"
  trace :: "syscall list"
  core_state :: 's

record scall_config =
  TRACE_SYSCALLS :: bool
  CFG_SYSCALL_FTRACE :: bool

text \<open>
  The functions of the architecture over its registers \<open>'r\<close>; \<open>'v\<close> is the type of the value a system call
  returns, \<open>of_result\<close> the conversion of a \<open>TEE_Result\<close> to it.
\<close>

record ('r, 'v, 's) arch =
  scall_get_max_args :: "'r \<Rightarrow> u64 \<times> u64"
  scall_set_retval :: "'v \<Rightarrow> 'r \<Rightarrow> 'r"
  of_result :: "u32 \<Rightarrow> 'v"
  scall_do_call :: "syscall \<Rightarrow> 'r \<Rightarrow> 's core \<Rightarrow> 'v \<times> 'r \<times> 's core"
  scall_save_panic_stack :: "'r \<Rightarrow> 's core \<Rightarrow> 's core"
  scall_set_sys_return_regs :: "bool \<Rightarrow> u32 \<Rightarrow> 'r \<Rightarrow> 'r"

definition trace_syscall :: "scall_config \<Rightarrow> u64 \<Rightarrow> 's core \<Rightarrow> 's core" where
  "trace_syscall cfg num t =
     (if \<not> TRACE_SYSCALLS cfg \<or> num = TEE_SCN_RETURN \<or> num = TEE_SCN_LOG \<or> TEE_SCN_MAX < num then t
      else t\<lparr>trace := trace t @ [tee_syscall_table ! unat num]\<rparr>)"

definition set_fbuf :: "bool \<Rightarrow> 's core \<Rightarrow> 's core" where
  "set_fbuf b t =
     (case sess_stack t of
        [] \<Rightarrow> t
      | s # ss \<Rightarrow> t\<lparr>sess_stack := s\<lparr>fbuf := map_option (\<lambda>_. b) (fbuf s)\<rparr> # ss\<rparr>)"

definition ftrace_syscall_enter :: "scall_config \<Rightarrow> u64 \<Rightarrow> 's core \<Rightarrow> 's core" where
  "ftrace_syscall_enter cfg num t =
     (if \<not> CFG_SYSCALL_FTRACE cfg then t
      else if num = TEE_SCN_OPEN_TA_SESSION \<or> num = TEE_SCN_CLOSE_TA_SESSION \<or> num = TEE_SCN_INVOKE_TA_COMMAND
      then t
      else set_fbuf True t)"

definition ftrace_syscall_leave :: "scall_config \<Rightarrow> 's core \<Rightarrow> 's core" where
  "ftrace_syscall_leave cfg t = (if \<not> CFG_SYSCALL_FTRACE cfg then t else set_fbuf False t)"

text \<open>The result says whether to return to user mode.\<close>

definition scall_handle_user_ta ::
    "scall_config \<Rightarrow> ('r, 'v, 's) arch \<Rightarrow> 'r \<Rightarrow> 's core \<Rightarrow> bool \<times> 'r \<times> 's core" where
  "scall_handle_user_ta cfg a regs t =
     (let (scn, max_args) = scall_get_max_args a regs;
          t = trace_syscall cfg scn t in
      if TEE_SVC_MAX_ARGS < max_args then (True, scall_set_retval a (of_result a TEE_ERROR_GENERIC) regs, t)
      else
        let scf = get_tee_syscall_func scn;
            t = ftrace_syscall_enter cfg scn t;
            (v, regs, t) = scall_do_call a scf regs t;
            regs = scall_set_retval a v regs;
            t = ftrace_syscall_leave cfg t in
        (scn \<noteq> TEE_SCN_RETURN \<and> scn \<noteq> TEE_SCN_PANIC, regs, t))"

text \<open>\<open>LDELF_RETURN\<close> and \<open>LDELF_PANIC\<close> are 0 and 2, as for a trusted application.\<close>

definition scall_handle_ldelf ::
    "scall_config \<Rightarrow> ('r, 'v, 's) arch \<Rightarrow> 'r \<Rightarrow> 's core \<Rightarrow> bool \<times> 'r \<times> 's core" where
  "scall_handle_ldelf cfg a regs t =
     (let (scn, max_args) = scall_get_max_args a regs;
          t = trace_syscall cfg scn t in
      if TEE_SVC_MAX_ARGS < max_args then (True, scall_set_retval a (of_result a TEE_ERROR_GENERIC) regs, t)
      else
        let scf = get_ldelf_syscall_func scn;
            t = ftrace_syscall_enter cfg scn t;
            (v, regs, t) = scall_do_call a scf regs t;
            regs = scall_set_retval a v regs;
            t = ftrace_syscall_leave cfg t in
        (scn \<noteq> TEE_SCN_RETURN \<and> scn \<noteq> TEE_SCN_PANIC, regs, t))"

definition scall_sys_return_helper ::
    "('r, 'v, 's) arch \<Rightarrow> u32 \<Rightarrow> bool \<Rightarrow> u32 \<Rightarrow> 'r \<Rightarrow> 's core \<Rightarrow> u32 \<times> 'r \<times> 's core" where
  "scall_sys_return_helper a r panic panic_code regs t =
     (let t = (if panic then scall_save_panic_stack a regs t else t) in
      (r, scall_set_sys_return_regs a panic panic_code regs, t))"

section \<open>The tables fit together\<close>

lemma table_lengths [simp]: "length tee_syscall_table = 102" "length ldelf_syscall_table = 12"
  by (simp_all add: tee_syscall_table_def ldelf_syscall_table_def)

lemma vfs_dispatch: "get_tee_syscall_func (TEE_SCN c) = Vfs c"
  by (cases c) (simp_all add: get_tee_syscall_func_def tee_syscall_table_def)

end
