(* ===== verification/Core_Vfs.thy ===== *)
theory Core_Vfs
  imports Vfs_Proto
begin

text \<open>
  The secure-world side, \<open>optee_os/core/tee/tee_sqlite.c\<close>: one system call per VFS command.  Each
  fills the parameters of a remote procedure call, moves strings and buffers through memory it shares
  with the normal world, issues the call and takes the answer out of parameter 0.

  The thread and memory services of the OP-TEE core (\<open>thread_rpc_alloc_payload\<close>,
  \<open>thread_rpc_free_payload\<close>, \<open>thread_rpc_cmd\<close>, \<open>mobj_get_va\<close>, \<open>malloc\<close>) are not in the repository: they
  are the fields of \<open>core_env\<close>, over a state \<open>'s\<close> of their own.
\<close>

section \<open>Remote procedure calls\<close>

record mobj =
  mo_cookie :: u64
  mo_size :: u64

datatype dir = PIN | POUT | PINOUT

text \<open>\<open>struct thread_param\<close>, with the macros \<open>THREAD_PARAM_VALUE\<close> and \<open>THREAD_PARAM_MEMREF\<close>.\<close>

datatype thread_param =
    PARAM_NONE
  | PARAM_VALUE dir u64 u64 u64
  | PARAM_MEMREF dir "mobj option" u64 u64

text \<open>\<open>u.value.b\<close> and \<open>u.value.c\<close>; a value and a memory reference share their storage.\<close>

fun value_b :: "thread_param \<Rightarrow> u64" where
  "value_b PARAM_NONE = 0"
| "value_b (PARAM_VALUE d a b c) = b"
| "value_b (PARAM_MEMREF d m offs sz) = sz"

fun value_c :: "thread_param \<Rightarrow> u64" where
  "value_c PARAM_NONE = 0"
| "value_c (PARAM_VALUE d a b c) = c"
| "value_c (PARAM_MEMREF d m offs sz) = (case m of None \<Rightarrow> 0 | Some mo \<Rightarrow> mo_cookie mo)"

record 's core_env =
  rpc_alloc :: "u64 \<Rightarrow> 's \<Rightarrow> mobj option \<times> 's"
  rpc_free :: "mobj option \<Rightarrow> 's \<Rightarrow> 's"
  rpc_cmd :: "u32 \<Rightarrow> u64 \<Rightarrow> thread_param list \<Rightarrow> 's \<Rightarrow> (u32 \<times> thread_param list) \<times> 's"
  mobj_write :: "mobj \<Rightarrow> byte list \<Rightarrow> 's \<Rightarrow> 's"
  mobj_read :: "mobj \<Rightarrow> u64 \<Rightarrow> 's \<Rightarrow> byte list"
  core_malloc :: "u64 \<Rightarrow> 's \<Rightarrow> bool \<times> 's"
  OPTEE_RPC_CMD_VFS :: u32

definition rpc_vfs :: "'s core_env \<Rightarrow> u64 \<Rightarrow> thread_param list \<Rightarrow> 's \<Rightarrow> (u32 \<times> thread_param list) \<times> 's" where
  "rpc_vfs env n params s = rpc_cmd env (OPTEE_RPC_CMD_VFS env) n params s"

text \<open>
  The frame of the system calls that share memory: allocate, leave through the label \<open>exit\<close> with the
  initial value of \<open>ret\<close> when there is no memory or too little, otherwise run the body, and free.
\<close>

definition with_payload ::
    "'s core_env \<Rightarrow> u64 \<Rightarrow> 'r \<Rightarrow> (mobj \<Rightarrow> 's \<Rightarrow> 'r \<times> 's) \<Rightarrow> 's \<Rightarrow> 'r \<times> 's" where
  "with_payload env len fail body s =
     (let (mo, s) = rpc_alloc env len s in
      case mo of
        None \<Rightarrow> (fail, rpc_free env None s)
      | Some m \<Rightarrow>
          if mo_size m < len then (fail, rpc_free env mo s)
          else let (r, s) = body m s in (r, rpc_free env mo s))"

text \<open>\<open>strlen (path) + 1\<close>.\<close>

definition cstr_size :: "byte list \<Rightarrow> u64" where
  "cstr_size path = word_of_nat (length path) + 1"

text \<open>
  \<open>struct my_stat\<close> (packed), \<open>struct my_flock\<close>, \<open>struct timeval\<close>, \<open>struct timezone\<close> of \<open>utee_types.h\<close>,
  as the sums of the sizes of their fields and paddings.
\<close>

definition sizeof_my_stat :: u64 where
  "sizeof_my_stat = 8 + 8 + 4 + 4 + 4 + 4 + 8 + 8 + 8 + 4 + 4 + 8 + 16 + 16 + 16 + 3 * 4"

definition sizeof_my_flock :: u64 where
  "sizeof_my_flock = 2 + 2 + 4 + 8 + 8 + 4 + 4"

definition sizeof_timeval :: u64 where
  "sizeof_timeval = 8 + 8"

definition sizeof_timezone :: u64 where
  "sizeof_timezone = 4 + 4"

definition sizeof_times :: u64 where
  "sizeof_times = 8"

section \<open>The system calls\<close>

definition syscall_vfs_open :: "'s core_env \<Rightarrow> byte list \<Rightarrow> s32 \<Rightarrow> s32 \<Rightarrow> 's \<Rightarrow> s32 \<times> 's" where
  "syscall_vfs_open env path oflag arg1 s =
     with_payload env (cstr_size path) (- 1) (\<lambda>m s.
       let s = mobj_write env m (path @ [0]) s in
       let ((_, params), s) = rpc_vfs env 3
             [PARAM_VALUE PINOUT (optee_vfs VFS_OPEN) 0 0,
              PARAM_MEMREF PIN (Some m) 0 0,
              PARAM_VALUE PIN (int_to_u64 oflag) (int_to_u64 arg1) 0] s in
       (u64_to_int (value_b (params ! 0)), s)) s"

definition syscall_vfs_close :: "'s core_env \<Rightarrow> s32 \<Rightarrow> 's \<Rightarrow> s32 \<times> 's" where
  "syscall_vfs_close env fd s =
     (let ((_, params), s) = rpc_vfs env 2
            [PARAM_VALUE PINOUT (optee_vfs VFS_CLOSE) 0 0,
             PARAM_VALUE PIN (int_to_u64 fd) 0 0] s in
      (u64_to_int (value_b (params ! 0)), s))"

definition syscall_vfs_access :: "'s core_env \<Rightarrow> byte list \<Rightarrow> s32 \<Rightarrow> 's \<Rightarrow> s32 \<times> 's" where
  "syscall_vfs_access env name type s =
     with_payload env (cstr_size name) (- 1) (\<lambda>m s.
       let s = mobj_write env m (name @ [0]) s in
       let ((_, params), s) = rpc_vfs env 3
             [PARAM_VALUE PINOUT (optee_vfs VFS_ACCESS) 0 0,
              PARAM_VALUE PIN (int_to_u64 type) 0 0,
              PARAM_MEMREF PIN (Some m) 0 0] s in
       (u64_to_int (value_b (params ! 0)), s)) s"

text \<open>The result is what is copied to \<open>__buf\<close>; the C function returns \<open>__buf\<close> in every case.\<close>

definition syscall_vfs_getcwd :: "'s core_env \<Rightarrow> u64 \<Rightarrow> 's \<Rightarrow> byte list option \<times> 's" where
  "syscall_vfs_getcwd env sz s =
     with_payload env sz None (\<lambda>m s.
       let s = mobj_write env m (replicate (unat sz) 0) s in
       let ((_, params), s) = rpc_vfs env 3
             [PARAM_VALUE PINOUT (optee_vfs VFS_GETCWD) 0 0,
              PARAM_MEMREF POUT (Some m) 0 0,
              PARAM_VALUE PIN sz 0 0] s in
       (Some (mobj_read env m sz s), s)) s"

text \<open>The second component is what is copied to the caller's \<open>struct my_stat\<close>.\<close>

definition syscall_vfs_stat :: "'s core_env \<Rightarrow> byte list \<Rightarrow> 's \<Rightarrow> (s32 \<times> byte list option) \<times> 's" where
  "syscall_vfs_stat env file_name s =
     with_payload env (cstr_size file_name) (- 1, None) (\<lambda>n s.
       let s = mobj_write env n (file_name @ [0]) s in
       with_payload env sizeof_my_stat (- 1, None) (\<lambda>m s.
         let s = mobj_write env m (replicate (unat sizeof_my_stat) 0) s in
         let ((_, params), s) = rpc_vfs env 3
               [PARAM_VALUE PINOUT (optee_vfs VFS_STAT) 0 0,
                PARAM_MEMREF PIN (Some n) 0 0,
                PARAM_MEMREF POUT (Some m) 0 0] s in
         ((u64_to_int (value_b (params ! 0)), Some (mobj_read env m sizeof_my_stat s)), s)) s) s"

definition syscall_vfs_fstat :: "'s core_env \<Rightarrow> s32 \<Rightarrow> 's \<Rightarrow> (s32 \<times> byte list option) \<times> 's" where
  "syscall_vfs_fstat env fd s =
     with_payload env sizeof_my_stat (- 1, None) (\<lambda>m s.
       let s = mobj_write env m (replicate (unat sizeof_my_stat) 0) s in
       let ((_, params), s) = rpc_vfs env 3
             [PARAM_VALUE PINOUT (optee_vfs VFS_FSTAT) 0 0,
              PARAM_VALUE PIN (int_to_u64 fd) 0 0,
              PARAM_MEMREF POUT (Some m) 0 0] s in
       ((u64_to_int (value_b (params ! 0)), Some (mobj_read env m sizeof_my_stat s)), s)) s"

text \<open>The local \<open>ret\<close> is an \<open>int\<close>, widened to \<open>ssize_t\<close> on return.\<close>

definition syscall_vfs_write :: "'s core_env \<Rightarrow> s32 \<Rightarrow> byte list \<Rightarrow> u64 \<Rightarrow> 's \<Rightarrow> s64 \<times> 's" where
  "syscall_vfs_write env fd buf n s =
     with_payload env n (- 1) (\<lambda>m s.
       let s = mobj_write env m (take (unat n) buf) s in
       let ((_, params), s) = rpc_vfs env 3
             [PARAM_VALUE PINOUT (optee_vfs VFS_WRITE) 0 0,
              PARAM_VALUE PIN (int_to_u64 fd) n 0,
              PARAM_MEMREF PIN (Some m) 0 0] s in
       (int_to_u64 (u64_to_int (value_b (params ! 0))), s)) s"

definition syscall_vfs_mkdir :: "'s core_env \<Rightarrow> byte list \<Rightarrow> u32 \<Rightarrow> 's \<Rightarrow> s32 \<times> 's" where
  "syscall_vfs_mkdir env path mode s =
     with_payload env (cstr_size path) (- 1) (\<lambda>m s.
       let s = mobj_write env m (path @ [0]) s in
       let ((_, params), s) = rpc_vfs env 3
             [PARAM_VALUE PINOUT (optee_vfs VFS_MKDIR) 0 0,
              PARAM_MEMREF PIN (Some m) 0 0,
              PARAM_VALUE PIN (uint_to_u64 mode) 0 0] s in
       (u64_to_int (value_b (params ! 0)), s)) s"

definition syscall_vfs_rmdir :: "'s core_env \<Rightarrow> byte list \<Rightarrow> 's \<Rightarrow> s32 \<times> 's" where
  "syscall_vfs_rmdir env path s =
     with_payload env (cstr_size path) (- 1) (\<lambda>m s.
       let s = mobj_write env m (path @ [0]) s in
       let ((_, params), s) = rpc_vfs env 2
             [PARAM_VALUE PINOUT (optee_vfs VFS_RMDIR) 0 0,
              PARAM_MEMREF PIN (Some m) 0 0] s in
       (u64_to_int (value_b (params ! 0)), s)) s"

text \<open>The second component is what is stored through \<open>errno\<close>.\<close>

definition syscall_vfs_unlink :: "'s core_env \<Rightarrow> byte list \<Rightarrow> 's \<Rightarrow> (s32 \<times> s32 option) \<times> 's" where
  "syscall_vfs_unlink env name s =
     with_payload env (cstr_size name) (- 1, None) (\<lambda>m s.
       let s = mobj_write env m (name @ [0]) s in
       let ((_, params), s) = rpc_vfs env 2
             [PARAM_VALUE PINOUT (optee_vfs VFS_UNLINK) 0 0,
              PARAM_MEMREF PIN (Some m) 0 0] s in
       ((u64_to_int (value_b (params ! 0)), Some (u64_to_int (value_c (params ! 0)))), s)) s"

definition syscall_vfs_ftruncate :: "'s core_env \<Rightarrow> s32 \<Rightarrow> s64 \<Rightarrow> 's \<Rightarrow> s32 \<times> 's" where
  "syscall_vfs_ftruncate env fd sz s =
     (let ((_, params), s) = rpc_vfs env 2
            [PARAM_VALUE PINOUT (optee_vfs VFS_FTRUNCATE) 0 0,
             PARAM_VALUE PIN (int_to_u64 fd) sz 0] s in
      (u64_to_int (value_b (params ! 0)), s))"

text \<open>The second component is what is copied to \<open>__buf\<close>, always \<open>__nByte\<close> bytes.\<close>

definition syscall_vfs_read :: "'s core_env \<Rightarrow> s32 \<Rightarrow> u64 \<Rightarrow> 's \<Rightarrow> (s64 \<times> byte list option) \<times> 's" where
  "syscall_vfs_read env fd nByte s =
     with_payload env nByte (- 1, None) (\<lambda>m s.
       let s = mobj_write env m (replicate (unat nByte) 0) s in
       let ((_, params), s) = rpc_vfs env 3
             [PARAM_VALUE PINOUT (optee_vfs VFS_READ) 0 0,
              PARAM_MEMREF POUT (Some m) 0 0,
              PARAM_VALUE PIN (int_to_u64 fd) nByte 0] s in
       ((value_b (params ! 0), Some (mobj_read env m nByte s)), s)) s"

definition syscall_vfs_fchmod :: "'s core_env \<Rightarrow> s32 \<Rightarrow> u32 \<Rightarrow> 's \<Rightarrow> s32 \<times> 's" where
  "syscall_vfs_fchmod env fd mode s =
     (let ((_, params), s) = rpc_vfs env 2
            [PARAM_VALUE PINOUT (optee_vfs VFS_FCHMOD) 0 0,
             PARAM_VALUE PIN (int_to_u64 fd) (uint_to_u64 mode) 0] s in
      (u64_to_int (value_b (params ! 0)), s))"

definition syscall_vfs_fchown :: "'s core_env \<Rightarrow> s32 \<Rightarrow> u32 \<Rightarrow> u32 \<Rightarrow> 's \<Rightarrow> s32 \<times> 's" where
  "syscall_vfs_fchown env fd owner grp s =
     (let ((_, params), s) = rpc_vfs env 2
            [PARAM_VALUE PINOUT (optee_vfs VFS_FCHOWN) 0 0,
             PARAM_VALUE PIN (int_to_u64 fd) (uint_to_u64 owner) (uint_to_u64 grp)] s in
      (u64_to_int (value_b (params ! 0)), s))"

definition syscall_vfs_geteuid :: "'s core_env \<Rightarrow> 's \<Rightarrow> u32 \<times> 's" where
  "syscall_vfs_geteuid env s =
     (let ((_, params), s) = rpc_vfs env 1
            [PARAM_VALUE PINOUT (optee_vfs VFS_GETEUID) 0 0] s in
      (u64_to_int (value_b (params ! 0)), s))"

definition syscall_vfs_getpid :: "'s core_env \<Rightarrow> 's \<Rightarrow> u32 \<times> 's" where
  "syscall_vfs_getpid env s =
     (let ((_, params), s) = rpc_vfs env 1
            [PARAM_VALUE PINOUT (optee_vfs VFS_GETPID) 0 0] s in
      (u64_to_int (value_b (params ! 0)), s))"

text \<open>The first request, without a buffer, is sent for the length; the result of \<open>malloc\<close> is not tested.\<close>

definition syscall_vfs_getenv :: "'s core_env \<Rightarrow> byte list \<Rightarrow> 's \<Rightarrow> byte list option outcome \<times> 's" where
  "syscall_vfs_getenv env name s =
     with_payload env (cstr_size name) (Inr None) (\<lambda>n s.
       let s = mobj_write env n (name @ [0]) s in
       let ((_, params), s) = rpc_vfs env 3
             [PARAM_VALUE PINOUT (optee_vfs VFS_GETENV) 0 0,
              PARAM_MEMREF PIN (Some n) 0 0,
              PARAM_MEMREF POUT None 0 0] s in
       let ret_len = value_b (params ! 0) in
       with_payload env ret_len (Inr None) (\<lambda>m s.
         let ((_, params), s) = rpc_vfs env 3
               [params ! 0, params ! 1, PARAM_MEMREF POUT (Some m) 0 0] s in
         let (ok, s) = core_malloc env ret_len s in
         if \<not> ok \<and> ret_len \<noteq> 0 then (Inl NullDeref, s)
         else (Inr (Some (mobj_read env m ret_len s)), s)) s) s"

definition syscall_vfs_lseek :: "'s core_env \<Rightarrow> s32 \<Rightarrow> s64 \<Rightarrow> s32 \<Rightarrow> 's \<Rightarrow> s64 \<times> 's" where
  "syscall_vfs_lseek env fd offset whence s =
     (let ((_, params), s) = rpc_vfs env 2
            [PARAM_VALUE PINOUT (optee_vfs VFS_LSEEK) 0 0,
             PARAM_VALUE PIN (int_to_u64 fd) offset (int_to_u64 whence)] s in
      (value_b (params ! 0), s))"

definition syscall_vfs_fsync :: "'s core_env \<Rightarrow> s32 \<Rightarrow> 's \<Rightarrow> s32 \<times> 's" where
  "syscall_vfs_fsync env fd s =
     (let ((_, params), s) = rpc_vfs env 2
            [PARAM_VALUE PINOUT (optee_vfs VFS_FSYNC) 0 0,
             PARAM_VALUE PIN (int_to_u64 fd) 0 0] s in
      (u64_to_int (value_b (params ! 0)), s))"

definition syscall_vfs_sleep :: "'s core_env \<Rightarrow> u32 \<Rightarrow> 's \<Rightarrow> u32 \<times> 's" where
  "syscall_vfs_sleep env seconds s =
     (let ((_, params), s) = rpc_vfs env 2
            [PARAM_VALUE PINOUT (optee_vfs VFS_SLEEP) 0 0,
             PARAM_VALUE PIN (uint_to_u64 seconds) 0 0] s in
      (u64_to_int (value_b (params ! 0)), s))"

definition syscall_vfs_pread :: "'s core_env \<Rightarrow> s32 \<Rightarrow> u64 \<Rightarrow> s64 \<Rightarrow> 's \<Rightarrow> (s64 \<times> byte list option) \<times> 's" where
  "syscall_vfs_pread env fd nByte offset s =
     with_payload env nByte (- 1, None) (\<lambda>m s.
       let s = mobj_write env m (replicate (unat nByte) 0) s in
       let ((_, params), s) = rpc_vfs env 3
             [PARAM_VALUE PINOUT (optee_vfs VFS_PREAD) 0 0,
              PARAM_MEMREF PIN (Some m) 0 0,
              PARAM_VALUE PIN (int_to_u64 fd) nByte offset] s in
       ((value_b (params ! 0), Some (mobj_read env m nByte s)), s)) s"

definition syscall_vfs_pwrite :: "'s core_env \<Rightarrow> s32 \<Rightarrow> byte list \<Rightarrow> u64 \<Rightarrow> s64 \<Rightarrow> 's \<Rightarrow> s64 \<times> 's" where
  "syscall_vfs_pwrite env fd buf n offset s =
     with_payload env n (- 1) (\<lambda>m s.
       let s = mobj_write env m (take (unat n) buf) s in
       let ((_, params), s) = rpc_vfs env 3
             [PARAM_VALUE PINOUT (optee_vfs VFS_PWRITE) 0 0,
              PARAM_VALUE PIN (int_to_u64 fd) n offset,
              PARAM_MEMREF PIN (Some m) 0 0] s in
       (value_b (params ! 0), s)) s"

text \<open>The command sent is \<open>OPTEE_VFS_FTRUNCATE\<close>, with the parameters of \<open>OPTEE_VFS_TRUNCATE\<close>.\<close>

definition syscall_vfs_truncate :: "'s core_env \<Rightarrow> byte list \<Rightarrow> s64 \<Rightarrow> 's \<Rightarrow> s32 \<times> 's" where
  "syscall_vfs_truncate env path sz s =
     with_payload env (cstr_size path) (- 1) (\<lambda>m s.
       let s = mobj_write env m (path @ [0]) s in
       let ((_, params), s) = rpc_vfs env 3
             [PARAM_VALUE PINOUT (optee_vfs VFS_FTRUNCATE) 0 0,
              PARAM_MEMREF PIN (Some m) 0 0,
              PARAM_VALUE PIN sz 0 0] s in
       (u64_to_int (value_b (params ! 0)), s)) s"

text \<open>\<open>want_tz\<close> is \<open>tz != NULL\<close>; the other components are what is copied to \<open>tv\<close> and \<open>tz\<close>.\<close>

definition syscall_vfs_gettimeofday :: "'s core_env \<Rightarrow> bool \<Rightarrow> 's \<Rightarrow> (s32 \<times> byte list option \<times> byte list option) \<times> 's" where
  "syscall_vfs_gettimeofday env want_tz s =
     with_payload env sizeof_timeval (- 1, None, None) (\<lambda>v s.
       let s = mobj_write env v (replicate (unat sizeof_timeval) 0) s in
       with_payload env sizeof_timezone (- 1, None, None) (\<lambda>z s.
         let s = mobj_write env z (replicate (unat sizeof_timezone) 0) s in
         let ((_, params), s) = rpc_vfs env 3
               [PARAM_VALUE PINOUT (optee_vfs VFS_GETTIMEOFDAY) 0 0,
                PARAM_MEMREF PIN (Some v) 0 0,
                PARAM_MEMREF PIN (Some z) 0 0] s in
         ((u64_to_int (value_b (params ! 0)), Some (mobj_read env v sizeof_timeval s),
           if want_tz then Some (mobj_read env z sizeof_timezone s) else None), s)) s) s"

definition syscall_vfs_fcntl_void :: "'s core_env \<Rightarrow> s32 \<Rightarrow> s32 \<Rightarrow> 's \<Rightarrow> s32 \<times> 's" where
  "syscall_vfs_fcntl_void env fd cmd s =
     (let ((_, params), s) = rpc_vfs env 2
            [PARAM_VALUE PINOUT (optee_vfs VFS_FCNTL_VOID) 0 0,
             PARAM_VALUE PIN (int_to_u64 fd) (int_to_u64 cmd) 0] s in
      (u64_to_int (value_b (params ! 0)), s))"

definition syscall_vfs_fcntl_int :: "'s core_env \<Rightarrow> s32 \<Rightarrow> s32 \<Rightarrow> s32 \<Rightarrow> 's \<Rightarrow> s32 \<times> 's" where
  "syscall_vfs_fcntl_int env fd cmd pa s =
     (let ((_, params), s) = rpc_vfs env 2
            [PARAM_VALUE PINOUT (optee_vfs VFS_FCNTL_INT) 0 0,
             PARAM_VALUE PIN (int_to_u64 fd) (int_to_u64 cmd) (int_to_u64 pa)] s in
      (u64_to_int (value_b (params ! 0)), s))"

text \<open>\<open>pFlock\<close> is only written to: the zeroed shared buffer is sent in its place.  When the allocation
  fails, the copy behind the label \<open>exit\<close> reads through \<open>va_flock\<close>, which was never assigned.\<close>

definition syscall_vfs_fcntl_flock :: "'s core_env \<Rightarrow> s32 \<Rightarrow> s32 \<Rightarrow> byte list \<Rightarrow> 's \<Rightarrow> (s32 \<times> byte list) outcome \<times> 's" where
  "syscall_vfs_fcntl_flock env fd cmd pFlock s =
     (let (mo, s) = rpc_alloc env sizeof_my_flock s in
      case mo of
        None \<Rightarrow> (Inl UninitRead, s)
      | Some m \<Rightarrow>
          if mo_size m < sizeof_my_flock then (Inl UninitRead, s)
          else
            let s = mobj_write env m (replicate (unat sizeof_my_flock) 0) s in
            let ((_, params), s) = rpc_vfs env 3
                  [PARAM_VALUE PINOUT (optee_vfs VFS_FCNTL_FLOCK) 0 0,
                   PARAM_VALUE PIN (int_to_u64 fd) (int_to_u64 cmd) 0,
                   PARAM_MEMREF PIN (Some m) 0 0] s in
            let ret = u64_to_int (value_b (params ! 0)) in
            let back = mobj_read env m sizeof_my_flock s in
            (Inr (ret, back), rpc_free env mo s))"

text \<open>\<open>times\<close> (here \<open>tms\<close>) is an array parameter, so \<open>sizeof (times)\<close> is the size of a pointer.\<close>

definition syscall_vfs_utimes :: "'s core_env \<Rightarrow> byte list \<Rightarrow> byte list \<Rightarrow> 's \<Rightarrow> s32 \<times> 's" where
  "syscall_vfs_utimes env filename tms s =
     with_payload env (cstr_size filename) (- 1) (\<lambda>n s.
       let s = mobj_write env n (filename @ [0]) s in
       with_payload env sizeof_times (- 1) (\<lambda>m s.
         let s = mobj_write env m (take (unat sizeof_times) tms) s in
         let ((_, params), s) = rpc_vfs env 3
               [PARAM_VALUE PINOUT (optee_vfs VFS_UTIMES) 0 0,
                PARAM_MEMREF PIN (Some n) 0 0,
                PARAM_MEMREF PIN (Some m) 0 0] s in
         (u64_to_int (value_b (params ! 0)), s)) s) s"

text \<open>\<open>want_t\<close> is \<open>t != NULL\<close>.  The local \<open>ret\<close> is an \<open>int\<close>, and only its four bytes are copied to \<open>*t\<close>.\<close>

definition syscall_vfs_time :: "'s core_env \<Rightarrow> bool \<Rightarrow> 's \<Rightarrow> (s64 \<times> s32 option) \<times> 's" where
  "syscall_vfs_time env want_t s =
     (let ((_, params), s) = rpc_vfs env 1
            [PARAM_VALUE PINOUT (optee_vfs VFS_TIME) 0 0] s in
      let ret = u64_to_int (value_b (params ! 0)) in
      ((int_to_u64 ret, if want_t then Some ret else None), s))"

definition syscall_vfs_usleep :: "'s core_env \<Rightarrow> u64 \<Rightarrow> 's \<Rightarrow> 's" where
  "syscall_vfs_usleep env usec s =
     (let ((_, _), s) = rpc_vfs env 2
            [PARAM_VALUE PINOUT (optee_vfs VFS_USLEEP) 0 0,
             PARAM_VALUE PIN usec 0 0] s in
      s)"

definition syscall_vfs_filesize :: "'s core_env \<Rightarrow> s32 \<Rightarrow> 's \<Rightarrow> s64 \<times> 's" where
  "syscall_vfs_filesize env fd s =
     (let ((_, params), s) = rpc_vfs env 2
            [PARAM_VALUE PINOUT (optee_vfs VFS_FILESIZE) 0 0,
             PARAM_VALUE PIN (int_to_u64 fd) 0 0] s in
      (value_b (params ! 0), s))"

end
