(* ===== verification/Transport.thy ===== *)
theory Transport
  imports Supp_Main Core_Vfs
begin

text \<open>
  Both worlds joined: the services of the OP-TEE core (\<open>core_env\<close>) provided by the supplicant.  What
  lies between them, the RPC layer of the OP-TEE core and the Linux TEE driver, is not in the
  repository; \<open>direct_env\<close> is its documented effect: a payload is allocated and freed by the
  supplicant's services \<open>SHM_ALLOC\<close> and \<open>SHM_FREE\<close>, a command reaches the service switch with its
  parameters converted, and results are copied back for output parameters.
\<close>

section \<open>Parameter conversion\<close>

fun value_attr :: "dir \<Rightarrow> u64" where
  "value_attr PIN = VALUE_INPUT"
| "value_attr POUT = VALUE_OUTPUT"
| "value_attr PINOUT = VALUE_INOUT"

fun memref_attr :: "dir \<Rightarrow> u64" where
  "memref_attr PIN = MEMREF_INPUT"
| "memref_attr POUT = MEMREF_OUTPUT"
| "memref_attr PINOUT = MEMREF_INOUT"

text \<open>A null memory object travels as the shared memory id -1.\<close>

fun to_ioctl :: "thread_param \<Rightarrow> tee_ioctl_param" where
  "to_ioctl PARAM_NONE = zero_param"
| "to_ioctl (PARAM_VALUE d a b c) = \<lparr>p_attr = value_attr d, p_a = a, p_b = b, p_c = c\<rparr>"
| "to_ioctl (PARAM_MEMREF d m offs sz) =
     \<lparr>p_attr = memref_attr d, p_a = offs, p_b = sz,
      p_c = (case m of None \<Rightarrow> - 1 | Some mo \<Rightarrow> mo_cookie mo)\<rparr>"

fun from_ioctl :: "thread_param \<Rightarrow> tee_ioctl_param \<Rightarrow> thread_param" where
  "from_ioctl PARAM_NONE ip = PARAM_NONE"
| "from_ioctl (PARAM_VALUE d a b c) ip =
     (if d = PIN then PARAM_VALUE d a b c else PARAM_VALUE d (p_a ip) (p_b ip) (p_c ip))"
| "from_ioctl (PARAM_MEMREF d m offs sz) ip =
     (if d = PIN then PARAM_MEMREF d m offs sz else PARAM_MEMREF d m offs (p_b ip))"

section \<open>The services of the core, provided by the supplicant\<close>

text \<open>A fault of the supplicant reaches the core as a communication error.\<close>

definition direct_cmd ::
    "'w supp_env \<Rightarrow> u32 \<Rightarrow> u64 \<Rightarrow> thread_param list \<Rightarrow> 'w supp \<Rightarrow> (u32 \<times> thread_param list) \<times> 'w supp" where
  "direct_cmd env cmd n params s =
     (case rpc_switch env cmd n (map to_ioctl params) s of
        Inl _ \<Rightarrow> ((TEEC_ERROR_COMMUNICATION, params), s)
      | Inr (ret, ips, t) \<Rightarrow> ((ret, map2 from_ioctl params ips), t))"

definition direct_alloc :: "'w supp_env \<Rightarrow> u64 \<Rightarrow> 'w supp \<Rightarrow> mobj option \<times> 'w supp" where
  "direct_alloc env len s =
     (let ((ret, params), t) = direct_cmd env (rpc_cmd_number SHM_ALLOC) 1 [PARAM_VALUE PINOUT 0 len 0] s
      in (if ret = TEEC_SUCCESS then Some \<lparr>mo_cookie = value_c (params ! 0), mo_size = len\<rparr> else None, t))"

definition direct_free :: "'w supp_env \<Rightarrow> mobj option \<Rightarrow> 'w supp \<Rightarrow> 'w supp" where
  "direct_free env mo s =
     (case mo of
        None \<Rightarrow> s
      | Some m \<Rightarrow> snd (direct_cmd env (rpc_cmd_number SHM_FREE) 1 [PARAM_VALUE PIN 0 (mo_cookie m) 0] s))"

definition direct_write :: "mobj \<Rightarrow> byte list \<Rightarrow> 'w supp \<Rightarrow> 'w supp" where
  "direct_write m bs s =
     (case find_tshm (u64_to_int (mo_cookie m)) s of
        None \<Rightarrow> s
      | Some t \<Rightarrow> (case store (Ptr (shm_p t) 0) bs s of Inl _ \<Rightarrow> s | Inr s' \<Rightarrow> s'))"

definition direct_read :: "mobj \<Rightarrow> u64 \<Rightarrow> 'w supp \<Rightarrow> byte list" where
  "direct_read m n s =
     (case find_tshm (u64_to_int (mo_cookie m)) s of
        None \<Rightarrow> []
      | Some t \<Rightarrow> (case mem s (shm_p t) of None \<Rightarrow> [] | Some bs \<Rightarrow> subbytes bs 0 (unat n)))"

definition direct_env :: "'w supp_env \<Rightarrow> 'w supp core_env" where
  "direct_env env =
     \<lparr>rpc_alloc = direct_alloc env, rpc_free = direct_free env, rpc_cmd = direct_cmd env,
      mobj_write = direct_write, mobj_read = direct_read, core_malloc = (\<lambda>n s. (True, s)),
      OPTEE_RPC_CMD_VFS = rpc_cmd_number VFS\<rparr>"

lemma direct_env_sel [simp]:
  "rpc_alloc (direct_env env) = direct_alloc env"
  "rpc_free (direct_env env) = direct_free env"
  "rpc_cmd (direct_env env) = direct_cmd env"
  "mobj_write (direct_env env) = direct_write"
  "mobj_read (direct_env env) = direct_read"
  "OPTEE_RPC_CMD_VFS (direct_env env) = 30"
  by (simp_all add: direct_env_def)

section \<open>Requests without memory\<close>

lemma get_value_0: "get_value n (p # ps) 0 =
    (if n = 0 then None else if tee_supp_param_is_value p then Some 0 else None)"
  by (auto simp: get_value_def tee_supp_param_is_value_def unat_eq_0)

lemmas value_defs = values1_def values2_def get_value_def attr_type_def

lemma rpc_switch_vfs [simp]: "rpc_switch env 30 n ps s = tee_supp_vfs_process (e_os env) n ps s"
  by (simp add: rpc_switch_def)

lemma process_alloc_total: "\<exists>c ps' t. process_alloc os n ps s = Inr (c, ps', t)"
  by (auto simp: process_alloc_def Let_def split: option.splits prod.splits)

lemma process_free_total: "\<exists>c ps' t. process_free os n ps s = Inr (c, ps', t)"
  by (auto simp: process_free_def Let_def split: option.splits prod.splits)

section \<open>The calls that manage shared memory\<close>

text \<open>
  \<open>shm_run os F w F' w'\<close>: the system goes from \<open>w\<close> to \<open>w'\<close> by calls that manage shared memory alone;
  \<open>F\<close> and \<open>F'\<close> are the descriptors of shared memory open before and after.  Only a descriptor the TEE
  driver returned is ever closed.
\<close>

definition shm_plain :: "os_call \<Rightarrow> bool" where
  "shm_plain c \<longleftrightarrow> c = Calloc \<or> (\<exists>n. c = Posix_memalign n) \<or> (\<exists>f n. c = Mmap f n) \<or> (\<exists>n. c = Munmap n)"

lemma shm_plain_calls [simp]:
  "shm_plain Calloc" "shm_plain (Posix_memalign n)" "shm_plain (Mmap f n)" "shm_plain (Munmap n)"
  by (simp_all add: shm_plain_def)

inductive shm_run :: "'w os \<Rightarrow> s32 set \<Rightarrow> 'w \<Rightarrow> s32 set \<Rightarrow> 'w \<Rightarrow> bool" for os F w where
  run_refl: "shm_run os F w F w"
| run_plain: "shm_run os F w G u \<Longrightarrow> shm_plain c \<Longrightarrow> os c u = (r, v) \<Longrightarrow> shm_run os F w G v"
| run_ioctl: "shm_run os F w G u \<Longrightarrow> c = Ioctl_shm_alloc d n \<or> c = Ioctl_shm_register d n \<Longrightarrow>
      os c u = (r, v) \<Longrightarrow> H = (if sint (u64_to_int (o_ret r)) < 0 then G else insert (u64_to_int (o_ret r)) G) \<Longrightarrow>
      shm_run os F w H v"
| run_close: "shm_run os F w G u \<Longrightarrow> f \<in> G \<Longrightarrow> os (Close f) u = (r, v) \<Longrightarrow> shm_run os F w (G - {f}) v"

lemma shm_run_trans: "shm_run os G u H v \<Longrightarrow> shm_run os F w G u \<Longrightarrow> shm_run os F w H v"
  by (induction rule: shm_run.induct) (blast intro: shm_run.intros)+

lemma run_plain_do:
  "shm_run os F w G (world s) \<Longrightarrow> os_do os c s = (r, t) \<Longrightarrow> shm_plain c \<Longrightarrow> shm_run os F w G (world t)"
  by (erule run_plain, assumption, erule os_do_fields(5))

lemma run_ioctl_do:
  "shm_run os F w G (world s) \<Longrightarrow> os_do os c s = (r, t) \<Longrightarrow>
     c = Ioctl_shm_alloc d n \<or> c = Ioctl_shm_register d n \<Longrightarrow>
     shm_run os F w (if sint (u64_to_int (o_ret r)) < 0 then G else insert (u64_to_int (o_ret r)) G) (world t)"
  by (erule run_ioctl, assumption, erule os_do_fields(5), rule refl)

lemma run_close_do:
  "shm_run os F w {f} (world s) \<Longrightarrow> os_do os (Close f) s = (r, t) \<Longrightarrow> shm_run os F w {} (world t)"
  using run_close [of os F w "{f}" "world s" f r "world t"] os_do_fields(5) [of os "Close f" s r t] by simp

lemma alloc_shm_run:
  assumes "alloc_shm os fd sz s = (a, u)"
  shows "shm_run os {} (world s) (case a of None \<Rightarrow> {} | Some t \<Rightarrow> {shm_fd t}) (world u)"
proof -
  obtain c s1 where c: "os_do os Calloc s = (c, s1)" by fastforce
  obtain r s2 where r: "os_do os (Ioctl_shm_alloc fd sz) s1 = (r, s2)" by fastforce
  let ?f = "u64_to_int (o_ret r)"
  obtain m s3 where m: "os_do os (Mmap ?f (o_val2 r)) s2 = (m, s3)" by fastforce
  obtain x s4 where x: "os_do os (Close ?f) s3 = (x, s4)" by fastforce
  have 1: "shm_run os {} (world s) {} (world s1)"
    by (rule run_plain_do [OF run_refl c]) simp
  have 2: "shm_run os {} (world s) (if sint ?f < 0 then {} else {?f}) (world s2)"
    using run_ioctl_do [OF 1 r] by simp
  show ?thesis
  proof (cases "o_ret c = 0")
    case True
    with assms c 1 show ?thesis by (auto simp: alloc_shm_def Let_def)
  next
    case nz: False
    show ?thesis
    proof (cases "sint ?f < 0")
      case True
      with assms nz c r 2 show ?thesis by (auto simp: alloc_shm_def Let_def)
    next
      case False
      with 2 have 3: "shm_run os {} (world s) {?f} (world s3)" by (simp add: run_plain_do [OF _ m])
      show ?thesis
      proof (cases "o_ret m = - 1")
        case True
        with assms nz False c r m x have "a = None" "u = s4" by (auto simp: alloc_shm_def Let_def)
        with run_close_do [OF 3 x] show ?thesis by simp
      next
        case mapped: False
        with assms nz False c r m obtain t where "a = Some t" "shm_fd t = ?f" "world u = world s3"
          by (auto simp: alloc_shm_def Let_def new_block_def)
        with 3 show ?thesis by simp
      qed
    qed
  qed
qed

lemma register_local_shm_run:
  assumes "register_local_shm os fd sz s = (a, u)"
  shows "shm_run os {} (world s) (case a of None \<Rightarrow> {} | Some t \<Rightarrow> {shm_fd t}) (world u)"
proof -
  obtain m s1 where m: "os_do os (Posix_memalign sz) s = (m, s1)" by fastforce
  obtain p s2 where p: "new_block (fit (unat sz) (o_out m)) s1 = (p, s2)" by fastforce
  obtain c s3 where c: "os_do os Calloc s2 = (c, s3)" by fastforce
  obtain r s4 where r: "os_do os (Ioctl_shm_register fd sz) s3 = (r, s4)" by fastforce
  have w2: "world s2 = world s1" using p by (auto simp: new_block_def)
  have 1: "shm_run os {} (world s) {} (world s1)"
    by (rule run_plain_do [OF run_refl m]) simp
  with w2 have 2: "shm_run os {} (world s) {} (world s3)" by (simp add: run_plain_do [OF _ c])
  have 3: "shm_run os {} (world s)
      (if sint (u64_to_int (o_ret r)) < 0 then {} else {u64_to_int (o_ret r)}) (world s4)"
    using run_ioctl_do [OF 2 r] by simp
  from assms m p c r consider
      "a = None" "world u = world s1" | "a = None" "world u = world s3"
    | "a = None" "world u = world s4" "sint (u64_to_int (o_ret r)) < 0"
    | t where "a = Some t" "shm_fd t = u64_to_int (o_ret r)" "world u = world s4"
        "\<not> sint (u64_to_int (o_ret r)) < 0"
    by (auto simp: register_local_shm_def paged_aligned_alloc_def Let_def free_block_def
        split: if_splits)
  then show ?thesis using 1 2 3 by cases simp_all
qed

lemma process_alloc_run:
  assumes "process_alloc os n ps s = Inr (c, ps', u)"
  shows "shm_run os {} (world s) (if c = TEEC_SUCCESS then {shm_fd (hd (shm_head u))} else {}) (world u)"
proof (cases "n = 1 \<and> get_value n ps 0 \<noteq> None")
  case False
  then have "(if n \<noteq> 1 then None else get_value n ps 0) = None" by auto
  with assms show ?thesis by (auto simp: process_alloc_def intro: run_refl)
next
  case True
  then have g: "n = 1" "get_value n ps 0 = Some 0" by (auto simp: get_value_def split: if_splits)
  obtain a v where a: "(if ta_gen_caps (targ s) AND TEE_GEN_CAP_REG_MEM \<noteq> 0
        then register_local_shm os (ta_fd (targ s)) (p_b (ps ! 0)) s
        else alloc_shm os (ta_fd (targ s)) (p_b (ps ! 0)) s) = (a, v)" by fastforce
  have "shm_run os {} (world s) (case a of None \<Rightarrow> {} | Some t \<Rightarrow> {shm_fd t}) (world v)"
    using a alloc_shm_run register_local_shm_run by (cases "ta_gen_caps (targ s) AND TEE_GEN_CAP_REG_MEM \<noteq> 0") simp_all
  then show ?thesis
    using assms a g by (cases a) (auto simp: process_alloc_def Let_def push_tshm_def)
qed

lemma process_free_run:
  assumes run: "process_free os 1 [p] s = Inr (c, ps', u)" and p: "tee_supp_param_is_value p"
    and t: "find_tshm (u64_to_int (p_b p)) s = Some t"
  shows "shm_run os {shm_fd t} (world s) {} (world u)"
proof -
  have g: "get_value 1 [p] 0 = Some 0"
    using p by (simp add: get_value_def tee_supp_param_is_value_def)
  obtain v where pop: "pop_tshm (u64_to_int (p_b p)) s = (Some t, v)" and v: "world v = world s"
    using t tshm.pop_find [of "u64_to_int (p_b p)" s]
    by (cases "pop_tshm (u64_to_int (p_b p)) s") (auto simp: pop_tshm_def split: prod.splits)
  obtain r1 s1 where r1: "os_do os (Close (shm_fd t)) v = (r1, s1)" by fastforce
  obtain r2 s2 where r2: "os_do os (Munmap (shm_size t)) s1 = (r2, s2)" by fastforce
  have 1: "shm_run os {shm_fd t} (world s) {} (world s1)"
    by (rule run_close_do [OF _ r1]) (simp add: v run_refl)
  have 2: "shm_run os {shm_fd t} (world s) {} (world s2)"
    by (rule run_plain_do [OF 1 r2]) simp
  have "world u = world s1 \<or> world u = world s2"
    using run pop g r1 r2 by (auto simp: process_free_def Let_def free_block_def split: if_splits)
  with 1 2 show ?thesis by auto
qed

section \<open>The remote procedure call as an interface\<close>

text \<open>What the system calls rely on: the services of the core have the effect of \<open>direct_env\<close>.\<close>

locale tee_rpc =
  fixes ce :: "'w supp core_env" and env :: "'w supp_env"
  assumes cmd_law: "rpc_cmd ce = direct_cmd env"
    and alloc_law: "rpc_alloc ce = direct_alloc env"
    and free_law: "rpc_free ce = direct_free env"
    and write_law: "mobj_write ce = direct_write"
    and read_law: "mobj_read ce = direct_read"
    and number_law: "OPTEE_RPC_CMD_VFS ce = rpc_cmd_number VFS"

interpretation direct: tee_rpc "direct_env env" env
  by unfold_locales simp_all

text \<open>The object a successful allocation of \<open>len\<close> bytes returns, and the state it leaves.\<close>

definition payload_mobj :: "tee_shm \<Rightarrow> u64 \<Rightarrow> mobj" where
  "payload_mobj sh len = \<lparr>mo_cookie = int_to_u64 (shm_id sh), mo_size = len\<rparr>"

definition payload_state :: "tee_shm \<Rightarrow> u64 \<Rightarrow> 'w supp \<Rightarrow> 'w supp" where
  "payload_state sh len v = push_tshm (sh\<lparr>shm_size := len\<rparr>) v"

lemma payload_mobj_sel [simp]:
  "mo_cookie (payload_mobj sh len) = int_to_u64 (shm_id sh)" "mo_size (payload_mobj sh len) = len"
  by (simp_all add: payload_mobj_def)

lemma payload_find [simp]:
  "find_tshm (shm_id sh) (payload_state sh len v) = Some (sh\<lparr>shm_size := len\<rparr>)"
  by (simp add: payload_state_def tshm.find_push)

lemma payload_world [simp]:
  "world (payload_state sh len v) = world v" "mem (payload_state sh len v) = mem v"
  by (simp_all add: payload_state_def push_tshm_def)

lemma direct_alloc_cases:
  assumes inv: "supp_inv s" and drv: "shm_alloc_rounds_up (e_os env)"
  obtains (none) u where "direct_alloc env len s = (None, u)" "supp_inv u" "shm_head u = shm_head s"
      "shm_run (e_os env) {} (world s) {} (world u)"
    | (some) sh v where "direct_alloc env len s = (Some (payload_mobj sh len), payload_state sh len v)"
      "fresh_shm len sh s v" "shm_run (e_os env) {} (world s) {shm_fd sh} (world v)"
proof -
  let ?p = "\<lparr>p_attr = VALUE_INOUT, p_a = 0, p_b = len, p_c = 0\<rparr>"
  obtain c ps u where run: "process_alloc (e_os env) 1 [?p] s = Inr (c, ps, u)"
    using process_alloc_total by blast
  have sw: "rpc_switch env (rpc_cmd_number SHM_ALLOC) 1 [?p] s = Inr (c, ps, u)"
    using run by (simp add: rpc_switch_def)
  note w = process_alloc_run [OF run]
  show ?thesis
  proof (cases rule: process_alloc_cases [OF inv drv run])
    case 1
    with sw w inv show ?thesis by (intro none [of u]) (auto simp: direct_alloc_def direct_cmd_def)
  next
    case 2
    with sw w show ?thesis by (intro none [of u]) (auto simp: direct_alloc_def direct_cmd_def)
  next
    case (3 t v)
    then have "direct_alloc env len s = (Some (payload_mobj t len), payload_state t len v)"
      using sw by (simp add: direct_alloc_def direct_cmd_def payload_mobj_def payload_state_def)
    with 3 w show ?thesis by (intro some) (auto simp: push_tshm_def)
  qed
qed

lemma mem_shape_head: "mem_shape s t \<Longrightarrow> shm_head t = shm_head s"
  by (simp add: mem_shape_def)

lemma direct_free_payload:
  assumes inv: "supp_inv u" and head: "shm_head u = sh\<lparr>shm_size := len\<rparr> # hs"
    and t: "t = direct_free env (Some (payload_mobj sh len)) u"
  shows "supp_inv t" and "shm_head t = hs" and "shm_run (e_os env) {shm_fd sh} (world u) {} (world t)"
proof -
  let ?p = "\<lparr>p_attr = VALUE_INPUT, p_a = 0, p_b = int_to_u64 (shm_id sh), p_c = 0\<rparr>"
  obtain c ps v where run: "process_free (e_os env) 1 [?p] u = Inr (c, ps, v)"
    using process_free_total by blast
  have tv: "t = v"
    using run t by (simp add: direct_free_def direct_cmd_def rpc_switch_def payload_mobj_def)
  have pop: "pop_tshm (shm_id sh) u = (Some (sh\<lparr>shm_size := len\<rparr>), u\<lparr>shm_head := hs\<rparr>)"
    using head by (simp add: pop_tshm_def)
  have find: "find_tshm (shm_id sh) u = Some (sh\<lparr>shm_size := len\<rparr>)"
    using head by (simp add: find_tshm_def)
  show "supp_inv t" using process_free_inv [OF inv run] tv by simp
  show "shm_head t = hs" using run
  proof (cases rule: process_free_cases)
    case bad
    with run pop show ?thesis
      by (auto simp: tv process_free_def get_value_def attr_type_def Let_def
          dest!: os_do_fields(2) split: if_splits prod.splits)
  next
    case (some t' v' w)
    with pop have "shm_head v' = hs" by auto
    with some(4) have "shm_head w = hs" by (simp add: mem_shape_def)
    with some(5) tv show ?thesis by (auto simp: free_block_def)
  qed
  show "shm_run (e_os env) {shm_fd sh} (world u) {} (world t)"
    using process_free_run [OF run] find tv
    by (simp add: tee_supp_param_is_value_def attr_type_def)
qed

text \<open>The bracket of allocation and release around the body of a system call.\<close>

text \<open>The bytes the core writes into a payload are the bytes the supplicant reads from it.\<close>

lemma payload_write:
  assumes fresh: "fresh_shm len sh s v" and len: "length bs \<le> unat len"
    and u: "u = direct_write (payload_mobj sh len) bs (payload_state sh len v)"
  shows "mem_shape (payload_state sh len v) u" and "world u = world v"
    and "find_tshm (shm_id sh) u = Some (sh\<lparr>shm_size := len\<rparr>)"
    and "\<exists>rest. mem u (shm_p sh) = Some (bs @ rest) \<and> unat len \<le> length (bs @ rest)"
proof -
  obtain old where old: "mem v (shm_p sh) = Some old" "unat len \<le> length old"
    using fresh by (auto simp: fresh_shm_def shm_backed_def split: option.splits)
  let ?p = "payload_state sh len v"
  obtain w where w: "store (Ptr (shm_p sh) 0) bs ?p = Inr w"
    using old len by (cases "bs = []") (auto simp: store_def)
  have uw: "u = w" using w u by (simp add: direct_write_def payload_mobj_def)
  show sh: "mem_shape ?p u" using mem_shape_store [OF w] uw by simp
  show "world u = world v" using store_fields(1) [OF w] uw by simp
  show "find_tshm (shm_id sh) u = Some (sh\<lparr>shm_size := len\<rparr>)"
    using mem_shape_head [OF sh] payload_find [of sh len v] by (simp add: find_tshm_def)
  have "mem w (shm_p sh) = Some (overwrite old 0 bs)"
    using w old len by (cases "bs = []") (auto simp: store_def)
  moreover have "overwrite old 0 bs = bs @ drop (length bs) old"
    using overwrite_within [of 0 bs old] old len by simp
  ultimately show "\<exists>rest. mem u (shm_p sh) = Some (bs @ rest) \<and> unat len \<le> length (bs @ rest)"
    using uw old len by auto
qed

text \<open>How the supplicant finds a payload: by its id, at offset 0.\<close>

lemma payload_to_va [simp]:
  "find_tshm (shm_id sh) u = Some (sh\<lparr>shm_size := len\<rparr>) \<Longrightarrow>
   tee_supp_param_to_va \<lparr>p_attr = MEMREF_INPUT, p_a = 0, p_b = 0, p_c = int_to_u64 (shm_id sh)\<rparr> u =
     Ptr (shm_p sh) 0"
  by (simp add: tee_supp_param_to_va_def tee_supp_param_is_memref_def attr_type_def)

lemma cstr_size_unat:
  assumes "length path + 1 < 2 ^ 64"
  shows "unat (cstr_size path) = length path + 1"
proof -
  have "cstr_size path = word_of_nat (Suc (length path))"
    by (simp add: cstr_size_def add.commute)
  moreover have "unat (word_of_nat n :: u64) = n" if "n < 2 ^ 64" for n
    using that by (simp add: unsigned_of_nat take_bit_nat_eq_self)
  ultimately show ?thesis using assms by (simp del: of_nat_Suc)
qed

text \<open>
  \<open>one_call os c w q w'\<close>: from \<open>w\<close> to \<open>w'\<close> the system is called once with \<open>c\<close>, answering \<open>q\<close>; all
  other calls manage shared memory, and none of it is left open.
\<close>

definition one_call :: "'w os \<Rightarrow> os_call \<Rightarrow> 'w \<Rightarrow> os_ret \<Rightarrow> 'w \<Rightarrow> bool" where
  "one_call os c w q w' \<longleftrightarrow>
     (\<exists>F w1 w2. shm_run os {} w F w1 \<and> os c w1 = (q, w2) \<and> shm_run os F w2 {} w')"

text \<open>The other way: what the supplicant stores in a payload is what the core reads from it.\<close>

lemma payload_get_param:
  assumes "find_tshm (shm_id sh) u = Some (sh\<lparr>shm_size := len\<rparr>)" and "i < unat k"
    and "ps ! i = \<lparr>p_attr = a, p_a = 0, p_b = 0, p_c = int_to_u64 (shm_id sh)\<rparr>"
    and "a = MEMREF_INPUT \<or> a = MEMREF_OUTPUT"
  shows "get_param k ps i u =
    Some \<lparr>sm_buffer = Ptr (shm_p sh) 0, sm_size = 0, sm_flags = 3, sm_id = shm_id sh\<rparr>"
  using assms by (auto simp: get_param_def attr_type_def)

lemma payload_store:
  assumes "mem u blk = Some old" and "length out \<le> length old"
  obtains v where "store (Ptr blk 0) out u = Inr v" and "mem v blk = Some (overwrite old 0 out)"
    and "world v = world u" and "shm_head v = shm_head u" and "mem_shape u v" and "errno v = errno u"
proof -
  obtain v where v: "store (Ptr blk 0) out u = Inr v" "mem v blk = Some (overwrite old 0 out)"
    using assms by (cases "out = []") (auto simp: store_def)
  then show ?thesis using store_fields [OF v(1)] mem_shape_store [OF v(1)] that by metis
qed

lemma filled_payload:
  assumes "length out \<le> n" and "n \<le> length (replicate n 0 @ rest)"
  shows "subbytes (overwrite (replicate n 0 @ rest) 0 out) 0 n = out @ replicate (n - length out) 0"
  using assms overwrite_within [of 0 out "replicate n 0 @ rest"] by (simp add: subbytes_def)

text \<open>
  \<open>served os c g fail s r t\<close>: a system call made in \<open>s\<close> returned \<open>r\<close> and left \<open>t\<close>.  Either memory
  could not be had, and \<open>r\<close> is the failure value, or \<open>c\<close> was called once and \<open>r\<close> is made of its answer;
  in both cases all shared memory has been given back.
\<close>

definition served ::
    "'w os \<Rightarrow> os_call \<Rightarrow> (os_ret \<Rightarrow> 'r) \<Rightarrow> 'r \<Rightarrow> 'w supp \<Rightarrow> 'r \<Rightarrow> 'w supp \<Rightarrow> bool" where
  "served os c g fail s r t \<longleftrightarrow> supp_inv t \<and> shm_head t = shm_head s \<and>
     (r = fail \<and> shm_run os {} (world s) {} (world t) \<or>
      (\<exists>q. one_call os c (world s) q (world t) \<and> r = g q))"

context tee_rpc
begin

lemma payload:
  assumes inv: "supp_inv s" and drv: "shm_alloc_rounds_up (e_os env)"
    and body: "\<And>sh v. fresh_shm len sh s v \<Longrightarrow>
      mem_shape (payload_state sh len v) (snd (body (payload_mobj sh len) (payload_state sh len v)))"
  obtains (refused) t where "with_payload ce len fail body s = (fail, t)"
      "supp_inv t" "shm_head t = shm_head s" "shm_run (e_os env) {} (world s) {} (world t)"
    | (served) sh v r u t where "fresh_shm len sh s v"
      "shm_run (e_os env) {} (world s) {shm_fd sh} (world v)"
      "body (payload_mobj sh len) (payload_state sh len v) = (r, u)"
      "with_payload ce len fail body s = (r, t)"
      "shm_run (e_os env) {shm_fd sh} (world u) {} (world t)"
      "supp_inv t" "shm_head t = shm_head s"
proof (cases rule: direct_alloc_cases [OF inv drv, of len])
  case (1 u)
  then show ?thesis
    by (intro refused [of u]) (simp_all add: with_payload_def alloc_law free_law direct_free_def)
next
  case (2 sh v)
  obtain r u where b: "body (payload_mobj sh len) (payload_state sh len v) = (r, u)" by fastforce
  then have sh: "mem_shape (payload_state sh len v) u" using body [OF 2(2)] by simp
  have invu: "supp_inv u"
    using supp_inv_shape [OF sh] fresh_shm_push [OF 2(2)] by (simp add: payload_state_def)
  have head: "shm_head u = sh\<lparr>shm_size := len\<rparr> # shm_head s"
    using mem_shape_head [OF sh] 2(2) by (simp add: payload_state_def push_tshm_def fresh_shm_def)
  note fr = direct_free_payload [OF invu head refl, of env]
  have "with_payload ce len fail body s = (r, direct_free env (Some (payload_mobj sh len)) u)"
    using 2(1) b by (simp add: with_payload_def alloc_law free_law payload_mobj_def)
  from served [OF 2(2,3) b this fr(3,1,2)] show ?thesis .
qed

lemmas rpc_laws = rpc_vfs_def cmd_law alloc_law free_law write_law read_law number_law direct_cmd_def
  tee_supp_vfs_process_def value_defs put_bc_def put_c_def

text \<open>A call without memory is one call of the operating system.\<close>

lemma scalar_calls:
  "syscall_vfs_close ce fd s =
     (let (r, t) = os_call0 (e_os env) (Close fd) s in (u64_to_int (o_ret r), t))"
  "syscall_vfs_ftruncate ce fd sz s =
     (let (r, t) = os_call0 (e_os env) (Ftruncate fd sz) s in (u64_to_int (o_ret r), t))"
  "syscall_vfs_fchmod ce fd m s =
     (let (r, t) = os_call0 (e_os env) (Fchmod fd m) s in (u64_to_int (o_ret r), t))"
  "syscall_vfs_fchown ce fd o' g s =
     (let (r, t) = os_call0 (e_os env) (Fchown fd o' g) s in (u64_to_int (o_ret r), t))"
  "syscall_vfs_geteuid ce s =
     (let (r, t) = os_call0 (e_os env) Geteuid s in (u64_to_int (o_ret r), t))"
  "syscall_vfs_getpid ce s =
     (let (r, t) = os_call0 (e_os env) Getpid s in (u64_to_int (o_ret r), t))"
  "syscall_vfs_lseek ce fd off wh s =
     (let (r, t) = os_call0 (e_os env) (Lseek fd off wh) s in (o_ret r, t))"
  "syscall_vfs_fsync ce fd s =
     (let (r, t) = os_call0 (e_os env) (Fsync fd) s in (u64_to_int (o_ret r), t))"
  "syscall_vfs_sleep ce n s =
     (let (r, t) = os_call0 (e_os env) (Sleep n) s in (u64_to_int (o_ret r), t))"
  "syscall_vfs_fcntl_void ce fd cmd s =
     (let (r, t) = os_call0 (e_os env) (Fcntl_void fd cmd) s in (u64_to_int (o_ret r), t))"
  "syscall_vfs_fcntl_int ce fd cmd pa s =
     (let (r, t) = os_call0 (e_os env) (Fcntl_int fd cmd pa) s in (u64_to_int (o_ret r), t))"
  "syscall_vfs_filesize ce fd s =
     (let (r, t) = os_call0 (e_os env) (Fstat fd True) s
      in (if u64_to_int (o_ret r) \<noteq> - 1 then o_val1 r else - 1, t))"
  by (simp_all add: rpc_laws syscall_vfs_close_def vfs_close_def syscall_vfs_ftruncate_def
      vfs_ftruncate_def syscall_vfs_fchmod_def vfs_fchmod_def syscall_vfs_fchown_def vfs_fchown_def
      syscall_vfs_geteuid_def vfs_geteuid_def syscall_vfs_getpid_def vfs_getpid_def
      syscall_vfs_lseek_def vfs_lseek_def syscall_vfs_fsync_def vfs_fsync_def syscall_vfs_sleep_def
      vfs_sleep_def syscall_vfs_fcntl_void_def vfs_fcntl_void_def syscall_vfs_fcntl_int_def
      vfs_fcntl_int_def syscall_vfs_filesize_def vfs_filesize_def ret_int_def ret_uint_def
      ret_long_def Let_def split: prod.split)

text \<open>
  A call that shares \<open>bs\<close> in a payload of \<open>len\<close> bytes: what is left to show of its body is that it
  makes the call \<open>c\<close>, and how its result depends on the answer.
\<close>

lemma payload_call:
  assumes inv: "supp_inv s" and drv: "shm_alloc_rounds_up (e_os env)" and len: "length bs \<le> unat len"
    and body: "\<And>sh v u rest q u1. u = direct_write (payload_mobj sh len) bs (payload_state sh len v) \<Longrightarrow>
        find_tshm (shm_id sh) u = Some (sh\<lparr>shm_size := len\<rparr>) \<Longrightarrow>
        mem u (shm_p sh) = Some (bs @ rest) \<Longrightarrow> unat len \<le> length (bs @ rest) \<Longrightarrow>
        os_call0 (e_os env) c u = (q, u1) \<Longrightarrow>
        \<exists>u2. body (payload_mobj sh len) (payload_state sh len v) = (g q, u2) \<and>
          mem_shape u1 u2 \<and> world u2 = world u1"
    and run: "with_payload ce len fail body s = (r, t)"
  shows "served (e_os env) c g fail s r t"
  unfolding served_def
proof -
  let ?w = "\<lambda>sh v. direct_write (payload_mobj sh len) bs (payload_state sh len v)"
  have key: "\<exists>q u1 u2. os_call0 (e_os env) c (?w sh v) = (q, u1) \<and>
      body (payload_mobj sh len) (payload_state sh len v) = (g q, u2) \<and> mem_shape u1 u2 \<and>
      world u2 = world u1" if f: "fresh_shm len sh s v" for sh v
  proof -
    note w = payload_write [OF f len refl]
    from w(4) obtain rest where "mem (?w sh v) (shm_p sh) = Some (bs @ rest)"
      "unat len \<le> length (bs @ rest)" by auto
    from body [OF refl w(3) this] show ?thesis by (meson surj_pair)
  qed
  show "supp_inv t \<and> shm_head t = shm_head s \<and>
    (r = fail \<and> shm_run (e_os env) {} (world s) {} (world t) \<or>
     (\<exists>q. one_call (e_os env) c (world s) q (world t) \<and> r = g q))" (is ?goal)
  proof (rule payload [OF inv drv, of len body fail])
    fix sh v
    assume f: "fresh_shm len sh s v"
    from key [OF f] obtain q u1 u2 where "os_call0 (e_os env) c (?w sh v) = (q, u1)"
      "body (payload_mobj sh len) (payload_state sh len v) = (g q, u2)" "mem_shape u1 u2" by blast
    then show "mem_shape (payload_state sh len v) (snd (body (payload_mobj sh len) (payload_state sh len v)))"
      using mem_shape_trans [OF mem_shape_call0 [OF payload_write(1) [OF f len refl]]]
      by (metis snd_conv)
  next
    fix t'
    assume "with_payload ce len fail body s = (fail, t')" "supp_inv t'" "shm_head t' = shm_head s"
      "shm_run (e_os env) {} (world s) {} (world t')"
    then show ?goal using run by simp
  next
    fix sh v r' u t'
    assume a: "fresh_shm len sh s v" "shm_run (e_os env) {} (world s) {shm_fd sh} (world v)"
      "body (payload_mobj sh len) (payload_state sh len v) = (r', u)"
      "with_payload ce len fail body s = (r', t')"
      "shm_run (e_os env) {shm_fd sh} (world u) {} (world t')" "supp_inv t'" "shm_head t' = shm_head s"
    from key [OF a(1)] a(3) obtain q u1 where q: "os_call0 (e_os env) c (?w sh v) = (q, u1)"
      "r' = g q" "world u = world u1" by auto
    have "e_os env c (world v) = (q, world u)"
      using os_call0_fields(6) [OF q(1)] payload_write(2) [OF a(1) len refl] q(3) by simp
    with a(2,5) have "one_call (e_os env) c (world s) q (world t')"
      unfolding one_call_def by blast
    then show ?goal using run a(4,6,7) q(2) by auto
  qed
qed

lemmas body_defs = rpc_laws path_arg_def data_arg_def ret_int_def ret_long_def
  errno64_def Let_def

lemma path_call_cstring:
  "0 \<notin> set path \<Longrightarrow> mem u blk = Some ((path @ [0]) @ rest) \<Longrightarrow> cstring (mem u) (Ptr blk 0) = Inr (Some path)"
  by (rule cstring_terminated) simp_all

lemma path_len: "length path + 1 < 2 ^ 64 \<Longrightarrow> length (path @ [0]) \<le> unat (cstr_size path)"
  by (simp add: cstr_size_unat)

lemma path_calls:
  assumes "supp_inv s" and "shm_alloc_rounds_up (e_os env)"
    and path: "0 \<notin> set path" "length path + 1 < 2 ^ 64"
  shows open_call: "syscall_vfs_open ce path oflag arg1 s = (r, t) \<Longrightarrow>
      served (e_os env) (Open (Some path) oflag arg1) (\<lambda>q. u64_to_int (o_ret q)) (- 1) s r t"
    and access_call: "syscall_vfs_access ce path mode s = (r, t) \<Longrightarrow>
      served (e_os env) (Access (Some path) mode) (\<lambda>q. u64_to_int (o_ret q)) (- 1) s r t"
    and mkdir_call: "syscall_vfs_mkdir ce path md s = (r, t) \<Longrightarrow>
      served (e_os env) (Mkdir (Some path) md) (\<lambda>q. u64_to_int (o_ret q)) (- 1) s r t"
    and rmdir_call: "syscall_vfs_rmdir ce path s = (r, t) \<Longrightarrow>
      served (e_os env) (Rmdir (Some path)) (\<lambda>q. u64_to_int (o_ret q)) (- 1) s r t"
    and unlink_call: "syscall_vfs_unlink ce path s = (re, t) \<Longrightarrow>
      served (e_os env) (Unlink (Some path)) (\<lambda>q. (u64_to_int (o_ret q), Some (o_errno q))) (- 1, None) s re t"
proof -
  note call = payload_call [OF assms(1,2) path_len [OF path(2)]]
  note cs = path_call_cstring [OF path(1)]
  show "syscall_vfs_open ce path oflag arg1 s = (r, t) \<Longrightarrow>
      served (e_os env) (Open (Some path) oflag arg1) (\<lambda>q. u64_to_int (o_ret q)) (- 1) s r t"
    unfolding syscall_vfs_open_def
    by (rule call, simp_all add: body_defs vfs_open_def cs del: cstring.simps)
  show "syscall_vfs_access ce path mode s = (r, t) \<Longrightarrow>
      served (e_os env) (Access (Some path) mode) (\<lambda>q. u64_to_int (o_ret q)) (- 1) s r t"
    unfolding syscall_vfs_access_def
    by (rule call, simp_all add: body_defs vfs_access_def cs del: cstring.simps)
  show "syscall_vfs_mkdir ce path md s = (r, t) \<Longrightarrow>
      served (e_os env) (Mkdir (Some path) md) (\<lambda>q. u64_to_int (o_ret q)) (- 1) s r t"
    unfolding syscall_vfs_mkdir_def
    by (rule call, simp_all add: body_defs vfs_mkdir_def cs del: cstring.simps)
  show "syscall_vfs_rmdir ce path s = (r, t) \<Longrightarrow>
      served (e_os env) (Rmdir (Some path)) (\<lambda>q. u64_to_int (o_ret q)) (- 1) s r t"
    unfolding syscall_vfs_rmdir_def
    by (rule call, simp_all add: body_defs vfs_rmdir_def cs del: cstring.simps)
  show "syscall_vfs_unlink ce path s = (re, t) \<Longrightarrow>
      served (e_os env) (Unlink (Some path)) (\<lambda>q. (u64_to_int (o_ret q), Some (o_errno q))) (- 1, None) s re t"
    unfolding syscall_vfs_unlink_def
    by (rule call, simp_all add: body_defs vfs_unlink_def cs os_call0_fields del: cstring.simps)
qed

text \<open>\<open>write\<close> hands the system the caller's first \<open>n\<close> bytes.\<close>

lemma write_call:
  assumes "supp_inv s" and "shm_alloc_rounds_up (e_os env)" and buf: "unat n \<le> length buf"
    and run: "syscall_vfs_write ce fd buf n s = (r, t)"
  shows "served (e_os env) (Write fd (Some (take (unat n) buf)) n)
    (\<lambda>q. int_to_u64 (u64_to_int (o_ret q))) (- 1) s r t"
proof -
  have len: "length (take (unat n) buf) \<le> unat n" by simp
  have rg: "region (mem u) (Ptr blk 0) (unat n) = Inr (Some (take (unat n) buf))"
    if "mem u blk = Some (take (unat n) buf @ rest)" "unat n \<le> length (take (unat n) buf @ rest)"
    for u :: "'a supp" and blk rest
    using that buf by (simp add: subbytes_def)
  show ?thesis
    by (rule payload_call [OF assms(1,2) len _ run [unfolded syscall_vfs_write_def]])
      (simp add: body_defs vfs_write_def rg del: region.simps)
qed

text \<open>\<open>read\<close> returns what the system stored, in a buffer that was zero before.\<close>

lemma read_answer:
  assumes q: "\<And>w. length (o_out (fst (e_os env c w))) \<le> unat n"
    and find: "find_tshm (shm_id sh) u = Some (sh\<lparr>shm_size := n\<rparr>)"
    and m: "mem u (shm_p sh) = Some (replicate (unat n) 0 @ rest)"
    and os: "os_call0 (e_os env) c u = (q, u1)"
  obtains v where "store (Ptr (shm_p sh) 0) (o_out q) u1 = Inr v" and "mem_shape u1 v"
    and "world v = world u1" and "errno v = errno u1"
    and "direct_read (payload_mobj sh n) n v = o_out q @ replicate (unat n - length (o_out q)) 0"
proof -
  note f = os_call0_fields [OF os]
  have lq: "length (o_out q) \<le> unat n" using q [of "world u"] f(6) by simp
  then have fits: "length (o_out q) \<le> length (replicate (unat n) (0 :: byte) @ rest)" by simp
  have m1: "mem u1 (shm_p sh) = Some (replicate (unat n) 0 @ rest)" using m f(1) by simp
  obtain v where v: "store (Ptr (shm_p sh) 0) (o_out q) u1 = Inr v"
    "mem v (shm_p sh) = Some (overwrite (replicate (unat n) 0 @ rest) 0 (o_out q))"
    "world v = world u1" "shm_head v = shm_head u1" "mem_shape u1 v" "errno v = errno u1"
    by (rule payload_store [OF m1 fits])
  have "find_tshm (shm_id sh) v = Some (sh\<lparr>shm_size := n\<rparr>)"
    using find v(4) f(2) by (simp add: find_tshm_def)
  then show ?thesis
    using v filled_payload [OF lq, of rest] that by (simp add: direct_read_def payload_mobj_def)
qed

lemma read_call:
  assumes "supp_inv s" and "shm_alloc_rounds_up (e_os env)"
    and q: "\<And>w. length (o_out (fst (e_os env (Read fd True n) w))) \<le> unat n"
    and run: "syscall_vfs_read ce fd n s = (rd, t)"
  shows "served (e_os env) (Read fd True n)
    (\<lambda>q. (o_ret q, Some (o_out q @ replicate (unat n - length (o_out q)) 0))) (- 1, None) s rd t"
proof -
  have len: "length (replicate (unat n) (0 :: byte)) \<le> unat n" by simp
  show ?thesis
  proof (rule payload_call [OF assms(1,2) len _ run [unfolded syscall_vfs_read_def]])
    fix sh v u rest q u1
    assume u: "u = direct_write (payload_mobj sh n) (replicate (unat n) 0) (payload_state sh n v)"
      and a: "find_tshm (shm_id sh) u = Some (sh\<lparr>shm_size := n\<rparr>)"
        "mem u (shm_p sh) = Some (replicate (unat n) 0 @ rest)"
      and c: "os_call0 (e_os env) (Read fd True n) u = (q, u1)"
    show "\<exists>u2. (let s = mobj_write ce (payload_mobj sh n) (replicate (unat n) 0) (payload_state sh n v);
          ((_, params), s) = rpc_vfs ce 3
            [PARAM_VALUE PINOUT (optee_vfs VFS_READ) 0 0, PARAM_MEMREF POUT (Some (payload_mobj sh n)) 0 0,
             PARAM_VALUE PIN (int_to_u64 fd) n 0] s
        in ((value_b (params ! 0), Some (mobj_read ce (payload_mobj sh n) n s)), s)) =
        ((o_ret q, Some (o_out q @ replicate (unat n - length (o_out q)) 0)), u2) \<and>
        mem_shape u1 u2 \<and> world u2 = world u1"
      by (rule read_answer [OF assms(3) a c])
        (use u a(1) c in \<open>simp add: body_defs vfs_read_def payload_get_param\<close>)
  qed
qed

end

end
