(* ===== verification/Tee_Files.thy ===== *)
theory Tee_Files
  imports Transport Ta_Vfs
begin

text \<open>
  The two ways a SQLite VFS reaches a file: the host's VFS calls the C library (\<open>host_io\<close>), the
  trusted application makes system calls that travel through the supplicant to the same C library
  (\<open>tee_io\<close>).  The locale \<open>posix_files\<close> states what POSIX promises of an open file and what the TEE
  driver promises of shared memory; both ways then keep the promises of \<open>file_io\<close>, which the
  refinement of \<open>Ta_Vfs\<close> rests on.
\<close>

section \<open>The two bindings\<close>

text \<open>
  The stubs \<open>utee_vfs_*\<close> pass their arguments to the system call of the same name; \<open>utee_vfs_write\<close>
  is declared to return \<open>int\<close> (\<open>utee_syscalls.h\<close>).  \<open>getcwd\<close> returns its argument in every case.
  \<open>mal\<close> and \<open>snp\<close> are the functions of the SQLite library.
\<close>

definition tee_io ::
    "'s core_env \<Rightarrow> (u64 \<Rightarrow> 's \<Rightarrow> byte list option \<times> 's) \<Rightarrow> (int \<Rightarrow> byte list \<Rightarrow> byte list) \<Rightarrow> 's vfs_io" where
  "tee_io ce mal snp =
     \<lparr>io_open = syscall_vfs_open ce,
      io_close = syscall_vfs_close ce,
      io_access = syscall_vfs_access ce,
      io_getcwd = (\<lambda>n s. let (b, s) = syscall_vfs_getcwd ce n s in ((True, b), s)),
      io_write = (\<lambda>fd buf n s. let (r, s) = syscall_vfs_write ce fd buf n s in (int_to_u64 (u64_to_int r), s)),
      io_unlink = syscall_vfs_unlink ce,
      io_read = syscall_vfs_read ce,
      io_lseek = syscall_vfs_lseek ce,
      io_fsync = syscall_vfs_fsync ce,
      io_sleep = syscall_vfs_sleep ce,
      io_usleep = syscall_vfs_usleep ce,
      io_filesize = syscall_vfs_filesize ce,
      sqlite3_malloc = mal,
      sqlite3_snprintf = snp\<rparr>"

text \<open>The C library itself; \<open>fstat\<close> stands behind \<open>io_filesize\<close>.\<close>

definition host_io ::
    "'w os \<Rightarrow> (u64 \<Rightarrow> 'w \<Rightarrow> byte list option \<times> 'w) \<Rightarrow> (int \<Rightarrow> byte list \<Rightarrow> byte list) \<Rightarrow> 'w vfs_io" where
  "host_io os mal snp =
     \<lparr>io_open = (\<lambda>path oflag arg w. let (q, w) = os (Open (Some path) oflag arg) w in (u64_to_int (o_ret q), w)),
      io_close = (\<lambda>fd w. let (q, w) = os (Close fd) w in (u64_to_int (o_ret q), w)),
      io_access = (\<lambda>path mode w. let (q, w) = os (Access (Some path) mode) w in (u64_to_int (o_ret q), w)),
      io_getcwd = (\<lambda>n w. let (q, w) = os (Getcwd True n) w in
        ((o_ret q \<noteq> 0, if o_ret q \<noteq> 0 then Some (o_out q) else None), w)),
      io_write = (\<lambda>fd buf n w. let (q, w) = os (Write fd (Some (take (unat n) buf)) n) w in (o_ret q, w)),
      io_unlink = (\<lambda>path w. let (q, w) = os (Unlink (Some path)) w in
        ((u64_to_int (o_ret q), Some (o_errno q)), w)),
      io_read = (\<lambda>fd n w. let (q, w) = os (Read fd True n) w in ((o_ret q, Some (o_out q)), w)),
      io_lseek = (\<lambda>fd off wh w. let (q, w) = os (Lseek fd off wh) w in (o_ret q, w)),
      io_fsync = (\<lambda>fd w. let (q, w) = os (Fsync fd) w in (u64_to_int (o_ret q), w)),
      io_sleep = (\<lambda>n w. let (q, w) = os (Sleep n) w in (u64_to_int (o_ret q), w)),
      io_usleep = (\<lambda>n w. snd (os (Usleep (u64_to_int n)) w)),
      io_filesize = (\<lambda>fd w. let (q, w) = os (Fstat fd True) w in
        (if u64_to_int (o_ret q) \<noteq> 0 then - 1 else o_val1 q, w)),
      sqlite3_malloc = mal,
      sqlite3_snprintf = snp\<rparr>"

lemma tee_io_sel [simp]:
  "io_lseek (tee_io ce mal snp) = syscall_vfs_lseek ce"
  "io_write (tee_io ce mal snp) fd buf n s =
     (let (r, s) = syscall_vfs_write ce fd buf n s in (int_to_u64 (u64_to_int r), s))"
  "io_read (tee_io ce mal snp) = syscall_vfs_read ce"
  "io_fsync (tee_io ce mal snp) = syscall_vfs_fsync ce"
  "io_filesize (tee_io ce mal snp) = syscall_vfs_filesize ce"
  by (simp_all add: tee_io_def)

section \<open>What POSIX and the TEE driver promise\<close>

text \<open>\<open>pview w fd\<close> is the content and the position of the regular file open as \<open>fd\<close>.\<close>

definition file_call :: "s32 \<Rightarrow> os_call \<Rightarrow> bool" where
  "file_call fd c \<longleftrightarrow> (\<exists>off wh. c = Lseek fd off wh) \<or> (\<exists>buf n. c = Write fd buf n) \<or>
     (\<exists>b n. c = Read fd b n) \<or> c = Fsync fd \<or> (\<exists>b. c = Fstat fd b)"

lemma file_calls [simp]:
  "file_call fd (Lseek fd off wh)" "file_call fd (Write fd buf n)" "file_call fd (Read fd b n)"
  "file_call fd (Fsync fd)" "file_call fd (Fstat fd b)"
  by (auto simp: file_call_def)

locale posix_files =
  fixes os :: "'w os" and pview :: "'w \<Rightarrow> s32 \<Rightarrow> (byte list \<times> nat) option"
  assumes posix_lseek: "pview w fd = Some (bs, pos) \<Longrightarrow> 0 \<le> sint ofst \<Longrightarrow>
      os (Lseek fd ofst SEEK_SET) w = (q, w') \<Longrightarrow>
        o_ret q = ofst \<and> pview w' fd = Some (bs, unat ofst) \<or> o_ret q = - 1 \<and> pview w' fd = Some (bs, pos)"
    and posix_write: "pview w fd = Some (bs, pos) \<Longrightarrow> length buf = unat n \<Longrightarrow> unat n < 2 ^ 31 \<Longrightarrow>
      os (Write fd (Some buf) n) w = (q, w') \<Longrightarrow>
        (\<exists>k \<le> unat n. o_ret q = word_of_nat k \<and> pview w' fd = Some (overwrite bs pos (take k buf), pos + k))
        \<or> o_ret q = - 1 \<and> pview w' fd = Some (bs, pos)"
    and posix_read: "pview w fd = Some (bs, pos) \<Longrightarrow> unat n < 2 ^ 31 \<Longrightarrow>
      os (Read fd True n) w = (q, w') \<Longrightarrow>
        (\<exists>k \<le> unat n. o_ret q = word_of_nat k \<and> k \<le> length bs - pos \<and> o_out q = subbytes bs pos k \<and>
           pview w' fd = Some (bs, pos + k))
        \<or> o_ret q = - 1 \<and> pview w' fd = Some (bs, pos)"
    and posix_read_out: "length (o_out (fst (os (Read fd True n) w))) \<le> unat n"
    and posix_fsync: "pview w fd = Some v \<Longrightarrow> os (Fsync fd) w = (q, w') \<Longrightarrow> pview w' fd = Some v"
    and posix_fstat: "pview w fd = Some (bs, pos) \<Longrightarrow> os (Fstat fd True) w = (q, w') \<Longrightarrow>
        (u64_to_int (o_ret q) = - 1 \<or> u64_to_int (o_ret q) = 0 \<and> o_val1 q = word_of_nat (length bs)) \<and>
        pview w' fd = Some (bs, pos)"
    and posix_other: "file_call fd c \<Longrightarrow> pview w f = None \<Longrightarrow> os c w = (q, w') \<Longrightarrow> pview w' f = None"
    and shm_size: "shm_alloc_rounds_up os"
    and shm_calls: "shm_plain c \<Longrightarrow> os c w = (q, w') \<Longrightarrow> pview w' = pview w"
    and shm_ioctl: "c = Ioctl_shm_alloc d n \<or> c = Ioctl_shm_register d n \<Longrightarrow> os c w = (q, w') \<Longrightarrow>
        pview w' = pview w \<and>
        (0 \<le> sint (u64_to_int (o_ret q)) \<longrightarrow> pview w (u64_to_int (o_ret q)) = None)"
    and shm_close: "pview w f = None \<Longrightarrow> os (Close f) w = (q, w') \<Longrightarrow> pview w' = pview w"
begin

text \<open>Managing shared memory does not touch the files.\<close>

lemma shm_run_view:
  assumes "shm_run os F w G u" and "\<forall>f \<in> F. pview w f = None"
  shows "pview u = pview w \<and> (\<forall>f \<in> G. pview u f = None)"
  using assms
proof (induction rule: shm_run.induct)
  case run_refl
  then show ?case by simp
next
  case (run_plain G u c r v)
  then show ?case using shm_calls [of c u r v] by auto
next
  case (run_ioctl G u c d n r v H)
  then have "pview v = pview u"
    "0 \<le> sint (u64_to_int (o_ret r)) \<longrightarrow> pview u (u64_to_int (o_ret r)) = None"
    using shm_ioctl [of c d n u r v] by auto
  with run_ioctl show ?case by auto
next
  case (run_close G u f r v)
  then show ?case using shm_close [of u f r v] by auto
qed

lemma one_call_view:
  assumes "one_call os c w q w'" and "file_call fd c"
  obtains w1 w2 where "pview w1 = pview w" and "os c w1 = (q, w2)" and "pview w' = pview w2"
proof -
  obtain F w1 w2 where a: "shm_run os {} w F w1" "os c w1 = (q, w2)" "shm_run os F w2 {} w'"
    using assms(1) by (auto simp: one_call_def)
  have 1: "pview w1 = pview w" "\<forall>f \<in> F. pview w1 f = None"
    using shm_run_view [OF a(1)] by auto
  have "\<forall>f \<in> F. pview w2 f = None" using posix_other [OF assms(2) _ a(2)] 1(2) by blast
  with shm_run_view [OF a(3)] have "pview w' = pview w2" by blast
  with 1 a(2) show ?thesis by (intro that)
qed

end

section \<open>The host\<close>

sublocale posix_files \<subseteq> host: file_io "host_io os mal snp" pview for mal snp
proof
  fix s t fd bs pos ofst r n buf data v r0
  show "pview s fd = Some (bs, pos) \<Longrightarrow> 0 \<le> sint ofst \<Longrightarrow>
      io_lseek (host_io os mal snp) fd ofst SEEK_SET s = (r, t) \<Longrightarrow>
      r = ofst \<and> pview t fd = Some (bs, unat ofst) \<or> r \<noteq> ofst \<and> pview t fd = Some (bs, pos)"
    using posix_lseek [of s fd bs pos ofst] by (fastforce simp: host_io_def split: prod.splits)
  show "(\<exists>k \<le> unat n. r = word_of_nat k \<and> pview t fd = Some (overwrite bs pos (take k buf), pos + k)) \<or>
      r = - 1 \<and> pview t fd = Some (bs, pos)"
    if v: "pview s fd = Some (bs, pos)" and n: "unat n \<le> length buf" "unat n < 2 ^ 31"
      and run: "io_write (host_io os mal snp) fd buf n s = (r, t)"
  proof -
    have len: "length (take (unat n) buf) = unat n" using n by simp
    have tk: "take k (take (unat n) buf) = take k buf" if "k \<le> unat n" for k
      using that by (simp add: min_def)
    obtain q where "os (Write fd (Some (take (unat n) buf)) n) s = (q, t)" "r = o_ret q"
      using run by (auto simp: host_io_def split: prod.splits)
    with posix_write [OF v len n(2)] tk show ?thesis by metis
  qed
  show "pview s fd = Some (bs, pos) \<Longrightarrow> unat n < 2 ^ 31 \<Longrightarrow>
      io_read (host_io os mal snp) fd n s = ((r, data), t) \<Longrightarrow>
      (\<exists>k d. r = word_of_nat k \<and> k \<le> length bs - pos \<and> data = Some d \<and> k \<le> length d \<and>
         length d \<le> unat n \<and> take k d = subbytes bs pos k \<and> pview t fd = Some (bs, pos + k)) \<or>
      r = - 1 \<and> pview t fd = Some (bs, pos) \<and>
      (case data of None \<Rightarrow> True | Some d \<Rightarrow> length d \<le> unat n)"
    using posix_read [of s fd bs pos n] posix_read_out [of fd n s]
    by (fastforce simp: host_io_def split: prod.splits)
  show "pview s fd = Some v \<Longrightarrow> io_fsync (host_io os mal snp) fd s = (r0, t) \<Longrightarrow> pview t fd = Some v"
    using posix_fsync [of s fd v] by (auto simp: host_io_def split: prod.splits)
  show "pview s fd = Some (bs, pos) \<Longrightarrow> io_filesize (host_io os mal snp) fd s = (r, t) \<Longrightarrow>
      (r = - 1 \<or> r = word_of_nat (length bs)) \<and> pview t fd = Some (bs, pos)"
    using posix_fstat [of s fd bs pos] by (fastforce simp: host_io_def split: prod.splits if_splits)
qed

section \<open>The trusted application\<close>

lemma low_half_u64: "k < 2 ^ 31 \<Longrightarrow> int_to_u64 (u64_to_int (word_of_nat k)) = word_of_nat k"
proof -
  assume "k < 2 ^ 31"
  then have "sint (u64_to_int (word_of_nat k)) = int k" by (rule low_half_nat)
  then show ?thesis by (simp add: scast_eq)
qed

text \<open>The file as the secure world sees it, while the supplicant is in order.\<close>

definition tview :: "('w \<Rightarrow> s32 \<Rightarrow> (byte list \<times> nat) option) \<Rightarrow> 'w supp \<Rightarrow> s32 \<Rightarrow> (byte list \<times> nat) option" where
  "tview pview s fd = (if supp_inv s then pview (world s) fd else None)"

locale tee_files = tee_rpc ce env + posix_files "e_os env" pview
  for ce :: "'w supp core_env" and env :: "'w supp_env"
    and pview :: "'w \<Rightarrow> s32 \<Rightarrow> (byte list \<times> nat) option"
begin

lemma tview_world: "tview pview s fd = Some v \<Longrightarrow> supp_inv s \<and> pview (world s) fd = Some v"
  by (simp add: tview_def split: if_splits)

lemma os_call0_inv: "supp_inv s \<Longrightarrow> os_call0 os c s = (q, t) \<Longrightarrow> supp_inv t"
  by (rule supp_inv_shape [OF mem_shape_os_call0])

lemma tee_lseek:
  assumes v: "tview pview s fd = Some (bs, pos)" and o: "0 \<le> sint ofst"
    and run: "syscall_vfs_lseek ce fd ofst SEEK_SET s = (r, t)"
  shows "r = ofst \<and> tview pview t fd = Some (bs, unat ofst) \<or> r \<noteq> ofst \<and> tview pview t fd = Some (bs, pos)"
proof -
  obtain q u where q: "os_call0 (e_os env) (Lseek fd ofst SEEK_SET) s = (q, u)" by fastforce
  with run have rt: "r = o_ret q" "t = u" by (simp_all add: scalar_calls)
  note f = os_call0_fields [OF q]
  have ne: "(- 1 :: s64) \<noteq> ofst" using o by auto
  show ?thesis
    using posix_lseek [of "world s" fd bs pos ofst q "world u"] tview_world [OF v] f(6) o rt
      os_call0_inv [OF _ q] ne by (auto simp: tview_def)
qed

lemma tee_scalar_view:
  assumes v: "tview pview s fd = Some x" and q: "os_call0 (e_os env) c s = (q, t)"
  shows "supp_inv t" and "pview (world s) fd = Some x" and "e_os env c (world s) = (q, world t)"
  using tview_world [OF v] os_call0_inv [OF _ q] os_call0_fields(6) [OF q] by auto

text \<open>A call with a payload, seen from the file it is about.\<close>

lemma served_view:
  assumes v: "tview pview s fd = Some x" and sv: "served (e_os env) c g fail s r t" and c: "file_call fd c"
  obtains (refused) "r = fail" and "tview pview t fd = Some x"
    | (called) w1 q w2 where "pview w1 fd = Some x" and "e_os env c w1 = (q, w2)" and "r = g q"
        and "tview pview t fd = pview w2 fd"
proof -
  have inv: "supp_inv t" using sv by (simp add: served_def)
  have x: "pview (world s) fd = Some x" using tview_world [OF v] by simp
  from sv consider "r = fail" "shm_run (e_os env) {} (world s) {} (world t)"
    | q where "one_call (e_os env) c (world s) q (world t)" "r = g q"
    by (auto simp: served_def)
  then show ?thesis
  proof cases
    case 1
    with shm_run_view [OF 1(2)] inv x show ?thesis by (intro refused) (simp_all add: tview_def)
  next
    case (2 q)
    obtain w1 w2 where "pview w1 = pview (world s)" "e_os env c w1 = (q, w2)" "pview (world t) = pview w2"
      by (rule one_call_view [OF 2(1) c])
    with 2(2) inv x show ?thesis by (intro called) (simp_all add: tview_def)
  qed
qed

lemma tee_write:
  assumes v: "tview pview s fd = Some (bs, pos)" and n: "unat n \<le> length buf" "unat n < 2 ^ 31"
    and run: "syscall_vfs_write ce fd buf n s = (r, t)"
  shows "(\<exists>k \<le> unat n. int_to_u64 (u64_to_int r) = word_of_nat k \<and>
      tview pview t fd = Some (overwrite bs pos (take k buf), pos + k)) \<or>
    int_to_u64 (u64_to_int r) = - 1 \<and> tview pview t fd = Some (bs, pos)"
proof -
  have inv: "supp_inv s" using tview_world [OF v] by simp
  have len: "length (take (unat n) buf) = unat n" using n by simp
  have m1: "int_to_u64 (u64_to_int (- 1)) = - 1" by (metis u64_to_int_of_int int_to_u64_minus_one)
  show ?thesis
  proof (rule served_view [OF v write_call [OF inv shm_size n(1) run] file_calls(2)])
    assume "r = - 1" "tview pview t fd = Some (bs, pos)"
    then show ?thesis using m1 by simp
  next
    fix w1 q w2
    assume a: "pview w1 fd = Some (bs, pos)" "e_os env (Write fd (Some (take (unat n) buf)) n) w1 = (q, w2)"
      "r = int_to_u64 (u64_to_int (o_ret q))" "tview pview t fd = pview w2 fd"
    from posix_write [OF a(1) len n(2) a(2)] show ?thesis
    proof (elim disjE exE conjE)
      fix k
      assume k: "k \<le> unat n" "o_ret q = word_of_nat k"
        "pview w2 fd = Some (overwrite bs pos (take k (take (unat n) buf)), pos + k)"
      then have "int_to_u64 (u64_to_int r) = word_of_nat k"
        using a(3) low_half_u64 [of k] n(2) by simp
      with k a(4) show ?thesis by (auto simp: min_def)
    next
      assume "o_ret q = - 1" "pview w2 fd = Some (bs, pos)"
      with a m1 show ?thesis by simp
    qed
  qed
qed

lemma tee_fsync:
  assumes v: "tview pview s fd = Some x" and run: "syscall_vfs_fsync ce fd s = (r, t)"
  shows "tview pview t fd = Some x"
proof -
  obtain q u where q: "os_call0 (e_os env) (Fsync fd) s = (q, u)" by fastforce
  with run have "t = u" by (simp add: scalar_calls)
  with tee_scalar_view [OF v q] posix_fsync [of "world s" fd x q "world u"] show ?thesis
    by (simp add: tview_def)
qed

lemma tee_filesize:
  assumes v: "tview pview s fd = Some (bs, pos)" and run: "syscall_vfs_filesize ce fd s = (r, t)"
  shows "(r = - 1 \<or> r = word_of_nat (length bs)) \<and> tview pview t fd = Some (bs, pos)"
proof -
  obtain q u where q: "os_call0 (e_os env) (Fstat fd True) s = (q, u)" by fastforce
  with run have rt: "t = u" "r = (if u64_to_int (o_ret q) \<noteq> - 1 then o_val1 q else - 1)"
    by (simp_all add: scalar_calls)
  note a = tee_scalar_view [OF v q]
  have "(u64_to_int (o_ret q) = - 1 \<or> u64_to_int (o_ret q) = 0 \<and> o_val1 q = word_of_nat (length bs)) \<and>
      pview (world u) fd = Some (bs, pos)"
    by (rule posix_fstat [OF a(2,3)])
  then show ?thesis using rt a(1) by (cases "u64_to_int (o_ret q) = - 1") (auto simp: tview_def)
qed

lemma tee_read:
  assumes v: "tview pview s fd = Some (bs, pos)" and n: "unat n < 2 ^ 31"
    and run: "syscall_vfs_read ce fd n s = ((r, data), t)"
  shows "(\<exists>k d. r = word_of_nat k \<and> k \<le> length bs - pos \<and> data = Some d \<and> k \<le> length d \<and>
      length d \<le> unat n \<and> take k d = subbytes bs pos k \<and> tview pview t fd = Some (bs, pos + k)) \<or>
    r = - 1 \<and> tview pview t fd = Some (bs, pos) \<and>
      (case data of None \<Rightarrow> True | Some d \<Rightarrow> length d \<le> unat n)"
proof -
  have inv: "supp_inv s" using tview_world [OF v] by simp
  show ?thesis
  proof (rule served_view [OF v read_call [OF inv shm_size posix_read_out run] file_calls(3)])
    assume "(r, data) = (- 1, None)" "tview pview t fd = Some (bs, pos)"
    then show ?thesis by simp
  next
    fix w1 q w2
    assume a: "pview w1 fd = Some (bs, pos)" "e_os env (Read fd True n) w1 = (q, w2)"
      "(r, data) = (o_ret q, Some (o_out q @ replicate (unat n - length (o_out q)) 0))"
      "tview pview t fd = pview w2 fd"
    have lq: "length (o_out q) \<le> unat n" using posix_read_out [of fd n w1] a(2) by simp
    from posix_read [OF a(1) n a(2)] show ?thesis
    proof (elim disjE exE conjE)
      fix k
      assume "k \<le> unat n" "o_ret q = word_of_nat k" "k \<le> length bs - pos" "o_out q = subbytes bs pos k"
        "pview w2 fd = Some (bs, pos + k)"
      with a(3,4) show ?thesis by (auto simp: subbytes_def min_def)
    next
      assume "o_ret q = - 1" "pview w2 fd = Some (bs, pos)"
      with a lq show ?thesis by simp
    qed
  qed
qed

end

sublocale tee_files \<subseteq> tee: file_io "tee_io ce mal snp" "tview pview" for mal snp
proof
  fix s t fd bs pos ofst r n buf data v r0
  show "tview pview s fd = Some (bs, pos) \<Longrightarrow> 0 \<le> sint ofst \<Longrightarrow>
      io_lseek (tee_io ce mal snp) fd ofst SEEK_SET s = (r, t) \<Longrightarrow>
      r = ofst \<and> tview pview t fd = Some (bs, unat ofst) \<or> r \<noteq> ofst \<and> tview pview t fd = Some (bs, pos)"
    unfolding tee_io_sel by (rule tee_lseek)
  show "tview pview s fd = Some (bs, pos) \<Longrightarrow> unat n \<le> length buf \<Longrightarrow> unat n < 2 ^ 31 \<Longrightarrow>
      io_write (tee_io ce mal snp) fd buf n s = (r, t) \<Longrightarrow>
      (\<exists>k \<le> unat n. r = word_of_nat k \<and> tview pview t fd = Some (overwrite bs pos (take k buf), pos + k)) \<or>
      r = - 1 \<and> tview pview t fd = Some (bs, pos)"
    using tee_write [of s fd bs pos n buf] by (auto split: prod.splits)
  show "tview pview s fd = Some (bs, pos) \<Longrightarrow> unat n < 2 ^ 31 \<Longrightarrow>
      io_read (tee_io ce mal snp) fd n s = ((r, data), t) \<Longrightarrow>
      (\<exists>k d. r = word_of_nat k \<and> k \<le> length bs - pos \<and> data = Some d \<and> k \<le> length d \<and>
         length d \<le> unat n \<and> take k d = subbytes bs pos k \<and> tview pview t fd = Some (bs, pos + k)) \<or>
      r = - 1 \<and> tview pview t fd = Some (bs, pos) \<and>
      (case data of None \<Rightarrow> True | Some d \<Rightarrow> length d \<le> unat n)"
    unfolding tee_io_sel by (rule tee_read)
  show "tview pview s fd = Some v \<Longrightarrow> io_fsync (tee_io ce mal snp) fd s = (r0, t) \<Longrightarrow>
      tview pview t fd = Some v"
    unfolding tee_io_sel by (rule tee_fsync)
  show "tview pview s fd = Some (bs, pos) \<Longrightarrow> io_filesize (tee_io ce mal snp) fd s = (r, t) \<Longrightarrow>
      (r = - 1 \<or> r = word_of_nat (length bs)) \<and> tview pview t fd = Some (bs, pos)"
    unfolding tee_io_sel by (rule tee_filesize)
qed

end
