(* ===== verification/Posix_Ref.thy ===== *)
theory Posix_Ref
  imports Tee_Files
begin

text \<open>
  A small operating system in which the hypotheses of the development hold: files as byte lists,
  descriptors as positions in them, a TEE driver that grants every request.  It models no code of
  the repository: it instantiates the parameter \<open>os\<close>, shows the laws of \<open>posix_files\<close> and
  \<open>tee_files\<close> to be consistent, and is what the witnesses compute with.
\<close>

record ref_world =
  r_path :: "byte list \<Rightarrow> nat option"
  r_data :: "nat \<Rightarrow> byte list"
  r_fds :: "s32 \<Rightarrow> (nat \<times> nat) option"
  r_next_ino :: nat
  r_next_fd :: nat
  r_shm :: nat

definition ref_init :: ref_world where
  "ref_init = \<lparr>r_path = Map.empty, r_data = (\<lambda>_. []), r_fds = Map.empty, r_next_ino = 0,
     r_next_fd = 3, r_shm = 1\<rparr>"

definition ok_ret :: "u64 \<Rightarrow> os_ret" where
  "ok_ret x = \<lparr>o_ret = x, o_errno = 0, o_out = [], o_out2 = [], o_val1 = 0, o_val2 = 0\<rparr>"

definition err_ret :: "s32 \<Rightarrow> os_ret" where
  "err_ret e = \<lparr>o_ret = - 1, o_errno = e, o_out = [], o_out2 = [], o_val1 = 0, o_val2 = 0\<rparr>"

lemma ret_sel [simp]:
  "o_ret (ok_ret x) = x" "o_out (ok_ret x) = []" "o_errno (ok_ret x) = 0"
  "o_ret (err_ret e) = - 1" "o_out (err_ret e) = []" "o_errno (err_ret e) = e"
  by (simp_all add: ok_ret_def err_ret_def)

text \<open>Descriptor 1000 stands for the shared memory of the TEE driver.\<close>

definition ref_view :: "ref_world \<Rightarrow> s32 \<Rightarrow> (byte list \<times> nat) option" where
  "ref_view w fd =
     (if fd = 1000 then None
      else case r_fds w fd of None \<Rightarrow> None | Some (ino, pos) \<Rightarrow> Some (r_data w ino, pos))"

definition ref_file :: "s32 \<Rightarrow> ref_world \<Rightarrow> (nat \<Rightarrow> nat \<Rightarrow> os_ret \<times> ref_world) \<Rightarrow> os_ret \<times> ref_world" where
  "ref_file fd w f = (case r_fds w fd of None \<Rightarrow> (err_ret 9, w) | Some (ino, pos) \<Rightarrow> f ino pos)"

abbreviation O_TRUNC :: s32 where "O_TRUNC \<equiv> 0x200"

definition ref_open :: "byte list \<Rightarrow> s32 \<Rightarrow> ref_world \<Rightarrow> os_ret \<times> ref_world" where
  "ref_open path flags w =
     (if r_next_fd w \<ge> 1000 then (err_ret 24, w)
      else
        let fd = word_of_nat (r_next_fd w) :: s32 in
        case r_path w path of
          Some ino \<Rightarrow>
            if flags AND O_CREAT \<noteq> 0 \<and> flags AND O_EXCL \<noteq> 0 then (err_ret 17, w)
            else (ok_ret (int_to_u64 fd),
                  w\<lparr>r_data := (if flags AND O_TRUNC = 0 then r_data w else (r_data w)(ino := [])),
                    r_fds := (r_fds w)(fd \<mapsto> (ino, 0)), r_next_fd := Suc (r_next_fd w)\<rparr>)
        | None \<Rightarrow>
            if flags AND O_CREAT = 0 then (err_ret ENOENT, w)
            else (ok_ret (int_to_u64 fd),
                  w\<lparr>r_path := (r_path w)(path \<mapsto> r_next_ino w), r_data := (r_data w)(r_next_ino w := []),
                    r_fds := (r_fds w)(fd \<mapsto> (r_next_ino w, 0)), r_next_ino := Suc (r_next_ino w),
                    r_next_fd := Suc (r_next_fd w)\<rparr>))"

definition ref_os :: "ref_world os" where
  "ref_os c w =
     (case c of
        Calloc \<Rightarrow> (ok_ret 4096, w)
      | Ioctl_shm_alloc d n \<Rightarrow>
          ((ok_ret 1000)\<lparr>o_val1 := word_of_nat (r_shm w), o_val2 := n\<rparr>, w\<lparr>r_shm := Suc (r_shm w)\<rparr>)
      | Ioctl_shm_register d n \<Rightarrow>
          ((ok_ret 1000)\<lparr>o_val1 := word_of_nat (r_shm w)\<rparr>, w\<lparr>r_shm := Suc (r_shm w)\<rparr>)
      | Mmap f n \<Rightarrow> (ok_ret 4096, w)
      | Open (Some path) flags m \<Rightarrow> ref_open path flags w
      | Close fd \<Rightarrow>
          if fd = 1000 then (ok_ret 0, w) else ref_file fd w (\<lambda>_ _. (ok_ret 0, w\<lparr>r_fds := (r_fds w)(fd := None)\<rparr>))
      | Access (Some path) m \<Rightarrow> if r_path w path = None then (err_ret ENOENT, w) else (ok_ret 0, w)
      | Unlink (Some path) \<Rightarrow>
          if r_path w path = None then (err_ret ENOENT, w)
          else (ok_ret 0, w\<lparr>r_path := (r_path w)(path := None)\<rparr>)
      | Getcwd b n \<Rightarrow> if b \<and> 2 \<le> n then ((ok_ret 4096)\<lparr>o_out := [47, 0]\<rparr>, w) else (err_ret 34, w)
      | Lseek fd off wh \<Rightarrow>
          ref_file fd w (\<lambda>ino pos.
            if wh = SEEK_SET \<and> 0 \<le> sint off then (ok_ret off, w\<lparr>r_fds := (r_fds w)(fd \<mapsto> (ino, unat off))\<rparr>)
            else (err_ret 22, w))
      | Write fd (Some buf) n \<Rightarrow>
          ref_file fd w (\<lambda>ino pos.
            (ok_ret n, w\<lparr>r_data := (r_data w)(ino := overwrite (r_data w ino) pos (take (unat n) buf)),
                         r_fds := (r_fds w)(fd \<mapsto> (ino, pos + unat n))\<rparr>))
      | Read fd b n \<Rightarrow>
          if \<not> b then (err_ret 14, w) else
          ref_file fd w (\<lambda>ino pos.
            let d = subbytes (r_data w ino) pos (unat n) in
            ((ok_ret (word_of_nat (length d)))\<lparr>o_out := d\<rparr>, w\<lparr>r_fds := (r_fds w)(fd \<mapsto> (ino, pos + length d))\<rparr>))
      | Fsync fd \<Rightarrow> ref_file fd w (\<lambda>_ _. (ok_ret 0, w))
      | Fstat fd b \<Rightarrow>
          ref_file fd w (\<lambda>ino _. ((ok_ret 0)\<lparr>o_val1 := word_of_nat (length (r_data w ino))\<rparr>, w))
      | _ \<Rightarrow> (ok_ret 0, w))"

section \<open>The laws hold\<close>

lemma ref_file_calls:
  assumes "ref_view w fd = Some (bs, pos)"
  obtains ino where "fd \<noteq> 1000" "r_fds w fd = Some (ino, pos)" "bs = r_data w ino"
  using assms by (auto simp: ref_view_def split: if_splits option.splits)

lemma ref_other:
  assumes "file_call fd c" and "ref_view w f = None" and "ref_os c w = (q, w')"
  shows "ref_view w' f = None"
  using assms
  by (auto simp: file_call_def ref_view_def ref_os_def ref_file_def Let_def
      split: if_splits option.splits)

lemma ref_view_shm: "ref_view (w\<lparr>r_shm := k\<rparr>) = ref_view w"
  by (rule ext) (simp add: ref_view_def split: option.split)

lemma take_min: "take (min (length xs - i) n) (drop i xs) = take n (drop i xs)"
  by (simp add: min_def)

interpretation ref: posix_files ref_os ref_view
proof
  fix w w' fd bs pos ofst q buf n v c f d
  show "ref_view w fd = Some (bs, pos) \<Longrightarrow> 0 \<le> sint ofst \<Longrightarrow> ref_os (Lseek fd ofst SEEK_SET) w = (q, w') \<Longrightarrow>
      o_ret q = ofst \<and> ref_view w' fd = Some (bs, unat ofst) \<or> o_ret q = - 1 \<and> ref_view w' fd = Some (bs, pos)"
    by (elim ref_file_calls) (auto simp: ref_os_def ref_file_def ref_view_def)
  show "ref_view w fd = Some (bs, pos) \<Longrightarrow> length buf = unat n \<Longrightarrow> unat n < 2 ^ 31 \<Longrightarrow>
      ref_os (Write fd (Some buf) n) w = (q, w') \<Longrightarrow>
      (\<exists>k \<le> unat n. o_ret q = word_of_nat k \<and> ref_view w' fd = Some (overwrite bs pos (take k buf), pos + k)) \<or>
      o_ret q = - 1 \<and> ref_view w' fd = Some (bs, pos)"
    by (elim ref_file_calls)
      (auto simp: ref_os_def ref_file_def ref_view_def intro!: exI [of _ "unat n"])
  show "ref_view w fd = Some (bs, pos) \<Longrightarrow> unat n < 2 ^ 31 \<Longrightarrow> ref_os (Read fd True n) w = (q, w') \<Longrightarrow>
      (\<exists>k \<le> unat n. o_ret q = word_of_nat k \<and> k \<le> length bs - pos \<and> o_out q = subbytes bs pos k \<and>
         ref_view w' fd = Some (bs, pos + k)) \<or>
      o_ret q = - 1 \<and> ref_view w' fd = Some (bs, pos)"
    by (elim ref_file_calls)
      (auto simp: ref_os_def ref_file_def ref_view_def Let_def subbytes_def take_min
        intro!: exI [of _ "min (length bs - pos) (unat n)"])
  show "length (o_out (fst (ref_os (Read fd True n) w))) \<le> unat n"
    by (simp add: ref_os_def ref_file_def Let_def split: option.split)
  show "ref_view w fd = Some v \<Longrightarrow> ref_os (Fsync fd) w = (q, w') \<Longrightarrow> ref_view w' fd = Some v"
    by (auto simp: ref_os_def ref_file_def split: option.splits)
  show "ref_view w fd = Some (bs, pos) \<Longrightarrow> ref_os (Fstat fd True) w = (q, w') \<Longrightarrow>
      (u64_to_int (o_ret q) = - 1 \<or> u64_to_int (o_ret q) = 0 \<and> o_val1 q = word_of_nat (length bs)) \<and>
      ref_view w' fd = Some (bs, pos)"
    by (elim ref_file_calls) (auto simp: ref_os_def ref_file_def ref_view_def)
  show "file_call fd c \<Longrightarrow> ref_view w f = None \<Longrightarrow> ref_os c w = (q, w') \<Longrightarrow> ref_view w' f = None"
    by (rule ref_other)
  show "shm_alloc_rounds_up ref_os"
    by (simp add: shm_alloc_rounds_up_def ref_os_def)
  show "shm_plain c \<Longrightarrow> ref_os c w = (q, w') \<Longrightarrow> ref_view w' = ref_view w"
    by (auto simp: shm_plain_def ref_os_def)
  show "c = Ioctl_shm_alloc d n \<or> c = Ioctl_shm_register d n \<Longrightarrow> ref_os c w = (q, w') \<Longrightarrow>
      ref_view w' = ref_view w \<and>
      (0 \<le> sint (u64_to_int (o_ret q)) \<longrightarrow> ref_view w (u64_to_int (o_ret q)) = None)"
    by (auto simp: ref_os_def ref_view_shm) (simp_all add: ref_view_def)
  show "ref_view w f = None \<Longrightarrow> ref_os (Close f) w = (q, w') \<Longrightarrow> ref_view w' = ref_view w"
    by (auto simp: ref_os_def ref_file_def ref_view_def fun_eq_iff split: if_splits option.splits)
qed

text \<open>A supplicant on top of it, with services that refuse everything else, and its secure world.\<close>

definition ref_env :: "ref_world supp_env" where
  "ref_env =
     \<lparr>e_os = ref_os, ta_dir = ''/lib/optee_armtz'',
      load_module = (\<lambda>_ _ _ _ w. ((False, 0, []), w)),
      tee_supp_fs_process = ret_code TEEC_ERROR_NOT_SUPPORTED,
      rpmb_process_request = (\<lambda>_ _ _ _ s. Inr (TEEC_ERROR_NOT_SUPPORTED, s)),
      prof_process = (\<lambda>_. ret_code TEEC_ERROR_NOT_SUPPORTED),
      tee_socket_process = ret_code TEEC_ERROR_NOT_SUPPORTED,
      plugin_process = ret_code TEEC_ERROR_NOT_SUPPORTED,
      suppl_recv = (\<lambda>_ _ w. (None, w)),
      suppl_send = (\<lambda>_ _ _ w. (False, w))\<rparr>"

lemma e_os_ref [simp]: "e_os ref_env = ref_os"
  by (simp add: ref_env_def)

interpretation ref_tee: tee_files "direct_env ref_env" ref_env ref_view
  by (rule tee_files.intro) (simp_all add: direct.tee_rpc_axioms ref.posix_files_axioms)

end
