(* ===== verification/Tee_Props.thy ===== *)
theory Tee_Props
  imports Tee_Files
begin

text \<open>
  Properties of the path from a system call of the trusted application to the operating system of
  the host: which calls are transparent, and which are not.
\<close>

section \<open>Transparent calls\<close>

text \<open>A system call without strings or buffers is one call of the operating system with the same
  arguments, whose result it returns.\<close>

theorem scalar_calls_transparent:
  assumes "tee_rpc ce env"
  shows "syscall_vfs_lseek ce fd off wh s =
      (let (q, t) = os_call0 (e_os env) (Lseek fd off wh) s in (o_ret q, t)) \<and>
    syscall_vfs_close ce fd s = (let (q, t) = os_call0 (e_os env) (Close fd) s in (u64_to_int (o_ret q), t)) \<and>
    syscall_vfs_fsync ce fd s = (let (q, t) = os_call0 (e_os env) (Fsync fd) s in (u64_to_int (o_ret q), t)) \<and>
    syscall_vfs_ftruncate ce fd sz s =
      (let (q, t) = os_call0 (e_os env) (Ftruncate fd sz) s in (u64_to_int (o_ret q), t)) \<and>
    syscall_vfs_fcntl_int ce fd cmd pa s =
      (let (q, t) = os_call0 (e_os env) (Fcntl_int fd cmd pa) s in (u64_to_int (o_ret q), t)) \<and>
    syscall_vfs_fchown ce fd ow gr s =
      (let (q, t) = os_call0 (e_os env) (Fchown fd ow gr) s in (u64_to_int (o_ret q), t))"
  by (intro conjI tee_rpc.scalar_calls [OF assms])

text \<open>\<open>open\<close>, \<open>access\<close>, \<open>mkdir\<close>, \<open>rmdir\<close> and \<open>unlink\<close> reach the operating system exactly once, with
  the caller's path byte for byte and the caller's other arguments, unless shared memory could not
  be had, when they return -1; all shared memory has been given back afterwards.\<close>

theorem path_calls_transparent:
  assumes "tee_rpc ce env" and "supp_inv s" and "shm_alloc_rounds_up (e_os env)"
    and "0 \<notin> set path" and "length path + 1 < 2 ^ 64"
  shows "(\<forall>r t. syscall_vfs_open ce path oflag arg1 s = (r, t) \<longrightarrow>
      served (e_os env) (Open (Some path) oflag arg1) (\<lambda>q. u64_to_int (o_ret q)) (- 1) s r t) \<and>
    (\<forall>r t. syscall_vfs_access ce path mode s = (r, t) \<longrightarrow>
      served (e_os env) (Access (Some path) mode) (\<lambda>q. u64_to_int (o_ret q)) (- 1) s r t) \<and>
    (\<forall>r t. syscall_vfs_mkdir ce path md s = (r, t) \<longrightarrow>
      served (e_os env) (Mkdir (Some path) md) (\<lambda>q. u64_to_int (o_ret q)) (- 1) s r t) \<and>
    (\<forall>r t. syscall_vfs_rmdir ce path s = (r, t) \<longrightarrow>
      served (e_os env) (Rmdir (Some path)) (\<lambda>q. u64_to_int (o_ret q)) (- 1) s r t) \<and>
    (\<forall>r t. syscall_vfs_unlink ce path s = (r, t) \<longrightarrow>
      served (e_os env) (Unlink (Some path)) (\<lambda>q. (u64_to_int (o_ret q), Some (o_errno q))) (- 1, None) s r t)"
  using tee_rpc.path_calls [OF assms] by blast

text \<open>\<open>write\<close> hands the operating system the caller's first \<open>n\<close> bytes, in one call.\<close>

theorem write_transparent:
  assumes "tee_rpc ce env" and "supp_inv s" and "shm_alloc_rounds_up (e_os env)"
    and "unat n \<le> length buf" and "syscall_vfs_write ce fd buf n s = (r, t)"
  shows "served (e_os env) (Write fd (Some (take (unat n) buf)) n)
    (\<lambda>q. int_to_u64 (u64_to_int (o_ret q))) (- 1) s r t"
  by (rule tee_rpc.write_call [OF assms])

text \<open>\<open>read\<close> returns the bytes the operating system stored, followed by zeros up to \<open>nByte\<close>,
  provided the system respects the count.\<close>

theorem read_transparent:
  assumes "tee_rpc ce env" and "supp_inv s" and "shm_alloc_rounds_up (e_os env)"
    and "\<forall>w. length (o_out (fst (e_os env (Read fd True n) w))) \<le> unat n"
    and "syscall_vfs_read ce fd n s = (rd, t)"
  shows "served (e_os env) (Read fd True n)
    (\<lambda>q. (o_ret q, Some (o_out q @ replicate (unat n - length (o_out q)) 0))) (- 1, None) s rd t"
  using tee_rpc.read_call [OF assms(1-3) _ assms(5)] assms(4) by blast

section \<open>Calls that are not\<close>

text \<open>A request that fails with its parameters untouched is answered with what was sent: \<open>b = 0\<close>.\<close>

lemma from_to_ioctl: "from_ioctl p (to_ioctl p) = p"
  by (cases p) (auto split: option.splits)

lemma map2_from_to: "map2 from_ioctl ps (map to_ioctl ps) = ps"
  by (induction ps) (simp_all add: from_to_ioctl)

context tee_rpc
begin

lemma no_call:
  assumes inv: "supp_inv s" and drv: "shm_alloc_rounds_up (e_os env)" and len: "length bs \<le> unat len"
    and body: "\<And>sh v. body (payload_mobj sh len) (payload_state sh len v) =
        (x, direct_write (payload_mobj sh len) bs (payload_state sh len v))"
    and run: "with_payload ce len fail body s = (r, t)"
  shows "(r = fail \<or> r = x) \<and> supp_inv t \<and> shm_head t = shm_head s \<and>
    shm_run (e_os env) {} (world s) {} (world t)"
proof (rule payload [OF inv drv, of len body fail])
  fix sh v
  assume f: "fresh_shm len sh s v"
  show "mem_shape (payload_state sh len v) (snd (body (payload_mobj sh len) (payload_state sh len v)))"
    using payload_write(1) [OF f len refl] by (simp add: body)
next
  fix t'
  assume "with_payload ce len fail body s = (fail, t')" "supp_inv t'" "shm_head t' = shm_head s"
    "shm_run (e_os env) {} (world s) {} (world t')"
  then show ?thesis using run by simp
next
  fix sh v r' u t'
  assume a: "fresh_shm len sh s v" "shm_run (e_os env) {} (world s) {shm_fd sh} (world v)"
    "body (payload_mobj sh len) (payload_state sh len v) = (r', u)"
    "with_payload ce len fail body s = (r', t')"
    "shm_run (e_os env) {shm_fd sh} (world u) {} (world t')" "supp_inv t'" "shm_head t' = shm_head s"
  have "world u = world v" "r' = x"
    using a(3) payload_write(2) [OF a(1) len refl] by (auto simp: body)
  then show ?thesis using run a(2,4-7) shm_run_trans [of "e_os env" "{shm_fd sh}" "world u"] by auto
qed

lemma truncate_no_call:
  assumes inv: "supp_inv s" and drv: "shm_alloc_rounds_up (e_os env)" and "length path + 1 < 2 ^ 64"
    and run: "syscall_vfs_truncate ce path sz s = (r, t)"
  shows "(r = - 1 \<or> r = 0) \<and> supp_inv t \<and> shm_head t = shm_head s \<and>
    shm_run (e_os env) {} (world s) {} (world t)"
  by (rule no_call [OF inv drv path_len [OF assms(3)] _ run [unfolded syscall_vfs_truncate_def]])
    (simp add: body_defs vfs_ftruncate_def)

lemma pwrite_no_call:
  assumes inv: "supp_inv s" and drv: "shm_alloc_rounds_up (e_os env)"
    and run: "syscall_vfs_pwrite ce fd buf n off s = (r, t)"
  shows "(r = - 1 \<or> r = 0) \<and> supp_inv t \<and> shm_head t = shm_head s \<and>
    shm_run (e_os env) {} (world s) {} (world t)"
proof -
  have len: "length (take (unat n) buf) \<le> unat n" by simp
  show ?thesis
    by (rule no_call [OF inv drv len _ run [unfolded syscall_vfs_pwrite_def]])
      (simp add: body_defs vfs_pwrite_def)
qed

end


text \<open>The secure world's \<open>pwrite\<close> never writes, as the supplicant's handler faults: the operating
  system sees no \<open>pwrite\<close>, and the caller is told -1 or that 0 bytes were written.\<close>

theorem pwrite_never_writes:
  assumes "tee_rpc ce env" and "supp_inv s" and "shm_alloc_rounds_up (e_os env)"
    and "syscall_vfs_pwrite ce fd buf n off s = (r, t)"
  shows "(r = - 1 \<or> r = 0) \<and> shm_run (e_os env) {} (world s) {} (world t)"
  using tee_rpc.pwrite_no_call [OF assms] by simp

text \<open>C21. A remote procedure call that fails and leaves its parameters alone is reported to the
  application as success: the result code is only logged, and \<open>b\<close> of parameter 0 is still 0.\<close>

theorem rpc_failure_reads_as_success:
  assumes "\<forall>c n ps s. rpc_cmd ce c n ps s = ((err, ps), s)"
  shows "syscall_vfs_close ce fd s = (0, s) \<and> syscall_vfs_lseek ce fd off wh s = (0, s) \<and>
    syscall_vfs_ftruncate ce fd sz s = (0, s) \<and> syscall_vfs_fsync ce fd s = (0, s) \<and>
    syscall_vfs_fcntl_int ce fd cmd pa s = (0, s) \<and> syscall_vfs_filesize ce fd s = (0, s)"
  using assms
  by (simp add: syscall_vfs_close_def syscall_vfs_lseek_def syscall_vfs_ftruncate_def
      syscall_vfs_fsync_def syscall_vfs_fcntl_int_def syscall_vfs_filesize_def rpc_vfs_def)

end
