(* ===== verification/Witnesses.thy ===== *)
theory Witnesses
  imports Posix_Ref Tee_Props
begin

text \<open>
  The properties that have hypotheses, applied to concrete inputs on the small operating system of
  \<open>Posix_Ref\<close>, where the hypotheses hold.
\<close>

section \<open>The supplicant\<close>

definition ref_s0 :: "ref_world supp" where
  "ref_s0 = fresh_supp ref_init \<lparr>ta_fd = 4, ta_gen_caps = 0, ta_abort = False, num_waiters = 0\<rparr>"

definition alloc_request :: tee_ioctl_param where
  "alloc_request = \<lparr>p_attr = VALUE_INOUT, p_a = 0, p_b = 16, p_c = 0\<rparr>"

definition ref_shm :: tee_shm where
  "ref_shm = \<lparr>shm_id = 1, shm_p = 0, shm_size = 16, shm_registered = False, shm_fd = 1000\<rparr>"

definition ref_s1 :: "ref_world supp" where
  "ref_s1 = ref_s0\<lparr>world := ref_init\<lparr>r_shm := 2\<rparr>, mem := [0 \<mapsto> replicate 16 0], next_blk := 1,
     shm_head := [ref_shm]\<rparr>"

lemma ref_alloc: "process_alloc ref_os 1 [alloc_request] ref_s0 =
    Inr (TEEC_SUCCESS, [alloc_request\<lparr>p_c := 1\<rparr>], ref_s1)"
  by (simp add: process_alloc_def get_value_def alloc_request_def attr_type_def ref_s0_def ref_s1_def
      fresh_supp_def alloc_shm_def os_do_def ref_os_def ref_init_def new_block_def push_tshm_def
      ref_shm_def fit_def)

lemma ref_s1_reach: "supp_reach ref_os (fresh_supp ref_init (targ ref_s0)) ref_s1"
  using reach_step [OF reach_refl step_alloc [OF ref_alloc]] by (simp add: ref_s0_def fresh_supp_def)

lemma ref_s0_inv [simp]: "supp_inv ref_s0"
  by (simp add: ref_s0_def)

theorem reachable_shm_backed_witness:
  "shm_head ref_s1 = [ref_shm] \<and> (\<exists>bs. mem ref_s1 (shm_p ref_shm) = Some bs \<and> 16 \<le> length bs)"
  using reachable_shm_backed [OF ref.shm_size ref_s1_reach] by (simp add: ref_s1_def ref_shm_def)

definition memref_at :: "u64 \<Rightarrow> u64 \<Rightarrow> tee_ioctl_param" where
  "memref_at offs sz = \<lparr>p_attr = MEMREF_INPUT, p_a = offs, p_b = sz, p_c = 1\<rparr>"

lemma ref_get_param: "get_param 1 [memref_at 4 8] 0 ref_s1 =
    Some \<lparr>sm_buffer = Ptr 0 4, sm_size = 8, sm_flags = 3, sm_id = 1\<rparr>"
  by (simp add: get_param_def memref_at_def attr_type_def find_tshm_def ref_s1_def ref_shm_def)

theorem get_param_in_bounds_witness:
  "get_param 1 [memref_at 4 8] 0 ref_s1 \<noteq> None \<and> (\<exists>bs. region (mem ref_s1) (Ptr 0 4) 8 = Inr bs)"
  using get_param_in_bounds [OF ref.shm_size ref_s1_reach ref_get_param] ref_get_param by simp

theorem param_to_va_in_bounds_witness:
  "tee_supp_param_to_va (memref_at 4 8) ref_s1 = Ptr 0 4 \<and>
   (\<exists>bs. region (mem ref_s1) (tee_supp_param_to_va (memref_at 4 8) ref_s1) 8 = Inr bs)"
  using param_to_va_in_bounds [OF ref.shm_size ref_s1_reach, of "memref_at 4 8"]
  by (simp add: tee_supp_param_to_va_def memref_at_def tee_supp_param_is_memref_def attr_type_def
      find_tshm_def ref_s1_def ref_shm_def del: region.simps)

definition value_req :: "u64 \<Rightarrow> tee_ioctl_param" where
  "value_req a = \<lparr>p_attr = VALUE_INOUT, p_a = a, p_b = 0, p_c = 0\<rparr>"

theorem vfs_wrong_arity_refused_witness:
  "tee_supp_vfs_process ref_os 1 [value_req 16] ref_s0 =
     Inr (TEEC_ERROR_BAD_PARAMETERS, [value_req 16], ref_s0)"
  using vfs_wrong_arity_refused [of "[value_req 16]" VFS_LSEEK 1 ref_os ref_s0]
  by (simp add: value_req_def vfs_arity_def)

theorem vfs_unknown_command_witness:
  "tee_supp_vfs_process ref_os 1 [value_req 99] ref_s0 =
     Inr (TEEC_ERROR_NOT_SUPPORTED, [value_req 99], ref_s0)"
proof -
  have "99 \<notin> range supp_vfs"
  proof
    assume "99 \<in> range supp_vfs"
    then obtain c where "99 = optee_vfs c" by auto
    then show False using optee_vfs_bound [of c] by simp
  qed
  then show ?thesis
    using vfs_unknown_command [of "[value_req 99]" ref_os 1 ref_s0] by (simp add: value_req_def)
qed

text \<open>A request for the working directory, which the supplicant stores in the shared object.\<close>

definition getcwd_request :: "tee_ioctl_param list" where
  "getcwd_request = [value_req 3, memref_at 0 0, value_req 16]"

lemma ref_getcwd:
  "\<exists>c ps t. tee_supp_vfs_process ref_os 3 getcwd_request ref_s1 = Inr (c, ps, t)"
  by (simp add: tee_supp_vfs_process_def getcwd_request_def vfs_getcwd_def values2_def get_value_def
      get_param_def attr_type_def value_req_def memref_at_def find_tshm_def os_call0_state ref_os_def
      store_def ref_s1_def ref_s0_def ref_shm_def fresh_supp_def)

theorem vfs_request_frame_witness:
  "\<exists>c ps t. tee_supp_vfs_process ref_os 3 getcwd_request ref_s1 = Inr (c, ps, t) \<and>
     tl ps = [memref_at 0 0, value_req 16] \<and> map_option length (mem t 0) = Some 16"
proof -
  obtain c ps t where run: "tee_supp_vfs_process ref_os 3 getcwd_request ref_s1 = Inr (c, ps, t)"
    using ref_getcwd by blast
  have "map_option length (mem ref_s1 0) = Some 16" by (simp add: ref_s1_def)
  moreover have "tl ps = tl getcwd_request \<and> map_option length (mem t 0) = map_option length (mem ref_s1 0)"
    using vfs_request_frame [OF run] by blast
  ultimately have "tl ps = [memref_at 0 0, value_req 16] \<and> map_option length (mem t 0) = Some 16"
    by (metis getcwd_request_def list.sel(3))
  then show ?thesis using run by blast
qed

theorem pwrite_request_faults_witness:
  "tee_supp_vfs_process ref_os 3 [value_req 21, value_req 3, memref_at 0 0] ref_s1 = Inl NullDeref"
  using pwrite_request_faults [of "[value_req 21, value_req 3, memref_at 0 0]" ref_os ref_s1]
  by (simp add: value_req_def tee_supp_param_is_value_def attr_type_def)

theorem alloc_free_undone_witness:
  "\<exists>c u. process_free ref_os 1 [value_req 0\<lparr>p_b := 1\<rparr>] ref_s1 = Inr (c, [value_req 0\<lparr>p_b := 1\<rparr>], u) \<and>
     shm_head u = shm_head ref_s0"
  using alloc_free_undone [OF ref_s0_inv ref.shm_size ref_alloc, of "value_req 0\<lparr>p_b := 1\<rparr>"]
  by (auto simp: tee_supp_param_is_value_def attr_type_def value_req_def)

section \<open>From the secure world to the system\<close>

abbreviation ref_ce :: "ref_world supp core_env" where
  "ref_ce \<equiv> direct_env ref_env"

lemmas ref_rpc = direct.tee_rpc_axioms [of ref_env]

lemma ref_env_size: "shm_alloc_rounds_up (e_os ref_env)"
  by (simp add: ref.shm_size)

theorem scalar_calls_transparent_witness:
  "syscall_vfs_lseek ref_ce 3 5 0 ref_s0 =
     (let (q, t) = os_call0 ref_os (Lseek 3 5 0) ref_s0 in (o_ret q, t))"
  using scalar_calls_transparent [OF ref_rpc] by simp

theorem path_calls_transparent_witness:
  "served ref_os (Open (Some [97, 98]) O_CREAT 0) (\<lambda>q. u64_to_int (o_ret q)) (- 1) ref_s0
     (fst (syscall_vfs_open ref_ce [97, 98] O_CREAT 0 ref_s0))
     (snd (syscall_vfs_open ref_ce [97, 98] O_CREAT 0 ref_s0))"
  using path_calls_transparent [OF ref_rpc ref_s0_inv ref_env_size, of "[97, 98]" O_CREAT 0]
  by simp

theorem write_transparent_witness:
  "served ref_os (Write 3 (Some [1, 2]) 2) (\<lambda>q. int_to_u64 (u64_to_int (o_ret q))) (- 1) ref_s0
     (fst (syscall_vfs_write ref_ce 3 [1, 2, 9] 2 ref_s0)) (snd (syscall_vfs_write ref_ce 3 [1, 2, 9] 2 ref_s0))"
  using write_transparent [OF ref_rpc ref_s0_inv ref_env_size, of 2 "[1, 2, 9]" 3] by simp

theorem read_transparent_witness:
  "served ref_os (Read 3 True 2) (\<lambda>q. (o_ret q, Some (o_out q @ replicate (2 - length (o_out q)) 0)))
     (- 1, None) ref_s0 (fst (syscall_vfs_read ref_ce 3 2 ref_s0)) (snd (syscall_vfs_read ref_ce 3 2 ref_s0))"
  using read_transparent [OF ref_rpc ref_s0_inv ref_env_size, of 3 2] ref.posix_read_out [of 3 2]
  by simp


theorem pwrite_never_writes_witness:
  "fst (syscall_vfs_pwrite ref_ce 3 [1, 2] 2 0 ref_s0) \<in> {- 1, 0} \<and>
   shm_run ref_os {} (world ref_s0) {} (world (snd (syscall_vfs_pwrite ref_ce 3 [1, 2] 2 0 ref_s0)))"
  using pwrite_never_writes [OF ref_rpc ref_s0_inv ref_env_size prod.collapse [symmetric], of 3 "[1, 2]" 2 0]
  by simp

text \<open>A core whose every remote procedure call fails.\<close>

definition dead_env :: "nat core_env" where
  "dead_env = \<lparr>rpc_alloc = (\<lambda>_ s. (None, s)), rpc_free = (\<lambda>_ s. s),
     rpc_cmd = (\<lambda>_ _ ps s. ((TEEC_ERROR_COMMUNICATION, ps), s)), mobj_write = (\<lambda>_ _ s. s),
     mobj_read = (\<lambda>_ _ _. []), core_malloc = (\<lambda>_ s. (False, s)), OPTEE_RPC_CMD_VFS = 30\<rparr>"

theorem rpc_failure_reads_as_success_witness:
  "syscall_vfs_lseek dead_env 3 100 0 (7 :: nat) = (0, 7)"
  using rpc_failure_reads_as_success [of dead_env TEEC_ERROR_COMMUNICATION] by (simp add: dead_env_def)

section \<open>The VFS of the trusted application\<close>

text \<open>Formatted output as documented, and a file of three bytes open as descriptor 3.\<close>

definition ref_snprintf :: "int \<Rightarrow> byte list \<Rightarrow> byte list" where
  "ref_snprintf n txt = (if n < 1 then [] else take (nat (n - 1)) txt @ [0])"

definition ref_malloc :: "u64 \<Rightarrow> 's \<Rightarrow> byte list option \<times> 's" where
  "ref_malloc n s = (Some [], s)"

abbreviation ref_io :: "ref_world vfs_io" where
  "ref_io \<equiv> host_io ref_os ref_malloc ref_snprintf"

lemmas ref_file_io = ref.host.file_io_axioms [of ref_malloc ref_snprintf]

definition ref_open_world :: ref_world where
  "ref_open_world = ref_init\<lparr>r_data := (\<lambda>_. [7, 8, 9]), r_fds := [3 \<mapsto> (0, 0)]\<rparr>"

definition journal_file :: DemoFile where
  "journal_file = \<lparr>pMethods = True, df_fd = 3, aBuffer = Some (replicate 8192 0), nBuffer = 0, iBufferOfst = 0\<rparr>"

definition plain_file :: DemoFile where
  "plain_file = journal_file\<lparr>aBuffer := None\<rparr>"

lemmas ref_run_defs = demoDirectWrite_def demoFlushBuffer_def host_io_def ref_os_def ref_file_def
  ref_open_world_def ref_init_def plain_file_def journal_file_def Let_def

lemma ref_sees [simp]:
  "sees ref_view ref_open_world journal_file [7, 8, 9]" "sees ref_view ref_open_world plain_file [7, 8, 9]"
  by (simp_all add: sees_def file_ok_def journal_file_def plain_file_def SQLITE_TEEVFS_BUFFERSZ_def
      ref_view_def ref_open_world_def client_view_def pending_def)

theorem demoWrite_correct_witness:
  "\<exists>rc p' t. demoWrite ref_io journal_file [1, 2] 2 3 ref_open_world = Inr (rc, p', t) \<and>
     (rc = SQLITE_OK \<and> sees ref_view t p' [7, 8, 9, 1, 2] \<or>
      rc = SQLITE_IOERR_WRITE \<and> (\<exists>c'. sees ref_view t p' c'))"
  using demoWrite_correct [OF ref_file_io ref_sees(1), of 2 "[1, 2]" 3]
  by (simp add: overwrite_def fit_def)

lemma ref_read_journal:
  "\<exists>out p t. demoRead ref_io journal_file [0, 0] 2 1 ref_open_world = Inr (SQLITE_OK, out, p, t)"
  by (simp add: demoRead_def ref_run_defs subbytes_def)

theorem demoRead_correct_witness:
  "\<exists>p t. demoRead ref_io journal_file [0, 0] 2 1 ref_open_world = Inr (SQLITE_OK, [8, 9], p, t)"
proof -
  obtain out p t where r: "demoRead ref_io journal_file [0, 0] 2 1 ref_open_world = Inr (SQLITE_OK, out, p, t)"
    using ref_read_journal by blast
  with demoRead_correct [OF ref_file_io ref_sees(1), of 2 "[0, 0]" 1]
  have "out = [8, 9]" by (auto simp: overwrite_def subbytes_def fit_def)
  with r show ?thesis by blast
qed

theorem demoSync_durable_witness:
  "\<exists>rc p' t. demoSync ref_io journal_file ref_open_world = Inr (rc, p', t) \<and> nBuffer p' = 0"
  using demoSync_durable [OF ref_file_io ref_sees(1)] by blast

lemma ref_size_run:
  "\<exists>sz p t. demoFileSize ref_io journal_file ref_open_world = Inr (SQLITE_OK, sz, p, t)"
  by (simp add: demoFileSize_def ref_run_defs)

theorem demoFileSize_correct_witness:
  "\<exists>p t. demoFileSize ref_io journal_file ref_open_world = Inr (SQLITE_OK, Some 3, p, t)"
proof -
  obtain sz p t where r: "demoFileSize ref_io journal_file ref_open_world = Inr (SQLITE_OK, sz, p, t)"
    using ref_size_run by blast
  with demoFileSize_correct [OF ref_file_io ref_sees(1)] have "sz = Some 3" by auto
  with r show ?thesis by blast
qed

definition ref_written_world :: ref_world where
  "ref_written_world = ref_open_world
     \<lparr>r_data := (r_data ref_open_world)(0 := [7, 5, 6]), r_fds := [3 \<mapsto> (0, 3)]\<rparr>"

lemma ref_write_run: "demoWrite ref_io plain_file [5, 6] 2 1 ref_open_world = Inr (SQLITE_OK, plain_file, ref_written_world)"
  by (simp add: demoWrite_def ref_run_defs ref_written_world_def overwrite_def fit_def
      numeral_3_eq_3)

lemma ref_read_run: "\<exists>out p u. demoRead ref_io plain_file [0, 0] 2 1 ref_written_world = Inr (SQLITE_OK, out, p, u)"
  by (simp add: demoRead_def ref_run_defs ref_written_world_def subbytes_def)

theorem demoWrite_demoRead_roundtrip_witness:
  "\<exists>p u. demoRead ref_io plain_file [0, 0] 2 1 ref_written_world = Inr (SQLITE_OK, [5, 6], p, u)"
proof -
  obtain out p u where r: "demoRead ref_io plain_file [0, 0] 2 1 ref_written_world = Inr (SQLITE_OK, out, p, u)"
    using ref_read_run by blast
  then show ?thesis
    using demoWrite_demoRead_roundtrip [OF ref_file_io ref_sees(2), of "[5, 6]" 1 "[0, 0]" plain_file
        ref_written_world out p u] ref_write_run by simp
qed

text \<open>A buffered byte for a descriptor that is not open.\<close>

definition lost_file :: DemoFile where
  "lost_file = journal_file\<lparr>df_fd := 9, nBuffer := 1\<rparr>"

theorem failed_flush_is_forgotten_witness:
  "demoFlushBuffer ref_io lost_file ref_open_world = Inr (SQLITE_IOERR_WRITE, lost_file\<lparr>nBuffer := 0\<rparr>, ref_open_world) \<and>
   demoFlushBuffer ref_io (lost_file\<lparr>nBuffer := 0\<rparr>) ref_open_world = Inr (SQLITE_OK, lost_file\<lparr>nBuffer := 0\<rparr>, ref_open_world)"
proof -
  have f: "demoFlushBuffer ref_io lost_file ref_open_world =
      Inr (SQLITE_IOERR_WRITE, lost_file\<lparr>nBuffer := 0\<rparr>, ref_open_world)"
    by (simp add: ref_run_defs lost_file_def err_ret_def)
  from failed_flush_is_forgotten [OF f] f show ?thesis by simp
qed

definition open_journal_flags :: s32 where
  "open_journal_flags = 0x806"

lemma ref_open_run:
  "\<exists>p out t. demoOpen ref_io (Some [97]) zero_file open_journal_flags ref_init = ((SQLITE_OK, p, out), t)"
  by (simp add: demoOpen_def ref_run_defs open_journal_flags_def open_flags_def ref_malloc_def ref_open_def
      zero_file_def SQLITE_TEEVFS_BUFFERSZ_def)

theorem demoOpen_correct_witness:
  "\<exists>p out t. demoOpen ref_io (Some [97]) zero_file open_journal_flags ref_init = ((SQLITE_OK, p, out), t) \<and>
     file_ok p \<and> pending p = []"
  using ref_open_run demoOpen_correct by metis

lemma ref_snprintf_length: "\<forall>n txt. int (length (ref_snprintf n txt)) \<le> max n 0"
  by (auto simp: ref_snprintf_def)

lemma ref_fullpath_run:
  "\<exists>out t. demoFullPathname ref_io [47, 97] 8 (replicate 8 1) ref_init = Inr (SQLITE_OK, out, t)"
  by (simp add: demoFullPathname_def print_into_def local_string_def host_io_def ref_snprintf_def MAXPATHNAME_def)

theorem demoFullPathname_terminated_witness:
  "\<exists>out t. demoFullPathname ref_io [47, 97] 8 (replicate 8 1) ref_init = Inr (SQLITE_OK, out, t) \<and> out ! 7 = 0"
proof -
  obtain out t where r: "demoFullPathname ref_io [47, 97] 8 (replicate 8 1) ref_init = Inr (SQLITE_OK, out, t)"
    using ref_fullpath_run by blast
  have "\<forall>n txt. int (length (sqlite3_snprintf ref_io n txt)) \<le> max n 0"
    using ref_snprintf_length by (simp add: host_io_def)
  from demoFullPathname_terminated [OF this _ _ r] r show ?thesis by simp
qed

end
