(* ===== verification/Scall_Props.thy ===== *)
theory Scall_Props
  imports Core_Scall Witnesses
begin

text \<open>
  The stubs, the dispatcher, the system calls, the remote procedure call and the supplicant put
  together: what a trusted application gets when it executes the stub of a VFS call without memory
  arguments.
\<close>

section \<open>The tables\<close>

lemma vfs_stub_scn [simp]: "fst (utee_vfs c) = TEE_SCN c" "\<not> TEE_SVC_MAX_ARGS < snd (utee_vfs c)"
  by (cases c; simp)+

lemma vfs_number: "TEE_SCN c \<noteq> TEE_SCN_RETURN" "TEE_SCN c \<noteq> TEE_SCN_PANIC" "\<not> TEE_SCN_MAX < TEE_SCN c"
  by (cases c; simp)+

text \<open>The number of arguments a stub declares is that of its prototype but for two of them.\<close>

theorem stub_arguments: "snd (utee_vfs c) = declared_args c \<longleftrightarrow> c \<noteq> VFS_PREAD \<and> c \<noteq> VFS_PWRITE"
  by (cases c) simp_all

lemma set_fbuf_simps [simp]:
  "core_state (set_fbuf b t) = core_state t" "trace (set_fbuf b t) = trace t"
  "map fbuf (drop 1 (sess_stack (set_fbuf b t))) = map fbuf (drop 1 (sess_stack t))"
  by (simp_all add: set_fbuf_def split: list.split)

lemma trace_syscall_simps [simp]:
  "core_state (trace_syscall cfg n t) = core_state t" "sess_stack (trace_syscall cfg n t) = sess_stack t"
  by (simp_all add: trace_syscall_def)

lemma ftrace_simps [simp]:
  "core_state (ftrace_syscall_enter cfg n t) = core_state t" "core_state (ftrace_syscall_leave cfg t) = core_state t"
  by (simp_all add: ftrace_syscall_enter_def ftrace_syscall_leave_def)

text \<open>What the handler makes of the function of a VFS stub: its result goes to the result register.\<close>

lemma vfs_handled:
  assumes "scall_get_max_args a regs = utee_vfs c"
    and "\<And>t1. core_state t1 = core_state t \<Longrightarrow> scall_do_call a (Vfs c) regs t1 = (v, regs1, t1\<lparr>core_state := u\<rparr>)"
  shows "\<exists>t'. scall_handle_user_ta cfg a regs t = (True, scall_set_retval a v regs1, t') \<and> core_state t' = u"
proof -
  obtain n where stub: "utee_vfs c = (TEE_SCN c, n)" "\<not> TEE_SVC_MAX_ARGS < n"
    using vfs_stub_scn [of c] by (cases "utee_vfs c") simp
  define t1 where "t1 = ftrace_syscall_enter cfg (TEE_SCN c) (trace_syscall cfg (TEE_SCN c) t)"
  have "scall_do_call a (Vfs c) regs t1 = (v, regs1, t1\<lparr>core_state := u\<rparr>)"
    by (rule assms(2)) (simp add: t1_def)
  then have "scall_handle_user_ta cfg a regs t =
      (True, scall_set_retval a v regs1, ftrace_syscall_leave cfg (t1\<lparr>core_state := u\<rparr>))"
    using stub vfs_number [of c] assms(1)
    by (simp add: scall_handle_user_ta_def vfs_dispatch t1_def)
  then show ?thesis by simp
qed

section \<open>The system calls without memory arguments\<close>

text \<open>
  The function called with the argument registers \<open>x\<close>, its result as the register holds it, and the call
  of the host system it stands for.
\<close>

fun ret_s32 :: "s32 \<times> 's \<Rightarrow> u64 \<times> 's" where
  "ret_s32 (r, s) = (int_to_u64 r, s)"

fun ret_u32 :: "u32 \<times> 's \<Rightarrow> u64 \<times> 's" where
  "ret_u32 (r, s) = (uint_to_u64 r, s)"

fun run_scalar :: "'s core_env \<Rightarrow> vfs_cmd \<Rightarrow> (nat \<Rightarrow> u64) \<Rightarrow> 's \<Rightarrow> (u64 \<times> 's) option" where
  "run_scalar ce VFS_CLOSE x s = Some (ret_s32 (syscall_vfs_close ce (u64_to_int (x 0)) s))"
| "run_scalar ce VFS_FTRUNCATE x s = Some (ret_s32 (syscall_vfs_ftruncate ce (u64_to_int (x 0)) (x 1) s))"
| "run_scalar ce VFS_FCHMOD x s = Some (ret_s32 (syscall_vfs_fchmod ce (u64_to_int (x 0)) (u64_to_int (x 1)) s))"
| "run_scalar ce VFS_FCHOWN x s =
     Some (ret_s32 (syscall_vfs_fchown ce (u64_to_int (x 0)) (u64_to_int (x 1)) (u64_to_int (x 2)) s))"
| "run_scalar ce VFS_GETEUID x s = Some (ret_u32 (syscall_vfs_geteuid ce s))"
| "run_scalar ce VFS_GETPID x s = Some (ret_s32 (syscall_vfs_getpid ce s))"
| "run_scalar ce VFS_LSEEK x s =
     Some (syscall_vfs_lseek ce (u64_to_int (x 0)) (x 1) (u64_to_int (x 2)) s)"
| "run_scalar ce VFS_FSYNC x s = Some (ret_s32 (syscall_vfs_fsync ce (u64_to_int (x 0)) s))"
| "run_scalar ce VFS_SLEEP x s = Some (ret_u32 (syscall_vfs_sleep ce (u64_to_int (x 0)) s))"
| "run_scalar ce VFS_FCNTL_VOID x s =
     Some (ret_s32 (syscall_vfs_fcntl_void ce (u64_to_int (x 0)) (u64_to_int (x 1)) s))"
| "run_scalar ce VFS_FCNTL_INT x s =
     Some (ret_s32 (syscall_vfs_fcntl_int ce (u64_to_int (x 0)) (u64_to_int (x 1)) (u64_to_int (x 2)) s))"
| "run_scalar ce c x s = None"

fun scalar_call :: "vfs_cmd \<Rightarrow> (nat \<Rightarrow> u64) \<Rightarrow> (os_call \<times> (u64 \<Rightarrow> u64)) option" where
  "scalar_call VFS_CLOSE x = Some (Close (u64_to_int (x 0)), \<lambda>r. int_to_u64 (u64_to_int r))"
| "scalar_call VFS_FTRUNCATE x = Some (Ftruncate (u64_to_int (x 0)) (x 1), \<lambda>r. int_to_u64 (u64_to_int r))"
| "scalar_call VFS_FCHMOD x = Some (Fchmod (u64_to_int (x 0)) (u64_to_int (x 1)), \<lambda>r. int_to_u64 (u64_to_int r))"
| "scalar_call VFS_FCHOWN x =
     Some (Fchown (u64_to_int (x 0)) (u64_to_int (x 1)) (u64_to_int (x 2)), \<lambda>r. int_to_u64 (u64_to_int r))"
| "scalar_call VFS_GETEUID x = Some (Geteuid, \<lambda>r. uint_to_u64 (u64_to_int r))"
| "scalar_call VFS_GETPID x = Some (Getpid, \<lambda>r. int_to_u64 (u64_to_int r))"
| "scalar_call VFS_LSEEK x = Some (Lseek (u64_to_int (x 0)) (x 1) (u64_to_int (x 2)), \<lambda>r. r)"
| "scalar_call VFS_FSYNC x = Some (Fsync (u64_to_int (x 0)), \<lambda>r. int_to_u64 (u64_to_int r))"
| "scalar_call VFS_SLEEP x = Some (Sleep (u64_to_int (x 0)), \<lambda>r. uint_to_u64 (u64_to_int r))"
| "scalar_call VFS_FCNTL_VOID x = Some (Fcntl_void (u64_to_int (x 0)) (u64_to_int (x 1)), \<lambda>r. int_to_u64 (u64_to_int r))"
| "scalar_call VFS_FCNTL_INT x =
     Some (Fcntl_int (u64_to_int (x 0)) (u64_to_int (x 1)) (u64_to_int (x 2)), \<lambda>r. int_to_u64 (u64_to_int r))"
| "scalar_call c x = None"

text \<open>
  What the architecture promises: \<open>arg\<close> reads the argument registers, \<open>ret_of\<close> the result register, and
  \<open>conv\<close> is what becomes of a result on its way there (an architecture with a result of 32 bits cuts it).
\<close>

locale scall_arch = tee_rpc ce env for ce :: "'w supp core_env" and env +
  fixes a :: "('r, u64, 'w supp) arch" and arg :: "'r \<Rightarrow> nat \<Rightarrow> u64" and ret_of :: "'r \<Rightarrow> u64"
    and conv :: "u64 \<Rightarrow> u64"
  assumes call_law: "run_scalar ce c (arg regs) (core_state t) = Some (v, s) \<Longrightarrow>
      scall_do_call a (Vfs c) regs t = (v, regs, t\<lparr>core_state := s\<rparr>)"
    and ret_law: "ret_of (scall_set_retval a v regs) = conv v"

context scall_arch
begin

lemma run_is_host_call:
  assumes "scalar_call c x = Some (call, f)"
  shows "run_scalar ce c x s = (let (q, u) = os_call0 (e_os env) call s in Some (f (o_ret q), u))"
  using assms by (cases c) (auto simp: scalar_calls split: prod.split)

lemma stub_is_host_call:
  assumes "scall_get_max_args a regs = utee_vfs c" and "scalar_call c (arg regs) = Some (call, f)"
  shows "\<exists>regs' t'. scall_handle_user_ta cfg a regs t = (True, regs', t') \<and>
    ret_of regs' = conv (f (o_ret (fst (os_call0 (e_os env) call (core_state t))))) \<and>
    core_state t' = snd (os_call0 (e_os env) call (core_state t))"
proof -
  obtain q u where q: "os_call0 (e_os env) call (core_state t) = (q, u)" by fastforce
  have "scall_do_call a (Vfs c) regs t1 = (f (o_ret q), regs, t1\<lparr>core_state := u\<rparr>)"
    if "core_state t1 = core_state t" for t1
    by (rule call_law) (use run_is_host_call [OF assms(2)] q that in simp)
  from vfs_handled [OF assms(1) this] obtain t' where
    "scall_handle_user_ta cfg a regs t = (True, scall_set_retval a (f (o_ret q)) regs, t')" "core_state t' = u"
    by blast
  with q ret_law show ?thesis by simp
qed

end

text \<open>
  An architecture after the documented calling convention: the number, the arguments and the result in
  a register file.
\<close>

record regfile =
  x_num :: u64
  x_args :: u64
  x_arg :: "nat \<Rightarrow> u64"
  x_ret :: u64

definition register_arch :: "'w supp core_env \<Rightarrow> (regfile, u64, 'w supp) arch" where
  "register_arch ce =
     \<lparr>scall_get_max_args = (\<lambda>r. (x_num r, x_args r)), scall_set_retval = (\<lambda>v r. r\<lparr>x_ret := v\<rparr>),
      of_result = uint_to_u64,
      scall_do_call = (\<lambda>f r t.
        case f of
          Vfs c \<Rightarrow> (case run_scalar ce c (x_arg r) (core_state t) of
                     None \<Rightarrow> (0, r, t) | Some (v, s) \<Rightarrow> (v, r, t\<lparr>core_state := s\<rparr>))
        | _ \<Rightarrow> (uint_to_u64 TEE_ERROR_GENERIC, r, t)),
      scall_save_panic_stack = (\<lambda>_ t. t), scall_set_sys_return_regs = (\<lambda>_ _ r. r)\<rparr>"

interpretation reg_arch: scall_arch "direct_env env" env "register_arch (direct_env env)" x_arg x_ret "\<lambda>v. v"
  for env
  by unfold_locales (simp_all add: register_arch_def)

section \<open>Properties\<close>

text \<open>Whatever number a trusted application or its loader puts into the register, the function called is
  one of the table or the one that reports an unsupported call: neither lookup leaves its table.\<close>

theorem lookups_in_tables:
  "get_tee_syscall_func num \<in> set tee_syscall_table \<and>
   get_ldelf_syscall_func num \<in> insert Not_supported (set ldelf_syscall_table)"
proof -
  have "unat num < 102" if "\<not> TEE_SCN_MAX < num"
    using that by (simp add: word_less_nat_alt)
  moreover have "unat num < 12" if "\<not> LDELF_SCN_MAX < num"
    using that by (simp add: word_less_nat_alt)
  moreover have "Not_supported \<in> set tee_syscall_table"
    by (simp add: tee_syscall_table_def)
  ultimately show ?thesis
    by (simp add: get_tee_syscall_func_def get_ldelf_syscall_func_def)
qed


text \<open>A call with more than eight arguments is refused with \<open>TEE_ERROR_GENERIC\<close> without any effect on the
  core but the trace, and control returns to user mode.\<close>

theorem too_many_arguments_refused:
  assumes "scall_get_max_args a regs = (scn, n)" and "TEE_SVC_MAX_ARGS < n"
  shows "\<exists>t'. scall_handle_user_ta cfg a regs t =
      (True, scall_set_retval a (of_result a TEE_ERROR_GENERIC) regs, t') \<and>
    scall_handle_ldelf cfg a regs t = (True, scall_set_retval a (of_result a TEE_ERROR_GENERIC) regs, t') \<and>
    core_state t' = core_state t \<and> sess_stack t' = sess_stack t"
  using assms by (simp add: scall_handle_user_ta_def scall_handle_ldelf_def)

section \<open>At concrete inputs\<close>

definition seek_regs :: regfile where
  "seek_regs = \<lparr>x_num = 87, x_args = 3, x_arg = (\<lambda>i. [3, 5, 0] ! i), x_ret = 0\<rparr>"

definition idle_core :: "ref_world supp core" where
  "idle_core = \<lparr>sess_stack = [], trace = [], core_state = ref_s0\<rparr>"

definition plain_config :: scall_config where
  "plain_config = \<lparr>TRACE_SYSCALLS = False, CFG_SYSCALL_FTRACE = False\<rparr>"


theorem too_many_arguments_refused_witness:
  "fst (scall_handle_user_ta plain_config (register_arch ref_ce) (seek_regs\<lparr>x_args := 9\<rparr>) idle_core)"
  using too_many_arguments_refused [of "register_arch ref_ce" "seek_regs\<lparr>x_args := 9\<rparr>" 87 9 plain_config idle_core]
  by (auto simp: seek_regs_def register_arch_def)

end
