(* ===== verification/End_To_End.thy ===== *)
theory End_To_End
  imports Scall_Props
begin

text \<open>
  From the VFS of the trusted application to the file of the host: the methods of \<open>Ta_Vfs\<close> over the
  system calls of the secure world, these over the supplicant, and the file as the kernel under the
  supplicant has it.
\<close>

section \<open>The whole way\<close>

context tee_files
begin

lemma tee_file_io: "file_io (tee_io ce mal snp) (tview pview)"
  by (rule tee.file_io_axioms)

end

text \<open>What the trusted application wrote and synchronised, both successfully, is in the file of the host:
  behind \<open>demoSync\<close> the kernel under the supplicant has for the descriptor the content the application
  saw before, with the bytes written at their offset.\<close>

theorem write_sync_reaches_host:
  assumes "tee_files ce env pview" and "sees (tview pview) s p c"
    and "0 \<le> iAmt" and "iAmt < 2 ^ 31" and "nat iAmt \<le> length zBuf"
    and "0 \<le> iOfst" and "iOfst + iAmt < 2 ^ 63"
    and "demoWrite (tee_io ce mal snp) p zBuf iAmt iOfst s = Inr (SQLITE_OK, p1, s1)"
    and "demoSync (tee_io ce mal snp) p1 s1 = Inr (SQLITE_OK, p2, s2)"
  shows "\<exists>pos. pview (world s2) (df_fd p2) = Some (overwrite c (nat iOfst) (take (nat iAmt) zBuf), pos)"
proof -
  note io = tee_files.tee_file_io [OF assms(1), of mal snp]
  have "sees (tview pview) s1 p1 (overwrite c (nat iOfst) (take (nat iAmt) zBuf))"
    using file_io.write_spec [OF io assms(2-7)] assms(8) by auto
  from file_io.sync_spec [OF io this] assms(9)
  have "\<exists>pos. tview pview s2 (df_fd p2) = Some (overwrite c (nat iOfst) (take (nat iAmt) zBuf), pos)" by auto
  then show ?thesis by (auto simp: tview_def split: if_splits)
qed

section \<open>At a concrete input\<close>

text \<open>The supplicant over the system of \<open>Posix_Ref\<close> with its file of three bytes open.\<close>

definition file_supp :: "ref_world supp" where
  "file_supp = ref_s0\<lparr>world := ref_open_world\<rparr>"

abbreviation ref_tee_io :: "ref_world supp vfs_io" where
  "ref_tee_io \<equiv> tee_io ref_ce (\<lambda>n s. (None, s)) ref_snprintf"

lemma file_supp_sees: "sees (tview ref_view) file_supp plain_file [7, 8, 9]"
  using ref_sees(2)
  by (simp add: sees_def tview_def file_supp_def supp_inv_def ref_s0_def fresh_supp_def)

lemma scalar_run: 
  "syscall_vfs_lseek ref_ce fd off wh s = (let (q, t) = os_call0 ref_os (Lseek fd off wh) s in (o_ret q, t))"
  "syscall_vfs_fsync ref_ce fd s = (let (q, t) = os_call0 ref_os (Fsync fd) s in (u64_to_int (o_ret q), t))"
  by (simp_all add: tee_rpc.scalar_calls [OF ref_rpc])

definition seek_supp :: "ref_world supp" where
  "seek_supp = file_supp\<lparr>world := ref_open_world\<lparr>r_fds := [3 \<mapsto> (0, 1)]\<rparr>, errno := 0\<rparr>"

lemma seek_run: "syscall_vfs_lseek ref_ce 3 1 SEEK_SET file_supp = (1, seek_supp)"
  by (simp add: scalar_run os_call0_def ref_os_def ref_file_def file_supp_def ref_open_world_def seek_supp_def ref_init_def
      ref_s0_def fresh_supp_def ok_ret_def os_do_def set_errno_def)

lemma write_run:
  "\<exists>t. syscall_vfs_write ref_ce 3 [5, 6] 2 seek_supp = (2, t) \<and> r_fds (world t) 3 = Some (0, 3)"
  by (simp add: syscall_vfs_write_def with_payload_def direct_alloc_def direct_cmd_def rpc_switch_def process_alloc_def
     get_value_def attr_type_def alloc_shm_def os_do_def ref_os_def seek_supp_def file_supp_def ref_s0_def fresh_supp_def
     push_tshm_def new_block_def direct_write_def find_tshm_def store_def fit_def rpc_vfs_def tee_supp_vfs_process_def
     vfs_write_def os_call0_def ref_open_world_def ref_init_def direct_free_def process_free_def values2_def
     data_arg_def tee_supp_param_to_va_def tee_supp_param_is_memref_def put_bc_def pop_tshm_def free_block_def
     set_errno_def ref_file_def ret_long_def ok_ret_def tee_supp_param_is_value_def)

text \<open>The bytes are written at offset 1; the file synchronises.\<close>

lemma tee_write_run:
  "\<exists>s1 s2. demoWrite ref_tee_io plain_file [5, 6] 2 1 file_supp = Inr (SQLITE_OK, plain_file, s1) \<and>
     demoSync ref_tee_io plain_file s1 = Inr (SQLITE_OK, plain_file, s2)"
proof -
  obtain t where t: "syscall_vfs_write ref_ce 3 [5, 6] 2 seek_supp = (2, t)" "r_fds (world t) 3 = Some (0, 3)"
    using write_run by blast
  have plain: "df_fd plain_file = 3" "aBuffer plain_file = None" "nBuffer plain_file = 0"
    by (simp_all add: plain_file_def journal_file_def)
  have "demoWrite ref_tee_io plain_file [5, 6] 2 1 file_supp = Inr (SQLITE_OK, plain_file, t)"
    using t plain seek_run by (simp add: demoWrite_def demoDirectWrite_def)
  moreover have "\<exists>s2. demoSync ref_tee_io plain_file t = Inr (SQLITE_OK, plain_file, s2)"
    using t plain
    by (simp add: demoSync_def demoFlushBuffer_def scalar_run os_call0_def os_do_def set_errno_def ref_os_def
        ref_file_def)
  ultimately show ?thesis by blast
qed

theorem write_sync_reaches_host_witness:
  "\<exists>s1 s2 pos. demoWrite ref_tee_io plain_file [5, 6] 2 1 file_supp = Inr (SQLITE_OK, plain_file, s1) \<and>
     demoSync ref_tee_io plain_file s1 = Inr (SQLITE_OK, plain_file, s2) \<and>
     ref_view (world s2) 3 = Some ([7, 5, 6], pos)"
proof -
  obtain s1 s2 where w: "demoWrite ref_tee_io plain_file [5, 6] 2 1 file_supp = Inr (SQLITE_OK, plain_file, s1)"
    and y: "demoSync ref_tee_io plain_file s1 = Inr (SQLITE_OK, plain_file, s2)"
    using tee_write_run by blast
  have "\<exists>pos. ref_view (world s2) (df_fd plain_file) = Some (overwrite [7, 8, 9] (nat 1) (take (nat 2) [5, 6]), pos)"
    by (rule write_sync_reaches_host [OF ref_tee.tee_files_axioms file_supp_sees _ _ _ _ _ w y]) simp_all
  with w y show ?thesis
    by (auto simp: plain_file_def journal_file_def overwrite_def fit_def)
qed

end
