(* ===== verification/Host_Vfs.thy ===== *)
theory Host_Vfs
  imports Tee_Files
begin

text \<open>
  The SQLite VFS of the host program, \<open>host/demovfs.c\<close>, over the C library.  It is the code the VFS of
  the trusted application (\<open>Ta_Vfs\<close>) was made from, with the C library in the place of the system
  calls, the library's \<open>errno\<close> in the place of a local variable, and one more statement in
  \<open>demoDirectWrite\<close>: \<open>strlen\<close> of the bytes to be written.  The last section compares the two method by
  method.  \<open>DemoFile\<close> and the constants are those of \<open>Ta_Vfs\<close>; names carry the suffix \<open>_host\<close>.
\<close>

section \<open>The process\<close>

record 'w host =
  h_world :: 'w
  h_errno :: s32

definition sys :: "'w os \<Rightarrow> os_call \<Rightarrow> 'w host \<Rightarrow> os_ret \<times> 'w host" where
  "sys os call h =
     (let (r, w) = os call (h_world h) in
      (r, \<lparr>h_world = w, h_errno = (if o_errno r = 0 then h_errno h else o_errno r)\<rparr>))"

abbreviation int_ret :: "os_ret \<Rightarrow> s32" where
  "int_ret r \<equiv> u64_to_int (o_ret r)"

definition SQLITE_DEMOVFS_BUFFERSZ :: int where
  "SQLITE_DEMOVFS_BUFFERSZ = 8192"

definition MAXPATHNAME_host :: int where
  "MAXPATHNAME_host = 512"

type_synonym DemoFile_host = DemoFile

section \<open>The methods of a file\<close>

text \<open>\<open>strlen (zBuf)\<close> reads up to the first zero byte, wherever that is.\<close>

definition strlen_ok :: "byte list \<Rightarrow> bool" where
  "strlen_ok zBuf \<longleftrightarrow> 0 \<in> set zBuf"

definition demoDirectWrite_host ::
    "'w os \<Rightarrow> DemoFile_host \<Rightarrow> byte list \<Rightarrow> int \<Rightarrow> int \<Rightarrow> 'w host \<Rightarrow> (int \<times> 'w host) outcome" where
  "demoDirectWrite_host os p zBuf iAmt iOfst h =
     (let (ofst, h) = sys os (Lseek (df_fd p) (word_of_int iOfst) SEEK_SET) h in
      if sint (o_ret ofst) \<noteq> iOfst then Inr (SQLITE_IOERR_WRITE, h)
      else if \<not> strlen_ok zBuf then Inl OutOfBounds
      else
        let n = word_of_int iAmt :: u64 in
        if length zBuf < unat n then Inl OutOfBounds
        else
          let (nWrite, h) = sys os (Write (df_fd p) (Some (take (unat n) zBuf)) n) h in
          if o_ret nWrite \<noteq> n then Inr (SQLITE_IOERR_WRITE, h) else Inr (SQLITE_OK, h))"

definition demoFlushBuffer_host :: "'w os \<Rightarrow> DemoFile_host \<Rightarrow> 'w host \<Rightarrow> (int \<times> DemoFile \<times> 'w host) outcome" where
  "demoFlushBuffer_host os p h =
     (if nBuffer p \<noteq> 0 then
        case aBuffer p of
          None \<Rightarrow> Inl NullDeref
        | Some buf \<Rightarrow>
            bind_outcome (demoDirectWrite_host os p buf (nBuffer p) (iBufferOfst p) h) (\<lambda>(rc, h).
            Inr (rc, p\<lparr>nBuffer := 0\<rparr>, h))
      else Inr (SQLITE_OK, p, h))"

definition demoClose_host :: "'w os \<Rightarrow> DemoFile_host \<Rightarrow> 'w host \<Rightarrow> (int \<times> DemoFile \<times> 'w host) outcome" where
  "demoClose_host os p h =
     bind_outcome (demoFlushBuffer_host os p h) (\<lambda>(rc, p, h).
     let (_, h) = sys os (Close (df_fd p)) h in
     Inr (rc, p\<lparr>aBuffer := None\<rparr>, h))"

definition demoRead_host ::
    "'w os \<Rightarrow> DemoFile_host \<Rightarrow> byte list \<Rightarrow> int \<Rightarrow> int \<Rightarrow> 'w host \<Rightarrow>
       (int \<times> byte list \<times> DemoFile \<times> 'w host) outcome" where
  "demoRead_host os p zBuf iAmt iOfst h =
     bind_outcome (demoFlushBuffer_host os p h) (\<lambda>(rc, p, h).
     if rc \<noteq> SQLITE_OK then Inr (rc, zBuf, p, h)
     else
       let (ofst, h) = sys os (Lseek (df_fd p) (word_of_int iOfst) SEEK_SET) h in
       if sint (o_ret ofst) \<noteq> iOfst then Inr (SQLITE_IOERR_READ, zBuf, p, h)
       else
         let (r, h) = sys os (Read (df_fd p) True (word_of_int iAmt)) h;
             nRead = sint (int_ret r) in
         if length zBuf < length (o_out r) then Inl OutOfBounds
         else
           let zBuf = overwrite zBuf 0 (o_out r) in
           if nRead = iAmt then Inr (SQLITE_OK, zBuf, p, h)
           else if nRead \<ge> 0 then
             (if nRead < iAmt then
                if length zBuf < nat iAmt then Inl OutOfBounds
                else Inr (SQLITE_IOERR_SHORT_READ,
                          overwrite zBuf (nat nRead) (replicate (nat (iAmt - nRead)) 0), p, h)
              else Inr (SQLITE_IOERR_SHORT_READ, zBuf, p, h))
           else Inr (SQLITE_IOERR_READ, zBuf, p, h))"

definition demoWrite_chunk_host ::
    "'w os \<Rightarrow> DemoFile_host \<Rightarrow> byte list \<Rightarrow> int \<Rightarrow> int \<Rightarrow> 'w host \<Rightarrow>
       (int \<times> int \<times> DemoFile \<times> 'w host) outcome" where
  "demoWrite_chunk_host os p z n i h =
     bind_outcome
       (if nBuffer p = SQLITE_DEMOVFS_BUFFERSZ then Inr True
        else bind_outcome (s64_add (iBufferOfst p) (nBuffer p)) (\<lambda>e. Inr (e \<noteq> i))) (\<lambda>flush.
     bind_outcome (if flush then demoFlushBuffer_host os p h else Inr (SQLITE_OK, p, h)) (\<lambda>(rc, p, h).
     if rc \<noteq> SQLITE_OK then Inr (rc, 0, p, h)
     else if nBuffer p \<noteq> 0 \<and> iBufferOfst p + nBuffer p \<noteq> i then Inl AssertFailed
     else
       bind_outcome (s64_add i (- nBuffer p)) (\<lambda>ofst.
       let p = p\<lparr>iBufferOfst := ofst\<rparr>;
           nCopy = min (SQLITE_DEMOVFS_BUFFERSZ - nBuffer p) n in
       case aBuffer p of
         None \<Rightarrow> Inl NullDeref
       | Some buf \<Rightarrow>
           if nCopy < 0 \<or> nBuffer p < 0 \<or> int (length buf) < nBuffer p + nCopy \<or> int (length z) < nCopy
           then Inl OutOfBounds
           else Inr (SQLITE_OK, nCopy,
                     p\<lparr>aBuffer := Some (overwrite buf (nat (nBuffer p)) (take (nat nCopy) z)),
                       nBuffer := nBuffer p + nCopy\<rparr>, h))))"

lemma flush_nBuffer_host:
  "demoFlushBuffer_host os p h = Inr (rc, p', h') \<Longrightarrow> nBuffer p' = 0"
  by (auto simp: demoFlushBuffer_host_def split: if_splits option.splits elim!: bind_outcome_InrE)

lemma chunk_progress_host:
  assumes "demoWrite_chunk_host os p z n i h = Inr (SQLITE_OK, nCopy, p', h')" and "0 < n"
  shows "0 < nCopy"
  using assms flush_nBuffer_host
  by (fastforce simp: demoWrite_chunk_host_def SQLITE_DEMOVFS_BUFFERSZ_def Let_def min_def
      split: if_splits option.splits prod.splits elim!: bind_outcome_InrE)

function demoWrite_loop_host ::
    "'w os \<Rightarrow> DemoFile_host \<Rightarrow> byte list \<Rightarrow> int \<Rightarrow> int \<Rightarrow> 'w host \<Rightarrow> (int \<times> DemoFile \<times> 'w host) outcome" where
  "demoWrite_loop_host os p z n i h =
     (if n \<le> 0 then Inr (SQLITE_OK, p, h)
      else case demoWrite_chunk_host os p z n i h of
             Inl f \<Rightarrow> Inl f
           | Inr (rc, nCopy, p, h) \<Rightarrow>
               if rc \<noteq> SQLITE_OK then Inr (rc, p, h)
               else case s64_add i nCopy of
                      Inl f \<Rightarrow> Inl f
                    | Inr i \<Rightarrow> demoWrite_loop_host os p (drop (nat nCopy) z) (n - nCopy) i h)"
  by pat_completeness auto
termination
  by (relation "measure (\<lambda>(os, p, z, n, i, h). nat n)") (auto dest: chunk_progress_host)

declare demoWrite_loop_host.simps [simp del]

definition demoWrite_host ::
    "'w os \<Rightarrow> DemoFile_host \<Rightarrow> byte list \<Rightarrow> int \<Rightarrow> int \<Rightarrow> 'w host \<Rightarrow> (int \<times> DemoFile \<times> 'w host) outcome" where
  "demoWrite_host os p zBuf iAmt iOfst h =
     (if aBuffer p \<noteq> None then demoWrite_loop_host os p zBuf iAmt iOfst h
      else bind_outcome (demoDirectWrite_host os p zBuf iAmt iOfst h) (\<lambda>(rc, h). Inr (rc, p, h)))"

definition demoTruncate_host :: "DemoFile_host \<Rightarrow> int \<Rightarrow> 'w host \<Rightarrow> (int \<times> DemoFile \<times> 'w host) outcome" where
  "demoTruncate_host p sz h = Inr (SQLITE_OK, p, h)"

definition demoSync_host :: "'w os \<Rightarrow> DemoFile_host \<Rightarrow> 'w host \<Rightarrow> (int \<times> DemoFile \<times> 'w host) outcome" where
  "demoSync_host os p h =
     bind_outcome (demoFlushBuffer_host os p h) (\<lambda>(rc, p, h).
     if rc \<noteq> SQLITE_OK then Inr (rc, p, h)
     else let (r, h) = sys os (Fsync (df_fd p)) h in
          Inr (if int_ret r = 0 then SQLITE_OK else SQLITE_IOERR_FSYNC, p, h))"

definition demoFileSize_host ::
    "'w os \<Rightarrow> DemoFile_host \<Rightarrow> 'w host \<Rightarrow> (int \<times> int option \<times> DemoFile \<times> 'w host) outcome" where
  "demoFileSize_host os p h =
     bind_outcome (demoFlushBuffer_host os p h) (\<lambda>(rc, p, h).
     if rc \<noteq> SQLITE_OK then Inr (rc, None, p, h)
     else let (r, h) = sys os (Fstat (df_fd p) True) h in
          if int_ret r \<noteq> 0 then Inr (SQLITE_IOERR_FSTAT, None, p, h)
          else Inr (SQLITE_OK, Some (sint (o_val1 r)), p, h))"

definition demoLock_host :: "DemoFile_host \<Rightarrow> int \<Rightarrow> int" where
  "demoLock_host p eLock = SQLITE_OK"

definition demoUnlock_host :: "DemoFile_host \<Rightarrow> int \<Rightarrow> int" where
  "demoUnlock_host p eLock = SQLITE_OK"

definition demoCheckReservedLock_host :: "DemoFile_host \<Rightarrow> int \<times> int" where
  "demoCheckReservedLock_host p = (SQLITE_OK, 0)"

definition demoFileControl_host :: "DemoFile_host \<Rightarrow> int \<Rightarrow> int" where
  "demoFileControl_host p op = SQLITE_NOTFOUND"

definition demoSectorSize_host :: "DemoFile_host \<Rightarrow> int" where
  "demoSectorSize_host p = 0"

definition demoDeviceCharacteristics_host :: "DemoFile_host \<Rightarrow> int" where
  "demoDeviceCharacteristics_host p = 0"

section \<open>The methods of the VFS\<close>

definition open_flags_host :: "s32 \<Rightarrow> s32" where
  "open_flags_host flags =
     (let oflags = (if flags AND SQLITE_OPEN_EXCLUSIVE \<noteq> 0 then O_EXCL else 0);
          oflags = (if flags AND SQLITE_OPEN_CREATE \<noteq> 0 then oflags OR O_CREAT else oflags);
          oflags = (if flags AND SQLITE_OPEN_READONLY \<noteq> 0 then oflags OR O_RDONLY else oflags) in
      if flags AND SQLITE_OPEN_READWRITE \<noteq> 0 then oflags OR O_RDWR else oflags)"

text \<open>\<open>mal\<close> is \<open>sqlite3_malloc\<close>, \<open>snp\<close> is \<open>sqlite3_snprintf\<close>.\<close>

definition demoOpen_host ::
    "'w os \<Rightarrow> (u64 \<Rightarrow> 'w \<Rightarrow> byte list option \<times> 'w) \<Rightarrow> byte list option \<Rightarrow> DemoFile_host \<Rightarrow> s32 \<Rightarrow>
       'w host \<Rightarrow> (int \<times> DemoFile \<times> s32 option) \<times> 'w host" where
  "demoOpen_host os mal zName p flags h =
     (case zName of
        None \<Rightarrow> ((SQLITE_IOERR, p, None), h)
      | Some name \<Rightarrow>
          let journal = flags AND SQLITE_OPEN_MAIN_JOURNAL \<noteq> 0;
              (aBuf, h) = (if journal
                           then let (b, w) = mal (word_of_int SQLITE_DEMOVFS_BUFFERSZ) (h_world h)
                                in (b, h\<lparr>h_world := w\<rparr>)
                           else (None, h)) in
          if journal \<and> aBuf = None then ((SQLITE_NOMEM, p, None), h)
          else
            let (r, h) = sys os (Open (Some name) (open_flags_host flags) 0x180) h;
                p = zero_file\<lparr>df_fd := int_ret r\<rparr> in
            if sint (int_ret r) < 0 then ((SQLITE_CANTOPEN, p, None), h)
            else ((SQLITE_OK,
                   p\<lparr>aBuffer := map_option (fit (nat SQLITE_DEMOVFS_BUFFERSZ)) aBuf, pMethods := True\<rparr>,
                   Some flags), h))"

text \<open>\<open>errno\<close> is the library's here.\<close>

definition demoDelete_host ::
    "'w os \<Rightarrow> (int \<Rightarrow> byte list \<Rightarrow> byte list) \<Rightarrow> byte list \<Rightarrow> bool \<Rightarrow> 'w host \<Rightarrow> (int \<times> 'w host) outcome" where
  "demoDelete_host os snp zPath dirSync h =
     (let (r, h) = sys os (Unlink (Some zPath)) h in
      if int_ret r \<noteq> 0 \<and> h_errno h = ENOENT then Inr (SQLITE_OK, h)
      else if int_ret r = 0 \<and> dirSync then
        bind_outcome (local_string (nat MAXPATHNAME_host) (snp MAXPATHNAME_host zPath)) (\<lambda>zDir.
        case strrchr 47 zDir of
          None \<Rightarrow> Inr (SQLITE_OK, h)
        | Some zSlash \<Rightarrow>
            let (d, h) = sys os (Open (Some (take zSlash zDir)) O_RDONLY 0) h in
            if sint (int_ret d) < 0 then Inr (SQLITE_IOERR_DELETE, h)
            else
              let (r, h) = sys os (Fsync (int_ret d)) h;
                  (_, h) = sys os (Close (int_ret d)) h in
              Inr (if int_ret r = 0 then SQLITE_OK else SQLITE_IOERR_DELETE, h))
      else Inr (if int_ret r = 0 then SQLITE_OK else SQLITE_IOERR_DELETE, h))"

definition demoAccess_host ::
    "'w os \<Rightarrow> byte list \<Rightarrow> int \<Rightarrow> 'w host \<Rightarrow> (int \<times> bool \<times> 'w host) outcome" where
  "demoAccess_host os zPath flags h =
     (if flags \<notin> {SQLITE_ACCESS_EXISTS, SQLITE_ACCESS_READ, SQLITE_ACCESS_READWRITE}
      then Inl AssertFailed
      else
        let eAccess = (if flags = SQLITE_ACCESS_READWRITE then R_OK OR W_OK else F_OK);
            eAccess = (if flags = SQLITE_ACCESS_READ then R_OK else eAccess);
            (r, h) = sys os (Access (Some zPath) eAccess) h in
        Inr (SQLITE_OK, int_ret r = 0, h))"

definition print_into_host :: "(int \<Rightarrow> byte list \<Rightarrow> byte list) \<Rightarrow> int \<Rightarrow> byte list \<Rightarrow> byte list \<Rightarrow> byte list outcome" where
  "print_into_host snp n txt out =
     (let stored = snp n txt in
      if length out < length stored \<or> n < 1 \<or> int (length out) < n then Inl OutOfBounds
      else Inr ((overwrite out 0 stored)[nat (n - 1) := 0]))"

definition demoFullPathname_host ::
    "'w os \<Rightarrow> (int \<Rightarrow> byte list \<Rightarrow> byte list) \<Rightarrow> byte list \<Rightarrow> int \<Rightarrow> byte list \<Rightarrow> 'w host \<Rightarrow>
       (int \<times> byte list \<times> 'w host) outcome" where
  "demoFullPathname_host os snp zPath nPathOut zPathOut h =
     (let ((ok, dir), h) =
            (if zPath \<noteq> [] \<and> hd zPath = 47 then ((True, [0]), h)
             else let (r, h) = sys os (Getcwd True (word_of_int (MAXPATHNAME_host + 1))) h
                  in ((o_ret r \<noteq> 0, o_out r), h)) in
      if \<not> ok then Inr (SQLITE_IOERR, zPathOut, h)
      else
        bind_outcome (local_string (nat MAXPATHNAME_host) dir) (\<lambda>zDir.
        bind_outcome (print_into_host snp nPathOut (zDir @ [47] @ zPath) zPathOut) (\<lambda>out.
        Inr (SQLITE_OK, out, h))))"

definition demoDlOpen_host :: "byte list \<Rightarrow> ptr" where
  "demoDlOpen_host zPath = Null"

text \<open>The message ends with a newline.\<close>

definition demoDlError_host :: "(int \<Rightarrow> byte list \<Rightarrow> byte list) \<Rightarrow> int \<Rightarrow> byte list \<Rightarrow> byte list outcome" where
  "demoDlError_host snp nByte zErrMsg =
     print_into_host snp nByte (map of_char ''Loadable extensions are not supported'' @ [10]) zErrMsg"

definition demoDlSym_host :: "byte list \<Rightarrow> ptr" where
  "demoDlSym_host z = Null"

definition demoRandomness_host :: "int \<Rightarrow> byte list \<Rightarrow> int \<times> byte list" where
  "demoRandomness_host nByte zByte = (SQLITE_OK, zByte)"

definition demoSleep_host :: "'w os \<Rightarrow> int \<Rightarrow> 'w host \<Rightarrow> int \<times> 'w host" where
  "demoSleep_host os nMicro h =
     (let (_, h) = sys os (Sleep (word_of_int (nMicro sdiv 1000000))) h;
          (_, h) = sys os (Usleep (word_of_int (nMicro smod 1000000))) h in
      (nMicro, h))"

section \<open>The host and the trusted application\<close>

text \<open>
  \<open>agrees f x y\<close>: a run of the host's method either ends in a read past the end of a buffer (that of
  \<open>strlen\<close>) or is the run of the trusted application's method with the C library under it, \<open>f\<close> taking
  the process to the system it runs on.
\<close>

definition agrees :: "('a \<Rightarrow> 'b) \<Rightarrow> 'a outcome \<Rightarrow> 'b outcome \<Rightarrow> bool" where
  "agrees f x y \<longleftrightarrow> x = Inl OutOfBounds \<or> map_sum (\<lambda>e. e) f x = y"

fun to_system2 :: "'a \<times> 'w host \<Rightarrow> 'a \<times> 'w" where
  "to_system2 (a, h) = (a, h_world h)"

fun to_system3 :: "'a \<times> 'b \<times> 'w host \<Rightarrow> 'a \<times> 'b \<times> 'w" where
  "to_system3 (a, b, h) = (a, b, h_world h)"

fun to_system4 :: "'a \<times> 'b \<times> 'c \<times> 'w host \<Rightarrow> 'a \<times> 'b \<times> 'c \<times> 'w" where
  "to_system4 (a, b, c, h) = (a, b, c, h_world h)"

lemma agrees_simps [simp]:
  "agrees f (Inl OutOfBounds) y" "agrees f (Inl e) (Inl e)" "agrees f (Inr v) (Inr w) = (f v = w)"
  by (simp_all add: agrees_def)

lemma agrees_bind:
  "agrees f x y \<Longrightarrow> (\<And>v. x = Inr v \<Longrightarrow> agrees g (k v) (k' (f v))) \<Longrightarrow>
     agrees g (bind_outcome x k) (bind_outcome y k')"
  by (cases x) (auto simp: agrees_def)

lemma agrees_bind_same:
  "(\<And>v. x = Inr v \<Longrightarrow> agrees g (k v) (k' v)) \<Longrightarrow> agrees g (bind_outcome x k) (bind_outcome x k')"
  by (cases x) (auto simp: agrees_def)

lemma sys_run: "sys os c h = (r, h') \<Longrightarrow> os c (h_world h) = (r, h_world h')"
  by (auto simp: sys_def split: prod.splits)

lemma host_io_sys:
  "sys os (Lseek fd off wh) h = (r, h1) \<Longrightarrow> io_lseek (host_io os mal snp) fd off wh (h_world h) = (o_ret r, h_world h1)"
  "sys os (Write fd (Some (take (unat n) buf)) n) h = (r, h1) \<Longrightarrow>
     io_write (host_io os mal snp) fd buf n (h_world h) = (o_ret r, h_world h1)"
  "sys os (Read fd True n) h = (r, h1) \<Longrightarrow>
     io_read (host_io os mal snp) fd n (h_world h) = ((o_ret r, Some (o_out r)), h_world h1)"
  "sys os (Fsync fd) h = (r, h1) \<Longrightarrow> io_fsync (host_io os mal snp) fd (h_world h) = (int_ret r, h_world h1)"
  "sys os (Close fd) h = (r, h1) \<Longrightarrow> io_close (host_io os mal snp) fd (h_world h) = (int_ret r, h_world h1)"
  "sys os (Fstat fd True) h = (r, h1) \<Longrightarrow>
     io_filesize (host_io os mal snp) fd (h_world h) = (if int_ret r \<noteq> 0 then - 1 else o_val1 r, h_world h1)"
  by (auto simp: host_io_def dest: sys_run)

lemma direct_write_cases:
  assumes "strlen_ok zBuf"
  shows "map_sum (\<lambda>e. e) to_system2 (demoDirectWrite_host os p zBuf iAmt iOfst h) =
    demoDirectWrite (host_io os mal snp) p zBuf iAmt iOfst (h_world h)"
proof -
  let ?n = "word_of_int iAmt :: u64"
  obtain o' h1 where sk: "sys os (Lseek (df_fd p) (word_of_int iOfst) SEEK_SET) h = (o', h1)" by fastforce
  obtain r h2 where wr: "sys os (Write (df_fd p) (Some (take (unat ?n) zBuf)) ?n) h1 = (r, h2)" by fastforce
  show ?thesis
    using assms sk host_io_sys(1) [OF sk, of mal snp] wr host_io_sys(2) [OF wr, of mal snp]
    by (simp add: demoDirectWrite_host_def demoDirectWrite_def)
qed

lemma direct_write_agrees:
  "agrees to_system2 (demoDirectWrite_host os p zBuf iAmt iOfst h)
     (demoDirectWrite (host_io os mal snp) p zBuf iAmt iOfst (h_world h))"
proof (cases "strlen_ok zBuf")
  case True
  show ?thesis using direct_write_cases [OF True, of os p iAmt iOfst h mal snp] by (simp add: agrees_def)
next
  case False
  obtain o' h1 where sk: "sys os (Lseek (df_fd p) (word_of_int iOfst) SEEK_SET) h = (o', h1)" by fastforce
  show ?thesis
    using False sk host_io_sys(1) [OF sk, of mal snp]
    by (auto simp: demoDirectWrite_host_def demoDirectWrite_def)
qed

lemma flush_agrees:
  "agrees to_system3 (demoFlushBuffer_host os p h) (demoFlushBuffer (host_io os mal snp) p (h_world h))"
  unfolding demoFlushBuffer_host_def demoFlushBuffer_def
  by (auto split: option.split intro!: agrees_bind [OF direct_write_agrees])

lemma close_agrees:
  "agrees to_system3 (demoClose_host os p h) (demoClose (host_io os mal snp) p (h_world h))"
  unfolding demoClose_host_def demoClose_def
  by (rule agrees_bind [OF flush_agrees])
    (auto simp: host_io_sys split: prod.splits dest!: host_io_sys(5) [where mal = mal and snp = snp])

lemma sync_agrees:
  "agrees to_system3 (demoSync_host os p h) (demoSync (host_io os mal snp) p (h_world h))"
  unfolding demoSync_host_def demoSync_def
  by (rule agrees_bind [OF flush_agrees])
    (auto split: prod.splits dest!: host_io_sys(4) [where mal = mal and snp = snp])

lemma filesize_agrees:
  assumes "\<And>fd w. int_ret (fst (os (Fstat fd True) w)) = 0 \<Longrightarrow> o_val1 (fst (os (Fstat fd True) w)) \<noteq> - 1"
  shows "agrees to_system4 (demoFileSize_host os p h) (demoFileSize (host_io os mal snp) p (h_world h))"
  unfolding demoFileSize_host_def demoFileSize_def
proof (rule agrees_bind [OF flush_agrees])
  fix v
  assume "demoFlushBuffer_host os p h = Inr v"
  obtain rc q h1 where v: "v = (rc, q, h1)" by (metis surj_pair)
  obtain r h2 where st: "sys os (Fstat (df_fd q) True) h1 = (r, h2)" by fastforce
  have "int_ret r = 0 \<Longrightarrow> o_val1 r \<noteq> - 1"
    using assms [of "df_fd q" "h_world h1"] sys_run [OF st] by simp
  then show "agrees to_system4
     (case v of (rc, p, h) \<Rightarrow>
        if rc \<noteq> SQLITE_OK then Inr (rc, None, p, h)
        else let (r, h) = sys os (Fstat (df_fd p) True) h
             in if int_ret r \<noteq> 0 then Inr (SQLITE_IOERR_FSTAT, None, p, h)
                else Inr (SQLITE_OK, Some (sint (o_val1 r)), p, h))
     (case to_system3 v of (rc, p, s) \<Rightarrow>
        if rc \<noteq> SQLITE_OK then Inr (rc, None, p, s)
        else let (rc, s) = io_filesize (host_io os mal snp) (df_fd p) s
             in if rc = - 1 then Inr (SQLITE_IOERR_FSTAT, None, p, s)
                else Inr (SQLITE_OK, Some (sint rc), p, s))"
    using v st host_io_sys(6) [OF st, of mal snp] by auto
qed

lemma read_agrees:
  "agrees to_system4 (demoRead_host os p zBuf iAmt iOfst h)
     (demoRead (host_io os mal snp) p zBuf iAmt iOfst (h_world h))"
  unfolding demoRead_host_def demoRead_def
proof (rule agrees_bind [OF flush_agrees], goal_cases)
  case (1 v)
  obtain rc q h1 where v: "v = (rc, q, h1)" by (metis surj_pair)
  obtain o' h2 where sk: "sys os (Lseek (df_fd q) (word_of_int iOfst) SEEK_SET) h1 = (o', h2)" by fastforce
  obtain r h3 where rd: "sys os (Read (df_fd q) True (word_of_int iAmt)) h2 = (r, h3)" by fastforce
  show ?case
    using v sk rd host_io_sys(1) [OF sk, of mal snp] host_io_sys(3) [OF rd, of mal snp]
    by (auto simp: Let_def)
qed

lemma chunk_agrees:
  "agrees to_system4 (demoWrite_chunk_host os p z n i h)
     (demoWrite_chunk (host_io os mal snp) p z n i (h_world h))"
  unfolding demoWrite_chunk_host_def demoWrite_chunk_def SQLITE_DEMOVFS_BUFFERSZ_def
    SQLITE_TEEVFS_BUFFERSZ_def
proof (rule agrees_bind_same, rule agrees_bind [where f = to_system3], goal_cases)
  case (1 flush)
  then show ?case by (simp add: flush_agrees)
next
  case (2 flush v)
  obtain rc q h1 where v: "v = (rc, q, h1)" by (metis surj_pair)
  show ?case
    using v by (auto simp: Let_def intro!: agrees_bind_same split: option.split)
qed

lemma loop_agrees:
  "agrees to_system3 (demoWrite_loop_host os p z n i h)
     (demoWrite_loop (host_io os mal snp) p z n i (h_world h))"
proof (induction os p z n i h rule: demoWrite_loop_host.induct)
  case (1 os p z n i h)
  let ?io = "host_io os mal snp"
  show ?case
  proof (cases "n \<le> 0")
    case True
    then show ?thesis by (simp add: demoWrite_loop_host.simps demoWrite_loop.simps)
  next
    case pos: False
    show ?thesis
    proof (cases "demoWrite_chunk_host os p z n i h")
      case (Inl f)
      with chunk_agrees [of os p z n i h mal snp]
      have "f = OutOfBounds \<or> demoWrite_chunk ?io p z n i (h_world h) = Inl f"
        by (auto simp: agrees_def)
      with pos Inl show ?thesis
        by (auto simp: demoWrite_loop_host.simps [of os p] demoWrite_loop.simps [of ?io p])
    next
      case (Inr v)
      obtain rc c q h1 where v: "v = (rc, c, q, h1)" by (metis surj_pair)
      have ch: "demoWrite_chunk ?io p z n i (h_world h) = Inr (rc, c, q, h_world h1)"
        using chunk_agrees [of os p z n i h mal snp] Inr v by (simp add: agrees_def)
      show ?thesis
      proof (cases "rc \<noteq> SQLITE_OK \<or> (\<exists>f. s64_add i c = Inl f)")
        case True
        with pos Inr v ch show ?thesis
          by (auto simp: demoWrite_loop_host.simps [of os p] demoWrite_loop.simps [of ?io p])
      next
        case False
        then obtain j where j: "rc = SQLITE_OK" "s64_add i c = Inr j" by (cases "s64_add i c") auto
        have "agrees to_system3 (demoWrite_loop_host os q (drop (nat c) z) (n - c) j h1)
            (demoWrite_loop ?io q (drop (nat c) z) (n - c) j (h_world h1))"
          using 1 [OF pos Inr [unfolded v] refl refl refl _ j(2)] j(1) by simp
        with pos Inr v ch j show ?thesis
          by (simp add: demoWrite_loop_host.simps [of os p] demoWrite_loop.simps [of ?io p])
      qed
    qed
  qed
qed

lemma write_agrees:
  "agrees to_system3 (demoWrite_host os p zBuf iAmt iOfst h)
     (demoWrite (host_io os mal snp) p zBuf iAmt iOfst (h_world h))"
  unfolding demoWrite_host_def demoWrite_def
  by (auto simp: loop_agrees intro!: agrees_bind [OF direct_write_agrees])

context posix_files
begin

lemma host_file_io: "file_io (host_io os mal snp) pview"
  by (rule host.file_io_axioms)

end

text \<open>A write to a file without a buffer, by the refinement for the trusted application's method.\<close>

lemma demoWrite_plain:
  assumes "file_io io view" and "sees view s p c" and "aBuffer p = None"
    and "0 \<le> iAmt" "iAmt < 2 ^ 31" "nat iAmt \<le> length zBuf" "0 \<le> iOfst" "iOfst + iAmt < 2 ^ 63"
  shows "\<exists>rc t. demoDirectWrite io p zBuf iAmt iOfst s = Inr (rc, t) \<and>
    (rc = SQLITE_OK \<and> sees view t p (overwrite c (nat iOfst) (take (nat iAmt) zBuf)) \<or>
     rc = SQLITE_IOERR_WRITE \<and> (\<exists>c'. sees view t p c'))"
proof -
  obtain rc p' t where w: "demoWrite io p zBuf iAmt iOfst s = Inr (rc, p', t)"
    and ok: "rc = SQLITE_OK \<and> sees view t p' (overwrite c (nat iOfst) (take (nat iAmt) zBuf)) \<or>
      rc = SQLITE_IOERR_WRITE \<and> (\<exists>c'. sees view t p' c')"
    using file_io.write_spec [OF assms(1,2,4-8)] by blast
  from w assms(3) have "demoDirectWrite io p zBuf iAmt iOfst s = Inr (rc, t)" "p' = p"
    by (auto simp: demoWrite_def elim!: bind_outcome_InrE)
  with ok show ?thesis by blast
qed

section \<open>Properties\<close>

text \<open>Every file method of the host's VFS, unless it ends in a read past the end of a buffer, returns
  what the method of the trusted application returns with the same C library under it, with the same
  effect on the system and on the file structure.  A file of \<open>2 ^ 64 - 1\<close> bytes, whose size reads as
  \<open>-1\<close>, is excluded.\<close>

theorem host_methods_agree:
  assumes "\<forall>fd w. int_ret (fst (os (Fstat fd True) w)) = 0 \<longrightarrow> o_val1 (fst (os (Fstat fd True) w)) \<noteq> - 1"
  shows "agrees to_system4 (demoRead_host os p out iAmt iOfst h)
      (demoRead (host_io os mal snp) p out iAmt iOfst (h_world h)) \<and>
    agrees to_system3 (demoWrite_host os p zBuf iAmt iOfst h)
      (demoWrite (host_io os mal snp) p zBuf iAmt iOfst (h_world h)) \<and>
    agrees to_system3 (demoSync_host os p h) (demoSync (host_io os mal snp) p (h_world h)) \<and>
    agrees to_system3 (demoClose_host os p h) (demoClose (host_io os mal snp) p (h_world h)) \<and>
    agrees to_system4 (demoFileSize_host os p h) (demoFileSize (host_io os mal snp) p (h_world h))"
  using assms by (simp add: read_agrees write_agrees sync_agrees close_agrees filesize_agrees)

text \<open>On the host a write to a file without a buffer refines the write of the file the client sees:
  when the data contain a zero byte, \<open>demoWrite\<close> returns, and on \<open>SQLITE_OK\<close> the client sees the bytes
  written.\<close>

theorem demoWrite_host_correct:
  assumes "posix_files os pview" and "sees pview (h_world h) p c" and "aBuffer p = None" and "0 \<in> set zBuf"
    and "0 \<le> iAmt" and "iAmt < 2 ^ 31" and "nat iAmt \<le> length zBuf"
    and "0 \<le> iOfst" and "iOfst + iAmt < 2 ^ 63"
  shows "\<exists>rc h'. demoWrite_host os p zBuf iAmt iOfst h = Inr (rc, p, h') \<and>
    (rc = SQLITE_OK \<and> sees pview (h_world h') p (overwrite c (nat iOfst) (take (nat iAmt) zBuf)) \<or>
     rc = SQLITE_IOERR_WRITE \<and> (\<exists>c'. sees pview (h_world h') p c'))"
proof -
  let ?io = "host_io os (\<lambda>_ w. (None, w)) (\<lambda>_ txt. txt)"
  note io = posix_files.host_file_io [OF assms(1), of "\<lambda>_ w. (None, w)" "\<lambda>_ txt. txt"]
  obtain rc t where run: "demoDirectWrite ?io p zBuf iAmt iOfst (h_world h) = Inr (rc, t)"
    and ok: "rc = SQLITE_OK \<and> sees pview t p (overwrite c (nat iOfst) (take (nat iAmt) zBuf)) \<or>
      rc = SQLITE_IOERR_WRITE \<and> (\<exists>c'. sees pview t p c')"
    using demoWrite_plain [OF io assms(2,3,5-9)] by blast
  then obtain h' where "demoDirectWrite_host os p zBuf iAmt iOfst h = Inr (rc, h')" "h_world h' = t"
    using direct_write_cases [of zBuf os p iAmt iOfst h "\<lambda>_ w. (None, w)" "\<lambda>_ txt. txt"] assms(4)
    by (cases "demoDirectWrite_host os p zBuf iAmt iOfst h") (auto simp: strlen_ok_def)
  with ok assms(3) show ?thesis by (simp add: demoWrite_host_def)
qed

text \<open>Data without a zero byte end the host's \<open>demoDirectWrite\<close> in a read past the end of the buffer,
  as soon as the file offset has been set: the unused \<open>strlen\<close> runs past the data.\<close>

theorem strlen_reads_past_end:
  assumes "0 \<notin> set zBuf"
    and "sys os (Lseek (df_fd p) (word_of_int iOfst) SEEK_SET) h = (r, h')" and "sint (o_ret r) = iOfst"
  shows "demoDirectWrite_host os p zBuf iAmt iOfst h = Inl OutOfBounds"
  using assms by (simp add: demoDirectWrite_host_def strlen_ok_def)

end
