(* ===== verification/Vfs_Tables.thy ===== *)
theory Vfs_Tables
  imports Complex_Main Host_Vfs
begin

text \<open>
  What the two VFS register with SQLite: the table of their methods, \<open>sqlite3_demovfs\<close>, and the clock
  method \<open>demoCurrentTime\<close>, whose result is a \<open>double\<close>.  Rounding to a \<open>double\<close> is a parameter \<open>fl\<close>.
\<close>

section \<open>The clock\<close>

text \<open>\<open>*pTime = t / 86400.0 + 2440587.5\<close>, each operation being rounded.\<close>

definition julian_day :: "(rat \<Rightarrow> rat) \<Rightarrow> s64 \<Rightarrow> rat" where
  "julian_day fl t = fl (fl (fl (of_int (sint t)) / 86400) + 2440587.5)"

definition demoCurrentTime :: "(rat \<Rightarrow> rat) \<Rightarrow> 's core_env \<Rightarrow> 's \<Rightarrow> (int \<times> rat) \<times> 's" where
  "demoCurrentTime fl ce s =
     (let ((t, _), s) = syscall_vfs_time ce False s in ((SQLITE_OK, julian_day fl t), s))"

definition demoCurrentTime_host :: "(rat \<Rightarrow> rat) \<Rightarrow> 'w os \<Rightarrow> 'w host \<Rightarrow> (int \<times> rat) \<times> 'w host" where
  "demoCurrentTime_host fl os h =
     (let (r, h) = sys os Time h in ((SQLITE_OK, julian_day fl (o_ret r)), h))"

section \<open>The tables\<close>

text \<open>
  \<open>struct sqlite3_vfs\<close> as far as version 1 has it; \<open>pNext\<close> and \<open>pAppData\<close> are null.  \<open>sizeof (DemoFile)\<close>
  is 40: two pointers and an offset of 8 bytes, two integers of 4 and their padding.
\<close>

record 's sqlite3_vfs =
  iVersion :: int
  szOsFile :: int
  mxPathname :: int
  zName :: string
  xOpen :: "byte list option \<Rightarrow> DemoFile \<Rightarrow> s32 \<Rightarrow> 's \<Rightarrow> (int \<times> DemoFile \<times> s32 option) \<times> 's"
  xDelete :: "byte list \<Rightarrow> bool \<Rightarrow> 's \<Rightarrow> (int \<times> 's) outcome"
  xAccess :: "byte list \<Rightarrow> int \<Rightarrow> 's \<Rightarrow> (int \<times> bool \<times> 's) outcome"
  xFullPathname :: "byte list \<Rightarrow> int \<Rightarrow> byte list \<Rightarrow> 's \<Rightarrow> (int \<times> byte list \<times> 's) outcome"
  xDlOpen :: "byte list \<Rightarrow> ptr"
  xDlError :: "int \<Rightarrow> byte list \<Rightarrow> byte list outcome"
  xDlSym :: "byte list \<Rightarrow> ptr"
  xRandomness :: "int \<Rightarrow> byte list \<Rightarrow> int \<times> byte list"
  xSleep :: "int \<Rightarrow> 's \<Rightarrow> int \<times> 's"
  xCurrentTime :: "'s \<Rightarrow> (int \<times> rat) \<times> 's"

definition sqlite3_demovfs :: "(rat \<Rightarrow> rat) \<Rightarrow> 's core_env \<Rightarrow> 's vfs_io \<Rightarrow> 's sqlite3_vfs" where
  "sqlite3_demovfs fl ce io =
     \<lparr>iVersion = 1, szOsFile = 40, mxPathname = MAXPATHNAME, zName = ''demo'',
      xOpen = demoOpen io, xDelete = demoDelete io, xAccess = demoAccess io,
      xFullPathname = demoFullPathname io, xDlOpen = demoDlOpen, xDlError = demoDlError io,
      xDlSym = demoDlSym, xRandomness = demoRandomness, xSleep = demoSleep io,
      xCurrentTime = demoCurrentTime fl ce\<rparr>"

definition sqlite3_demovfs_host ::
    "(rat \<Rightarrow> rat) \<Rightarrow> 'w os \<Rightarrow> (u64 \<Rightarrow> 'w \<Rightarrow> byte list option \<times> 'w) \<Rightarrow> (int \<Rightarrow> byte list \<Rightarrow> byte list) \<Rightarrow>
       'w host sqlite3_vfs" where
  "sqlite3_demovfs_host fl os mal snp =
     \<lparr>iVersion = 1, szOsFile = 40, mxPathname = MAXPATHNAME_host, zName = ''demo'',
      xOpen = demoOpen_host os mal, xDelete = demoDelete_host os snp, xAccess = demoAccess_host os,
      xFullPathname = demoFullPathname_host os snp, xDlOpen = demoDlOpen_host,
      xDlError = demoDlError_host snp, xDlSym = demoDlSym_host, xRandomness = demoRandomness_host,
      xSleep = demoSleep_host os, xCurrentTime = demoCurrentTime_host fl os\<rparr>"

section \<open>The methods of the VFS agree\<close>

fun to_system1 :: "'a \<times> 'w host \<Rightarrow> 'a \<times> 'w" where
  "to_system1 (a, h) = (a, h_world h)"

lemma host_io_vfs:
  "sys os (Open (Some path) fl m) h = (r, h1) \<Longrightarrow>
     io_open (host_io os mal snp) path fl m (h_world h) = (int_ret r, h_world h1)"
  "sys os (Access (Some path) m) h = (r, h1) \<Longrightarrow>
     io_access (host_io os mal snp) path m (h_world h) = (int_ret r, h_world h1)"
  "sys os (Unlink (Some path)) h = (r, h1) \<Longrightarrow>
     io_unlink (host_io os mal snp) path (h_world h) = ((int_ret r, Some (o_errno r)), h_world h1)"
  "sys os (Getcwd True n) h = (r, h1) \<Longrightarrow>
     io_getcwd (host_io os mal snp) n (h_world h) =
       ((o_ret r \<noteq> 0, if o_ret r \<noteq> 0 then Some (o_out r) else None), h_world h1)"
  by (auto simp: host_io_def dest: sys_run)

lemma host_io_sqlite [simp]:
  "sqlite3_malloc (host_io os mal snp) = mal" "sqlite3_snprintf (host_io os mal snp) = snp"
  by (simp_all add: host_io_def)

lemma open_agrees:
  "to_system1 (demoOpen_host os mal z p fl h) = demoOpen (host_io os mal snp) z p fl (h_world h)"
proof (cases z)
  case None
  then show ?thesis by (simp add: demoOpen_host_def demoOpen_def)
next
  case (Some name)
  obtain b w where b: "mal 8192 (h_world h) = (b, w)" by fastforce
  define g where "g = (if fl AND SQLITE_OPEN_MAIN_JOURNAL \<noteq> 0 then h\<lparr>h_world := w\<rparr> else h)"
  obtain r k where o: "sys os (Open (Some name) (open_flags_host fl) 0x180) g = (r, k)" by fastforce
  have eq: "open_flags_host fl = open_flags fl" by (simp add: open_flags_host_def open_flags_def)
  show ?thesis
    using Some b o host_io_vfs(1) [OF o, of mal snp]
    by (auto simp: demoOpen_host_def demoOpen_def g_def eq SQLITE_DEMOVFS_BUFFERSZ_def
        SQLITE_TEEVFS_BUFFERSZ_def Let_def)
qed

lemma access_agrees:
  "map_sum (\<lambda>e. e) to_system3 (demoAccess_host os z fl h) = demoAccess (host_io os mal snp) z fl (h_world h)"
  using host_io_vfs(2) [of os z _ h _ _ mal snp]
  by (auto simp: demoAccess_host_def demoAccess_def Let_def split: prod.splits)

lemma fullpath_agrees:
  "map_sum (\<lambda>e. e) to_system3 (demoFullPathname_host os snp z n out h) =
     demoFullPathname (host_io os mal snp) z n out (h_world h)"
proof -
  obtain r k where o: "sys os (Getcwd True (word_of_int (MAXPATHNAME + 1))) h = (r, k)" by fastforce
  have m: "MAXPATHNAME_host = MAXPATHNAME" by (simp add: MAXPATHNAME_host_def MAXPATHNAME_def)
  have bind: "map_sum (\<lambda>e. e) f (bind_outcome x k) = bind_outcome x (\<lambda>v. map_sum (\<lambda>e. e) f (k v))"
    for f :: "'c \<Rightarrow> 'd" and x :: "'e outcome" and k by (cases x) simp_all
  show ?thesis
    using o host_io_vfs(4) [OF o, of mal snp]
    by (auto simp: demoFullPathname_host_def demoFullPathname_def Let_def m bind print_into_host_def
        print_into_def intro!: arg_cong2 [where f = bind_outcome])
qed

text \<open>A call that fails sets \<open>errno\<close>.\<close>

definition sets_errno :: "'w os \<Rightarrow> os_call \<Rightarrow> bool" where
  "sets_errno os c \<longleftrightarrow> (\<forall>w. int_ret (fst (os c w)) \<noteq> 0 \<longrightarrow> o_errno (fst (os c w)) \<noteq> 0)"

lemma sys_errno:
  "sys os c h = (r, h') \<Longrightarrow> sets_errno os c \<Longrightarrow> int_ret r \<noteq> 0 \<Longrightarrow> h_errno h' = o_errno r"
  unfolding sets_errno_def sys_def
  by (cases "os c (h_world h)") (auto, metis fst_conv)

lemma delete_agrees:
  assumes "sets_errno os (Unlink (Some z))"
  shows "map_sum (\<lambda>e. e) to_system2 (demoDelete_host os snp z d h) =
    demoDelete (host_io os mal snp) z d (h_world h)"
proof -
  obtain r k where u: "sys os (Unlink (Some z)) h = (r, k)" by fastforce
  note e = sys_errno [OF u assms]
  have m: "MAXPATHNAME_host = MAXPATHNAME" by (simp add: MAXPATHNAME_host_def MAXPATHNAME_def)
  have dir: "map_sum (\<lambda>e. e) to_system2
      (case strrchr 47 zDir of None \<Rightarrow> Inr (SQLITE_OK, k)
       | Some zSlash \<Rightarrow>
           let (d, h) = sys os (Open (Some (take zSlash zDir)) O_RDONLY 0) k in
           if sint (int_ret d) < 0 then Inr (SQLITE_IOERR_DELETE, h)
           else let (r, h) = sys os (Fsync (int_ret d)) h; (_, h) = sys os (Close (int_ret d)) h in
                Inr (if int_ret r = 0 then SQLITE_OK else SQLITE_IOERR_DELETE, h)) =
      (case strrchr 47 zDir of None \<Rightarrow> Inr (SQLITE_OK, h_world k)
       | Some zSlash \<Rightarrow>
           let (dfd, s) = io_open (host_io os mal snp) (take zSlash zDir) O_RDONLY 0 (h_world k) in
           if sint dfd < 0 then Inr (SQLITE_IOERR_DELETE, s)
           else let (rc, s) = io_fsync (host_io os mal snp) dfd s; (_, s) = io_close (host_io os mal snp) dfd s in
                Inr (if rc = 0 then SQLITE_OK else SQLITE_IOERR_DELETE, s))" for zDir
  proof (cases "strrchr 47 zDir")
    case None
    then show ?thesis by simp
  next
    case (Some n)
    obtain q k1 where 1: "sys os (Open (Some (take n zDir)) O_RDONLY 0) k = (q, k1)" by fastforce
    obtain f k2 where 2: "sys os (Fsync (int_ret q)) k1 = (f, k2)" by fastforce
    obtain c k3 where 3: "sys os (Close (int_ret q)) k2 = (c, k3)" by fastforce
    show ?thesis
      using Some 1 2 3 host_io_vfs(1) [OF 1, of mal snp] host_io_sys(4) [OF 2, of mal snp]
        host_io_sys(5) [OF 3, of mal snp] by simp
  qed
  have bind: "map_sum (\<lambda>e. e) f (bind_outcome x k) = bind_outcome x (\<lambda>v. map_sum (\<lambda>e. e) f (k v))"
    for f :: "'c \<Rightarrow> 'd" and x :: "'e outcome" and k by (cases x) simp_all
  show ?thesis
    using u host_io_vfs(3) [OF u, of mal snp] e
    by (cases "int_ret r = 0") (simp_all add: demoDelete_host_def demoDelete_def m bind dir)
qed

section \<open>Properties\<close>

text \<open>C26. The methods of the host's VFS that open, delete, look up and name files return what those of the
  trusted application return with the same C library under them, given that a failed \<open>unlink\<close> sets
  \<open>errno\<close>.\<close>

theorem host_vfs_agrees:
  assumes "sets_errno os (Unlink (Some z))"
  shows "to_system1 (xOpen (sqlite3_demovfs_host fl os mal snp) (Some z) p flags h) =
      xOpen (sqlite3_demovfs fl' ce (host_io os mal snp)) (Some z) p flags (h_world h) \<and>
    map_sum (\<lambda>e. e) to_system2 (xDelete (sqlite3_demovfs_host fl os mal snp) z d h) =
      xDelete (sqlite3_demovfs fl' ce (host_io os mal snp)) z d (h_world h) \<and>
    map_sum (\<lambda>e. e) to_system3 (xAccess (sqlite3_demovfs_host fl os mal snp) z a h) =
      xAccess (sqlite3_demovfs fl' ce (host_io os mal snp)) z a (h_world h) \<and>
    map_sum (\<lambda>e. e) to_system3 (xFullPathname (sqlite3_demovfs_host fl os mal snp) z n out h) =
      xFullPathname (sqlite3_demovfs fl' ce (host_io os mal snp)) z n out (h_world h)"
  by (simp add: sqlite3_demovfs_host_def sqlite3_demovfs_def open_agrees access_agrees fullpath_agrees
      delete_agrees [OF assms])

end
