(* ===== verification/Hashmap.thy ===== *)
theory Hashmap
  imports Complex_Main Tee_Prelude
begin

text \<open>
  The hash map of the trusted application, \<open>hashmap.c\<close>, over a heap of integers, byte blocks and list
  nodes.  Keys are pointers to integers, and the code writes through them: what is meant as a
  comparison, \<open>*key = *(list->key)\<close>, is an assignment whose value is the condition.  Both the recursive
  list functions and the chains they run over live in the heap, so a run may not end; it is a value of
  type \<open>run\<close>, \<open>None\<close> standing for a run that goes on for ever.
\<close>

section \<open>Runs that may fault or go on for ever\<close>

type_synonym 'a run = "'a outcome option"

definition ret :: "'a \<Rightarrow> 'a run" where
  "ret x = Some (Inr x)"

definition run_bind :: "'a run \<Rightarrow> ('a \<Rightarrow> 'b run) \<Rightarrow> 'b run" where
  "run_bind m f = Option.bind m (\<lambda>r. case r of Inl e \<Rightarrow> Some (Inl e) | Inr x \<Rightarrow> f x)"

lemma run_bind_simps [simp]:
  "run_bind (ret x) f = f x" "run_bind (Some (Inr x)) f = f x" "run_bind (Some (Inl e)) f = Some (Inl e)"
  "run_bind None f = None"
  by (simp_all add: run_bind_def ret_def)

lemma ret_eq [simp]: "ret x = ret y \<longleftrightarrow> x = y" "ret x \<noteq> Some (Inl e)" "Some (Inl e) \<noteq> ret x" "ret x = Some (Inr y) \<longleftrightarrow> x = y"
  by (simp_all add: ret_def)

lemma run_bind_ret: "run_bind m f = ret y \<longleftrightarrow> (\<exists>x. m = ret x \<and> f x = ret y)"
proof (cases m)
  case (Some r)
  then show ?thesis by (cases r) (auto simp: run_bind_def ret_def)
qed (simp add: run_bind_def ret_def)

lemma if_fault_ret [simp]: "(if b then Some (Inl e) else m) = ret y \<longleftrightarrow> \<not> b \<and> m = ret y"
  by simp

lemma run_bind_mono [partial_function_mono]:
  assumes "mono_option B" and "\<And>y. mono_option (\<lambda>f. C y f)"
  shows "mono_option (\<lambda>f. run_bind (B f) (\<lambda>y. C y f))"
proof -
  have "mono_option (\<lambda>f. case r of Inl e \<Rightarrow> Some (Inl e) | Inr x \<Rightarrow> C x f)" for r
    using assms(2) by (cases r) (auto intro: monotoneI option.leq_refl)
  with assms(1) show ?thesis unfolding run_bind_def by (intro bind_mono)
qed

section \<open>The heap\<close>

text \<open>
  Addresses are numbers, 0 is the null pointer.  \<open>struct node\<close> has pointers to its key, its value and
  the next node.  The addresses in \<open>locals\<close> belong to variables of functions: they were not obtained
  from \<open>TEE_Malloc\<close> and may not be freed.
\<close>

record hitem =
  it_key :: nat
  it_value :: nat
  it_next :: nat

record heap =
  ints :: "nat \<Rightarrow> s32 option"
  blobs :: "nat \<Rightarrow> byte list option"
  nodes :: "nat \<Rightarrow> hitem option"
  locals :: "nat set"
  fresh :: nat

definition lookup :: "(nat \<Rightarrow> 'a option) \<Rightarrow> nat \<Rightarrow> 'a run" where
  "lookup m p =
     (if p = 0 then Some (Inl NullDeref)
      else case m p of None \<Rightarrow> Some (Inl UseAfterFree) | Some x \<Rightarrow> ret x)"

definition put_int :: "nat \<Rightarrow> s32 \<Rightarrow> heap \<Rightarrow> heap run" where
  "put_int p v h = run_bind (lookup (ints h) p) (\<lambda>_. ret (h\<lparr>ints := (ints h)(p \<mapsto> v)\<rparr>))"

definition set_next :: "nat \<Rightarrow> nat \<Rightarrow> heap \<Rightarrow> heap run" where
  "set_next p q h = run_bind (lookup (nodes h) p) (\<lambda>n. ret (h\<lparr>nodes := (nodes h)(p \<mapsto> n\<lparr>it_next := q\<rparr>)\<rparr>))"

text \<open>\<open>TEE_Free\<close> of a pointer to each kind of object.\<close>

definition may_free :: "(nat \<Rightarrow> 'a option) \<Rightarrow> nat \<Rightarrow> heap \<Rightarrow> heap \<Rightarrow> heap run" where
  "may_free m p h h' =
     (if p = 0 then ret h
      else if p \<in> locals h then Some (Inl InvalidFree)
      else if m p = None then Some (Inl UseAfterFree)
      else ret h')"

definition free_key :: "nat \<Rightarrow> heap \<Rightarrow> heap run" where
  "free_key p h = may_free (ints h) p h (h\<lparr>ints := (ints h)(p := None)\<rparr>)"

definition free_blob :: "nat \<Rightarrow> heap \<Rightarrow> heap run" where
  "free_blob p h = may_free (blobs h) p h (h\<lparr>blobs := (blobs h)(p := None)\<rparr>)"

definition free_node :: "nat \<Rightarrow> heap \<Rightarrow> heap run" where
  "free_node p h = may_free (nodes h) p h (h\<lparr>nodes := (nodes h)(p := None)\<rparr>)"

section \<open>Sizes and the hash\<close>

definition sizes :: "u32 list" where
  "sizes = [5, 13, 23, 47, 97, 193, 383, 769, 1531, 3067, 6143, 12289, 24571, 49157, 98299, 196613,
            393241, 786547, 1573111, 1668053, 1805579, 1868527, 1999993]"

text \<open>The step and the size are not used.\<close>

definition hash :: "nat \<Rightarrow> s32 \<Rightarrow> u32 \<Rightarrow> heap \<Rightarrow> u32 run" where
  "hash key hash_step sz h = lookup (ints h) key"

definition next_size :: "u32 \<Rightarrow> u32" where
  "next_size sz = (case find (\<lambda>x. sz < x) sizes of Some x \<Rightarrow> x | None \<Rightarrow> sz * 2)"

section \<open>The functions on a list of items\<close>

text \<open>
  \<open>av n h\<close> says whether \<open>TEE_Malloc\<close> of \<open>n\<close> bytes succeeds.  The result of \<open>set_item\<close>: the list, the
  counter, the heap.  The cell allocated for the key is overwritten by the caller's pointer and lost.
\<close>

partial_function (option) set_item ::
    "(nat \<Rightarrow> heap \<Rightarrow> bool) \<Rightarrow> nat \<Rightarrow> nat \<Rightarrow> nat \<Rightarrow> s32 \<Rightarrow> heap \<Rightarrow> (nat \<times> s32 \<times> heap) run" where
  "set_item av list key val count h =
     (if key = 0 then ret (0, count, h)
      else if list = 0 then
        (if \<not> av 24 h then ret (0, count, h)
         else
           let temp = fresh h; h = h\<lparr>fresh := Suc temp, nodes := (nodes h)(temp \<mapsto> \<lparr>it_key = 0, it_value = 0, it_next = 0\<rparr>)\<rparr> in
           if \<not> av 4 h then ret (0, count, h)
           else
             ret (temp, count + 1,
                  h\<lparr>ints := (ints h)(fresh h \<mapsto> 0), fresh := Suc (fresh h),
                    nodes := (nodes h)(temp \<mapsto> \<lparr>it_key = key, it_value = val, it_next = 0\<rparr>)\<rparr>))
      else
        run_bind (lookup (nodes h) list) (\<lambda>n.
        run_bind (lookup (ints h) (it_key n)) (\<lambda>k.
        run_bind (put_int key k h) (\<lambda>h.
        if k \<noteq> 0 then
          (if it_value n \<noteq> val then
             run_bind (free_blob (it_value n) h) (\<lambda>h.
             ret (list, count, h\<lparr>nodes := (nodes h)(list \<mapsto> n\<lparr>it_value := val\<rparr>)\<rparr>))
           else ret (list, count, h))
        else
          run_bind (set_item av (it_next n) key val count h) (\<lambda>(q, count, h).
          run_bind (set_next list q h) (\<lambda>h. ret (list, count, h)))))))"

partial_function (option) get_item :: "nat \<Rightarrow> nat \<Rightarrow> heap \<Rightarrow> (nat \<times> heap) run" where
  "get_item list key h =
     (if list = 0 then ret (0, h)
      else
        run_bind (lookup (nodes h) list) (\<lambda>n.
        run_bind (lookup (ints h) (it_key n)) (\<lambda>k.
        run_bind (put_int key k h) (\<lambda>h.
        if k \<noteq> 0 then ret (list, h) else get_item (it_next n) key h))))"

partial_function (option) remove_item :: "nat \<Rightarrow> nat \<Rightarrow> s32 \<Rightarrow> heap \<Rightarrow> (nat \<times> s32 \<times> heap) run" where
  "remove_item list key count h =
     (if list = 0 then ret (0, count, h)
      else
        run_bind (lookup (nodes h) list) (\<lambda>n.
        run_bind (lookup (ints h) (it_key n)) (\<lambda>k.
        run_bind (put_int key k h) (\<lambda>h.
        if k \<noteq> 0 then
          run_bind (free_key (it_key n) h) (\<lambda>h.
          run_bind (free_blob (it_value n) h) (\<lambda>h.
          run_bind (free_node list h) (\<lambda>h.
          ret (it_next n, count - 1, h))))
        else
          run_bind (remove_item (it_next n) key count h) (\<lambda>(q, count, h).
          run_bind (set_next list q h) (\<lambda>h. ret (list, count, h)))))))"

text \<open>\<open>fv\<close> is the function \<open>free_value\<close>, \<open>None\<close> for a null pointer.\<close>

partial_function (option) remove_items ::
    "nat \<Rightarrow> (nat \<Rightarrow> heap \<Rightarrow> heap run) option \<Rightarrow> s32 \<Rightarrow> heap \<Rightarrow> (nat \<times> s32 \<times> heap) run" where
  "remove_items list fv count h =
     (if list = 0 then ret (0, count, h)
      else
        run_bind (lookup (nodes h) list) (\<lambda>n.
        run_bind
          (if it_next n = 0 then ret (count, h)
           else run_bind (remove_items (it_next n) fv count h) (\<lambda>(q, count, h).
                run_bind (set_next list q h) (\<lambda>h. ret (count, h)))) (\<lambda>(count, h).
        run_bind (free_key (it_key n) h) (\<lambda>h.
        run_bind (case fv of None \<Rightarrow> free_blob (it_value n) h | Some f \<Rightarrow> f (it_value n) h) (\<lambda>h.
        run_bind (free_node list h) (\<lambda>h.
        ret (0, count - 1, h)))))))"

partial_function (option) key_exists :: "nat \<Rightarrow> nat \<Rightarrow> heap \<Rightarrow> (bool \<times> heap) run" where
  "key_exists list key h =
     (if list = 0 then ret (False, h)
      else
        run_bind (lookup (nodes h) list) (\<lambda>n.
        run_bind (lookup (ints h) (it_key n)) (\<lambda>k.
        run_bind (put_int key k h) (\<lambda>h.
        if k \<noteq> 0 then ret (True, h) else key_exists (it_next n) key h))))"

text \<open>The key of \<open>match\<close> is overwritten as well.\<close>

partial_function (option) update_item_list :: "nat \<Rightarrow> nat \<Rightarrow> heap \<Rightarrow> (nat \<times> heap) run" where
  "update_item_list list match h =
     run_bind (set_next match 0 h) (\<lambda>h.
     if list = 0 then ret (match, h)
     else
       run_bind (lookup (nodes h) list) (\<lambda>n.
       run_bind (lookup (ints h) (it_key n)) (\<lambda>k.
       run_bind (lookup (nodes h) match) (\<lambda>m.
       run_bind (put_int (it_key m) k h) (\<lambda>h.
       if k \<noteq> 0 then ret (list, h)
       else if it_next n = 0 then run_bind (set_next list match h) (\<lambda>h. ret (list, h))
       else
         run_bind (update_item_list (it_next n) match h) (\<lambda>(q, h).
         run_bind (set_next list q h) (\<lambda>h. ret (list, h))))))))"

section \<open>The map\<close>

text \<open>
  \<open>hm_items\<close> is the array of list heads, \<open>None\<close> for a null pointer; an element \<open>None\<close> was never
  assigned.
\<close>

record hashmap =
  hm_items :: "nat option list option"
  hm_count :: u32
  hm_size :: u32
  hm_load :: rat
  hm_step :: s32

definition bucket :: "hashmap \<Rightarrow> u32 \<Rightarrow> nat run" where
  "bucket m i =
     (case hm_items m of
        None \<Rightarrow> Some (Inl NullDeref)
      | Some xs \<Rightarrow>
          if length xs \<le> unat i then Some (Inl OutOfBounds)
          else case xs ! unat i of None \<Rightarrow> Some (Inl UninitRead) | Some p \<Rightarrow> ret p)"

definition set_bucket :: "hashmap \<Rightarrow> u32 \<Rightarrow> nat \<Rightarrow> hashmap run" where
  "set_bucket m i p =
     (case hm_items m of
        None \<Rightarrow> Some (Inl NullDeref)
      | Some xs \<Rightarrow>
          if length xs \<le> unat i then Some (Inl OutOfBounds)
          else ret (m\<lparr>hm_items := Some (xs[unat i := Some p])\<rparr>))"

text \<open>The two allocations, then the loop over an \<open>int\<close> that clears the array.\<close>

definition hm_create :: "(nat \<Rightarrow> heap \<Rightarrow> bool) \<Rightarrow> u32 \<Rightarrow> rat \<Rightarrow> s32 \<Rightarrow> heap \<Rightarrow> hashmap option run" where
  "hm_create av sz load_factor hash_step h =
     (let new_size = next_size sz in
      if \<not> av 32 h then ret None
      else if \<not> av (8 * unat new_size) h then ret None
      else if 2 ^ 31 \<le> unat new_size then Some (Inl SignedOverflow)
      else ret (Some \<lparr>hm_items = Some (replicate (unat new_size) (Some 0)), hm_count = 0,
                      hm_size = new_size, hm_load = load_factor, hm_step = hash_step\<rparr>))"

text \<open>The \<open>while\<close> loop of \<open>hm_rehash\<close>, and the \<open>for\<close> loop around it over the given indexes.\<close>

partial_function (option) rehash_chain :: "u32 \<Rightarrow> nat \<Rightarrow> hashmap \<Rightarrow> heap \<Rightarrow> (hashmap \<times> heap) run" where
  "rehash_chain new_size temp m h =
     (if temp = 0 then ret (m, h)
      else
        run_bind (lookup (nodes h) temp) (\<lambda>n.
        run_bind (hash (it_key n) (hm_step m) new_size h) (\<lambda>index.
        run_bind (bucket m index) (\<lambda>b.
        run_bind (update_item_list b temp h) (\<lambda>(p, h).
        run_bind (set_bucket m index p) (\<lambda>m.
        rehash_chain new_size (it_next n) m h))))))"

primrec rehash_buckets :: "u32 \<Rightarrow> nat list \<Rightarrow> hashmap \<Rightarrow> heap \<Rightarrow> (hashmap \<times> heap) run" where
  "rehash_buckets new_size [] m h = ret (m, h)"
| "rehash_buckets new_size (i # ks) m h =
     run_bind (bucket m (word_of_nat i)) (\<lambda>temp.
     run_bind (set_bucket m (word_of_nat i) 0) (\<lambda>m.
     run_bind (rehash_chain new_size temp m h) (\<lambda>(m, h).
     rehash_buckets new_size ks m h)))"

text \<open>
  \<open>TEE_Realloc (map->items, sizeof (item) * new_size)\<close> makes room for three pointers where one is
  needed; those behind the first \<open>new_size\<close> stay unassigned.
\<close>

definition grow :: "nat option list \<Rightarrow> u32 \<Rightarrow> u32 \<Rightarrow> nat option list" where
  "grow xs old new =
     (let ys = take (3 * unat new) xs @ replicate (3 * unat new - length xs) None in
      take (unat old) ys @ replicate (unat new - unat old) (Some 0) @ drop (unat new) ys)"

definition hm_rehash :: "(nat \<Rightarrow> heap \<Rightarrow> bool) \<Rightarrow> hashmap \<Rightarrow> u32 \<Rightarrow> heap \<Rightarrow> (hashmap \<times> heap) run" where
  "hm_rehash av m new_size h =
     (if new_size < hm_size m then ret (m, h)
      else if \<not> av (24 * unat new_size) h then ret (m\<lparr>hm_items := None\<rparr>, h)
      else
        let xs = (case hm_items m of None \<Rightarrow> [] | Some xs \<Rightarrow> xs);
            m = m\<lparr>hm_items := Some (grow xs (hm_size m) new_size)\<rparr> in
        run_bind (rehash_buckets new_size [0..<unat (hm_size m)] m h) (\<lambda>(m, h).
        ret (m\<lparr>hm_size := new_size\<rparr>, h)))"

primrec clear_buckets ::
    "(nat \<Rightarrow> heap \<Rightarrow> heap run) option \<Rightarrow> nat list \<Rightarrow> s32 \<Rightarrow> hashmap \<Rightarrow> heap \<Rightarrow> (s32 \<times> hashmap \<times> heap) run" where
  "clear_buckets fv [] counter m h = ret (counter, m, h)"
| "clear_buckets fv (i # ks) counter m h =
     run_bind (bucket m (word_of_nat i)) (\<lambda>b.
     run_bind (remove_items b fv counter h) (\<lambda>(p, counter, h).
     run_bind (set_bucket m (word_of_nat i) p) (\<lambda>m.
     clear_buckets fv ks counter m h)))"

definition hm_clear :: "(nat \<Rightarrow> heap \<Rightarrow> heap run) option \<Rightarrow> hashmap \<Rightarrow> heap \<Rightarrow> (int \<times> hashmap \<times> heap) run" where
  "hm_clear fv m h =
     run_bind (clear_buckets fv [0..<unat (hm_size m)] 0 m h) (\<lambda>(counter, m, h).
     ret (1, m\<lparr>hm_count := hm_count m + counter\<rparr>, h))"

text \<open>The map itself is gone afterwards.\<close>

definition hm_delete :: "(nat \<Rightarrow> heap \<Rightarrow> heap run) option \<Rightarrow> hashmap \<Rightarrow> heap \<Rightarrow> (int \<times> heap) run" where
  "hm_delete fv m h = run_bind (hm_clear fv m h) (\<lambda>(_, _, h). ret (1, h))"

definition hm_get :: "hashmap \<Rightarrow> nat \<Rightarrow> heap \<Rightarrow> (nat \<times> heap) run" where
  "hm_get m key h =
     (if key = 0 then ret (0, h)
      else
        run_bind (hash key (hm_step m) (hm_size m) h) (\<lambda>index.
        run_bind (bucket m index) (\<lambda>b.
        run_bind (get_item b key h) (\<lambda>(temp, h).
        if temp = 0 then ret (0, h)
        else run_bind (lookup (nodes h) temp) (\<lambda>n. ret (it_value n, h))))))"

text \<open>\<open>fl\<close> rounds to a \<open>float\<close>; the result is \<open>SUCCESS\<close> (1) or \<open>FAIL\<close> (0).\<close>

definition hm_set ::
    "(rat \<Rightarrow> rat) \<Rightarrow> (nat \<Rightarrow> heap \<Rightarrow> bool) \<Rightarrow> hashmap \<Rightarrow> nat \<Rightarrow> nat \<Rightarrow> heap \<Rightarrow> (int \<times> hashmap \<times> heap) run" where
  "hm_set fl av m key val h =
     (if key = 0 then ret (0, m, h)
      else
        run_bind (hash key (hm_step m) (hm_size m) h) (\<lambda>index.
        run_bind (bucket m index) (\<lambda>b.
        run_bind (set_item av b key val 0 h) (\<lambda>(p, counter, h).
        run_bind (set_bucket m index p) (\<lambda>m.
        let m = m\<lparr>hm_count := hm_count m + counter\<rparr> in
        if hm_load m < fl (fl (of_nat (unat (hm_count m))) / fl (of_nat (unat (hm_size m)))) then
          run_bind (hm_rehash av m (next_size (hm_size m)) h) (\<lambda>(m, h). ret (1, m, h))
        else ret (1, m, h))))))"

definition hm_unset :: "hashmap \<Rightarrow> nat \<Rightarrow> heap \<Rightarrow> (int \<times> hashmap \<times> heap) run" where
  "hm_unset m key h =
     run_bind (hash key (hm_step m) (hm_size m) h) (\<lambda>index.
     run_bind (bucket m index) (\<lambda>b.
     run_bind (remove_item b key 0 h) (\<lambda>(p, counter, h).
     run_bind (set_bucket m index p) (\<lambda>m.
     ret (1, m\<lparr>hm_count := hm_count m + counter\<rparr>, h)))))"

definition hm_isset :: "hashmap \<Rightarrow> nat \<Rightarrow> heap \<Rightarrow> (bool \<times> heap) run" where
  "hm_isset m key h =
     run_bind (hash key (hm_step m) (hm_size m) h) (\<lambda>index.
     run_bind (bucket m index) (\<lambda>b.
     key_exists b key h))"

text \<open>
  \<open>hm_print\<close> and \<open>hm_dump\<close> walk the lists; \<open>ts\<close> is the function \<open>to_string\<close>, \<open>None\<close> for a null pointer,
  and \<open>wr\<close> is \<open>utee_vfs_write (output, \<dots>)\<close>.
\<close>

definition int_bytes :: "s32 \<Rightarrow> byte list" where
  "int_bytes x = map (\<lambda>i. ucast (drop_bit (8 * i) x)) [0..<4]"

partial_function (option) print_chain ::
    "(nat \<Rightarrow> nat \<Rightarrow> 's \<Rightarrow> 's) \<Rightarrow> nat \<Rightarrow> heap \<Rightarrow> 's \<Rightarrow> 's run" where
  "print_chain ts temp h s =
     (if temp = 0 then ret s
      else run_bind (lookup (nodes h) temp) (\<lambda>n. print_chain ts (it_next n) h (ts (it_key n) (it_value n) s)))"

primrec print_buckets ::
    "(nat \<Rightarrow> nat \<Rightarrow> 's \<Rightarrow> 's) \<Rightarrow> nat list \<Rightarrow> hashmap \<Rightarrow> heap \<Rightarrow> 's \<Rightarrow> 's run" where
  "print_buckets ts [] m h s = ret s"
| "print_buckets ts (i # ks) m h s =
     run_bind (bucket m (word_of_nat i)) (\<lambda>b.
     run_bind (print_chain ts b h s) (\<lambda>s. print_buckets ts ks m h s))"

definition hm_print :: "(nat \<Rightarrow> nat \<Rightarrow> 's \<Rightarrow> 's) option \<Rightarrow> hashmap \<Rightarrow> heap \<Rightarrow> 's \<Rightarrow> 's run" where
  "hm_print ts m h s =
     (case ts of None \<Rightarrow> ret s | Some f \<Rightarrow> print_buckets f [0..<unat (hm_size m)] m h s)"

partial_function (option) dump_chain ::
    "(byte list \<Rightarrow> 's \<Rightarrow> 's) \<Rightarrow> (nat \<Rightarrow> nat \<Rightarrow> 's \<Rightarrow> 's) option \<Rightarrow> nat \<Rightarrow> heap \<Rightarrow> 's \<Rightarrow> 's run" where
  "dump_chain wr ts temp h s =
     (if temp = 0 then ret s
      else
        run_bind (lookup (nodes h) temp) (\<lambda>n.
        run_bind (lookup (ints h) (it_key n)) (\<lambda>k.
        run_bind (lookup (blobs h) (it_value n)) (\<lambda>v.
        if length v < 16 then Some (Inl OutOfBounds)
        else
          let s = wr (take 16 v) (wr (int_bytes k) s);
              s = (case ts of None \<Rightarrow> s | Some f \<Rightarrow> f (it_key n) (it_value n) s) in
          dump_chain wr ts (it_next n) h s))))"

primrec dump_buckets ::
    "(byte list \<Rightarrow> 's \<Rightarrow> 's) \<Rightarrow> (nat \<Rightarrow> nat \<Rightarrow> 's \<Rightarrow> 's) option \<Rightarrow> nat list \<Rightarrow> hashmap \<Rightarrow> heap \<Rightarrow> 's \<Rightarrow> 's run" where
  "dump_buckets wr ts [] m h s = ret s"
| "dump_buckets wr ts (i # ks) m h s =
     run_bind (bucket m (word_of_nat i)) (\<lambda>b.
     run_bind (dump_chain wr ts b h s) (\<lambda>s. dump_buckets wr ts ks m h s))"

definition hm_dump ::
    "(byte list \<Rightarrow> 's \<Rightarrow> 's) \<Rightarrow> (nat \<Rightarrow> nat \<Rightarrow> 's \<Rightarrow> 's) option \<Rightarrow> hashmap \<Rightarrow> heap \<Rightarrow> 's \<Rightarrow> 's run" where
  "hm_dump wr ts m h s =
     (if hm_count m = 0 then ret s else dump_buckets wr ts [0..<unat (hm_size m)] m h s)"

end
