(* ===== verification/Hashmap_Props.thy ===== *)
theory Hashmap_Props
  imports Hashmap
begin

text \<open>
  What the hash map does.  On a map that is used within its limits, every key a positive number below
  the size of the array, held in a cell of its own that outlives the entry, it is a finite map: the
  invariant \<open>hm_inv\<close> and the view \<open>val_at\<close> refine it, and the locale \<open>tag_map\<close> is the interface its
  clients see.  Outside of these limits the assignment in the place of a comparison and the missing
  modulus show.
\<close>

section \<open>Chains of items\<close>

fun links :: "heap \<Rightarrow> nat \<Rightarrow> nat list \<Rightarrow> bool" where
  "links h p [] \<longleftrightarrow> p = 0"
| "links h p (x # xs) \<longleftrightarrow> p = x \<and> x \<noteq> 0 \<and>
     (\<exists>n. nodes h x = Some n \<and> it_key n \<noteq> 0 \<and> ints h (it_key n) \<noteq> None \<and> links h (it_next n) xs)"

definition key_cells :: "heap \<Rightarrow> nat list \<Rightarrow> nat set" where
  "key_cells h xs = {it_key n | n x. x \<in> set xs \<and> nodes h x = Some n}"

lemma key_cells_simps [simp]:
  "key_cells h [] = {}"
  "nodes h x = Some n \<Longrightarrow> key_cells h (x # xs) = insert (it_key n) (key_cells h xs)"
  "key_cells (h\<lparr>ints := f\<rparr>) xs = key_cells h xs"
  by (auto simp: key_cells_def)

definition key_of :: "heap \<Rightarrow> nat \<Rightarrow> s32" where
  "key_of h x = (case nodes h x of None \<Rightarrow> 0 | Some n \<Rightarrow> (case ints h (it_key n) of None \<Rightarrow> 0 | Some k \<Rightarrow> k))"

lemma links_put [simp]:
  "links h p xs \<Longrightarrow> links (h\<lparr>ints := (ints h)(k \<mapsto> v)\<rparr>) p xs"
  by (induction h p xs rule: links.induct) auto

lemma lookup_Some [simp]: "p \<noteq> 0 \<Longrightarrow> m p = Some x \<Longrightarrow> lookup m p = ret x"
  by (simp add: lookup_def)

lemma put_int_ok [simp]: "p \<noteq> 0 \<Longrightarrow> ints h p = Some x \<Longrightarrow> put_int p v h = ret (h\<lparr>ints := (ints h)(p \<mapsto> v)\<rparr>)"
  by (simp add: put_int_def)

text \<open>On a chain that ends, \<open>get_item\<close> returns, with the first item whose key is not 0.\<close>

lemma get_item_first:
  assumes "links h p xs" and "key \<noteq> 0" and "ints h key \<noteq> None" and "key \<notin> key_cells h xs"
  shows "\<exists>h'. get_item p key h = ret (case find (\<lambda>x. key_of h x \<noteq> 0) xs of None \<Rightarrow> 0 | Some x \<Rightarrow> x, h')"
  using assms
proof (induction xs arbitrary: p h)
  case Nil
  then show ?case by (simp add: get_item.simps)
next
  case (Cons x xs)
  then obtain n k c where n: "p = x" "x \<noteq> 0" "nodes h x = Some n" "it_key n \<noteq> 0"
    "ints h (it_key n) = Some k" "ints h key = Some c" "links h (it_next n) xs"
    by auto
  define h1 where "h1 = h\<lparr>ints := (ints h)(key \<mapsto> k)\<rparr>"
  have other: "key_of h1 y = key_of h y" if "y \<in> set xs" for y
  proof (cases "nodes h y")
    case None
    then show ?thesis by (simp add: key_of_def h1_def)
  next
    case (Some m)
    with that have "it_key m \<in> key_cells h xs" by (auto simp: key_cells_def)
    with Cons.prems(4) n(3) have "it_key m \<noteq> key" by auto
    with Some show ?thesis by (simp add: key_of_def h1_def)
  qed
  have eq: "find (\<lambda>x. key_of h1 x \<noteq> 0) xs = find (\<lambda>x. key_of h x \<noteq> 0) xs"
    by (rule find_cong [OF refl]) (simp add: other)
  have ih: "\<exists>h'. get_item (it_next n) key h1 = ret (case find (\<lambda>x. key_of h1 x \<noteq> 0) xs of None \<Rightarrow> 0 | Some x \<Rightarrow> x, h')"
    by (rule Cons.IH) (use Cons.prems n in \<open>auto simp: h1_def\<close>)
  have step: "get_item p key h = (if k \<noteq> 0 then ret (x, h1) else get_item (it_next n) key h1)"
    using n Cons.prems(2) by (subst get_item.simps) (simp add: h1_def)
  have "key_of h x = k" using n by (simp add: key_of_def)
  then show ?case using step ih unfolding eq by (cases "k = 0") auto
qed

section \<open>The invariant\<close>

definition heap_ok :: "heap \<Rightarrow> bool" where
  "heap_ok h \<longleftrightarrow> 0 < fresh h \<and> dom (nodes h) \<subseteq> {0<..<fresh h} \<and> dom (ints h) \<subseteq> {0<..<fresh h} \<and>
     dom (blobs h) \<subseteq> {0<..<fresh h} \<and> locals h \<subseteq> {0<..<fresh h}"

definition bucket_ok :: "heap \<Rightarrow> nat \<Rightarrow> nat \<Rightarrow> bool" where
  "bucket_ok h i p \<longleftrightarrow> p = 0 \<or> 0 < i \<and> p \<notin> locals h \<and>
     (\<exists>n. nodes h p = Some n \<and> it_next n = 0 \<and> it_key n \<noteq> 0 \<and> it_key n \<notin> locals h \<and>
        ints h (it_key n) = Some (word_of_nat i) \<and> it_value n \<noteq> 0 \<and> it_value n \<notin> locals h \<and>
        blobs h (it_value n) \<noteq> None)"

definition head :: "hashmap \<Rightarrow> nat \<Rightarrow> nat" where
  "head m i = (case hm_items m of None \<Rightarrow> 0 | Some xs \<Rightarrow> (case xs ! i of None \<Rightarrow> 0 | Some p \<Rightarrow> p))"

definition val_at :: "hashmap \<Rightarrow> heap \<Rightarrow> nat \<Rightarrow> nat option" where
  "val_at m h i = (if i < unat (hm_size m) then map_option it_value (nodes h (head m i)) else None)"

definition hm_inv :: "hashmap \<Rightarrow> heap \<Rightarrow> bool" where
  "hm_inv m h \<longleftrightarrow> heap_ok h \<and>
     (\<exists>xs. hm_items m = Some xs \<and> unat (hm_size m) \<le> length xs \<and>
        (\<forall>i < unat (hm_size m). xs ! i \<noteq> None)) \<and>
     (\<forall>i < unat (hm_size m). bucket_ok h i (head m i)) \<and>
     (\<forall>i j. i \<noteq> j \<longrightarrow> val_at m h i = None \<or> val_at m h i \<noteq> val_at m h j)"

lemma nodes_null: "heap_ok h \<Longrightarrow> nodes h 0 = None"
  by (force simp: heap_ok_def)

lemma bucket_head:
  assumes "hm_inv m h" and "i < unat (hm_size m)"
  shows "bucket m (word_of_nat i) = ret (head m i)" and "bucket_ok h i (head m i)"
    and "set_bucket m (word_of_nat i) p = ret (m\<lparr>hm_items := Some ((the (hm_items m))[i := Some p])\<rparr>)"
proof -
  obtain xs where xs: "hm_items m = Some xs" "unat (hm_size m) \<le> length xs" "xs ! i \<noteq> None"
    using assms by (auto simp: hm_inv_def)
  have "i < 2 ^ 32" using assms(2) unsigned_less [of "hm_size m", where 'a = nat] by simp
  then have u: "unat (word_of_nat i :: u32) = i" by (simp add: unsigned_of_nat take_bit_nat_eq_self)
  show "bucket m (word_of_nat i) = ret (head m i)"
    using xs u assms(2) by (auto simp: bucket_def head_def)
  show "set_bucket m (word_of_nat i) p = ret (m\<lparr>hm_items := Some ((the (hm_items m))[i := Some p])\<rparr>)"
    using xs u assms(2) by (simp add: set_bucket_def)
  show "bucket_ok h i (head m i)" using assms by (simp add: hm_inv_def)
qed

text \<open>Two entries do not share their node or the cell of their key.\<close>

lemma bucket_ok_key:
  assumes "bucket_ok h i p" and "p \<noteq> 0" and "i < 2 ^ 32"
  obtains n where "nodes h p = Some n" "it_next n = 0" "it_key n \<noteq> 0" "it_key n \<notin> locals h"
    "ints h (it_key n) = Some (word_of_nat i)" "unat (word_of_nat i :: s32) = i" "0 < i"
    "it_value n \<noteq> 0" "it_value n \<notin> locals h" "blobs h (it_value n) \<noteq> None" "p \<notin> locals h"
  using assms by (auto simp: bucket_ok_def unsigned_of_nat take_bit_nat_eq_self)

lemma size_bound: "i < unat (hm_size m) \<Longrightarrow> i < 2 ^ 32"
  using unsigned_less [of "hm_size m", where 'a = nat] by simp

lemma bucket_of_key:
  assumes "hm_inv m h" and "unat w < unat (hm_size m)"
  shows "bucket m w = ret (head m (unat w))"
  using bucket_head(1) [OF assms] by simp

section \<open>Lookup\<close>

lemma get_item_single:
  assumes "heap_ok h" and "bucket_ok h i p" and "i < 2 ^ 32" and "key \<noteq> 0" and "ints h key = Some (word_of_nat i)"
  shows "get_item p key h = ret (p, h)"
proof (cases "p = 0")
  case True
  then show ?thesis by (simp add: get_item.simps)
next
  case False
  from bucket_ok_key [OF assms(2) False assms(3)] obtain n where
    n: "nodes h p = Some n" "it_next n = 0" "it_key n \<noteq> 0" "ints h (it_key n) = Some (word_of_nat i)"
      "unat (word_of_nat i :: s32) = i" "0 < i" by metis
  have "(word_of_nat i :: s32) \<noteq> 0" using n(5,6) by (metis unat_0 less_irrefl)
  moreover have "h\<lparr>ints := (ints h)(key \<mapsto> word_of_nat i)\<rparr> = h" using assms(5) by (simp add: fun_upd_idem)
  ultimately show ?thesis
    using False n assms(4,5) by (subst get_item.simps) simp
qed

lemma hm_get_spec:
  assumes "hm_inv m h" and "key \<noteq> 0" and "ints h key = Some w" and "unat w < unat (hm_size m)"
  shows "hm_get m key h = ret (case val_at m h (unat w) of None \<Rightarrow> 0 | Some v \<Rightarrow> v, h)"
proof -
  have ok: "heap_ok h" using assms(1) by (simp add: hm_inv_def)
  have b: "bucket_ok h (unat w) (head m (unat w))" using bucket_head(2) [OF assms(1,4)] .
  have g: "get_item (head m (unat w)) key h = ret (head m (unat w), h)"
    by (rule get_item_single [OF ok b size_bound [OF assms(4)] assms(2)]) (simp add: assms(3))
  show ?thesis
  proof (cases "head m (unat w) = 0")
    case True
    then have "val_at m h (unat w) = None" using nodes_null [OF ok] by (simp add: val_at_def)
    with True g show ?thesis
      using assms by (simp add: hm_get_def hash_def bucket_of_key)
  next
    case False
    from bucket_ok_key [OF b False size_bound [OF assms(4)]] obtain n where "nodes h (head m (unat w)) = Some n"
      by metis
    with False g show ?thesis
      using assms by (simp add: hm_get_def hash_def bucket_of_key val_at_def)
  qed
qed

section \<open>Growing\<close>

lemma rehash_buckets_id:
  assumes "hm_inv m h" and "set ks \<subseteq> {0..<unat (hm_size m)}"
  shows "rehash_buckets new_size ks m h = ret (m, h)"
  using assms(2)
proof (induction ks)
  case Nil
  then show ?case by simp
next
  case (Cons i ks)
  then have i: "i < unat (hm_size m)" by simp
  note b = bucket_head [OF assms(1) i]
  obtain xs where xs: "hm_items m = Some xs" "i < length xs" "xs ! i = Some (head m i)"
    using assms(1) i by (fastforce simp: hm_inv_def head_def)
  have "(xs[i := Some 0])[i := Some (head m i)] = xs"
    using xs(3) by (metis list_update_id list_update_overwrite)
  then have same_map: "m\<lparr>hm_items := Some ((xs[i := Some 0])[i := Some (head m i)])\<rparr> = m"
    by (simp add: xs(1) [symmetric])
  have "rehash_chain new_size (head m i) (m\<lparr>hm_items := Some (xs[i := Some 0])\<rparr>) h = ret (m, h)"
  proof (cases "head m i = 0")
    case True
    then have "xs[i := Some 0] = xs" using xs(3) by (metis list_update_id)
    then show ?thesis using xs(1) True by (subst rehash_chain.simps) (cases m; simp)
  next
    case False
    from bucket_ok_key [OF b(2) False size_bound [OF i]] obtain n where
      n: "nodes h (head m i) = Some n" "it_next n = 0" "it_key n \<noteq> 0"
        "ints h (it_key n) = Some (word_of_nat i)" "unat (word_of_nat i :: s32) = i" by metis
    have same: "h\<lparr>nodes := (nodes h)(head m i \<mapsto> n\<lparr>it_next := 0\<rparr>)\<rparr> = h"
      using n(1,2) by (cases n) (simp add: fun_upd_idem)
    have "update_item_list 0 (head m i) h = ret (head m i, h)"
      using False n(1) same by (subst update_item_list.simps) (simp add: set_next_def)
    then show ?thesis
      using False n xs(2) same_map
      by (subst rehash_chain.simps)
        (simp add: hash_def bucket_def set_bucket_def rehash_chain.simps [where temp = 0])
  qed
  then show ?case using Cons b(1) b(3) [of 0] xs(1) by simp
qed

text \<open>\<open>room av\<close>: memory does not run out.\<close>

definition room :: "(nat \<Rightarrow> heap \<Rightarrow> bool) \<Rightarrow> bool" where
  "room av \<longleftrightarrow> (\<forall>n h. av n h)"

lemma grow_props:
  assumes "unat old \<le> length xs" and "old \<le> new"
  shows "unat new \<le> length (grow xs old new)"
    and "i < unat old \<Longrightarrow> grow xs old new ! i = xs ! i"
    and "unat old \<le> i \<Longrightarrow> i < unat new \<Longrightarrow> grow xs old new ! i = Some 0"
proof -
  have le: "unat old \<le> unat new" using assms(2) by (simp add: word_le_nat_alt)
  define ys where "ys = take (3 * unat new) xs @ replicate (3 * unat new - length xs) None"
  have ys: "length ys = 3 * unat new" by (simp add: ys_def)
  have g: "grow xs old new = take (unat old) ys @ replicate (unat new - unat old) (Some 0) @ drop (unat new) ys"
    by (simp add: grow_def ys_def Let_def)
  show "unat new \<le> length (grow xs old new)" using le ys by (simp add: g)
  show "i < unat old \<Longrightarrow> grow xs old new ! i = xs ! i"
    using le assms(1) ys by (simp add: g nth_append) (simp add: ys_def nth_append)
  show "unat old \<le> i \<Longrightarrow> i < unat new \<Longrightarrow> grow xs old new ! i = Some 0"
    using le ys by (auto simp: g nth_append)
qed

lemma hm_rehash_spec:
  assumes inv: "hm_inv m h" and "room av"
  shows "\<exists>m'. hm_rehash av m new h = ret (m', h) \<and> hm_inv m' h \<and> val_at m' h = val_at m h \<and>
    hm_size m \<le> hm_size m' \<and> hm_count m' = hm_count m"
proof (cases "new < hm_size m")
  case True
  with inv show ?thesis by (auto simp: hm_rehash_def)
next
  case False
  then have le: "hm_size m \<le> new" "unat (hm_size m) \<le> unat new" by (auto simp: word_le_nat_alt word_less_nat_alt)
  have ok: "heap_ok h" using inv by (simp add: hm_inv_def)
  obtain xs where xs: "hm_items m = Some xs" "unat (hm_size m) \<le> length xs" "\<forall>i < unat (hm_size m). xs ! i \<noteq> None"
    using inv by (auto simp: hm_inv_def)
  define m1 where "m1 = m\<lparr>hm_items := Some (grow xs (hm_size m) new)\<rparr>"
  define m2 where "m2 = m1\<lparr>hm_size := new\<rparr>"
  note g = grow_props [OF xs(2) le(1)]
  have hd: "head m1 i = (if i < unat (hm_size m) then head m i else 0)" if "i < unat new" for i
    using that g(2,3) xs(1) by (auto simp: head_def m1_def)
  have hd1: "head m2 i = head m1 i" for i by (simp add: m2_def head_def)
  have v: "val_at m2 h = val_at m h"
  proof
    fix i
    show "val_at m2 h i = val_at m h i"
      using hd [of i] hd1 [of i] le(2) nodes_null [OF ok] by (auto simp: val_at_def m2_def m1_def)
  qed
  have v1: "val_at m1 h = val_at m h"
  proof
    fix i
    show "val_at m1 h i = val_at m h i"
      using hd [of i] le(2) by (auto simp: val_at_def m1_def)
  qed
  have some: "grow xs (hm_size m) new ! i \<noteq> None" if "i < unat new" for i
    using that g(2,3) [of i] xs(3) by (cases "i < unat (hm_size m)") auto
  have inv1: "hm_inv m1 h"
    unfolding hm_inv_def v1
    using inv g(1) le(2) some hd ok by (auto simp: hm_inv_def m1_def)
  have inv2: "hm_inv m2 h"
    unfolding hm_inv_def v
    using inv g(1) some hd hd1 ok by (auto simp: hm_inv_def m2_def m1_def bucket_ok_def)
  have "rehash_buckets new [0..<unat (hm_size m)] m1 h = ret (m1, h)"
    by (rule rehash_buckets_id [OF inv1]) (simp add: m1_def)
  then have "hm_rehash av m new h = ret (m2, h)"
    using False assms(2) xs(1) by (simp add: hm_rehash_def room_def m1_def m2_def Let_def)
  then show ?thesis using inv2 v le(1) by (auto simp: m2_def m1_def)
qed

section \<open>Setting and removing an entry\<close>

text \<open>The map after the head of one list has changed.\<close>

definition with_head :: "hashmap \<Rightarrow> nat \<Rightarrow> nat \<Rightarrow> hashmap" where
  "with_head m i p = m\<lparr>hm_items := Some ((the (hm_items m))[i := Some p])\<rparr>"

lemma hm_inv_change:
  assumes inv: "hm_inv m h" and i: "i < unat (hm_size m)" and ok: "heap_ok h1" and new: "bucket_ok h1 i p"
    and others: "\<And>j. j \<noteq> i \<Longrightarrow> j < unat (hm_size m) \<Longrightarrow>
      nodes h1 (head m j) = nodes h (head m j) \<and> bucket_ok h1 j (head m j)"
    and fresh_value: "\<And>j. j \<noteq> i \<Longrightarrow> p \<noteq> 0 \<Longrightarrow> val_at m h j \<noteq> map_option it_value (nodes h1 p)"
  shows "hm_inv (with_head m i p\<lparr>hm_count := c\<rparr>) h1" (is "hm_inv ?m h1")
    and "val_at (with_head m i p\<lparr>hm_count := c\<rparr>) h1 = (val_at m h)(i := map_option it_value (nodes h1 p))"
proof -
  obtain xs where xs: "hm_items m = Some xs" "unat (hm_size m) \<le> length xs" "\<forall>i < unat (hm_size m). xs ! i \<noteq> None"
    using inv by (auto simp: hm_inv_def)
  have hd: "head ?m j = (if j = i then p else head m j)" for j
    using xs i by (auto simp: head_def with_head_def)
  show v: "val_at ?m h1 = (val_at m h)(i := map_option it_value (nodes h1 p))"
  proof
    fix j
    show "val_at ?m h1 j = ((val_at m h)(i := map_option it_value (nodes h1 p))) j"
      using others [of j] i by (cases "j = i") (auto simp: val_at_def hd, auto simp: with_head_def)
  qed
  have dist: "a \<noteq> b \<longrightarrow> val_at m h a = None \<or> val_at m h a \<noteq> val_at m h b" for a b
    using inv by (simp add: hm_inv_def)
  have null: "nodes h1 0 = None" by (rule nodes_null [OF ok])
  have dist1: "a \<noteq> b \<longrightarrow> val_at ?m h1 a = None \<or> val_at ?m h1 a \<noteq> val_at ?m h1 b" for a b
    using dist [of a b] fresh_value [of a] fresh_value [of b] null
    unfolding v by (cases "p = 0") (auto split: if_splits)
  show "hm_inv ?m h1"
    unfolding hm_inv_def
  proof (intro conjI)
    show "heap_ok h1" by (rule ok)
    show "\<exists>ys. hm_items ?m = Some ys \<and> unat (hm_size ?m) \<le> length ys \<and>
        (\<forall>i < unat (hm_size ?m). ys ! i \<noteq> None)"
      using xs i by (intro exI [of _ "xs[i := Some p]"]) (simp add: with_head_def nth_list_update)
    show "\<forall>j < unat (hm_size ?m). bucket_ok h1 j (head ?m j)"
      using new others by (auto simp: hd) (auto simp: with_head_def)
    show "\<forall>a b. a \<noteq> b \<longrightarrow> val_at ?m h1 a = None \<or> val_at ?m h1 a \<noteq> val_at ?m h1 b"
      using dist1 by blast
  qed
qed

text \<open>What a key and a value must be.\<close>

definition good_key :: "hashmap \<Rightarrow> heap \<Rightarrow> nat \<Rightarrow> s32 \<Rightarrow> bool" where
  "good_key m h key w \<longleftrightarrow>
     key \<noteq> 0 \<and> key \<notin> locals h \<and> ints h key = Some w \<and> 0 < unat w \<and> unat w < unat (hm_size m)"

definition good_value :: "hashmap \<Rightarrow> heap \<Rightarrow> s32 \<Rightarrow> nat \<Rightarrow> bool" where
  "good_value m h w val \<longleftrightarrow>
     val \<noteq> 0 \<and> val \<notin> locals h \<and> blobs h val \<noteq> None \<and> (\<forall>j. j \<noteq> unat w \<longrightarrow> val_at m h j \<noteq> Some val)"

lemma distinct_values: "hm_inv m h \<Longrightarrow> i \<noteq> j \<Longrightarrow> val_at m h i = None \<or> val_at m h i \<noteq> val_at m h j"
  unfolding hm_inv_def by blast

lemma bucket_ok_grow:
  assumes "bucket_ok h j p" and "heap_ok h" and "locals h1 = locals h" and "blobs h1 = blobs h"
    and "\<And>q. q < fresh h \<Longrightarrow> nodes h1 q = nodes h q" and "\<And>q. q < fresh h \<Longrightarrow> ints h1 q = ints h q"
  shows "bucket_ok h1 j p" and "p \<noteq> 0 \<Longrightarrow> nodes h1 p = nodes h p"
proof -
  have sub: "nodes h q = Some n \<Longrightarrow> q < fresh h" "ints h q = Some k \<Longrightarrow> q < fresh h" for q n k
    using assms(2) by (force simp: heap_ok_def)+
  show "bucket_ok h1 j p"
    using assms(1,3,4) assms(5) [OF sub(1)] assms(6) [OF sub(2)] by (fastforce simp: bucket_ok_def)
  show "p \<noteq> 0 \<Longrightarrow> nodes h1 p = nodes h p"
    using assms(1) assms(5) [OF sub(1)] by (auto simp: bucket_ok_def)
qed

lemma set_item_new:
  assumes "heap_ok h" and "room av" and "key \<noteq> 0" and "ints h key = Some w"
  shows "\<exists>h1. set_item av 0 key val c h = ret (fresh h, c + 1, h1) \<and> heap_ok h1 \<and> locals h1 = locals h \<and>
    blobs h1 = blobs h \<and> nodes h1 = (nodes h)(fresh h \<mapsto> \<lparr>it_key = key, it_value = val, it_next = 0\<rparr>) \<and>
    (\<forall>q < fresh h. ints h1 q = ints h q)"
proof -
  have k: "key < fresh h" using assms(1,4) by (force simp: heap_ok_def)
  show ?thesis
    using assms k by (subst set_item.simps) (fastforce simp: room_def Let_def heap_ok_def)
qed

lemma set_item_old:
  assumes "bucket_ok h i p" and "p \<noteq> 0" and "i < 2 ^ 32" and "key \<noteq> 0" and "ints h key = Some (word_of_nat i)"
    and "nodes h p = Some n"
  shows "set_item av p key val c h =
    ret (p, c, if it_value n = val then h
               else h\<lparr>blobs := (blobs h)(it_value n := None), nodes := (nodes h)(p \<mapsto> n\<lparr>it_value := val\<rparr>)\<rparr>)"
proof -
  from bucket_ok_key [OF assms(1,2,3)] assms(6) have
    n: "it_key n \<noteq> 0" "ints h (it_key n) = Some (word_of_nat i)" "unat (word_of_nat i :: s32) = i" "0 < i"
      "it_value n \<noteq> 0" "it_value n \<notin> locals h" "blobs h (it_value n) \<noteq> None" by (metis option.inject)+
  have "(word_of_nat i :: s32) \<noteq> 0" using n(3,4) by (metis unat_0 less_irrefl)
  moreover have "h\<lparr>ints := (ints h)(key \<mapsto> word_of_nat i)\<rparr> = h" using assms(5) by (simp add: fun_upd_idem)
  ultimately show ?thesis
    using assms(2,4,5,6) n by (subst set_item.simps) (auto simp: free_blob_def may_free_def)
qed

lemma hm_set_full:
  assumes inv: "hm_inv m h" and room: "room av" and key: "good_key m h key w" and val: "good_value m h w val"
  shows "\<exists>m' h'. hm_set fl av m key val h = ret (1, m', h') \<and> hm_inv m' h' \<and>
    val_at m' h' = (val_at m h)(unat w \<mapsto> val) \<and> (\<forall>k x. good_key m h k x \<longrightarrow> good_key m' h' k x) \<and>
    (val_at m h (unat w) = None \<longrightarrow> blobs h' = blobs h) \<and> locals h' = locals h \<and> hm_size m \<le> hm_size m' \<and>
    hm_count m' = hm_count m + (if val_at m h (unat w) = None then 1 else 0)"
proof -
  let ?i = "unat w" and ?p = "head m (unat w)"
  have k: "key \<noteq> 0" "key \<notin> locals h" "ints h key = Some w" "0 < ?i" "?i < unat (hm_size m)"
    using key by (auto simp: good_key_def)
  have v: "val \<noteq> 0" "val \<notin> locals h" "blobs h val \<noteq> None" "\<And>j. j \<noteq> ?i \<Longrightarrow> val_at m h j \<noteq> Some val"
    using val by (auto simp: good_value_def)
  have ok: "heap_ok h" using inv by (simp add: hm_inv_def)
  have wi: "(word_of_nat ?i :: s32) = w" by simp
  note b = bucket_head [OF inv k(5)]
  have bk: "bucket_ok h j (head m j)" if "j < unat (hm_size m)" for j
    using bucket_head(2) [OF inv that] .
  obtain q c h1 where run: "set_item av ?p key val 0 h = ret (q, c, h1)"
    and m1: "hm_inv (with_head m ?i q\<lparr>hm_count := hm_count m + c\<rparr>) h1"
      "val_at (with_head m ?i q\<lparr>hm_count := hm_count m + c\<rparr>) h1 = (val_at m h)(?i \<mapsto> val)"
      and keep: "locals h1 = locals h" "\<And>q x. ints h q = Some x \<Longrightarrow> ints h1 q = Some x"
        "?p = 0 \<Longrightarrow> blobs h1 = blobs h" "c = (if ?p = 0 then 1 else 0)"
  proof (cases "?p = 0")
    case True
    obtain h1 where h1: "set_item av 0 key val 0 h = ret (fresh h, 1, h1)" "heap_ok h1"
      "locals h1 = locals h" "blobs h1 = blobs h"
      "nodes h1 = (nodes h)(fresh h \<mapsto> \<lparr>it_key = key, it_value = val, it_next = 0\<rparr>)"
      "\<forall>q < fresh h. ints h1 q = ints h q"
      using set_item_new [OF ok room k(1,3), of val 0] by auto
    have old: "bucket_ok h1 j (head m j)" "nodes h1 (head m j) = nodes h (head m j)"
      if "j < unat (hm_size m)" for j
      using bucket_ok_grow [OF bk [OF that] ok h1(3,4)] h1(5,6) nodes_null [OF ok] nodes_null [OF h1(2)]
      by (metis fun_upd_other less_irrefl)+
    have kf: "key < fresh h" using ok k(3) by (force simp: heap_ok_def)
    have ff: "0 < fresh h" "fresh h \<notin> locals h" using ok by (auto simp: heap_ok_def)
    have new: "bucket_ok h1 ?i (fresh h)"
      using k v h1(3-6) kf ff by (simp add: bucket_ok_def)
    have val1: "map_option it_value (nodes h1 (fresh h)) = Some val" by (simp add: h1(5))
    have ints1: "ints h1 q = Some x" if "ints h q = Some x" for q x
      using that h1(6) ok by (force simp: heap_ok_def)
    note ch = hm_inv_change [OF inv k(5) h1(2) new, of "hm_count m + 1"]
    show ?thesis
      by (rule that [of "fresh h" 1 h1])
        (use True h1 ch old v(4) val1 ints1 in auto)
  next
    case False
    from bucket_ok_key [OF b(2) False size_bound [OF k(5)]] obtain n where
      n: "nodes h ?p = Some n" "it_next n = 0" "it_key n \<noteq> 0" "it_key n \<notin> locals h" "ints h (it_key n) = Some w"
        "it_value n \<noteq> 0" "it_value n \<notin> locals h" "?p \<notin> locals h"
      by (metis wi)
    define h1 where "h1 = (if it_value n = val then h
        else h\<lparr>blobs := (blobs h)(it_value n := None), nodes := (nodes h)(?p \<mapsto> n\<lparr>it_value := val\<rparr>)\<rparr>)"
    have run: "set_item av ?p key val 0 h = ret (?p, 0, h1)"
      using set_item_old [OF b(2) False size_bound [OF k(5)] k(1) _ n(1), of av val 0] k(3) by (simp add: h1_def)
    have ok1: "heap_ok h1" using ok n(1) by (auto simp: h1_def heap_ok_def)
    have new: "bucket_ok h1 ?i ?p"
      using k v n by (auto simp: bucket_ok_def h1_def)
    have vi: "val_at m h ?i = Some (it_value n)" using n(1) k(5) by (simp add: val_at_def)
    have old: "bucket_ok h1 j (head m j) \<and> nodes h1 (head m j) = nodes h (head m j)"
      if j: "j < unat (hm_size m)" "j \<noteq> ?i" for j
    proof (cases "head m j = 0")
      case True
      then show ?thesis using nodes_null [OF ok] nodes_null [OF ok1] by (simp add: bucket_ok_def)
    next
      case nz: False
      from bucket_ok_key [OF bk [OF j(1)] nz size_bound [OF j(1)]] obtain l where
        l: "nodes h (head m j) = Some l" "ints h (it_key l) = Some (word_of_nat j)" "unat (word_of_nat j :: s32) = j"
        by metis
      have "head m j \<noteq> ?p" using l n(1,5) j(2) by auto
      moreover have "it_value l \<noteq> it_value n"
      proof -
        have "val_at m h j = Some (it_value l)" using l(1) j(1) by (simp add: val_at_def)
        then show ?thesis using distinct_values [OF inv j(2)] vi by auto
      qed
      ultimately show ?thesis using bk [OF j(1)] l(1) by (auto simp: bucket_ok_def h1_def)
    qed
    have val1: "map_option it_value (nodes h1 ?p) = Some val" using n(1) by (simp add: h1_def)
    note ch = hm_inv_change [OF inv k(5) ok1 new, of "hm_count m + 0"]
    show ?thesis
      by (rule that [of ?p 0 h1]) (use False run ch old v(4) val1 in \<open>auto simp: h1_def split: if_splits\<close>)
  qed
  define m1 where "m1 = with_head m ?i q\<lparr>hm_count := hm_count m + c\<rparr>"
  have sz: "hm_size m1 = hm_size m" by (simp add: m1_def with_head_def)
  have sb: "set_bucket m w q = ret (with_head m ?i q)" using b(3) by (simp add: with_head_def)
  have start: "hm_set fl av m key val h =
      (if hm_load m1 < fl (fl (of_nat (unat (hm_count m1))) / fl (of_nat (unat (hm_size m1)))) then
         run_bind (hm_rehash av m1 (next_size (hm_size m1)) h1) (\<lambda>(m, h). ret (1, m, h))
       else ret (1, m1, h1))"
    using k b(1) run sb by (simp add: hm_set_def hash_def Let_def m1_def with_head_def)
  have i1: "hm_inv m1 h1" "val_at m1 h1 = (val_at m h)(?i \<mapsto> val)" using m1 by (simp_all add: m1_def)
  obtain m2 where "hm_rehash av m1 (next_size (hm_size m1)) h1 = ret (m2, h1)" "hm_inv m2 h1"
    "val_at m2 h1 = val_at m1 h1" "hm_size m1 \<le> hm_size m2"
    "hm_count m2 = hm_count m1"
    using hm_rehash_spec [OF i1(1) room] by blast
  moreover have "good_key m2 h1 k x" if "good_key m h k x" and "hm_size m \<le> hm_size m2" for k x m2
    using that keep by (auto simp: good_key_def word_le_nat_alt)
  moreover have "?p = 0 \<longleftrightarrow> val_at m h ?i = None"
    using b(2) k(5) nodes_null [OF ok] by (auto simp: val_at_def bucket_ok_def)
  moreover have "hm_count m1 = hm_count m + c" by (simp add: m1_def)
  ultimately show ?thesis unfolding start using i1 sz keep(1,3,4) by auto
qed

lemma remove_item_old:
  assumes "bucket_ok h i p" and "p \<noteq> 0" and "i < 2 ^ 32" and "key \<noteq> 0" and "ints h key = Some (word_of_nat i)"
    and "nodes h p = Some n"
  shows "remove_item p key c h =
    ret (0, c - 1, h\<lparr>ints := (ints h)(it_key n := None), blobs := (blobs h)(it_value n := None),
                     nodes := (nodes h)(p := None)\<rparr>)"
proof -
  from bucket_ok_key [OF assms(1,2,3)] assms(6) have
    n: "it_key n \<noteq> 0" "it_key n \<notin> locals h" "ints h (it_key n) = Some (word_of_nat i)"
      "unat (word_of_nat i :: s32) = i" "0 < i" "it_value n \<noteq> 0" "it_value n \<notin> locals h"
      "blobs h (it_value n) \<noteq> None" "p \<notin> locals h" "it_next n = 0" by (metis option.inject)+
  have "(word_of_nat i :: s32) \<noteq> 0" using n(4,5) by (metis unat_0 less_irrefl)
  moreover have "h\<lparr>ints := (ints h)(key \<mapsto> word_of_nat i)\<rparr> = h" using assms(5) by (simp add: fun_upd_idem)
  ultimately show ?thesis
    using assms(2,4,5,6) n
    by (subst remove_item.simps) (auto simp: free_blob_def free_key_def free_node_def may_free_def)
qed

lemma hm_unset_spec:
  assumes inv: "hm_inv m h" and key: "good_key m h key w"
  shows "\<exists>m' h'. hm_unset m key h = ret (1, m', h') \<and> hm_inv m' h' \<and>
    val_at m' h' = (val_at m h)(unat w := None) \<and> hm_size m' = hm_size m \<and>
    hm_count m' = hm_count m - (if val_at m h (unat w) = None then 0 else 1)"
proof -
  let ?i = "unat w" and ?p = "head m (unat w)"
  have k: "key \<noteq> 0" "key \<notin> locals h" "ints h key = Some w" "0 < ?i" "?i < unat (hm_size m)"
    using key by (auto simp: good_key_def)
  have wi: "(word_of_nat ?i :: s32) = w" by simp
  have ok: "heap_ok h" using inv by (simp add: hm_inv_def)
  note b = bucket_head [OF inv k(5)]
  obtain c h1 where run: "remove_item ?p key 0 h = ret (0, c, h1)" and ok1: "heap_ok h1"
    and c: "c = (if ?p = 0 then 0 else - 1)"
    and old: "\<And>j. j \<noteq> ?i \<Longrightarrow> j < unat (hm_size m) \<Longrightarrow>
      nodes h1 (head m j) = nodes h (head m j) \<and> bucket_ok h1 j (head m j)"
  proof (cases "?p = 0")
    case True
    then have "remove_item ?p key 0 h = ret (0, 0, h)" by (simp add: remove_item.simps)
    with True ok inv show ?thesis by (intro that [of 0 h]) (auto simp: hm_inv_def)
  next
    case False
    from bucket_ok_key [OF b(2) False size_bound [OF k(5)]] obtain n where
      n: "nodes h ?p = Some n" "ints h (it_key n) = Some w" by (metis wi)
    define h1 where "h1 = h\<lparr>ints := (ints h)(it_key n := None), blobs := (blobs h)(it_value n := None),
                     nodes := (nodes h)(?p := None)\<rparr>"
    have ok1: "heap_ok h1" using ok by (auto simp: h1_def heap_ok_def)
    have vi: "val_at m h ?i = Some (it_value n)" using n(1) k(5) by (simp add: val_at_def)
    have "nodes h1 (head m j) = nodes h (head m j) \<and> bucket_ok h1 j (head m j)"
      if j: "j \<noteq> ?i" "j < unat (hm_size m)" for j
    proof (cases "head m j = 0")
      case True
      then show ?thesis using nodes_null [OF ok] nodes_null [OF ok1] by (simp add: bucket_ok_def)
    next
      case nz: False
      note bj = bucket_head(2) [OF inv j(2)]
      from bucket_ok_key [OF bj nz size_bound [OF j(2)]] obtain l where
        l: "nodes h (head m j) = Some l" "ints h (it_key l) = Some (word_of_nat j)" "unat (word_of_nat j :: s32) = j"
        by metis
      have "it_key l \<noteq> it_key n" using l n(2) j(1) by auto
      moreover have "head m j \<noteq> ?p" using l n j(1) by auto
      moreover have "it_value l \<noteq> it_value n"
      proof -
        have "val_at m h j = Some (it_value l)" using l(1) j(2) by (simp add: val_at_def)
        then show ?thesis using distinct_values [OF inv j(1)] vi by auto
      qed
      ultimately show ?thesis using bj l(1) by (auto simp: bucket_ok_def h1_def)
    qed
    with False ok1 show ?thesis
      using remove_item_old [OF b(2) False size_bound [OF k(5)] k(1) _ n(1), of 0] k(3)
      by (intro that [of "- 1" h1]) (auto simp: h1_def)
  qed
  have new: "bucket_ok h1 ?i 0" by (simp add: bucket_ok_def)
  have null: "nodes h1 0 = None" by (rule nodes_null [OF ok1])
  note ch = hm_inv_change [OF inv k(5) ok1 new old, of "hm_count m + c"]
  have sb: "set_bucket m w 0 = ret (with_head m ?i 0)" using b(3) by (simp add: with_head_def)
  have "hm_unset m key h = ret (1, with_head m ?i 0\<lparr>hm_count := hm_count m + c\<rparr>, h1)"
    using k b(1) run sb by (simp add: hm_unset_def hash_def with_head_def)
  moreover have "?p = 0 \<longleftrightarrow> val_at m h ?i = None"
    using b(2) k(5) nodes_null [OF ok] by (auto simp: val_at_def bucket_ok_def)
  ultimately show ?thesis using ch null c by (auto simp: with_head_def)
qed

section \<open>The number of entries\<close>

definition hm_counted :: "hashmap \<Rightarrow> heap \<Rightarrow> bool" where
  "hm_counted m h \<longleftrightarrow> hm_count m = word_of_nat (card (dom (val_at m h)))"

lemma finite_entries [simp]: "finite (dom (val_at m h))"
  by (rule finite_subset [of _ "{..<unat (hm_size m)}"]) (auto simp: val_at_def split: if_splits)

lemma counted_empty:
  assumes "hm_counted m h" and "hm_count m = 0"
  shows "val_at m h = Map.empty"
proof -
  have "card (dom (val_at m h)) \<le> card {..<unat (hm_size m)}"
    by (rule card_mono) (auto simp: val_at_def split: if_splits)
  also have "\<dots> < 2 ^ 32" using unsigned_less [of "hm_size m", where 'a = nat] by simp
  finally have "card (dom (val_at m h)) = unat (hm_count m)"
    using assms(1) by (simp add: hm_counted_def unsigned_of_nat take_bit_nat_eq_self)
  with assms(2) show ?thesis by simp
qed

lemma hm_set_counted:
  assumes "hm_counted m h" and "val_at m' h' = (val_at m h)(i \<mapsto> v)"
    and "hm_count m' = hm_count m + (if val_at m h i = None then 1 else 0)"
  shows "hm_counted m' h'"
proof (cases "val_at m h i")
  case None
  then have "i \<notin> dom (val_at m h)" by auto
  with None assms show ?thesis by (simp add: hm_counted_def add.commute)
next
  case (Some x)
  then have "i \<in> dom (val_at m h)" by auto
  with Some assms show ?thesis by (simp add: hm_counted_def insert_absorb)
qed

lemma hm_unset_counted:
  assumes "hm_counted m h" and "val_at m' h' = (val_at m h)(i := None)"
    and "hm_count m' = hm_count m - (if val_at m h i = None then 0 else 1)"
  shows "hm_counted m' h'"
proof (cases "val_at m h i")
  case None
  with assms show ?thesis by (auto simp: hm_counted_def fun_upd_idem)
next
  case (Some x)
  then have "card (dom (val_at m h)) = Suc (card (dom (val_at m h) - {i}))"
    by (intro card.remove) auto
  with Some assms show ?thesis by (simp add: hm_counted_def)
qed

section \<open>The interface of the map\<close>

text \<open>
  What the clients of the map rely on: the map is a finite map \<open>view\<close> from numbers to the addresses of
  values, \<open>key_ok\<close> and \<open>val_ok\<close> saying what may be used as a key, with its number, and as a value.
\<close>

locale tag_map =
  fixes inv :: "'m \<Rightarrow> 'h \<Rightarrow> bool" and view :: "'m \<Rightarrow> 'h \<Rightarrow> nat \<Rightarrow> nat option"
    and key_ok :: "'m \<Rightarrow> 'h \<Rightarrow> nat \<Rightarrow> s32 \<Rightarrow> bool" and val_ok :: "'m \<Rightarrow> 'h \<Rightarrow> s32 \<Rightarrow> nat \<Rightarrow> bool"
    and get :: "'m \<Rightarrow> nat \<Rightarrow> 'h \<Rightarrow> (nat \<times> 'h) run"
    and put :: "'m \<Rightarrow> nat \<Rightarrow> nat \<Rightarrow> 'h \<Rightarrow> (int \<times> 'm \<times> 'h) run"
    and unset :: "'m \<Rightarrow> nat \<Rightarrow> 'h \<Rightarrow> (int \<times> 'm \<times> 'h) run"
  assumes get_law: "inv m h \<Longrightarrow> key_ok m h k w \<Longrightarrow>
      get m k h = ret (case view m h (unat w) of None \<Rightarrow> 0 | Some v \<Rightarrow> v, h)"
    and put_law: "inv m h \<Longrightarrow> key_ok m h k w \<Longrightarrow> val_ok m h w v \<Longrightarrow>
      \<exists>m' h'. put m k v h = ret (1, m', h') \<and> inv m' h' \<and> view m' h' = (view m h)(unat w \<mapsto> v) \<and>
        (\<forall>l x. key_ok m h l x \<longrightarrow> key_ok m' h' l x)"
    and unset_law: "inv m h \<Longrightarrow> key_ok m h k w \<Longrightarrow>
      \<exists>m' h'. unset m k h = ret (1, m', h') \<and> inv m' h' \<and> view m' h' = (view m h)(unat w := None)"
begin

lemma get_after_put:
  assumes "inv m h" and "key_ok m h k w" and "val_ok m h w v" and "key_ok m h l x"
  obtains m' h' where "put m k v h = ret (1, m', h')" and "inv m' h'"
    and "view m' h' = (view m h)(unat w \<mapsto> v)"
    and "get m' l h' = ret (if x = w then v else case view m h (unat x) of None \<Rightarrow> 0 | Some u \<Rightarrow> u, h')"
proof -
  obtain m' h' where p: "put m k v h = ret (1, m', h')" "inv m' h'" "view m' h' = (view m h)(unat w \<mapsto> v)"
    "key_ok m' h' l x"
    using put_law [OF assms(1-3)] assms(4) by blast
  have "get m' l h' = ret (case view m' h' (unat x) of None \<Rightarrow> 0 | Some u \<Rightarrow> u, h')"
    by (rule get_law [OF p(2,4)])
  moreover have "unat x = unat w \<longleftrightarrow> x = w" by (simp add: word_unat_eq_iff)
  ultimately show ?thesis using that [OF p(1-3)] p(3) by simp
qed

lemma get_after_unset:
  assumes "inv m h" and "key_ok m h k w"
  obtains m' h' where "unset m k h = ret (1, m', h')" and "inv m' h'" and "view m' h' (unat w) = None"
    and "\<And>x. x \<noteq> unat w \<Longrightarrow> view m' h' x = view m h x"
  using unset_law [OF assms] by auto

end

lemma hm_get_good:
  "hm_inv m h \<Longrightarrow> good_key m h k w \<Longrightarrow> hm_get m k h = ret (case val_at m h (unat w) of None \<Rightarrow> 0 | Some v \<Rightarrow> v, h)"
  by (rule hm_get_spec) (auto simp: good_key_def)

text \<open>The allocator that always finds room stands for one that has not run out of memory.\<close>

definition ample :: "nat \<Rightarrow> heap \<Rightarrow> bool" where
  "ample n h = True"

lemma room_ample [simp]: "room ample"
  by (simp add: room_def ample_def)

interpretation hm: tag_map hm_inv val_at good_key good_value hm_get "hm_set fl ample" hm_unset for fl
proof
  fix m h k w v
  assume inv: "hm_inv m h" and k: "good_key m h k w"
  show "hm_get m k h = ret (case val_at m h (unat w) of None \<Rightarrow> 0 | Some v \<Rightarrow> v, h)"
    by (rule hm_get_good [OF inv k])
  show "\<exists>m' h'. hm_set fl ample m k v h = ret (1, m', h') \<and> hm_inv m' h' \<and>
      val_at m' h' = (val_at m h)(unat w \<mapsto> v) \<and> (\<forall>l x. good_key m h l x \<longrightarrow> good_key m' h' l x)"
    if "good_value m h w v"
    using hm_set_full [OF inv room_ample k that] by blast
  show "\<exists>m' h'. hm_unset m k h = ret (1, m', h') \<and> hm_inv m' h' \<and> val_at m' h' = (val_at m h)(unat w := None)"
    using hm_unset_spec [OF inv k] by blast
qed

section \<open>Properties\<close>

text \<open>C24. Within its limits the hash map is a finite map: \<open>hm_set\<close> changes the entry of the key's number and
  no other, also when it makes the map grow, and \<open>hm_get\<close> then finds the new value under that number and
  the old ones under the others.\<close>

theorem hm_refines_map:
  assumes "hm_inv m h" and "good_key m h key w" and "good_value m h w val" and "good_key m h key' x"
  shows "\<exists>m' h'. hm_set fl ample m key val h = ret (1, m', h') \<and> hm_inv m' h' \<and>
    val_at m' h' = (val_at m h)(unat w \<mapsto> val) \<and>
    hm_get m' key' h' = ret (if x = w then val else case val_at m h (unat x) of None \<Rightarrow> 0 | Some u \<Rightarrow> u, h')"
  by (rule hm.get_after_put [OF assms, of fl]) blast

text \<open>C27. \<open>get_item\<close> returns on every chain of items that ends, and what it returns does not depend on the
  key asked for: it is the first item of the chain whose key is not 0.\<close>

theorem get_item_ignores_key:
  assumes "links h list xs" and "key \<noteq> 0" and "ints h key \<noteq> None" and "key \<notin> key_cells h xs"
  shows "\<exists>h'. get_item list key h = ret (case find (\<lambda>x. key_of h x \<noteq> 0) xs of None \<Rightarrow> 0 | Some x \<Rightarrow> x, h')"
  by (rule get_item_first [OF assms])

text \<open>A key whose number is not below the size of the array is looked up outside of it: the hash is not
  reduced to the size.\<close>

theorem hm_key_out_of_bounds:
  assumes "hm_items m = Some xs" and "key \<noteq> 0" and "ints h key = Some w" and "length xs \<le> unat w"
  shows "hm_get m key h = Some (Inl OutOfBounds) \<and> hm_set fl av m key val h = Some (Inl OutOfBounds) \<and>
    hm_unset m key h = Some (Inl OutOfBounds) \<and> hm_isset m key h = Some (Inl OutOfBounds)"
  using assms by (simp add: hm_get_def hm_set_def hm_unset_def hm_isset_def hash_def bucket_def)

end
