(* ===== verification/Codec.thy ===== *)
theory Codec
  imports Hashmap_Props Ta_Vfs
begin

text \<open>
  Encryption of database pages, \<open>codec.c\<close> and the structure of \<open>codec.h\<close>, for the only cipher the code
  implements, \<open>CODEC_TYPE_GCM128\<close>.  The cryptographic functions of the TEE are a parameter; the tags of
  the pages are kept in the hash map of \<open>Hashmap\<close>, whose keys and values are pointers, so the local
  variables \<open>CodecEncrypt\<close> takes the address of are cells of the heap that die when it returns.  Output
  to the log is left out.  The build of the repository does not compile this file (\<open>sub.mk\<close>).
\<close>

section \<open>The TEE functions\<close>

text \<open>Handles are 64-bit values, 0 is \<open>TEE_HANDLE_NULL\<close>.  Buffers are the bytes they hold.\<close>

datatype tee_call =
    TEE_FreeOperation u64
  | TEE_AllocateOperation u32 u32 u32
  | TEE_FreeTransientObject u64
  | TEE_AllocateTransientObject u32 u32
  | TEE_PopulateTransientObject u64 "byte list"
  | TEE_SetOperationKey u64 u64
  | TEE_AEInit u64 "byte list" u32
  | TEE_AEEncryptFinal u64 "byte list"
  | TEE_AEDecryptFinal u64 "byte list" "byte list"

text \<open>A call returns its result, the handle and the bytes it stores, and the tag it stores.\<close>

record tee_ret =
  t_res :: u32
  t_handle :: u64
  t_out :: "byte list"
  t_tag :: "byte list"

type_synonym 's tee = "tee_call \<Rightarrow> 's \<Rightarrow> tee_ret \<times> 's"

abbreviation TEE_ALG_AES_GCM :: u32 where "TEE_ALG_AES_GCM \<equiv> 0x40000810"
abbreviation TEE_TYPE_AES :: u32 where "TEE_TYPE_AES \<equiv> 0xA0000010"
abbreviation TEE_MODE_ENCRYPT :: u32 where "TEE_MODE_ENCRYPT \<equiv> 0"
abbreviation TEE_MODE_DECRYPT :: u32 where "TEE_MODE_DECRYPT \<equiv> 1"
abbreviation KEYLENGTH :: nat where "KEYLENGTH \<equiv> 16"
abbreviation aes_gcm_tag_size :: nat where "aes_gcm_tag_size \<equiv> 16"
abbreviation CODEC_TYPE :: int where "CODEC_TYPE \<equiv> 2"

text \<open>
  What the code is given: the TEE functions, the system calls, whether \<open>TEE_Malloc\<close> finds room, the
  rounding of \<open>float\<close>, and \<open>SQLITE_MAX_PAGE_SIZE\<close>.
\<close>

record 's codec_env =
  tee_api :: "'s tee"
  tee_vfs :: "'s vfs_io"
  avail :: "nat \<Rightarrow> heap \<Rightarrow> bool"
  float_round :: "rat \<Rightarrow> rat"
  max_page_size :: nat

text \<open>The global \<open>tag\<close> (\<open>None\<close>: a null pointer), the heap and the world.\<close>

record 's cstate =
  tags :: "hashmap option"
  heap_of :: heap
  tee_world :: 's

section \<open>The structure\<close>

text \<open>
  \<open>Codec\<close> without the six handles the code never uses.  It is allocated by \<open>sqlite3_malloc\<close>; a field
  \<open>None\<close> was never assigned.
\<close>

record Codec =
  m_isEncrypted :: int
  m_hasReadKey :: int
  m_readKey :: "byte list option"
  m_hasWriteKey :: int
  m_writeKey :: "byte list option"
  m_tag :: "byte list option"
  test_op_handle :: "u64 option"
  test_key_handle :: "u64 option"
  m_bt :: "nat option"
  m_page :: "byte list"

definition CodecInit :: "Codec \<Rightarrow> Codec" where
  "CodecInit codec = codec\<lparr>m_isEncrypted := 0, m_hasReadKey := 0, m_hasWriteKey := 0\<rparr>"

definition CodecSetIsEncrypted :: "Codec \<Rightarrow> int \<Rightarrow> Codec" where
  "CodecSetIsEncrypted codec b = codec\<lparr>m_isEncrypted := b\<rparr>"

definition CodecSetHasReadKey :: "Codec \<Rightarrow> int \<Rightarrow> Codec" where
  "CodecSetHasReadKey codec b = codec\<lparr>m_hasReadKey := b\<rparr>"

definition CodecSetHasWriteKey :: "Codec \<Rightarrow> int \<Rightarrow> Codec" where
  "CodecSetHasWriteKey codec b = codec\<lparr>m_hasWriteKey := b\<rparr>"

definition CodecSetBtree :: "Codec \<Rightarrow> nat \<Rightarrow> Codec" where
  "CodecSetBtree codec bt = codec\<lparr>m_bt := Some bt\<rparr>"

definition CodecIsEncrypted :: "Codec \<Rightarrow> int" where
  "CodecIsEncrypted codec = m_isEncrypted codec"

definition CodecHasReadKey :: "Codec \<Rightarrow> int" where
  "CodecHasReadKey codec = m_hasReadKey codec"

definition CodecHasWriteKey :: "Codec \<Rightarrow> int" where
  "CodecHasWriteKey codec = m_hasWriteKey codec"

definition CodecGetBtree :: "Codec \<Rightarrow> nat option" where
  "CodecGetBtree codec = m_bt codec"

definition CodecWriteTag :: "Codec \<Rightarrow> byte list \<Rightarrow> int \<Rightarrow> Codec run" where
  "CodecWriteTag codec inTag nTaglen =
     (let n = unat (word_of_int nTaglen :: u64) in
      if length inTag < n \<or> 16 < n then Some (Inl OutOfBounds)
      else ret (codec\<lparr>m_tag := Some (case m_tag codec of
             None \<Rightarrow> fit 16 (take n inTag) | Some t \<Rightarrow> overwrite t 0 (take n inTag))\<rparr>))"

text \<open>The bytes copied out.\<close>

definition CodecGetTag :: "Codec \<Rightarrow> int \<Rightarrow> byte list run" where
  "CodecGetTag codec nTaglen =
     (let n = unat (word_of_int nTaglen :: u64) in
      if 16 < n then Some (Inl OutOfBounds)
      else case m_tag codec of None \<Rightarrow> Some (Inl UninitRead) | Some t \<Rightarrow> ret (take n t))"

text \<open>\<open>&codec->m_page[4]\<close>.\<close>

definition CodecGetPageBuffer :: "Codec \<Rightarrow> byte list" where
  "CodecGetPageBuffer codec = drop 4 (m_page codec)"

definition CodecCopy :: "Codec \<Rightarrow> Codec \<Rightarrow> Codec" where
  "CodecCopy codec other =
     codec\<lparr>m_isEncrypted := m_isEncrypted other, m_hasReadKey := m_hasReadKey other,
           m_hasWriteKey := m_hasWriteKey other, m_readKey := m_readKey other,
           m_writeKey := m_writeKey other, m_tag := m_tag other, m_bt := m_bt other\<rparr>"

definition CodecCopyKey :: "Codec \<Rightarrow> int \<Rightarrow> Codec" where
  "CodecCopyKey codec read2write =
     (if read2write \<noteq> 0 then codec\<lparr>m_writeKey := m_readKey codec\<rparr>
      else codec\<lparr>m_readKey := m_writeKey codec\<rparr>)"

text \<open>\<open>KEYLENGTH\<close> bytes are copied whatever the length of the password is.\<close>

definition CodecGenerateEncryptionKey :: "byte list \<Rightarrow> int \<Rightarrow> byte list run" where
  "CodecGenerateEncryptionKey userPassword passwordLength =
     (if length userPassword < KEYLENGTH then Some (Inl OutOfBounds) else ret (take KEYLENGTH userPassword))"

definition CodecGenerateReadKey :: "Codec \<Rightarrow> byte list \<Rightarrow> int \<Rightarrow> Codec run" where
  "CodecGenerateReadKey codec userPassword passwordLength =
     run_bind (CodecGenerateEncryptionKey userPassword passwordLength) (\<lambda>k. ret (codec\<lparr>m_readKey := Some k\<rparr>))"

definition CodecGenerateWriteKey :: "Codec \<Rightarrow> byte list \<Rightarrow> int \<Rightarrow> Codec run" where
  "CodecGenerateWriteKey codec userPassword passwordLength =
     run_bind (CodecGenerateEncryptionKey userPassword passwordLength) (\<lambda>k. ret (codec\<lparr>m_writeKey := Some k\<rparr>))"

section \<open>The cipher\<close>

definition tee_do :: "'s codec_env \<Rightarrow> tee_call \<Rightarrow> 's cstate \<Rightarrow> tee_ret \<times> 's cstate" where
  "tee_do env c s = (let (r, w) = tee_api env c (tee_world s) in (r, s\<lparr>tee_world := w\<rparr>))"

text \<open>The global \<open>iv\<close> is never assigned: it holds zeros.\<close>

definition global_iv :: "byte list" where
  "global_iv = replicate 16 0"

text \<open>
  \<open>codec->test_op_handle\<close> and \<open>codec->test_key_handle\<close> are replaced; the results of the calls are at most
  logged.
\<close>

definition reset :: "'s codec_env \<Rightarrow> Codec \<Rightarrow> int \<Rightarrow> byte list \<Rightarrow> 's cstate \<Rightarrow> (Codec \<times> 's cstate) run" where
  "reset env codec isenc key s =
     (case test_op_handle codec of
        None \<Rightarrow> Some (Inl UninitRead)
      | Some op \<Rightarrow>
          let s = (if op \<noteq> 0 then snd (tee_do env (TEE_FreeOperation op) s) else s);
              mode = (if isenc = 1 then TEE_MODE_ENCRYPT else TEE_MODE_DECRYPT);
              (r, s) = tee_do env (TEE_AllocateOperation TEE_ALG_AES_GCM mode 128) s;
              codec = codec\<lparr>test_op_handle := Some (t_handle r)\<rparr> in
          case test_key_handle codec of
            None \<Rightarrow> Some (Inl UninitRead)
          | Some k \<Rightarrow>
              let s = (if k \<noteq> 0 then snd (tee_do env (TEE_FreeTransientObject k) s) else s);
                  (q, s) = tee_do env (TEE_AllocateTransientObject TEE_TYPE_AES 128) s;
                  codec = codec\<lparr>test_key_handle := Some (t_handle q)\<rparr>;
                  (_, s) = tee_do env (TEE_PopulateTransientObject (t_handle q) key) s;
                  (_, s) = tee_do env (TEE_SetOperationKey (t_handle r) (t_handle q)) s;
                  (_, s) = tee_do env (TEE_AEInit (t_handle r) global_iv 128) s in
              ret (codec, s))"

text \<open>
  \<open>src\<close> is what \<open>datain\<close> and \<open>dataout\<close> point to, \<open>datalen\<close> bytes, and \<open>p_mac\<close> a tag of 16 bytes; the result
  has their new contents.  \<open>encryptionKey\<close> is only copied to a buffer that is not used; the three
  buffers are released at the end.  The key comes from the structure.
\<close>

definition CodecAES ::
    "'s codec_env \<Rightarrow> Codec \<Rightarrow> int \<Rightarrow> int \<Rightarrow> byte list option \<Rightarrow> byte list \<Rightarrow> byte list \<Rightarrow> int \<Rightarrow> 's cstate \<Rightarrow>
       (Codec \<times> byte list \<times> byte list \<times> 's cstate) run" where
  "CodecAES env codec encrypt_type encrypt encryptionKey src p_mac useWriteKey s =
     (if \<not> avail env KEYLENGTH (heap_of s) \<or> \<not> avail env aes_gcm_tag_size (heap_of s) then Some (Inl NullDeref)
      else if encrypt_type = 1 then ret (codec, src, p_mac, s)
      else
        case (if useWriteKey \<noteq> 0 then m_writeKey codec else m_readKey codec) of
          None \<Rightarrow> Some (Inl UninitRead)
        | Some key \<Rightarrow>
            run_bind (reset env codec encrypt key s) (\<lambda>(codec, s).
            let op = (case test_op_handle codec of None \<Rightarrow> 0 | Some x \<Rightarrow> x) in
            if encrypt \<noteq> 0 then
              let (r, s) = tee_do env (TEE_AEEncryptFinal op src) s in
              if length src < length (t_out r) \<or> aes_gcm_tag_size < length (t_tag r) then Some (Inl OutOfBounds)
              else ret (codec, overwrite src 0 (t_out r), fit aes_gcm_tag_size (t_tag r), s)
            else
              let (r, s) = tee_do env (TEE_AEDecryptFinal op src p_mac) s in
              if length src < length (t_out r) then Some (Inl OutOfBounds)
              else ret (codec, overwrite src 0 (t_out r), p_mac, s)))"

section \<open>Pages\<close>

text \<open>The address of a local variable, and the end of its life.\<close>

definition local_int :: "s32 \<Rightarrow> heap \<Rightarrow> nat \<times> heap" where
  "local_int v h =
     (fresh h, h\<lparr>ints := (ints h)(fresh h \<mapsto> v), locals := insert (fresh h) (locals h), fresh := Suc (fresh h)\<rparr>)"

definition local_blob :: "byte list \<Rightarrow> heap \<Rightarrow> nat \<times> heap" where
  "local_blob v h =
     (fresh h, h\<lparr>blobs := (blobs h)(fresh h \<mapsto> v), locals := insert (fresh h) (locals h), fresh := Suc (fresh h)\<rparr>)"

definition end_of_life :: "nat set \<Rightarrow> heap \<Rightarrow> heap" where
  "end_of_life A h = h\<lparr>ints := ints h |` (- A), blobs := blobs h |` (- A), locals := locals h - A\<rparr>"

text \<open>\<open>hm_set (tag, \<dots>)\<close> and \<open>hm_get (tag, \<dots>)\<close> on the global map.\<close>

definition tag_set :: "'s codec_env \<Rightarrow> nat \<Rightarrow> nat \<Rightarrow> 's cstate \<Rightarrow> 's cstate run" where
  "tag_set env key val s =
     (case tags s of
        None \<Rightarrow> Some (Inl NullDeref)
      | Some m \<Rightarrow>
          run_bind (hm_set (float_round env) (avail env) m key val (heap_of s)) (\<lambda>(_, m, h).
          ret (s\<lparr>tags := Some m, heap_of := h\<rparr>)))"

definition tag_get :: "nat \<Rightarrow> 's cstate \<Rightarrow> (nat \<times> 's cstate) run" where
  "tag_get key s =
     (case tags s of
        None \<Rightarrow> Some (Inl NullDeref)
      | Some m \<Rightarrow> run_bind (hm_get m key (heap_of s)) (\<lambda>(p, h). ret (p, s\<lparr>heap_of := h\<rparr>)))"

definition put_blob :: "nat \<Rightarrow> byte list \<Rightarrow> 's cstate \<Rightarrow> 's cstate" where
  "put_blob p v s = s\<lparr>heap_of := (heap_of s)\<lparr>blobs := (blobs (heap_of s))(p \<mapsto> v)\<rparr>\<rparr>"

definition SQLITE_FILE_HEADER :: "byte list" where
  "SQLITE_FILE_HEADER = map of_char ''SQLite format 3'' @ [0]"

text \<open>
  \<open>data\<close> is the object the pointer designates, at least \<open>len\<close> bytes; the result has its new content.  The
  variables whose addresses are taken are \<open>page\<close>, \<open>p_mac\<close> and, inside the first \<open>if\<close>, \<open>pageHeader\<close>.
\<close>

definition encrypt_header ::
    "'s codec_env \<Rightarrow> Codec \<Rightarrow> s32 \<Rightarrow> byte list \<Rightarrow> int \<Rightarrow> nat \<Rightarrow> 's cstate \<Rightarrow>
       (Codec \<times> byte list \<times> 's cstate) run" where
  "encrypt_header env codec page data useWriteKey mp s =
     run_bind (CodecAES env codec CODEC_TYPE 1 (if useWriteKey \<noteq> 0 then m_writeKey codec else m_readKey codec)
                 (take 16 data) (replicate 16 0) useWriteKey s) (\<lambda>(codec, out, mac, s).
     let s = put_blob mp mac s;
         (hp, h) = local_int (page - 1) (heap_of s) in
     run_bind (tag_set env hp mp (s\<lparr>heap_of := h\<rparr>)) (\<lambda>s.
     ret (codec, overwrite data 0 out, s\<lparr>heap_of := end_of_life {hp} (heap_of s)\<rparr>)))"

definition CodecEncrypt ::
    "'s codec_env \<Rightarrow> Codec \<Rightarrow> s32 \<Rightarrow> byte list \<Rightarrow> int \<Rightarrow> int \<Rightarrow> 's cstate \<Rightarrow>
       (Codec \<times> byte list \<times> 's cstate) run" where
  "CodecEncrypt env codec page data len useWriteKey s =
     (let (pp, h) = local_int page (heap_of s);
          (mp, h) = local_blob (replicate 16 0) h;
          s = s\<lparr>heap_of := h\<rparr>;
          dbHeader = subbytes data 16 8;
          offset = (if page = 1 then 16 else 0 :: nat) in
      if page = 1 \<and> length data < 24 then Some (Inl OutOfBounds)
      else
        run_bind (if page = 1 then encrypt_header env codec page data useWriteKey mp s
                  else ret (codec, data, s)) (\<lambda>(codec, data, s).
        if len < int offset \<or> length data < nat len then Some (Inl OutOfBounds)
        else
          run_bind (CodecAES env codec CODEC_TYPE 1 (if useWriteKey \<noteq> 0 then m_writeKey codec else m_readKey codec)
                      (subbytes data offset (nat len - offset)) (replicate 16 0) useWriteKey s)
            (\<lambda>(codec, out, mac, s).
          let data = overwrite data offset out in
          run_bind (tag_set env pp mp (put_blob mp mac s)) (\<lambda>s.
          let data = (if page = 1 then overwrite (overwrite data 8 (subbytes data 16 8)) 16 dbHeader else data) in
          ret (codec, data, s\<lparr>heap_of := end_of_life {pp, mp} (heap_of s)\<rparr>)))))"

text \<open>\<open>dbPageSize\<close> and the test of the header of page 1.\<close>

definition header_valid :: "'s codec_env \<Rightarrow> byte list \<Rightarrow> bool" where
  "header_valid env dbHeader \<longleftrightarrow>
     (let dbPageSize = push_bit 8 (ucast (dbHeader ! 0)) OR push_bit 16 (ucast (dbHeader ! 1)) :: u32 in
      512 \<le> dbPageSize \<and> unat dbPageSize \<le> max_page_size env \<and> (dbPageSize - 1) AND dbPageSize = 0 \<and>
      dbHeader ! 5 = 0x40 \<and> dbHeader ! 6 = 0x20 \<and> dbHeader ! 7 = 0x20)"

definition CodecDecrypt ::
    "'s codec_env \<Rightarrow> Codec \<Rightarrow> s32 \<Rightarrow> byte list \<Rightarrow> int \<Rightarrow> 's cstate \<Rightarrow> (Codec \<times> byte list \<times> 's cstate) run" where
  "CodecDecrypt env codec page data len s =
     (let (pp, h) = local_int page (heap_of s);
          s = s\<lparr>heap_of := h\<rparr>;
          dbHeader = subbytes data 16 8 in
      if page = 1 \<and> length data < 24 then Some (Inl OutOfBounds)
      else
        let valid = (page = 1 \<and> header_valid env dbHeader);
            data = (if valid then overwrite data 16 (subbytes data 8 8) else data);
            offset = (if valid then 16 else 0 :: nat) in
        run_bind (tag_get pp s) (\<lambda>(tmp, s).
        run_bind (if tmp = 0 then ret (replicate 16 0)
                  else run_bind (lookup (blobs (heap_of s)) tmp) (\<lambda>t.
                       if length t < 16 then Some (Inl OutOfBounds) else ret (take 16 t))) (\<lambda>p_in_mac.
        if len < int offset \<or> length data < nat len then Some (Inl OutOfBounds)
        else
          run_bind (CodecAES env codec CODEC_TYPE 0 (m_readKey codec)
                      (subbytes data offset (nat len - offset)) p_in_mac 0 s) (\<lambda>(codec, out, mac, s).
          let data = overwrite data offset out;
              data = (if valid \<and> subbytes data 16 8 = dbHeader then overwrite data 0 SQLITE_FILE_HEADER else data) in
          ret (codec, data, s\<lparr>heap_of := end_of_life {pp} (heap_of s)\<rparr>)))))"

section \<open>The file of tags\<close>

text \<open>
  Reads into a cell of four bytes and into a block; \<open>TEE_Malloc\<close> fills with zeros.
\<close>

definition bytes_int :: "byte list \<Rightarrow> s32" where
  "bytes_int bs = foldr (\<lambda>b acc. ucast b OR push_bit 8 acc) bs 0"

definition mac_log :: "byte list" where
  "mac_log = map of_char ''/tmp/mac.log''"

text \<open>
  \<open>create_loop\<close> is the \<open>while\<close> loop with \<open>n = 20000 - i\<close>; \<open>pageno\<close> is \<open>tmp_pageno[i]\<close>.  The two arrays have
  100 elements.
\<close>

primrec create_loop ::
    "'s codec_env \<Rightarrow> s32 \<Rightarrow> nat \<Rightarrow> nat \<Rightarrow> nat \<Rightarrow> 's cstate \<Rightarrow> 's cstate run" where
  "create_loop env fdr 0 i pageno s =
     (let (_, w) = io_read (tee_vfs env) fdr 4 (tee_world s) in ret (s\<lparr>tee_world := w\<rparr>))"
| "create_loop env fdr (Suc n) i pageno s =
     (if pageno = 0 then Some (Inl NullDeref)
      else
        run_bind (lookup (ints (heap_of s)) pageno) (\<lambda>old.
        let ((r, out), w) = io_read (tee_vfs env) fdr 4 (tee_world s);
            k = bytes_int (overwrite (int_bytes old) 0 (take 4 (case out of None \<Rightarrow> [] | Some bs \<Rightarrow> bs)));
            s = s\<lparr>tee_world := w, heap_of := (heap_of s)\<lparr>ints := (ints (heap_of s))(pageno \<mapsto> k)\<rparr>\<rparr> in
        if r = 0 then ret s
        else if 100 \<le> i then Some (Inl OutOfBounds)
        else
          let (_, w) = io_lseek (tee_vfs env) fdr (word_of_nat ((i + 1) * 4 + i * 16)) 0 (tee_world s) in
          if \<not> avail env 16 (heap_of s) then Some (Inl NullDeref)
          else
            let ((_, out), w) = io_read (tee_vfs env) fdr 16 w;
                mac = overwrite (replicate 16 0) 0 (take 16 (case out of None \<Rightarrow> [] | Some bs \<Rightarrow> bs));
                (_, w) = io_lseek (tee_vfs env) fdr (word_of_nat ((i + 1) * 4 + (i + 1) * 16)) 0 w;
                h = heap_of s;
                tmp_tag = fresh h;
                s = s\<lparr>tee_world := w, heap_of := h\<lparr>blobs := (blobs h)(tmp_tag \<mapsto> mac), fresh := Suc tmp_tag\<rparr>\<rparr> in
            run_bind (tag_set env pageno tmp_tag s) (\<lambda>s.
            if 100 \<le> i + 1 then Some (Inl OutOfBounds)
            else if \<not> avail env 8 (heap_of s) then create_loop env fdr n (i + 1) 0 s
            else
              let h = heap_of s;
                  p = fresh h;
                  s = s\<lparr>heap_of := h\<lparr>ints := (ints h)(p \<mapsto> 0), fresh := Suc p\<rparr>\<rparr> in
              create_loop env fdr n (i + 1) p s)))"

definition createMap :: "'s codec_env \<Rightarrow> 's cstate \<Rightarrow> 's cstate run" where
  "createMap env s =
     (let (fdr, w) = io_open (tee_vfs env) mac_log 0x42 0x1FF (tee_world s) in
      run_bind (hm_create (avail env) 500 1 13 (heap_of s)) (\<lambda>m.
      let s = s\<lparr>tee_world := w, tags := m\<rparr> in
      run_bind
        (if \<not> avail env 4 (heap_of s) then create_loop env fdr 20000 0 0 s
         else
           let h = heap_of s; p = fresh h in
           create_loop env fdr 20000 0 p (s\<lparr>heap_of := h\<lparr>ints := (ints h)(p \<mapsto> 0), fresh := Suc p\<rparr>\<rparr>)) (\<lambda>s.
      let (_, w) = io_close (tee_vfs env) fdr (tee_world s) in ret (s\<lparr>tee_world := w\<rparr>))))"

definition free_int :: "nat \<Rightarrow> heap \<Rightarrow> heap run" where
  "free_int val h = free_blob val h"

text \<open>After \<open>hm_delete\<close> the global pointer designates nothing.\<close>

definition closeMap :: "'s codec_env \<Rightarrow> 's cstate \<Rightarrow> 's cstate run" where
  "closeMap env s =
     (let (fdw, w) = io_open (tee_vfs env) mac_log 0x202 0x1FF (tee_world s) in
      case tags s of
        None \<Rightarrow> Some (Inl NullDeref)
      | Some m \<Rightarrow>
          run_bind (hm_dump (\<lambda>bs w. snd (io_write (tee_vfs env) fdw bs (word_of_nat (length bs)) w)) None m
                      (heap_of s) w) (\<lambda>w.
          run_bind (hm_delete (Some free_int) m (heap_of s)) (\<lambda>(_, h).
          let (_, w) = io_close (tee_vfs env) fdw w in
          ret (s\<lparr>tags := None, heap_of := h, tee_world := w\<rparr>))))"

end
