(* ===== verification/Codec_Props.thy ===== *)
theory Codec_Props
  imports Codec
begin

text \<open>
  What the codec does to a page: with a cipher that decrypts what it encrypted, and the tag of the page
  in the map, decryption gives the page back, the unencrypted part of the header of page 1 included.
  The code itself cannot have that tag in the map after \<open>CodecEncrypt\<close>: it stores pointers to local
  variables.
\<close>

section \<open>The cipher\<close>

text \<open>
  An operation that was allocated, given its key and initialised as \<open>reset\<close> does it encrypts with
  \<open>enc key\<close>, which yields the encrypted bytes and the tag, and decrypts what \<open>enc key\<close> encrypted.
\<close>

definition aead_ok :: "'s codec_env \<Rightarrow> (byte list \<Rightarrow> byte list \<Rightarrow> byte list \<times> byte list) \<Rightarrow> bool" where
  "aead_ok env enc \<longleftrightarrow>
     (\<forall>key d. length (fst (enc key d)) = length d \<and> length (snd (enc key d)) = aes_gcm_tag_size) \<and>
     (\<forall>c key s c' s' op d. reset env c 1 key s = ret (c', s') \<and> test_op_handle c' = Some op \<longrightarrow>
        t_out (fst (tee_do env (TEE_AEEncryptFinal op d) s')) = fst (enc key d) \<and>
        t_tag (fst (tee_do env (TEE_AEEncryptFinal op d) s')) = snd (enc key d)) \<and>
     (\<forall>c key s c' s' op d. reset env c 0 key s = ret (c', s') \<and> test_op_handle c' = Some op \<longrightarrow>
        t_out (fst (tee_do env (TEE_AEDecryptFinal op (fst (enc key d)) (snd (enc key d))) s')) = d)"

definition codec_ready :: "Codec \<Rightarrow> bool" where
  "codec_ready c \<longleftrightarrow> test_op_handle c \<noteq> None \<and> test_key_handle c \<noteq> None"

lemma tee_do_state [simp]:
  "heap_of (snd (tee_do env c s)) = heap_of s" "tags (snd (tee_do env c s)) = tags s"
  by (simp_all add: tee_do_def split: prod.splits)

lemma tee_do_fst:
  "tee_do env x s = (r, t) \<Longrightarrow> r = fst (tee_do env x s) \<and> heap_of t = heap_of s \<and> tags t = tags s"
  by (metis fst_conv snd_conv tee_do_state)

lemma reset_total:
  assumes "codec_ready c"
  obtains c' s' op where "reset env c isenc key s = ret (c', s')" and "test_op_handle c' = Some op"
    and "codec_ready c'" and "m_readKey c' = m_readKey c" and "m_writeKey c' = m_writeKey c"
    and "heap_of s' = heap_of s" and "tags s' = tags s"
proof -
  from assms obtain op k where "test_op_handle c = Some op" "test_key_handle c = Some k"
    by (auto simp: codec_ready_def)
  note c = this
  define s0 where "s0 = (if op \<noteq> 0 then snd (tee_do env (TEE_FreeOperation op) s) else s)"
  obtain r s1 where 1: "tee_do env (TEE_AllocateOperation TEE_ALG_AES_GCM
      (if isenc = 1 then TEE_MODE_ENCRYPT else TEE_MODE_DECRYPT) 128) s0 = (r, s1)" by fastforce
  define s2 where "s2 = (if k \<noteq> 0 then snd (tee_do env (TEE_FreeTransientObject k) s1) else s1)"
  obtain q s3 where 3: "tee_do env (TEE_AllocateTransientObject TEE_TYPE_AES 128) s2 = (q, s3)" by fastforce
  obtain x4 s4 where 4: "tee_do env (TEE_PopulateTransientObject (t_handle q) key) s3 = (x4, s4)" by fastforce
  obtain x5 s5 where 5: "tee_do env (TEE_SetOperationKey (t_handle r) (t_handle q)) s4 = (x5, s5)" by fastforce
  obtain x6 s6 where 6: "tee_do env (TEE_AEInit (t_handle r) global_iv 128) s5 = (x6, s6)" by fastforce
  define c' where "c' = c\<lparr>test_op_handle := Some (t_handle r), test_key_handle := Some (t_handle q)\<rparr>"
  have run: "reset env c isenc key s = ret (c', s6)"
    using c 1 3 4 5 6 by (simp add: reset_def Let_def s0_def s2_def c'_def)
  have "heap_of s6 = heap_of s \<and> tags s6 = tags s"
    using tee_do_fst [OF 1] tee_do_fst [OF 3] tee_do_fst [OF 4] tee_do_fst [OF 5] tee_do_fst [OF 6]
    by (simp add: s0_def s2_def)
  then show ?thesis by (intro that [OF run]) (simp_all add: c'_def codec_ready_def)
qed

lemma reset_keeps:
  assumes "reset env c isenc key s = ret (c', s')"
  shows "heap_of s' = heap_of s \<and> tags s' = tags s"
proof -
  have c: "codec_ready c" using assms by (auto simp: reset_def codec_ready_def Let_def split: option.splits prod.splits)
  show ?thesis by (rule reset_total [OF c, of env isenc key s]) (use assms in auto)
qed

lemma aes_encrypt:
  assumes law: "aead_ok env enc" and room: "room (avail env)" and c: "codec_ready c"
    and key: "(if use \<noteq> 0 then m_writeKey c else m_readKey c) = Some key"
  obtains c' s' where "CodecAES env c CODEC_TYPE 1 ek src mac use s = ret (c', fst (enc key src), snd (enc key src), s')"
    and "codec_ready c'" and "m_readKey c' = m_readKey c" and "m_writeKey c' = m_writeKey c"
    and "heap_of s' = heap_of s" and "tags s' = tags s"
proof -
  obtain c' s' op where r: "reset env c 1 key s = ret (c', s')" "test_op_handle c' = Some op" "codec_ready c'"
    "m_readKey c' = m_readKey c" "m_writeKey c' = m_writeKey c" "heap_of s' = heap_of s" "tags s' = tags s"
    by (rule reset_total [OF c])
  obtain q t where t: "tee_do env (TEE_AEEncryptFinal op src) s' = (q, t)" by fastforce
  have len: "length (fst (enc key src)) = length src" "length (snd (enc key src)) = 16"
    using law by (simp_all add: aead_ok_def)
  have "t_out q = fst (enc key src)" "t_tag q = snd (enc key src)"
    using law r(1,2) tee_do_fst [OF t] unfolding aead_ok_def by metis+
  then have "CodecAES env c CODEC_TYPE 1 ek src mac use s = ret (c', fst (enc key src), snd (enc key src), t)"
    using r(1,2) t key room len fit_length [of "snd (enc key src)"]
    by (simp add: CodecAES_def room_def overwrite_all)
  then show ?thesis using r(3-7) tee_do_fst [OF t] by (intro that [of c' t]) auto
qed

lemma aes_decrypt:
  assumes law: "aead_ok env enc" and room: "room (avail env)" and c: "codec_ready c"
    and key: "m_readKey c = Some key"
  obtains c' s' where
    "CodecAES env c CODEC_TYPE 0 ek (fst (enc key d)) (snd (enc key d)) 0 s = ret (c', d, snd (enc key d), s')"
    and "heap_of s' = heap_of s" and "tags s' = tags s"
proof -
  obtain c' s' op where r: "reset env c 0 key s = ret (c', s')" "test_op_handle c' = Some op"
    "heap_of s' = heap_of s" "tags s' = tags s"
    by (rule reset_total [OF c])
  obtain q t where t: "tee_do env (TEE_AEDecryptFinal op (fst (enc key d)) (snd (enc key d))) s' = (q, t)" by fastforce
  have len: "length (fst (enc key d)) = length d" using law by (simp add: aead_ok_def)
  have "t_out q = d"
    using law r(1,2) tee_do_fst [OF t] unfolding aead_ok_def by metis
  then have "CodecAES env c CODEC_TYPE 0 ek (fst (enc key d)) (snd (enc key d)) 0 s = ret (c', d, snd (enc key d), t)"
    using r(1,2) t key room len by (simp add: CodecAES_def room_def overwrite_all)
  then show ?thesis using r(3,4) tee_do_fst [OF t] by (intro that [of c' t]) auto
qed

section \<open>The content of a page\<close>

text \<open>
  Page 1: its first 16 bytes and the rest are encrypted apart, eight bytes of the rest move to offset 8,
  and the eight bytes behind the file header stay readable.
\<close>

definition encrypted_page :: "(byte list \<Rightarrow> byte list \<times> byte list) \<Rightarrow> s32 \<Rightarrow> byte list \<Rightarrow> byte list" where
  "encrypted_page enc page data =
     (if page = 1 then
        let a = fst (enc (take 16 data)); b = fst (enc (drop 16 data)) in
        take 8 a @ take 8 b @ subbytes data 16 8 @ drop 8 b
      else fst (enc data))"

definition page_tag :: "(byte list \<Rightarrow> byte list \<times> byte list) \<Rightarrow> s32 \<Rightarrow> byte list \<Rightarrow> byte list" where
  "page_tag enc page data = snd (enc (if page = 1 then drop 16 data else data))"

lemma aes_keeps:
  assumes "CodecAES env c ty e ek src mac use s = ret (c', out, m', s')"
  shows "heap_of s' = heap_of s \<and> tags s' = tags s"
  using assms
  by (auto simp: CodecAES_def Let_def run_bind_ret split: if_splits option.splits prod.splits
      dest!: reset_keeps tee_do_fst)

lemma aes_encryptD:
  assumes "aead_ok env enc" and "room (avail env)" and "codec_ready c"
    and "(if use \<noteq> 0 then m_writeKey c else m_readKey c) = Some key"
    and "CodecAES env c CODEC_TYPE 1 ek src mac use s = ret (c', out, m', s')"
  shows "out = fst (enc key src)" and "m' = snd (enc key src)" and "codec_ready c'"
    and "m_readKey c' = m_readKey c" and "m_writeKey c' = m_writeKey c"
    and "heap_of s' = heap_of s" and "tags s' = tags s"
proof -
  obtain d t where "CodecAES env c CODEC_TYPE 1 ek src mac use s = ret (d, fst (enc key src), snd (enc key src), t)"
    "codec_ready d" "m_readKey d = m_readKey c" "m_writeKey d = m_writeKey c" "heap_of t = heap_of s" "tags t = tags s"
    by (rule aes_encrypt [OF assms(1-4)])
  with assms(5) show "out = fst (enc key src)" "m' = snd (enc key src)" "codec_ready c'"
    "m_readKey c' = m_readKey c" "m_writeKey c' = m_writeKey c" "heap_of s' = heap_of s" "tags s' = tags s"
    by simp_all
qed

lemma encrypt_content:
  assumes law: "aead_ok env enc" and room: "room (avail env)" and c: "codec_ready c"
    and key: "(if use \<noteq> 0 then m_writeKey c else m_readKey c) = Some key" and len: "24 \<le> length data"
    and run: "CodecEncrypt env c page data (int (length data)) use s = ret (c1, data', s1)"
  shows "data' = encrypted_page (enc key) page data"
proof -
  have lens: "length (fst (enc key d)) = length d" for d using law by (simp add: aead_ok_def)
  note aes = aes_encryptD [OF law room]
  show ?thesis
  proof (cases "page = 1")
    case False
    then obtain out mac c' s' t where "CodecAES env c CODEC_TYPE 1 (if use \<noteq> 0 then m_writeKey c else m_readKey c)
        (subbytes data 0 (length data)) (replicate 16 0) use t = ret (c', out, mac, s')" "data' = overwrite data 0 out"
      using run by (auto simp: CodecEncrypt_def Let_def run_bind_ret split: prod.splits)
    with aes(1) [OF c key this(1)] False lens [of data] show ?thesis
      by (simp add: encrypted_page_def overwrite_all)
  next
    case True
    let ?k = "if use \<noteq> 0 then m_writeKey c else m_readKey c"
    obtain c2 d2 s2 t2 mp c3 out mac s3 t3 where
      h: "encrypt_header env c page data use mp t2 = ret (c2, d2, s2)"
      and b: "CodecAES env c2 CODEC_TYPE 1 (if use \<noteq> 0 then m_writeKey c2 else m_readKey c2)
        (subbytes d2 16 (length data - 16)) (replicate 16 0) use t3 = ret (c3, out, mac, s3)"
      and d': "data' = overwrite (overwrite (overwrite d2 16 out) 8 (subbytes (overwrite d2 16 out) 16 8)) 16
        (subbytes data 16 8)"
      using run True by (auto simp: CodecEncrypt_def Let_def run_bind_ret split: prod.splits)
    obtain o1 m1 s4 c4 where a: "CodecAES env c CODEC_TYPE 1 ?k (take 16 data) (replicate 16 0) use t2 = ret (c4, o1, m1, s4)"
      "c2 = c4" "d2 = overwrite data 0 o1"
      using h by (auto simp: encrypt_header_def local_int_def Let_def run_bind_ret split: prod.splits)
    note A = aes [OF c key a(1)]
    have k2: "(if use \<noteq> 0 then m_writeKey c2 else m_readKey c2) = Some key"
      using A(4,5) a(2) key by (simp split: if_splits)
    have c2: "codec_ready c2" using A(3) a(2) by simp
    note B = aes [OF c2 k2 b]
    define e1 e2 where "e1 = fst (enc key (take 16 data))" and "e2 = fst (enc key (drop 16 data))"
    have l: "length e1 = 16" "length e2 = length data - 16" using lens len by (simp_all add: e1_def e2_def)
    have d2: "d2 = e1 @ drop 16 data" using A(1) a(3) l len by (simp add: e1_def overwrite_within)
    have "subbytes d2 16 (length data - 16) = drop 16 data" using l by (simp add: d2 subbytes_def)
    then have out: "out = e2" using B(1) by (simp add: e2_def)
    have d3: "overwrite d2 16 out = e1 @ e2" using l len by (simp add: d2 out overwrite_within)
    have d4: "overwrite (e1 @ e2) 8 (subbytes (e1 @ e2) 16 8) = take 8 e1 @ take 8 e2 @ e2"
      using l len by (simp add: overwrite_within subbytes_def)
    have "data' = overwrite (take 8 e1 @ take 8 e2 @ e2) 16 (subbytes data 16 8)"
      unfolding d' d3 d4 ..
    also have "\<dots> = take 8 e1 @ take 8 e2 @ subbytes data 16 8 @ drop 8 e2"
      using l len by (simp add: overwrite_within)
    finally show ?thesis using True by (simp add: encrypted_page_def e1_def e2_def Let_def)
  qed
qed

section \<open>Looking up a tag through a local variable\<close>

lemma heap_ok_alt: "heap_ok h \<longleftrightarrow> 0 < fresh h \<and>
    (\<forall>x n. nodes h x = Some n \<longrightarrow> 0 < x \<and> x < fresh h) \<and> (\<forall>x k. ints h x = Some k \<longrightarrow> 0 < x \<and> x < fresh h) \<and>
    (\<forall>x b. blobs h x = Some b \<longrightarrow> 0 < x \<and> x < fresh h) \<and> (\<forall>x \<in> locals h. 0 < x \<and> x < fresh h)"
  by (auto simp: heap_ok_def dom_def)

lemma local_int_ok: "heap_ok h \<Longrightarrow> local_int v h = (p, h') \<Longrightarrow> heap_ok h'"
  unfolding heap_ok_alt local_int_def by (auto simp: less_Suc_eq split: if_splits)

lemma local_blob_ok: "heap_ok h \<Longrightarrow> local_blob v h = (p, h') \<Longrightarrow> heap_ok h'"
  unfolding heap_ok_alt local_blob_def by (auto simp: less_Suc_eq split: if_splits)

lemma put_blob_ok: "heap_ok (heap_of s) \<Longrightarrow> 0 < p \<Longrightarrow> p < fresh (heap_of s) \<Longrightarrow> heap_ok (heap_of (put_blob p v s))"
  unfolding heap_ok_alt put_blob_def by auto

lemma local_int_inv:
  assumes "hm_inv m h" and "local_int v h = (p, h')"
  shows "hm_inv m h'" and "val_at m h' = val_at m h" and "p \<noteq> 0" and "ints h' p = Some v" and "blobs h' = blobs h"
proof -
  have h': "p = fresh h" "h' = h\<lparr>ints := (ints h)(fresh h \<mapsto> v), locals := insert (fresh h) (locals h), fresh := Suc (fresh h)\<rparr>"
    using assms(2) by (auto simp: local_int_def)
  have ok: "heap_ok h" using assms(1) by (simp add: hm_inv_def)
  then have sub: "nodes h q = Some n \<Longrightarrow> q < fresh h" "ints h q = Some k \<Longrightarrow> q < fresh h"
    "blobs h q = Some b \<Longrightarrow> q < fresh h" for q n k b
    by (force simp: heap_ok_def)+
  show v: "val_at m h' = val_at m h" by (rule ext) (simp add: val_at_def h')
  have "heap_ok h'" using ok by (auto simp: heap_ok_def h')
  moreover have "bucket_ok h' i q" if "bucket_ok h i q" for i q
    using that sub(1,2,3) unfolding bucket_ok_def h' by fastforce
  ultimately show "hm_inv m h'"
    using assms(1) unfolding hm_inv_def v by blast
  show "p \<noteq> 0" using ok by (simp add: heap_ok_def h')
  show "ints h' p = Some v" "blobs h' = blobs h" by (simp_all add: h')
qed

lemma tag_get_found:
  assumes "tags s = Some m" and "hm_inv m (heap_of s)" and "unat page < unat (hm_size m)"
    and "val_at m (heap_of s) (unat page) = Some t"
  shows "local_int page (heap_of s) = (pp, h') \<Longrightarrow>
    tag_get pp (s\<lparr>heap_of := h'\<rparr>) = ret (t, s\<lparr>heap_of := h'\<rparr>) \<and> t \<noteq> 0 \<and> blobs h' = blobs (heap_of s)"
proof -
  assume l: "local_int page (heap_of s) = (pp, h')"
  note L = local_int_inv [OF assms(2) l]
  have "hm_get m pp h' = ret (t, h')"
    using hm_get_spec [OF L(1,3,4) assms(3)] L(2) assms(4) by simp
  moreover have "t \<noteq> 0"
  proof -
    have "bucket_ok (heap_of s) (unat page) (head m (unat page))" using assms(2,3) by (simp add: hm_inv_def)
    moreover have "nodes (heap_of s) 0 = None" using assms(2) by (intro nodes_null) (simp add: hm_inv_def)
    ultimately show ?thesis using assms(3,4) by (auto simp: val_at_def bucket_ok_def)
  qed
  ultimately show ?thesis using assms(1) L(5) by (simp add: tag_get_def)
qed

lemma decrypt_content:
  assumes law: "aead_ok env enc" and room: "room (avail env)" and c: "codec_ready c" and key: "m_readKey c = Some key"
    and len: "24 \<le> length data"
    and header: "page = 1 \<Longrightarrow> take 16 data = SQLITE_FILE_HEADER \<and> header_valid env (subbytes data 16 8)"
    and tag: "tags s = Some m" "hm_inv m (heap_of s)" "unat page < unat (hm_size m)"
      "val_at m (heap_of s) (unat page) = Some t" "blobs (heap_of s) t = Some (page_tag (enc key) page data)"
  shows "\<exists>c' s'. CodecDecrypt env c page (encrypted_page (enc key) page data) (int (length data)) s = ret (c', data, s')"
proof -
  have lens: "length (fst (enc key d)) = length d" "length (snd (enc key d)) = 16" for d
    using law by (simp_all add: aead_ok_def)
  obtain pp h' where l: "local_int page (heap_of s) = (pp, h')" by fastforce
  note T = tag_get_found [OF tag(1-4) l]
  define off where "off = (if page = 1 then 16 else 0 :: nat)"
  define d where "d = drop off data"
  define mac where "mac = snd (enc key d)"
  have t: "lookup (blobs h') t = ret mac" "length mac = 16"
    using T tag(5) lens(2) by (auto simp: page_tag_def mac_def d_def off_def)
  obtain c' s' where a: "CodecAES env c CODEC_TYPE 0 (m_readKey c) (fst (enc key d)) mac 0 (s\<lparr>heap_of := h'\<rparr>) =
      ret (c', d, mac, s')"
    unfolding mac_def by (rule aes_decrypt [OF law room c key])
  show ?thesis
  proof (cases "page = 1")
    case False
    then show ?thesis
      using l T t a lens by (simp add: CodecDecrypt_def Let_def encrypted_page_def off_def d_def subbytes_def overwrite_all)
  next
    case True
    define e1 e2 where "e1 = fst (enc key (take 16 data))" and "e2 = fst (enc key (drop 16 data))"
    have le: "length e1 = 16" "length e2 = length data - 16" using lens len by (simp_all add: e1_def e2_def)
    define e where "e = take 8 e1 @ take 8 e2 @ subbytes data 16 8 @ drop 8 e2"
    have enc: "encrypted_page (enc key) page data = e"
      using True by (simp add: encrypted_page_def e_def e1_def e2_def Let_def)
    have hd: "subbytes e 16 8 = subbytes data 16 8" and mid: "subbytes e 8 8 = take 8 e2"
      and lene: "length e = length data"
      using le len by (simp_all add: e_def subbytes_def)
    have e': "overwrite e 16 (subbytes e 8 8) = take 8 e1 @ take 8 e2 @ e2"
      unfolding mid using le len by (simp add: overwrite_within e_def)
    have reg: "subbytes (take 8 e1 @ take 8 e2 @ e2) 16 (length data - 16) = e2"
      using le len by (simp add: subbytes_def)
    have a': "CodecAES env c CODEC_TYPE 0 (m_readKey c) e2 mac 0 (s\<lparr>heap_of := h'\<rparr>) = ret (c', drop 16 data, mac, s')"
      using a True by (simp add: d_def off_def e2_def)
    have dec: "overwrite (take 8 e1 @ take 8 e2 @ e2) 16 (drop 16 data) = take 8 e1 @ take 8 e2 @ drop 16 data"
      using le len by (simp add: overwrite_within)
    have last: "subbytes (take 8 e1 @ take 8 e2 @ drop 16 data) 16 8 = subbytes data 16 8"
      using le len by (simp add: subbytes_def)
    have sh: "length SQLITE_FILE_HEADER = 16" by (simp add: SQLITE_FILE_HEADER_def)
    have fin: "overwrite (take 8 e1 @ take 8 e2 @ drop 16 data) 0 SQLITE_FILE_HEADER = data"
      using le len sh header [OF True] append_take_drop_id [of 16 data] by (simp add: overwrite_within)
    have lene': "length (take 8 e1 @ take 8 e2 @ e2) = length data" using le len by simp
    show ?thesis
      using True header l T t a' len
      by (simp add: CodecDecrypt_def Let_def enc [unfolded True] hd lene e' le reg dec last fin)
  qed
qed

section \<open>The tags \<open>CodecEncrypt\<close> leaves behind\<close>

text \<open>The map grows when one more entry passes the load factor.\<close>

definition will_grow :: "'s codec_env \<Rightarrow> hashmap \<Rightarrow> bool" where
  "will_grow env m \<longleftrightarrow>
     hm_load m < float_round env (float_round env (of_nat (unat (hm_count m + 1)))
                                   / float_round env (of_nat (unat (hm_size m))))"

text \<open>A first entry under a key in a local variable.\<close>

lemma tag_set_local:
  assumes "tags s = Some m" and ok: "heap_ok (heap_of s)" and "room (avail env)"
    and b: "bucket m page = ret 0" and "set_bucket m page (fresh (heap_of s)) = ret m'"
    and "hm_load m' = hm_load m" "hm_count m' = hm_count m" "hm_size m' = hm_size m"
    and "ints (heap_of s) key = Some page" and "\<not> will_grow env m"
  shows "\<exists>h. tag_set env key val s = ret (s\<lparr>tags := Some (m'\<lparr>hm_count := hm_count m + 1\<rparr>), heap_of := h\<rparr>) \<and>
    nodes h = (nodes (heap_of s))(fresh (heap_of s) \<mapsto> \<lparr>it_key = key, it_value = val, it_next = 0\<rparr>) \<and> heap_ok h"
proof -
  have key: "key \<noteq> 0" using ok assms(9) by (force simp: heap_ok_def)
  obtain h where "set_item (avail env) 0 key val 0 (heap_of s) = ret (fresh (heap_of s), 1, h)" "heap_ok h"
    "nodes h = (nodes (heap_of s))(fresh (heap_of s) \<mapsto> \<lparr>it_key = key, it_value = val, it_next = 0\<rparr>)"
    using set_item_new [OF ok assms(3) key assms(9), of val 0] by auto
  then show ?thesis
    using assms key by (intro exI [of _ h]) (simp add: tag_set_def hm_set_def hash_def Let_def will_grow_def)
qed

text \<open>A lookup that meets an item whose key is gone.\<close>

lemma tag_get_dangling:
  assumes "tags s = Some m" and b: "bucket m page = ret t" and "t \<noteq> 0" and "nodes (heap_of s) t = Some n"
    and "it_key n \<noteq> 0" and "ints (heap_of s) (it_key n) = None" and "it_key n < fresh (heap_of s)"
    and "local_int page (heap_of s) = (pp, h')"
  shows "tag_get pp (s\<lparr>heap_of := h'\<rparr>) = Some (Inl UseAfterFree)"
proof -
  have h': "pp = fresh (heap_of s)" "nodes h' t = Some n" "ints h' pp = Some page" "ints h' (it_key n) = None" "pp \<noteq> 0"
    using assms(4-8) by (auto simp: local_int_def)
  then show ?thesis
    using assms(1,2,3,5) by (simp add: tag_get_def hm_get_def hash_def get_item.simps [of t] lookup_def)
qed

text \<open>The item a first encryption leaves in the map: its key is an address nothing lives at.\<close>

lemma encrypt_leaves_dangling:
  assumes "room (avail env)" and "tags s = Some m" and "hm_inv m (heap_of s)"
    and "page \<noteq> 1" and "unat page < unat (hm_size m)" and "val_at m (heap_of s) (unat page) = None"
    and "\<not> will_grow env m" and "CodecEncrypt env c page data len use s = ret (c', data', s')"
  obtains m2 p n where "tags s' = Some m2" and "bucket m2 page = ret p" and "p \<noteq> 0"
    and "nodes (heap_of s') p = Some n" and "it_key n \<noteq> 0" and "ints (heap_of s') (it_key n) = None"
    and "it_key n < fresh (heap_of s')"
proof -
  define h where "h = heap_of s"
  have ok: "heap_ok h" using assms(3) by (simp add: hm_inv_def h_def)
  note b = bucket_head [OF assms(3,5)]
  have hd0: "head m (unat page) = 0"
    using assms(3,5,6) by (auto simp: hm_inv_def val_at_def bucket_ok_def)
  obtain pp h1 where l: "local_int page h = (pp, h1)" by fastforce
  obtain mp h2 where l2: "local_blob (replicate 16 0) h1 = (mp, h2)" by fastforce
  obtain mac t u out where
    t: "CodecAES env c CODEC_TYPE 1 (if use \<noteq> 0 then m_writeKey c else m_readKey c)
         (subbytes data 0 (nat len)) (replicate 16 0) use (s\<lparr>heap_of := h2\<rparr>) = ret (c', out, mac, t)"
    and u: "tag_set env pp mp (put_blob mp mac t) = ret u"
    and s': "s' = u\<lparr>heap_of := end_of_life {pp, mp} (heap_of u)\<rparr>"
    using assms(8,4) l l2 by (auto simp: CodecEncrypt_def h_def Let_def run_bind_ret split: prod.splits)
  have T: "heap_of t = h2 \<and> tags t = Some m"
    using aes_keeps [OF t] assms(2) by simp
  have P: "pp = fresh h" "mp = Suc (fresh h)" "ints h2 pp = Some page" "nodes h2 = nodes h" "fresh h2 = Suc mp" "heap_ok h2"
    using l l2 local_blob_ok [OF local_int_ok [OF ok l] l2] by (auto simp: local_int_def local_blob_def)
  define v where "v = put_blob mp mac t"
  have V: "tags v = Some m" "heap_ok (heap_of v)" "ints (heap_of v) pp = Some page" "nodes (heap_of v) = nodes h"
    "fresh (heap_of v) = Suc mp"
    using T P put_blob_ok [of t mp mac] by (auto simp: v_def put_blob_def)
  define m' where "m' = with_head m (unat page) (Suc mp)"
  have m': "set_bucket m page (fresh (heap_of v)) = ret m'"
    using b(3) [of "Suc mp"] V(5) by (simp add: m'_def with_head_def)
  obtain h3 where w: "tag_set env pp mp v = ret (v\<lparr>tags := Some (m'\<lparr>hm_count := hm_count m + 1\<rparr>), heap_of := h3\<rparr>)"
    "nodes h3 = (nodes h)(Suc mp \<mapsto> \<lparr>it_key = pp, it_value = mp, it_next = 0\<rparr>)" "heap_ok h3"
    using tag_set_local [OF V(1,2) assms(1) _ m' _ _ _ V(3) assms(7), of mp] b(1) hd0 V(4,5)
    by (auto simp: m'_def with_head_def)
  have S: "tags s' = Some (m'\<lparr>hm_count := hm_count m + 1\<rparr>)" "heap_of s' = end_of_life {pp, mp} h3"
    using u w(1) s' by (simp_all add: v_def)
  obtain xs where xs: "hm_items m = Some xs" "unat (hm_size m) \<le> length xs" using assms(3) by (auto simp: hm_inv_def)
  have bk: "bucket (m'\<lparr>hm_count := hm_count m + 1\<rparr>) page = ret (Suc mp)"
    using xs assms(5) by (simp add: bucket_def m'_def with_head_def)
  have less: "Suc mp < fresh h3" using w(2,3) by (force simp: heap_ok_def)
  have pos: "pp \<noteq> 0" using P(1) ok by (simp add: heap_ok_def)
  show ?thesis
    by (rule that [OF S(1) bk]) (use S(2) w(2) P(1,2) less pos in \<open>auto simp: end_of_life_def\<close>)
qed

section \<open>Properties\<close>


text \<open>C28. After \<open>CodecEncrypt\<close> of a page whose tag was not in the map, \<open>CodecDecrypt\<close> of the same page reads
  a variable that no longer exists: the map kept the address of the parameter \<open>page\<close>.  (Pages whose tag
  makes the map grow at that moment are left out.)\<close>

theorem encrypted_page_unreadable:
  assumes "room (avail env)" and "tags s = Some m" and "hm_inv m (heap_of s)"
    and "1 < unat page" and "unat page < unat (hm_size m)" and "val_at m (heap_of s) (unat page) = None"
    and "\<not> will_grow env m" and "CodecEncrypt env c page data len use s = ret (c', data', s')"
  shows "CodecDecrypt env d page other n s' = Some (Inl UseAfterFree)"
proof -
  have ne: "page \<noteq> 1" using assms(4) by auto
  obtain m2 p x where d: "tags s' = Some m2" "bucket m2 page = ret p" "p \<noteq> 0" "nodes (heap_of s') p = Some x"
    "it_key x \<noteq> 0" "ints (heap_of s') (it_key x) = None" "it_key x < fresh (heap_of s')"
    by (rule encrypt_leaves_dangling [OF assms(1-3) ne assms(5-8)])
  obtain qq h4 where q: "local_int page (heap_of s') = (qq, h4)" by fastforce
  show ?thesis
    using tag_get_dangling [OF d q] q ne by (simp add: CodecDecrypt_def Let_def)
qed

end
