(* ===== verification/Codec_Ext.thy ===== *)
theory Codec_Ext
  imports Codec_Props
begin

text \<open>
  Attaching a key to a database and changing it, \<open>codecext.c\<close>, in the configuration of the header in the
  repository (\<open>SQLITE_VERSION_NUMBER\<close> 3008004, \<open>CODEC_TYPE_GCM128\<close>, no timing).  The pager and the B-tree
  of SQLite are a parameter; a database connection is what the code reads of it, the names and B-trees
  of its databases.  The build of the repository does not compile this file.
\<close>

section \<open>State and parameters\<close>

text \<open>The structures \<open>Codec\<close> by address, on top of the state of \<open>Codec\<close>.\<close>

record 's ext =
  cs :: "'s cstate"
  codecs :: "nat \<Rightarrow> Codec option"
  next_codec :: nat

record sqlite_db =
  db_name :: "byte list"
  db_bt :: nat

text \<open>
  \<open>sqlite3_malloc\<close> may fail; what it returns is not initialised.  The functions of the pager and the
  B-tree may call \<open>sqlite3Codec\<close> back, so they work on the whole state.
\<close>

record 's sqlite_env =
  codec_e :: "'s codec_env"
  sq_malloc :: "'s ext \<Rightarrow> bool"
  btree_pager :: "nat \<Rightarrow> nat"
  page_size :: "nat \<Rightarrow> 's ext \<Rightarrow> int"
  pager_get_codec :: "nat \<Rightarrow> 's ext \<Rightarrow> nat"
  pager_set_codec :: "nat \<Rightarrow> nat \<Rightarrow> 's ext \<Rightarrow> 's ext"
  begin_trans :: "nat \<Rightarrow> 's ext \<Rightarrow> int \<times> 's ext"
  page_count :: "nat \<Rightarrow> 's ext \<Rightarrow> int \<times> 's ext"
  page_get :: "nat \<Rightarrow> u32 \<Rightarrow> 's ext \<Rightarrow> (int \<times> nat) \<times> 's ext"
  page_write :: "nat \<Rightarrow> 's ext \<Rightarrow> int \<times> 's ext"
  page_unref :: "nat \<Rightarrow> 's ext \<Rightarrow> 's ext"
  bt_commit :: "nat \<Rightarrow> 's ext \<Rightarrow> int \<times> 's ext"
  bt_rollback :: "nat \<Rightarrow> 's ext \<Rightarrow> 's ext"
  pending_byte :: nat

definition raw_codec :: "nat \<Rightarrow> Codec" where
  "raw_codec page_sz =
     \<lparr>m_isEncrypted = 0, m_hasReadKey = 0, m_readKey = None, m_hasWriteKey = 0, m_writeKey = None,
      m_tag = None, test_op_handle = None, test_key_handle = None, m_bt = None,
      m_page = replicate (page_sz + 24) 0\<rparr>"

definition get_c :: "nat \<Rightarrow> 's ext \<Rightarrow> Codec run" where
  "get_c p s = lookup (codecs s) p"

definition put_c :: "nat \<Rightarrow> Codec \<Rightarrow> 's ext \<Rightarrow> 's ext" where
  "put_c p c s = s\<lparr>codecs := (codecs s)(p \<mapsto> c)\<rparr>"

text \<open>\<open>sqlite3_malloc (sizeof (Codec))\<close> and \<open>CodecInit\<close>, which writes through the result unchecked.\<close>

definition new_codec :: "'s sqlite_env \<Rightarrow> 's ext \<Rightarrow> (nat \<times> 's ext) run" where
  "new_codec env s =
     (if \<not> sq_malloc env s then Some (Inl NullDeref)
      else let p = next_codec s in
           ret (p, s\<lparr>codecs := (codecs s)(p \<mapsto> CodecInit (raw_codec (max_page_size (codec_e env)))),
                    next_codec := Suc p\<rparr>))"

section \<open>The codec of the pager\<close>

definition sqlite3CodecFree :: "nat \<Rightarrow> 's ext \<Rightarrow> 's ext" where
  "sqlite3CodecFree p s = (if p = 0 then s else s\<lparr>codecs := (codecs s)(p := None)\<rparr>)"

definition sqlite3CodecSizeChange :: "nat \<Rightarrow> int \<Rightarrow> int \<Rightarrow> 's ext \<Rightarrow> 's ext" where
  "sqlite3CodecSizeChange p pageSize reservedSize s = s"

text \<open>The pointer returned: the caller's \<open>data\<close>, or the page buffer of the codec, with the bytes there.\<close>

datatype page_data = In_place "byte list" | Page_buffer "byte list"

definition encrypt_buffer ::
    "'s sqlite_env \<Rightarrow> nat \<Rightarrow> Codec \<Rightarrow> byte list \<Rightarrow> s32 \<Rightarrow> int \<Rightarrow> int \<Rightarrow> 's ext \<Rightarrow> (page_data \<times> 's ext) run" where
  "encrypt_buffer env p c data nPageNum pageSize useWriteKey s =
     (let n = unat (word_of_int pageSize :: u64);
          pageBuffer = CodecGetPageBuffer c in
      if length data < n \<or> length pageBuffer < n then Some (Inl OutOfBounds)
      else
        run_bind (CodecEncrypt (codec_e env) c nPageNum (overwrite pageBuffer 0 (take n data)) pageSize useWriteKey (cs s))
          (\<lambda>(c, out, t).
        ret (Page_buffer out, put_c p (c\<lparr>m_page := take 4 (m_page c) @ out\<rparr>) (s\<lparr>cs := t\<rparr>))))"

definition sqlite3Codec ::
    "'s sqlite_env \<Rightarrow> nat \<Rightarrow> byte list \<Rightarrow> s32 \<Rightarrow> int \<Rightarrow> 's ext \<Rightarrow> (page_data \<times> 's ext) run" where
  "sqlite3Codec env pCodecArg data nPageNum nMode s =
     (if pCodecArg = 0 then ret (In_place data, s)
      else
        run_bind (get_c pCodecArg s) (\<lambda>c.
        if CodecIsEncrypted c = 0 then ret (In_place data, s)
        else
          case CodecGetBtree c of
            None \<Rightarrow> Some (Inl UninitRead)
          | Some bt \<Rightarrow>
              let pageSize = page_size env bt s in
              if nMode \<in> {0, 2, 3} then
                (if CodecHasReadKey c \<noteq> 0 then
                   run_bind (CodecDecrypt (codec_e env) c nPageNum data pageSize (cs s)) (\<lambda>(c, out, t).
                   ret (In_place out, put_c pCodecArg c (s\<lparr>cs := t\<rparr>)))
                 else ret (In_place data, s))
              else if nMode = 6 then
                (if CodecHasWriteKey c \<noteq> 0 then encrypt_buffer env pCodecArg c data nPageNum pageSize 1 s
                 else ret (In_place data, s))
              else if nMode = 7 then
                (if CodecHasReadKey c \<noteq> 0 then encrypt_buffer env pCodecArg c data nPageNum pageSize 0 s
                 else ret (In_place data, s))
              else ret (In_place data, s)))"

section \<open>Attaching a key\<close>

text \<open>\<open>db->aDb[i].pBt\<close>.\<close>

definition db_at :: "sqlite_db list \<Rightarrow> nat \<Rightarrow> nat run" where
  "db_at aDb i = (if length aDb \<le> i then Some (Inl OutOfBounds) else ret (db_bt (aDb ! i)))"

text \<open>\<open>zKey\<close> is \<open>None\<close> for a null pointer; the mutex of the connection is left out.\<close>

definition sqlite3CodecAttach ::
    "'s sqlite_env \<Rightarrow> sqlite_db list \<Rightarrow> nat \<Rightarrow> byte list option \<Rightarrow> int \<Rightarrow> 's ext \<Rightarrow> (int \<times> 's ext) run" where
  "sqlite3CodecAttach env aDb nDb zKey nKey s =
     run_bind (new_codec env s) (\<lambda>(p, s).
       run_bind (get_c p s) (\<lambda>codec.
       case (if nKey \<le> 0 then None else zKey) of
         None \<Rightarrow>
           if nDb \<noteq> 0 \<and> nKey > 0 then
             run_bind (db_at aDb 0) (\<lambda>main_bt.
             let mainCodec = pager_get_codec env (btree_pager env main_bt) s in
             run_bind (if mainCodec = 0 then ret None
                       else run_bind (get_c mainCodec s) (\<lambda>m. ret (if CodecIsEncrypted m \<noteq> 0 then Some m else None)))
               (\<lambda>main.
             case main of
               Some m \<Rightarrow>
                 run_bind (db_at aDb nDb) (\<lambda>bt.
                 let s = put_c p (CodecSetBtree (CodecCopy codec m) bt) s in
                 ret (SQLITE_OK, pager_set_codec env (btree_pager env bt) p s))
             | None \<Rightarrow> ret (SQLITE_OK, sqlite3CodecFree p s)))
           else ret (SQLITE_OK, s)
       | Some key \<Rightarrow>
           let codec = CodecSetHasWriteKey (CodecSetHasReadKey (CodecSetIsEncrypted codec 1) 1) 1 in
           run_bind (CodecGenerateReadKey codec key nKey) (\<lambda>codec.
           run_bind (db_at aDb nDb) (\<lambda>bt.
           let s = put_c p (CodecSetBtree (CodecCopyKey codec 1) bt) s in
           ret (SQLITE_OK, pager_set_codec env (btree_pager env bt) p s)))))"

text \<open>The key returned is always the null pointer.\<close>

definition sqlite3CodecGetKey ::
    "'s sqlite_env \<Rightarrow> sqlite_db list \<Rightarrow> nat \<Rightarrow> 's ext \<Rightarrow> (byte list option \<times> int) run" where
  "sqlite3CodecGetKey env aDb nDb s =
     run_bind (db_at aDb 0) (\<lambda>bt.
     let mainCodec = pager_get_codec env (btree_pager env bt) s in
     if mainCodec = 0 then ret (None, 0)
     else run_bind (get_c mainCodec s) (\<lambda>m. ret (None, if CodecIsEncrypted m \<noteq> 0 then 1 else 0)))"

fun find_name :: "byte list \<Rightarrow> nat \<Rightarrow> sqlite_db list \<Rightarrow> nat option" where
  "find_name z i [] = None"
| "find_name z i (d # ds) = (if db_name d = z then Some i else find_name z (Suc i) ds)"

definition dbFindIndex :: "sqlite_db list \<Rightarrow> byte list option \<Rightarrow> nat" where
  "dbFindIndex aDb zDb =
     (case zDb of None \<Rightarrow> 0 | Some z \<Rightarrow> (case find_name z 0 aDb of None \<Rightarrow> 0 | Some i \<Rightarrow> i))"

definition main_name :: "byte list" where
  "main_name = map of_char ''main''"

definition sqlite3_key_v2 ::
    "'s sqlite_env \<Rightarrow> sqlite_db list \<Rightarrow> byte list option \<Rightarrow> byte list option \<Rightarrow> int \<Rightarrow> 's ext \<Rightarrow> (int \<times> 's ext) run" where
  "sqlite3_key_v2 env aDb zDbName zKey nKey s = sqlite3CodecAttach env aDb (dbFindIndex aDb zDbName) zKey nKey s"

definition sqlite3_key ::
    "'s sqlite_env \<Rightarrow> sqlite_db list \<Rightarrow> byte list option \<Rightarrow> int \<Rightarrow> 's ext \<Rightarrow> (int \<times> 's ext) run" where
  "sqlite3_key env aDb zKey nKey s = sqlite3_key_v2 env aDb (Some main_name) zKey nKey s"

section \<open>Changing the key\<close>

text \<open>
  The loop over the pages; \<open>n\<close> is a 32-bit number, so the loop need not end when there are
  \<open>2 ^ 32 - 1\<close> pages, which is what a page count of \<open>-1\<close> becomes.
\<close>

partial_function (option) rekey_loop ::
    "'s sqlite_env \<Rightarrow> nat \<Rightarrow> u32 \<Rightarrow> u32 \<Rightarrow> int \<Rightarrow> u32 \<Rightarrow> 's ext \<Rightarrow> (int \<times> 's ext) run" where
  "rekey_loop env pPager nPage nSkip rc n s =
     (if rc \<noteq> SQLITE_OK \<or> nPage < n then ret (rc, s)
      else if n = nSkip then rekey_loop env pPager nPage nSkip rc (n + 1) s
      else
        let ((rc, pPage), s) = page_get env pPager n s in
        if rc \<noteq> 0 then rekey_loop env pPager nPage nSkip rc (n + 1) s
        else
          let (rc, s) = page_write env pPage s in
          rekey_loop env pPager nPage nSkip rc (n + 1) (page_unref env pPage s))"

definition WX_PAGER_MJ_PGNO :: "nat \<Rightarrow> int \<Rightarrow> u32" where
  "WX_PAGER_MJ_PGNO pbyte x = word_of_int (int pbyte div x + 1)"

text \<open>The choice of keys before the pages are rewritten: the codec and its address.\<close>

definition rekey_prepare ::
    "'s sqlite_env \<Rightarrow> nat \<Rightarrow> byte list option \<Rightarrow> int \<Rightarrow> 's ext \<Rightarrow> (nat option \<times> 's ext) run" where
  "rekey_prepare env pbt zKey nKey s =
     (let pPager = btree_pager env pbt;
          p = pager_get_codec env pPager s;
          key = (if nKey = 0 then None else zKey) in
      run_bind (if p = 0 then ret False
                else run_bind (get_c p s) (\<lambda>c. ret (CodecIsEncrypted c \<noteq> 0))) (\<lambda>encrypted.
      if key = None \<and> \<not> encrypted then ret (None, s)
      else if \<not> encrypted then
        run_bind (if p = 0 then new_codec env s else ret (p, s)) (\<lambda>(p, s).
        run_bind (get_c p s) (\<lambda>c.
        let c = CodecSetHasWriteKey (CodecSetHasReadKey (CodecSetIsEncrypted c 1) 0) 1 in
        run_bind (CodecGenerateWriteKey c (case key of None \<Rightarrow> [] | Some k \<Rightarrow> k) nKey) (\<lambda>c.
        ret (Some p, pager_set_codec env pPager p (put_c p (CodecSetBtree c pbt) s)))))
      else
        run_bind (get_c p s) (\<lambda>c.
        case key of
          None \<Rightarrow> ret (Some p, put_c p (CodecSetHasWriteKey c 0) s)
        | Some k \<Rightarrow>
            run_bind (CodecGenerateWriteKey c k nKey) (\<lambda>c.
            ret (Some p, put_c p (CodecSetHasWriteKey c 1) s)))))"

text \<open>The transaction: every page is written again, then committed or rolled back.\<close>

definition rekey_pages :: "'s sqlite_env \<Rightarrow> nat \<Rightarrow> 's ext \<Rightarrow> (int \<times> 's ext) run" where
  "rekey_pages env pbt s =
     (let pPager = btree_pager env pbt;
          (rc, s) = begin_trans env pbt s in
      run_bind
        (if rc \<noteq> 0 then ret (rc, s)
         else
           let pageSize = page_size env pbt s;
               nSkip = WX_PAGER_MJ_PGNO (pending_byte env) pageSize;
               (nPageCount, s) = page_count env pPager s in
           rekey_loop env pPager (word_of_int nPageCount) nSkip rc 1 s) (\<lambda>(rc, s).
      let (rc, s) = (if rc = SQLITE_OK then bt_commit env pbt s else (rc, s)) in
      ret (rc, if rc \<noteq> SQLITE_OK then bt_rollback env pbt s else s)))"

text \<open>What becomes of the keys, and the removal of the codec of a database that is not encrypted.\<close>

definition rekey_finish :: "'s sqlite_env \<Rightarrow> nat \<Rightarrow> nat \<Rightarrow> int \<Rightarrow> 's ext \<Rightarrow> (int \<times> 's ext) run" where
  "rekey_finish env pbt p rc s =
     run_bind (get_c p s) (\<lambda>c.
     let c = (if rc = SQLITE_OK then
                (if CodecHasWriteKey c \<noteq> 0 then CodecSetHasReadKey (CodecCopyKey c 0) 1
                 else CodecSetIsEncrypted c 0)
              else if CodecHasReadKey c \<noteq> 0 then CodecCopyKey c 1
              else CodecSetIsEncrypted c 0);
         s = put_c p c s in
     if CodecIsEncrypted c = 0
     then ret (rc, sqlite3CodecFree p (pager_set_codec env (btree_pager env pbt) 0 s))
     else ret (rc, s))"

definition sqlite3_rekey_v2 ::
    "'s sqlite_env \<Rightarrow> sqlite_db list \<Rightarrow> byte list option \<Rightarrow> byte list option \<Rightarrow> int \<Rightarrow> 's ext \<Rightarrow> (int \<times> 's ext) run" where
  "sqlite3_rekey_v2 env aDb zDbName zKey nKey s =
     (let dbIndex = dbFindIndex aDb zDbName in
      run_bind (db_at aDb dbIndex) (\<lambda>pbt.
      run_bind (rekey_prepare env pbt zKey nKey s) (\<lambda>(p, s).
      case p of
        None \<Rightarrow> ret (SQLITE_OK, s)
      | Some p \<Rightarrow>
          run_bind (rekey_pages env pbt s) (\<lambda>(rc, s). rekey_finish env pbt p rc s))))"

definition sqlite3_rekey ::
    "'s sqlite_env \<Rightarrow> sqlite_db list \<Rightarrow> byte list option \<Rightarrow> int \<Rightarrow> 's ext \<Rightarrow> (int \<times> 's ext) run" where
  "sqlite3_rekey env aDb zKey nKey s = sqlite3_rekey_v2 env aDb (Some main_name) zKey nKey s"

end
