(* ===== verification/Codec_Ext_Props.thy ===== *)
theory Codec_Ext_Props
  imports Codec_Ext
begin

text \<open>
  What the codec of a database holds after its key has been changed, and what becomes of the pages
  written afterwards.  \<open>key_state\<close> is the part of the structure that decides it; reading and writing
  pages leaves it alone.
\<close>

section \<open>The keys of a codec\<close>

definition key_state :: "Codec \<Rightarrow> int \<times> int \<times> byte list option \<times> int \<times> byte list option \<times> nat option" where
  "key_state c = (m_isEncrypted c, m_hasReadKey c, m_readKey c, m_hasWriteKey c, m_writeKey c, m_bt c)"

definition all_keys :: "'s ext \<Rightarrow> nat \<Rightarrow> (int \<times> int \<times> byte list option \<times> int \<times> byte list option \<times> nat option) option" where
  "all_keys s p = map_option key_state (codecs s p)"

lemma reset_key_state: "reset env c e k s = ret (c', s') \<Longrightarrow> key_state c' = key_state c"
  by (auto simp: reset_def key_state_def Let_def split: option.splits prod.splits)

lemma aes_key_state: "CodecAES env c ty e ek src mac use s = ret (c', out, m', s') \<Longrightarrow> key_state c' = key_state c"
  by (auto simp: CodecAES_def Let_def run_bind_ret split: if_splits option.splits prod.splits
      dest: reset_key_state)

lemma encrypt_header_key_state:
  "encrypt_header env c page data use mp s = ret (c', d', s') \<Longrightarrow> key_state c' = key_state c"
  by (auto simp: encrypt_header_def local_int_def Let_def run_bind_ret dest: aes_key_state)

lemma encrypt_key_state:
  assumes "CodecEncrypt env c page data len use s = ret (c', d', s')"
  shows "key_state c' = key_state c"
proof (cases "page = 1")
  case True
  then show ?thesis
    using assms
    by (auto simp: CodecEncrypt_def local_int_def local_blob_def Let_def run_bind_ret split: prod.splits
        dest!: aes_key_state encrypt_header_key_state)
next
  case False
  then show ?thesis
    using assms
    by (auto simp: CodecEncrypt_def local_int_def local_blob_def Let_def run_bind_ret split: prod.splits
        dest!: aes_key_state)
qed

lemma decrypt_key_state:
  "CodecDecrypt env c page data len s = ret (c', d', s') \<Longrightarrow> key_state c' = key_state c"
  by (auto simp: CodecDecrypt_def local_int_def Let_def run_bind_ret split: prod.splits dest!: aes_key_state)

lemma all_keys_put: "codecs s p = Some c \<Longrightarrow> key_state c' = key_state c \<Longrightarrow> all_keys (put_c p c' s) = all_keys s"
  by (rule ext) (simp add: all_keys_def put_c_def)

lemma all_keys_cs [simp]: "all_keys (s\<lparr>cs := t\<rparr>) = all_keys s" "codecs (s\<lparr>cs := t\<rparr>) = codecs s"
  by (auto simp: all_keys_def)

lemma get_c_ret: "get_c p s = ret c \<longleftrightarrow> p \<noteq> 0 \<and> codecs s p = Some c"
  by (auto simp: get_c_def lookup_def split: option.splits)

text \<open>The callback of the pager leaves every key alone.\<close>

lemma sqlite3Codec_keeps_keys:
  assumes "sqlite3Codec env p data page mode s = ret (d, s')"
  shows "all_keys s' = all_keys s"
proof -
  have buf: "all_keys s' = all_keys s"
    if enc: "encrypt_buffer env p c data page sz use s = ret (d, s')" and c: "codecs s p = Some c" for c sz use
  proof -
    obtain c' out t where e: "CodecEncrypt (codec_e env) c page
        (overwrite (CodecGetPageBuffer c) 0 (take (unat (word_of_int sz :: u64)) data)) sz use (cs s) = ret (c', out, t)"
      and s': "s' = put_c p (c'\<lparr>m_page := take 4 (m_page c') @ out\<rparr>) (s\<lparr>cs := t\<rparr>)"
      using enc by (auto simp: encrypt_buffer_def Let_def run_bind_ret)
    have "key_state (c'\<lparr>m_page := take 4 (m_page c') @ out\<rparr>) = key_state c"
      using encrypt_key_state [OF e] by (simp add: key_state_def)
    with c show ?thesis unfolding s' by (subst all_keys_put) simp_all
  qed
  have dec: "all_keys (put_c p c' (s\<lparr>cs := t\<rparr>)) = all_keys s"
    if "CodecDecrypt (codec_e env) c page data sz (cs s) = ret (c', out, t)" and "codecs s p = Some c" for c c' sz out t
    using decrypt_key_state [OF that(1)] that(2) by (subst all_keys_put) simp_all
  show ?thesis
    using assms
    by (auto simp: sqlite3Codec_def Let_def run_bind_ret get_c_ret split: if_splits option.splits
        intro: buf dec)
qed

section \<open>The functions of the pager\<close>

text \<open>
  What is asked of SQLite: apart from calling \<open>sqlite3Codec\<close>, the pager and the B-tree do not touch the
  structures, and \<open>pager_set_codec\<close> only stores a pointer.
\<close>

definition sqlite_keeps :: "'s sqlite_env \<Rightarrow> bool" where
  "sqlite_keeps env \<longleftrightarrow>
     (\<forall>s b. all_keys (snd (begin_trans env b s)) = all_keys s \<and> all_keys (snd (page_count env b s)) = all_keys s \<and>
        all_keys (snd (bt_commit env b s)) = all_keys s \<and> all_keys (bt_rollback env b s) = all_keys s) \<and>
     (\<forall>s b n. all_keys (snd (page_get env b n s)) = all_keys s) \<and>
     (\<forall>s p. all_keys (snd (page_write env p s)) = all_keys s \<and> all_keys (page_unref env p s) = all_keys s) \<and>
     (\<forall>s b p. all_keys (pager_set_codec env b p s) = all_keys s)"

lemma keeps:
  assumes "sqlite_keeps env"
  shows "begin_trans env b s = (rc, t) \<Longrightarrow> all_keys t = all_keys s"
    and "page_count env b s = (k, t) \<Longrightarrow> all_keys t = all_keys s"
    and "bt_commit env b s = (rc, t) \<Longrightarrow> all_keys t = all_keys s"
    and "page_get env b n s = (q, t) \<Longrightarrow> all_keys t = all_keys s"
    and "page_write env p s = (rc, t) \<Longrightarrow> all_keys t = all_keys s"
    and "all_keys (bt_rollback env b s) = all_keys s" and "all_keys (page_unref env p s) = all_keys s"
    and "all_keys (pager_set_codec env b p s) = all_keys s"
  using assms unfolding sqlite_keeps_def by (metis snd_conv)+

lemma rekey_loop_keeps:
  assumes "rekey_loop env pg nPage nSkip rc n s = Some y" and keep: "sqlite_keeps env"
  shows "\<forall>rc' s'. y = Inr (rc', s') \<longrightarrow> all_keys s' = all_keys s"
proof -
  have "sqlite_keeps env \<longrightarrow> (\<forall>rc' s'. y = Inr (rc', s') \<longrightarrow> all_keys s' = all_keys s)"
  proof (rule rekey_loop.raw_induct [OF _ assms(1)])
    fix rl :: "'a sqlite_env \<Rightarrow> nat \<Rightarrow> u32 \<Rightarrow> u32 \<Rightarrow> int \<Rightarrow> u32 \<Rightarrow> 'a ext \<Rightarrow> (int \<times> 'a ext) run"
      and env pPager nPage nSkip rc n s y
    assume ih: "\<And>env p k sk rc n s y. rl env p k sk rc n s = Some y \<Longrightarrow>
        sqlite_keeps env \<longrightarrow> (\<forall>rc' s'. y = Inr (rc', s') \<longrightarrow> all_keys s' = all_keys s)"
      and run: "(if rc \<noteq> SQLITE_OK \<or> nPage < n then ret (rc, s)
        else if n = nSkip then rl env pPager nPage nSkip rc (n + 1) s
        else
          let ((rc, pPage), s) = page_get env pPager n s in
          if rc \<noteq> 0 then rl env pPager nPage nSkip rc (n + 1) s
          else let (rc, s) = page_write env pPage s in
            rl env pPager nPage nSkip rc (n + 1) (page_unref env pPage s)) = Some y"
    show "sqlite_keeps env \<longrightarrow> (\<forall>rc' s'. y = Inr (rc', s') \<longrightarrow> all_keys s' = all_keys s)"
    proof (intro impI allI)
      fix rc' s'
      assume k: "sqlite_keeps env" and y: "y = Inr (rc', s')"
      obtain rg pp t where g: "page_get env pPager n s = ((rg, pp), t)" by (metis surj_pair)
      obtain rw u where w: "page_write env pp t = (rw, u)" by fastforce
      note K = keeps(4) [OF k g] keeps(5) [OF k w] keeps(7) [OF k, of pp u]
      show "all_keys s' = all_keys s"
        using run ih k y g w K by (auto simp: ret_def split: if_splits)
    qed
  qed
  with keep show ?thesis by blast
qed

lemma rekey_pages_keeps:
  assumes "rekey_pages env b s = ret (rc, s')" and k: "sqlite_keeps env"
  shows "all_keys s' = all_keys s"
proof -
  obtain r0 t where b: "begin_trans env b s = (r0, t)" by fastforce
  obtain r1 u where u: "all_keys u = all_keys s"
    and fin: "(let (rc, s) = (if r1 = SQLITE_OK then bt_commit env b u else (r1, u)) in
      ret (rc, if rc \<noteq> SQLITE_OK then bt_rollback env b s else s)) = ret (rc, s')"
  proof (cases "r0 = 0")
    case False
    with assms(1) b keeps(1) [OF k b] show ?thesis
      by (intro that [of t r0]) (auto simp: rekey_pages_def)
  next
    case True
    obtain c v where c: "page_count env (btree_pager env b) t = (c, v)" by fastforce
    from assms(1) b True c obtain r1 u where
      l: "rekey_loop env (btree_pager env b) (word_of_int c)
            (WX_PAGER_MJ_PGNO (pending_byte env) (page_size env b t)) 0 1 v = ret (r1, u)"
      and f: "(let (rc, s) = (if r1 = SQLITE_OK then bt_commit env b u else (r1, u)) in
        ret (rc, if rc \<noteq> SQLITE_OK then bt_rollback env b s else s)) = ret (rc, s')"
      by (auto simp: rekey_pages_def run_bind_ret)
    have "all_keys u = all_keys v" using rekey_loop_keeps [OF l [unfolded ret_def] k] by simp
    with keeps(1) [OF k b] keeps(2) [OF k c] f show ?thesis by (intro that [of u r1]) simp_all
  qed
  obtain r2 w where "bt_commit env b u = (r2, w)" by fastforce
  with fin u keeps(3) [OF k this] keeps(6) [OF k] show ?thesis by (auto simp: Let_def split: if_splits)
qed

section \<open>Properties\<close>

lemma all_keys_Some:
  "all_keys s' = all_keys s \<Longrightarrow> codecs s p = Some c \<Longrightarrow> \<exists>c'. codecs s' p = Some c' \<and> key_state c' = key_state c"
  by (drule fun_cong [of _ _ p]) (auto simp: all_keys_def)

text \<open>What changing the key of an encrypted database makes of the codec before the pages are rewritten.\<close>

lemma rekey_prepare_encrypted:
  assumes "pager_get_codec env (btree_pager env b) s = p" and "p \<noteq> 0" and "codecs s p = Some c"
    and "m_isEncrypted c \<noteq> 0" and "nKey \<noteq> 0" and "rekey_prepare env b (Some k) nKey s = ret (q, s')"
  shows "q = Some p \<and> KEYLENGTH \<le> length k \<and>
    s' = put_c p (c\<lparr>m_writeKey := Some (take KEYLENGTH k), m_hasWriteKey := 1\<rparr>) s"
  using assms
  by (auto simp: rekey_prepare_def Let_def get_c_def CodecIsEncrypted_def CodecGenerateWriteKey_def
      CodecGenerateEncryptionKey_def CodecSetHasWriteKey_def run_bind_ret)


text \<open>When the removal of the key fails, the pages on disk are encrypted still, but the codec has lost its
  write key: every page written to the database afterwards is handed on unencrypted.\<close>

theorem failed_decryption_writes_plaintext:
  assumes "sqlite_keeps env" and "b = db_bt (aDb ! dbFindIndex aDb z)"
    and "pager_get_codec env (btree_pager env b) s = p" and "p \<noteq> 0" and "codecs s p = Some c"
    and "m_isEncrypted c \<noteq> 0" and "m_hasReadKey c \<noteq> 0" and "m_bt c = Some b"
    and "sqlite3_rekey_v2 env aDb z None nKey s = ret (rc, s')" and "rc \<noteq> SQLITE_OK"
  shows "sqlite3Codec env p data page 6 s' = ret (In_place data, s')"
proof -
  obtain q s1 where prep: "rekey_prepare env b None nKey s = ret (q, s1)"
    and rest: "(case q of None \<Rightarrow> ret (SQLITE_OK, s1)
      | Some p \<Rightarrow> run_bind (rekey_pages env b s1) (\<lambda>(rc, s). rekey_finish env b p rc s)) = ret (rc, s')"
    using assms(2,9) by (auto simp: sqlite3_rekey_v2_def db_at_def Let_def run_bind_ret)
  have P: "q = Some p \<and> s1 = put_c p (c\<lparr>m_hasWriteKey := 0\<rparr>) s"
    using prep assms(3-6)
    by (auto simp: rekey_prepare_def Let_def get_c_def CodecIsEncrypted_def CodecSetHasWriteKey_def)
  obtain r s2 where pages: "rekey_pages env b s1 = ret (r, s2)" and fin: "rekey_finish env b p r s2 = ret (rc, s')"
    using rest P by (auto simp: run_bind_ret)
  have "codecs s1 p = Some (c\<lparr>m_hasWriteKey := 0\<rparr>)" using P by (simp add: put_c_def)
  from all_keys_Some [OF rekey_pages_keeps [OF pages assms(1)] this] obtain d where
    d: "codecs s2 p = Some d" "m_isEncrypted d = m_isEncrypted c" "m_hasReadKey d = m_hasReadKey c"
      "m_hasWriteKey d = 0" "m_bt d = Some b"
    using assms(8) by (auto simp: key_state_def)
  then have "\<exists>e. codecs s' p = Some e \<and> m_isEncrypted e \<noteq> 0 \<and> m_hasWriteKey e = 0 \<and> m_bt e = Some b"
    using fin assms(4,6,7,10)
    by (auto simp: rekey_finish_def get_c_def Let_def put_c_def CodecIsEncrypted_def CodecHasWriteKey_def
        CodecHasReadKey_def CodecCopyKey_def split: if_splits)
  then show ?thesis
    using assms(4)
    by (auto simp: sqlite3Codec_def get_c_def Let_def CodecIsEncrypted_def CodecHasWriteKey_def CodecGetBtree_def)
qed

text \<open>A codec that was just given a key cannot be used: the first page to be written finds the handles
  of the cipher uninitialised.  The page size is what SQLite allows, at most 65536.\<close>

theorem attached_codec_uninitialised:
  assumes "sqlite3CodecAttach env aDb n (Some key) nKey s = ret (rc, s')" and "0 < nKey"
    and "\<And>b q t. codecs (pager_set_codec env b q t) = codecs t"
    and "room (avail (codec_e env))" and "next_codec s \<noteq> 0" and "max_page_size (codec_e env) = 65536"
    and "page_size env (db_bt (aDb ! n)) s' = int (length data)" and "length data \<le> 65536"
  shows "sqlite3Codec env (next_codec s) data page 6 s' = Some (Inl UninitRead)"
proof -
  let ?p = "next_codec s" and ?u = "word_of_nat (length data) :: u64"
  obtain c where c: "codecs s' ?p = Some c" "m_isEncrypted c \<noteq> 0" "m_hasWriteKey c \<noteq> 0" "m_bt c = Some (db_bt (aDb ! n))"
    "test_op_handle c = None" "m_writeKey c \<noteq> None" "length (m_page c) = 65560"
    using assms(1-3,5,6)
    by (auto simp: sqlite3CodecAttach_def new_codec_def get_c_def Let_def put_c_def run_bind_ret db_at_def
        CodecGenerateReadKey_def CodecGenerateEncryptionKey_def CodecSetBtree_def CodecCopyKey_def
        CodecSetIsEncrypted_def CodecSetHasReadKey_def CodecSetHasWriteKey_def CodecInit_def raw_codec_def)
  have n: "unat ?u = length data" using assms(8) by (simp add: unsigned_of_nat take_bit_nat_eq_self)
  have aes: "CodecAES (codec_e env) c CODEC_TYPE 1 k src mac 1 t = Some (Inl UninitRead)" for k src mac t
    using assms(4) c(5,6) by (auto simp: CodecAES_def room_def reset_def)
  have buf: "length (overwrite (drop 4 (m_page c)) 0 data) = 65556"
    using c(7) assms(8) by (subst length_overwrite_within) auto
  have "CodecEncrypt (codec_e env) c page (overwrite (drop 4 (m_page c)) 0 data) (int (length data)) 1 (cs s') =
      Some (Inl UninitRead)"
    using aes buf assms(8)
    by (auto simp: CodecEncrypt_def encrypt_header_def local_int_def local_blob_def Let_def)
  with c assms(5,7,8) n show ?thesis
    by (simp add: sqlite3Codec_def encrypt_buffer_def get_c_def Let_def CodecIsEncrypted_def CodecHasWriteKey_def
        CodecGetBtree_def CodecGetPageBuffer_def)
qed

end
