(* ===== verification/Host_Witnesses.thy ===== *)
theory Host_Witnesses
  imports Witnesses Vfs_Tables Codec_Ext_Props
begin

text \<open>
  The properties of the host's VFS, of the hash map and of the codec at concrete inputs: the operating
  system of \<open>Posix_Ref\<close>, a map of five lists, and a cipher that adds the first byte of the key.
\<close>

section \<open>The VFS of the host\<close>

text \<open>The system with files that do not reach \<open>2 ^ 64 - 1\<close> bytes.\<close>

definition capped_os :: "ref_world os" where
  "capped_os c w = (let (q, w) = ref_os c w in (if o_val1 q = - 1 then err_ret 75 else q, w))"

definition ref_host :: "ref_world host" where
  "ref_host = \<lparr>h_world = ref_open_world, h_errno = 0\<rparr>"

lemma err_size: "o_val1 (err_ret e) \<noteq> - 1"
  by (simp add: err_ret_def)

theorem host_methods_agree_witness:
  "agrees to_system4 (demoRead_host capped_os plain_file [0, 0] 2 1 ref_host)
     (demoRead (host_io capped_os ref_malloc ref_snprintf) plain_file [0, 0] 2 1 ref_open_world)"
proof -
  have "\<forall>fd w. int_ret (fst (capped_os (Fstat fd True) w)) = 0 \<longrightarrow> o_val1 (fst (capped_os (Fstat fd True) w)) \<noteq> - 1"
    by (simp add: capped_os_def err_size split: prod.split)
  from host_methods_agree [OF this, of plain_file "[0, 0]" 2 1 ref_host ref_malloc ref_snprintf]
  show ?thesis by (simp add: ref_host_def)
qed

theorem demoWrite_host_correct_witness:
  "\<exists>rc h'. demoWrite_host ref_os plain_file [5, 0, 6] 3 2 ref_host = Inr (rc, plain_file, h') \<and>
     (rc = SQLITE_OK \<and> sees ref_view (h_world h') plain_file [7, 8, 5, 0, 6] \<or>
      rc = SQLITE_IOERR_WRITE \<and> (\<exists>c'. sees ref_view (h_world h') plain_file c'))"
  using demoWrite_host_correct [OF ref.posix_files_axioms, of ref_host plain_file "[7, 8, 9]" "[5, 0, 6]" 3 2]
  by (simp add: ref_host_def overwrite_def fit_def plain_file_def [THEN arg_cong [of _ _ aBuffer]])

lemma ref_host_seek:
  "\<exists>r h. sys ref_os (Lseek 3 1 SEEK_SET) ref_host = (r, h) \<and> sint (o_ret r) = 1"
  by (simp add: sys_def ref_os_def ref_file_def ref_host_def ref_open_world_def ref_init_def)

theorem strlen_reads_past_end_witness:
  "demoDirectWrite_host ref_os plain_file [5, 6] 2 1 ref_host = Inl OutOfBounds"
proof -
  obtain r h where s: "sys ref_os (Lseek (df_fd plain_file) (word_of_int 1) SEEK_SET) ref_host = (r, h)" "sint (o_ret r) = 1"
    using ref_host_seek by (auto simp: plain_file_def journal_file_def)
  show ?thesis by (rule strlen_reads_past_end [OF _ s]) simp
qed

text \<open>The clock of the trusted application, which plays no role here.\<close>

definition no_core :: "ref_world core_env" where
  "no_core = \<lparr>rpc_alloc = (\<lambda>_ s. (None, s)), rpc_free = (\<lambda>_ s. s),
     rpc_cmd = (\<lambda>_ _ ps s. ((TEEC_ERROR_COMMUNICATION, ps), s)), mobj_write = (\<lambda>_ _ s. s),
     mobj_read = (\<lambda>_ _ _. []), core_malloc = (\<lambda>_ s. (False, s)), OPTEE_RPC_CMD_VFS = 30\<rparr>"

theorem host_vfs_agrees_witness:
  "map_sum (\<lambda>e. e) to_system2 (xDelete (sqlite3_demovfs_host (\<lambda>x. x) ref_os ref_malloc ref_snprintf) [97] False ref_host) =
     xDelete (sqlite3_demovfs (\<lambda>x. x) no_core ref_io) [97] False ref_open_world"
proof -
  have "sets_errno ref_os (Unlink (Some [97]))"
    by (simp add: sets_errno_def ref_os_def)
  from host_vfs_agrees [OF this, of "\<lambda>x. x" ref_malloc ref_snprintf _ _ ref_host] show ?thesis
    by (simp add: ref_host_def)
qed

end
