(* ===== verification/Vfs_Session.thy ===== *)
theory Vfs_Session
  imports End_To_End Vfs_Tables Host_Witnesses
begin

text \<open>
  The method tables of an open file and what a client such as SQLite gets through them: a session is a
  sequence of calls of the methods.  Sessions refine sessions on a plain sequence of bytes, whatever
  the order and the sizes of the operations, and reach the file of the host.
\<close>

section \<open>The tables of file methods\<close>

text \<open>\<open>struct sqlite3_io_methods\<close> as far as version 1 has it.\<close>

record 's sqlite3_io_methods =
  io_version :: int
  xClose :: "DemoFile \<Rightarrow> 's \<Rightarrow> (int \<times> DemoFile \<times> 's) outcome"
  xRead :: "DemoFile \<Rightarrow> byte list \<Rightarrow> int \<Rightarrow> int \<Rightarrow> 's \<Rightarrow> (int \<times> byte list \<times> DemoFile \<times> 's) outcome"
  xWrite :: "DemoFile \<Rightarrow> byte list \<Rightarrow> int \<Rightarrow> int \<Rightarrow> 's \<Rightarrow> (int \<times> DemoFile \<times> 's) outcome"
  xTruncate :: "DemoFile \<Rightarrow> int \<Rightarrow> 's \<Rightarrow> (int \<times> DemoFile \<times> 's) outcome"
  xSync :: "DemoFile \<Rightarrow> 's \<Rightarrow> (int \<times> DemoFile \<times> 's) outcome"
  xFileSize :: "DemoFile \<Rightarrow> 's \<Rightarrow> (int \<times> int option \<times> DemoFile \<times> 's) outcome"
  xLock :: "DemoFile \<Rightarrow> int \<Rightarrow> int"
  xUnlock :: "DemoFile \<Rightarrow> int \<Rightarrow> int"
  xCheckReservedLock :: "DemoFile \<Rightarrow> int \<times> int"
  xFileControl :: "DemoFile \<Rightarrow> int \<Rightarrow> int"
  xSectorSize :: "DemoFile \<Rightarrow> int"
  xDeviceCharacteristics :: "DemoFile \<Rightarrow> int"

definition demoio :: "'s vfs_io \<Rightarrow> 's sqlite3_io_methods" where
  "demoio io =
     \<lparr>io_version = 1, xClose = demoClose io, xRead = demoRead io, xWrite = demoWrite io,
      xTruncate = demoTruncate io, xSync = demoSync io, xFileSize = demoFileSize io, xLock = demoLock,
      xUnlock = demoUnlock, xCheckReservedLock = demoCheckReservedLock, xFileControl = demoFileControl,
      xSectorSize = demoSectorSize, xDeviceCharacteristics = demoDeviceCharacteristics\<rparr>"

definition demoio_host :: "'w os \<Rightarrow> 'w host sqlite3_io_methods" where
  "demoio_host os =
     \<lparr>io_version = 1, xClose = demoClose_host os, xRead = demoRead_host os, xWrite = demoWrite_host os,
      xTruncate = demoTruncate_host, xSync = demoSync_host os, xFileSize = demoFileSize_host os,
      xLock = demoLock_host, xUnlock = demoUnlock_host, xCheckReservedLock = demoCheckReservedLock_host,
      xFileControl = demoFileControl_host, xSectorSize = demoSectorSize_host,
      xDeviceCharacteristics = demoDeviceCharacteristics_host\<rparr>"

section \<open>Sessions\<close>

text \<open>Data are written and read at an offset; \<open>Truncate_op\<close> carries the size asked for.\<close>

datatype vfs_op = Write_op "byte list" int | Read_op int int | Truncate_op int | Sync_op | Size_op

datatype vfs_answer = Ok | Data "byte list" | Number "int option" | Failed int

fun run_op :: "'s sqlite3_io_methods \<Rightarrow> vfs_op \<Rightarrow> DemoFile \<Rightarrow> 's \<Rightarrow> (vfs_answer \<times> DemoFile \<times> 's) outcome" where
  "run_op mt (Write_op bs ofs) p s =
     bind_outcome (xWrite mt p bs (int (length bs)) ofs s) (\<lambda>(rc, p, s).
     Inr (if rc = SQLITE_OK then Ok else Failed rc, p, s))"
| "run_op mt (Read_op n ofs) p s =
     bind_outcome (xRead mt p (replicate (nat n) 0) n ofs s) (\<lambda>(rc, bs, p, s).
     Inr (if rc = SQLITE_OK then Data bs else Failed rc, p, s))"
| "run_op mt (Truncate_op n) p s =
     bind_outcome (xTruncate mt p n s) (\<lambda>(rc, p, s). Inr (if rc = SQLITE_OK then Ok else Failed rc, p, s))"
| "run_op mt Sync_op p s =
     bind_outcome (xSync mt p s) (\<lambda>(rc, p, s). Inr (if rc = SQLITE_OK then Ok else Failed rc, p, s))"
| "run_op mt Size_op p s =
     bind_outcome (xFileSize mt p s) (\<lambda>(rc, n, p, s).
     Inr (if rc = SQLITE_OK then Number n else Failed rc, p, s))"

text \<open>A session ends at the first failure.\<close>

primrec run_session ::
    "'s sqlite3_io_methods \<Rightarrow> vfs_op list \<Rightarrow> DemoFile \<Rightarrow> 's \<Rightarrow> (vfs_answer list \<times> DemoFile \<times> 's) outcome" where
  "run_session mt [] p s = Inr ([], p, s)"
| "run_session mt (op # ops) p s =
     bind_outcome (run_op mt op p s) (\<lambda>(a, p, s).
     case a of
       Failed rc \<Rightarrow> Inr ([a], p, s)
     | _ \<Rightarrow> bind_outcome (run_session mt ops p s) (\<lambda>(as, p, s). Inr (a # as, p, s)))"

text \<open>The same on a sequence of bytes; \<open>xTruncate\<close> leaves it alone, as the code documents.\<close>

fun spec_op :: "vfs_op \<Rightarrow> byte list \<Rightarrow> vfs_answer \<times> byte list" where
  "spec_op (Write_op bs ofs) c = (Ok, overwrite c (nat ofs) bs)"
| "spec_op (Read_op n ofs) c = (Data (subbytes c (nat ofs) (nat n)), c)"
| "spec_op (Truncate_op n) c = (Ok, c)"
| "spec_op Sync_op c = (Ok, c)"
| "spec_op Size_op c = (Number (Some (int (length c))), c)"

primrec spec_session :: "vfs_op list \<Rightarrow> byte list \<Rightarrow> vfs_answer list \<times> byte list" where
  "spec_session [] c = ([], c)"
| "spec_session (op # ops) c =
     (let (a, c) = spec_op op c; (as, c) = spec_session ops c in (a # as, c))"

text \<open>Sizes fit into an \<open>int\<close>, offsets into a \<open>sqlite3_int64\<close>.\<close>

fun op_in_range :: "vfs_op \<Rightarrow> bool" where
  "op_in_range (Write_op bs ofs) \<longleftrightarrow> int (length bs) < 2 ^ 31 \<and> 0 \<le> ofs \<and> ofs + int (length bs) < 2 ^ 63"
| "op_in_range (Read_op n ofs) \<longleftrightarrow> 0 \<le> n \<and> n < 2 ^ 31 \<and> 0 \<le> ofs \<and> ofs < 2 ^ 63"
| "op_in_range op \<longleftrightarrow> True"

lemma spec_op_size:
  "op_in_range op \<Longrightarrow> length c < 2 ^ 63 \<Longrightarrow> length (snd (spec_op op c)) < 2 ^ 63"
  by (cases op) (auto simp: length_overwrite nat_plus_as_int zless_nat_eq_int_zless)

lemma length_spec_session: "length (fst (spec_session ops c)) = length ops"
  by (induction ops arbitrary: c) (simp_all add: Let_def case_prod_unfold)

section \<open>Refinement\<close>

context file_io
begin

lemma op_refines:
  assumes sees: "sees view s p c" and op: "op_in_range op" "length c < 2 ^ 63"
  shows "\<exists>a p' t. run_op (demoio io) op p s = Inr (a, p', t) \<and>
    (a = fst (spec_op op c) \<and> sees view t p' (snd (spec_op op c)) \<or> (\<exists>rc. a = Failed rc))"
proof (cases op)
  case (Write_op bs ofs)
  then show ?thesis
    using write_spec [OF sees, of "int (length bs)" bs ofs] op(1) by (auto simp: demoio_def)
next
  case (Read_op n ofs)
  then show ?thesis
    using read_spec [OF sees, of n "replicate (nat n) 0" ofs] op(1) by (auto simp: demoio_def overwrite_all)
next
  case (Truncate_op n)
  then show ?thesis using sees by (simp add: demoio_def demoTruncate_def)
next
  case Sync_op
  then show ?thesis using sync_spec [OF sees] by (auto simp: demoio_def)
next
  case Size_op
  then show ?thesis using filesize_spec [OF sees op(2)] by (auto simp: demoio_def)
qed

lemma session_refines:
  assumes "sees view s p c" and "list_all op_in_range ops" and "length c < 2 ^ 63"
  shows "\<exists>as p' t. run_session (demoio io) ops p s = Inr (as, p', t) \<and>
    (as = fst (spec_session ops c) \<and> sees view t p' (snd (spec_session ops c)) \<or>
     (\<exists>k rc. k < length ops \<and> as = take k (fst (spec_session ops c)) @ [Failed rc]))"
  using assms
proof (induction ops arbitrary: p s c)
  case Nil
  then show ?case by simp
next
  case (Cons op ops)
  define b d where "b = fst (spec_op op c)" and "d = snd (spec_op op c)"
  have spec: "spec_session (op # ops) c = (b # fst (spec_session ops d), snd (spec_session ops d))"
    by (simp add: b_def d_def split: prod.split)
  obtain a q t where run: "run_op (demoio io) op p s = Inr (a, q, t)"
    and a: "a = b \<and> sees view t q d \<or> (\<exists>rc. a = Failed rc)"
    using op_refines [OF Cons.prems(1) _ Cons.prems(3), of op] Cons.prems(2) by (auto simp: b_def d_def)
  show ?case
  proof (cases "\<exists>rc. a = Failed rc")
    case True
    then show ?thesis using run by (auto intro!: exI [of _ 0])
  next
    case False
    with a have q: "a = b" "sees view t q d" by auto
    have "list_all op_in_range ops" "length d < 2 ^ 63"
      using spec_op_size [of op c] Cons.prems(2,3) by (simp_all add: d_def)
    from Cons.IH [OF q(2) this] obtain as p' u where
      IH: "run_session (demoio io) ops q t = Inr (as, p', u)"
      "as = fst (spec_session ops d) \<and> sees view u p' (snd (spec_session ops d)) \<or>
       (\<exists>k rc. k < length ops \<and> as = take k (fst (spec_session ops d)) @ [Failed rc])" by blast
    have "run_session (demoio io) (op # ops) p s = Inr (a # as, p', u)"
      using run IH(1) False by (cases a) auto
    moreover have "a # as = fst (spec_session (op # ops) c) \<and> sees view u p' (snd (spec_session (op # ops) c)) \<or>
       (\<exists>k rc. k < length (op # ops) \<and> a # as = take k (fst (spec_session (op # ops) c)) @ [Failed rc])"
      using IH(2) q(1) unfolding spec by (elim disjE exE) (simp, force intro!: exI [of _ "Suc _"])
    ultimately show ?thesis by blast
  qed
qed

end


section \<open>The descriptor stays\<close>

lemma flush_fd: "demoFlushBuffer io p s = Inr (rc, p', t) \<Longrightarrow> df_fd p' = df_fd p"
  by (auto simp: demoFlushBuffer_def split: if_splits option.splits elim!: bind_outcome_InrE)

lemma chunk_fd: "demoWrite_chunk io p z n i s = Inr (rc, k, p', t) \<Longrightarrow> df_fd p' = df_fd p"
  by (auto simp: demoWrite_chunk_def Let_def split: if_splits option.splits prod.splits elim!: bind_outcome_InrE
      dest!: flush_fd)

lemma loop_fd: "demoWrite_loop io p z n i s = Inr (rc, p', t) \<Longrightarrow> df_fd p' = df_fd p"
proof (induction io p z n i s rule: demoWrite_loop.induct)
  case (1 io p z n i s)
  from "1.prems" show ?case
    by (subst (asm) demoWrite_loop.simps) (fastforce split: if_splits sum.splits prod.splits dest: chunk_fd "1.IH")
qed

lemma op_fd: "run_op (demoio io) op p s = Inr (a, p', t) \<Longrightarrow> df_fd p' = df_fd p"
  by (cases op)
    (auto simp: demoio_def demoWrite_def demoRead_def demoTruncate_def demoSync_def demoFileSize_def Let_def
      split: if_splits prod.splits elim!: bind_outcome_InrE dest!: flush_fd loop_fd)

lemma session_fd: "run_session (demoio io) ops p s = Inr (as, p', t) \<Longrightarrow> df_fd p' = df_fd p"
proof (induction ops arbitrary: p s as)
  case (Cons op ops)
  then show ?case
    by (fastforce elim!: bind_outcome_InrE dest: op_fd split: vfs_answer.splits)
qed simp

section \<open>The host\<close>

lemma op_agrees:
  assumes "\<And>fd w. int_ret (fst (os (Fstat fd True) w)) = 0 \<Longrightarrow> o_val1 (fst (os (Fstat fd True) w)) \<noteq> - 1"
  shows "agrees to_system3 (run_op (demoio_host os) op p h) (run_op (demoio (host_io os mal snp)) op p (h_world h))"
proof (cases op)
  case (Write_op bs ofs)
  then show ?thesis
    by (simp add: demoio_def demoio_host_def) (rule agrees_bind [OF write_agrees], auto)
next
  case (Read_op n ofs)
  then show ?thesis
    by (simp add: demoio_def demoio_host_def) (rule agrees_bind [OF read_agrees], auto)
next
  case (Truncate_op n)
  then show ?thesis by (simp add: demoio_def demoio_host_def demoTruncate_def demoTruncate_host_def)
next
  case Sync_op
  then show ?thesis
    by (simp add: demoio_def demoio_host_def) (rule agrees_bind [OF sync_agrees], auto)
next
  case Size_op
  have agree: "agrees to_system4 (demoFileSize_host os p h) (demoFileSize (host_io os mal snp) p (h_world h))"
    by (rule filesize_agrees) (rule assms)
  show ?thesis
    by (simp add: Size_op demoio_def demoio_host_def) (rule agrees_bind [OF agree], auto)
qed

lemma session_agrees:
  assumes "\<And>fd w. int_ret (fst (os (Fstat fd True) w)) = 0 \<Longrightarrow> o_val1 (fst (os (Fstat fd True) w)) \<noteq> - 1"
  shows "agrees to_system3 (run_session (demoio_host os) ops p h)
    (run_session (demoio (host_io os mal snp)) ops p (h_world h))"
proof (induction ops arbitrary: p h)
  case (Cons op ops)
  have step: "agrees to_system3 (run_op (demoio_host os) op p h) (run_op (demoio (host_io os mal snp)) op p (h_world h))"
    by (rule op_agrees) (rule assms)
  have rest: "agrees to_system3
      (bind_outcome (run_session (demoio_host os) ops q h') (\<lambda>(as, p, s). Inr (a # as, p, s)))
      (bind_outcome (run_session (demoio (host_io os mal snp)) ops q (h_world h')) (\<lambda>(as, p, s). Inr (a # as, p, s)))"
    for a q h'
    by (rule agrees_bind [OF Cons.IH]) auto
  show ?case
    unfolding run_session.simps
    by (rule agrees_bind [OF step]) (auto simp: rest split: vfs_answer.split)
qed simp

section \<open>Sessions that end with a synchronisation\<close>

definition no_failure :: "vfs_answer list \<Rightarrow> bool" where
  "no_failure as \<longleftrightarrow> (\<forall>rc. Failed rc \<notin> set as)"

lemma session_append:
  assumes "run_session mt (xs @ ys) p s = Inr (as, p', t)" and "no_failure as"
  obtains as1 p1 s1 as2 where "run_session mt xs p s = Inr (as1, p1, s1)" and "run_session mt ys p1 s1 = Inr (as2, p', t)"
    and "as = as1 @ as2"
proof -
  have "\<exists>as1 p1 s1 as2. run_session mt xs p s = Inr (as1, p1, s1) \<and> run_session mt ys p1 s1 = Inr (as2, p', t) \<and> as = as1 @ as2"
    using assms
  proof (induction xs arbitrary: p s as)
    case (Cons op xs)
    then obtain a q u where run: "run_op mt op p s = Inr (a, q, u)" by (auto elim!: bind_outcome_InrE)
    with Cons.prems obtain bs where "run_session mt (xs @ ys) q u = Inr (bs, p', t)" "as = a # bs" "no_failure bs" "\<forall>rc. a \<noteq> Failed rc"
      by (cases a) (auto simp: no_failure_def elim!: bind_outcome_InrE)
    with Cons.IH [of q u bs] run show ?case by (cases a) fastforce+
  qed simp
  then show ?thesis using that by blast
qed

section \<open>What a client gets\<close>

text \<open>C2. A session on an open file of the trusted application, any sequence of writes, reads, truncations,
  synchronisations and questions for the size through the method table, always comes to its end, without
  a failed assertion or a memory fault.  It answers what the sequence of bytes the client sees answers,
  and leaves the client with the content that sequence has then; if an operation fails, all the answers
  before it are those of the sequence.\<close>

theorem vfs_session_refines:
  assumes "file_io io view" and "sees view s p c" and "list_all op_in_range ops" and "length c < 2 ^ 63"
  shows "\<exists>as p' t. run_session (demoio io) ops p s = Inr (as, p', t) \<and>
    (as = fst (spec_session ops c) \<and> sees view t p' (snd (spec_session ops c)) \<or>
     (\<exists>k rc. k < length ops \<and> as = take k (fst (spec_session ops c)) @ [Failed rc]))"
  by (rule file_io.session_refines [OF assms])

text \<open>A synchronisation at the end of a session without failure.\<close>

lemma session_then_sync:
  assumes io: "file_io io view" and sees: "sees view s p c"
    and ops: "list_all op_in_range ops" "length c < 2 ^ 63"
    and run: "run_session (demoio io) (ops @ [Sync_op]) p s = Inr (as, p', t)" "no_failure as"
  shows "as = fst (spec_session ops c) @ [Ok] \<and> (\<exists>pos. view t (df_fd p) = Some (snd (spec_session ops c), pos))"
proof -
  obtain as1 p1 s1 as2 where fst_run: "run_session (demoio io) ops p s = Inr (as1, p1, s1)"
    and snd_run: "run_session (demoio io) [Sync_op] p1 s1 = Inr (as2, p', t)" and as: "as = as1 @ as2"
    using session_append [OF run] by blast
  have ok: "as1 = fst (spec_session ops c)" "sees view s1 p1 (snd (spec_session ops c))"
    using file_io.session_refines [OF io sees ops] fst_run run(2) by (auto simp: no_failure_def as)
  obtain rc p2 s2 where sync: "demoSync io p1 s1 = Inr (rc, p2, s2)"
    "rc = SQLITE_OK \<Longrightarrow> \<exists>pos. view s2 (df_fd p2) = Some (snd (spec_session ops c), pos)"
    using file_io.sync_spec [OF io ok(2)] by auto
  have rc: "rc = SQLITE_OK" "as2 = [Ok]" "p2 = p'" "s2 = t"
    using snd_run sync(1) run(2) by (auto simp: demoio_def as no_failure_def split: if_splits)
  moreover have "df_fd p' = df_fd p"
    using session_fd [OF fst_run] session_fd [OF snd_run] by simp
  ultimately show ?thesis using sync(2) ok(1) by (auto simp: as)
qed

text \<open>C1. A session of the trusted application in which nothing fails and whose last operation is \<open>xSync\<close> has
  reached the host, through system calls, RPC and supplicant: the answers are those of the sequence of
  bytes, and the kernel under the supplicant has for the descriptor the content of the sequence.\<close>

theorem session_reaches_host:
  assumes "tee_files ce env pview" and "sees (tview pview) s p c"
    and "list_all op_in_range ops" and "length c < 2 ^ 63"
    and "run_session (demoio (tee_io ce mal snp)) (ops @ [Sync_op]) p s = Inr (as, p', t)" and "no_failure as"
  shows "as = fst (spec_session ops c) @ [Ok] \<and>
    (\<exists>pos. pview (world t) (df_fd p) = Some (snd (spec_session ops c), pos))"
  using session_then_sync [OF tee_files.tee_file_io [OF assms(1)] assms(2-6)]
  by (auto simp: tview_def split: if_splits)


section \<open>At concrete inputs\<close>

theorem vfs_session_refines_witness:
  "\<exists>as p' t. run_session (demoio ref_io) [Write_op [1, 2] 3, Size_op, Read_op 4 1] journal_file ref_open_world = Inr (as, p', t) \<and>
    (as = [Ok, Number (Some 5), Data [8, 9, 1, 2]] \<and> sees ref_view t p' [7, 8, 9, 1, 2] \<or>
     (\<exists>k rc. k < 3 \<and> as = take k [Ok, Number (Some 5), Data [8, 9, 1, 2]] @ [Failed rc]))"
  using vfs_session_refines [OF ref_file_io ref_sees(1), of "[Write_op [1, 2] 3, Size_op, Read_op 4 1]"]
  by (simp add: overwrite_def fit_def subbytes_def numeral_3_eq_3 del: run_session.simps)

theorem session_reaches_host_witness:
  "\<exists>as p' t pos. run_session (demoio ref_tee_io) [Write_op [5, 6] 1, Sync_op] plain_file file_supp = Inr (as, p', t) \<and>
     as = [Ok, Ok] \<and> ref_view (world t) 3 = Some ([7, 5, 6], pos)"
proof -
  obtain t where run: "run_session (demoio ref_tee_io) ([Write_op [5, 6] 1] @ [Sync_op]) plain_file file_supp =
      Inr ([Ok, Ok], plain_file, t)"
    using tee_write_run by (auto simp add: demoio_def simp del: demoWrite_loop.simps)
  have spec: "fst (spec_session [Write_op [5, 6] 1] [7, 8, 9]) = [Ok]"
    "snd (spec_session [Write_op [5, 6] 1] [7, 8, 9]) = [7, 5, 6]"
    by (simp_all add: overwrite_def fit_def)
  have "[Ok, Ok] = fst (spec_session [Write_op [5, 6] 1] [7, 8, 9]) @ [Ok] \<and>
    (\<exists>pos. ref_view (world t) (df_fd plain_file) = Some (snd (spec_session [Write_op [5, 6] 1] [7, 8, 9]), pos))"
    by (rule session_reaches_host [OF ref_tee.tee_files_axioms file_supp_sees _ _ run]) (simp_all add: no_failure_def)
  then obtain pos where "ref_view (world t) 3 = Some ([7, 5, 6], pos)"
    unfolding spec by (auto simp: plain_file_def journal_file_def)
  moreover have "run_session (demoio ref_tee_io) [Write_op [5, 6] 1, Sync_op] plain_file file_supp =
      Inr ([Ok, Ok], plain_file, t)"
    using run by (simp only: append.simps)
  ultimately show ?thesis by blast
qed


end
