(* ===== verification/Vfs_Client.thy ===== *)
theory Vfs_Client
  imports Vfs_Session
begin

text \<open>
  The normal world is not trusted: the supplicant may answer a request with anything.  What the VFS of the
  trusted application guarantees nevertheless, whatever its client opens, writes, reads and closes: its
  file structures stay in order and no method ends in a fault.
\<close>

section \<open>Calls that may answer anything\<close>

text \<open>All that is asked is that no more bytes arrive than were asked for.\<close>

locale untrusted_io =
  fixes io :: "'s vfs_io"
  assumes read_bound: "io_read io fd n s = ((r, Some d), t) \<Longrightarrow> length d \<le> unat n"
begin

lemma direct_safe:
  "unat (word_of_int n :: u64) \<le> length z \<Longrightarrow> \<exists>rc t. demoDirectWrite io p z n i s = Inr (rc, t)"
  by (auto simp: demoDirectWrite_def split: prod.split)

lemma flush_safe:
  assumes "file_ok p"
  shows "\<exists>rc t. demoFlushBuffer io p s = Inr (rc, p\<lparr>nBuffer := 0\<rparr>, t)"
proof (cases "nBuffer p = 0")
  case True
  then show ?thesis by (simp add: demoFlushBuffer_def)
next
  case False
  with assms obtain buf where buf: "aBuffer p = Some buf" "int (length buf) = SQLITE_TEEVFS_BUFFERSZ"
    "0 \<le> nBuffer p" "nBuffer p \<le> SQLITE_TEEVFS_BUFFERSZ"
    by (auto simp: file_ok_def split: option.splits)
  then have "unat (word_of_int (nBuffer p) :: u64) \<le> length buf"
    by (simp add: SQLITE_TEEVFS_BUFFERSZ_def)
  then obtain rc t where "demoDirectWrite io p buf (nBuffer p) (iBufferOfst p) s = Inr (rc, t)"
    using direct_safe by blast
  with buf(1) False show ?thesis by (simp add: demoFlushBuffer_def)
qed

lemma chunk_safe:
  assumes ok: "file_ok p" "aBuffer p \<noteq> None" and n: "0 < n" "nat n \<le> length z" and i: "0 \<le> i" "i + n < 2 ^ 63"
  shows "\<exists>rc c p' t. demoWrite_chunk io p z n i s = Inr (rc, c, p', t) \<and> file_ok p' \<and> aBuffer p' \<noteq> None \<and>
    (rc = SQLITE_OK \<longrightarrow> 0 < c \<and> c \<le> n)"
proof -
  define due where "due \<longleftrightarrow> nBuffer p = SQLITE_TEEVFS_BUFFERSZ \<or> iBufferOfst p + nBuffer p \<noteq> i"
  obtain b where b: "aBuffer p = Some b" using ok(2) by blast
  obtain rc t where st: "(if due then demoFlushBuffer io p s else Inr (SQLITE_OK, p, s)) =
      Inr (rc, if due then p\<lparr>nBuffer := 0\<rparr> else p, t)"
    using flush_safe [OF ok(1), of s] by (cases due) auto
  note run = chunk_run [OF ok(1) b n(1) i n(2) due_def st refl refl refl]
  show ?thesis
    using run(1-5) b by (cases "rc = SQLITE_OK") auto
qed

lemma loop_safe:
  assumes "file_ok p" and "aBuffer p \<noteq> None" and "0 \<le> i" and "i + max n 0 < 2 ^ 63" and "nat n \<le> length z"
  shows "\<exists>rc p' t. demoWrite_loop io p z n i s = Inr (rc, p', t) \<and> file_ok p'"
  using assms
proof (induction "nat n" arbitrary: p z n i s rule: less_induct)
  case less
  show ?case
  proof (cases "n \<le> 0")
    case True
    then show ?thesis using less.prems by (subst demoWrite_loop.simps) simp
  next
    case False
    then have n: "0 < n" "i + n < 2 ^ 63" using less.prems(4) by simp_all
    obtain rc c p' t where ch: "demoWrite_chunk io p z n i s = Inr (rc, c, p', t)" "file_ok p'" "aBuffer p' \<noteq> None"
      "rc = SQLITE_OK \<longrightarrow> 0 < c \<and> c \<le> n"
      using chunk_safe [OF less.prems(1,2) n(1) less.prems(5,3) n(2)] by blast
    show ?thesis
    proof (cases "rc = SQLITE_OK")
      case False
      then show ?thesis using n ch(1,2) by (subst demoWrite_loop.simps) simp
    next
      case True
      with ch(4) have c: "0 < c" "c \<le> n" by auto
      have "s64_add i c = Inr (i + c)" using c less.prems(3) n by (simp add: s64_add_def)
      then have run: "demoWrite_loop io p z n i s = demoWrite_loop io p' (drop (nat c) z) (n - c) (i + c) t"
        using n ch(1) True by (subst demoWrite_loop.simps) simp
      show ?thesis
        unfolding run by (rule less.hyps) (use c n less.prems(3,5) ch(2,3) in auto)
    qed
  qed
qed

text \<open>Every operation of an open file, and closing it.\<close>

lemma op_safe:
  assumes "file_ok p" and "op_in_range op"
  shows "\<exists>a p' t. run_op (demoio io) op p s = Inr (a, p', t) \<and> file_ok p'"
proof -
  obtain rc0 t0 where fl: "demoFlushBuffer io p s = Inr (rc0, p\<lparr>nBuffer := 0\<rparr>, t0)"
    using flush_safe [OF assms(1)] by blast
  show ?thesis
  proof (cases op)
    case (Write_op bs ofs)
    with assms(2) have r: "int (length bs) < 2 ^ 31" "0 \<le> ofs" "ofs + int (length bs) < 2 ^ 63" by simp_all
    show ?thesis
    proof (cases "aBuffer p = None")
      case True
      have "unat (word_of_int (int (length bs)) :: u64) \<le> length bs" using r(1) by (subst unat_word_of_int_64) auto
      then obtain rc t where "demoDirectWrite io p bs (int (length bs)) ofs s = Inr (rc, t)"
        using direct_safe by blast
      then show ?thesis
        using True assms(1) Write_op by (simp add: demoio_def demoWrite_def)
    next
      case False
      then show ?thesis
        using loop_safe [OF assms(1) False r(2), of "int (length bs)" bs s] r(3) Write_op
        by (auto simp: demoio_def demoWrite_def)
    qed
  next
    case (Read_op n ofs)
    obtain o' s1 where sk: "io_lseek io (df_fd p) (word_of_int ofs) SEEK_SET t0 = (o', s1)" by fastforce
    obtain r d s2 where rd: "io_read io (df_fd p) (word_of_int n) s1 = ((r, d), s2)" by (metis surj_pair)
    have "length (case d of None \<Rightarrow> [] | Some bs \<Rightarrow> bs) \<le> nat n"
      using read_bound [of "df_fd p" "word_of_int n" s1 r _ s2] rd assms(2) Read_op by (auto split: option.split)
    then show ?thesis
      using fl sk rd Read_op assms by (auto simp: demoio_def demoRead_def Let_def)
  next
    case (Truncate_op n)
    then show ?thesis using assms(1) by (simp add: demoio_def demoTruncate_def)
  next
    case Sync_op
    then show ?thesis using fl assms(1) by (auto simp: demoio_def demoSync_def split: prod.split)
  next
    case Size_op
    then show ?thesis using fl assms(1) by (auto simp: demoio_def demoFileSize_def split: prod.split)
  qed
qed

lemma close_safe: "file_ok p \<Longrightarrow> \<exists>rc p' t. demoClose io p s = Inr (rc, p', t)"
  using flush_safe [of p s] by (auto simp: demoClose_def split: prod.split)

end

section \<open>The secure world's calls\<close>

text \<open>The system call copies as many bytes as were asked for out of the shared memory, no more.\<close>

lemma tee_untrusted:
  assumes "\<And>m n s. length (mobj_read ce m n s) \<le> unat n"
  shows "untrusted_io (tee_io ce mal snp)"
proof
  fix fd n s r d t
  assume "io_read (tee_io ce mal snp) fd n s = ((r, Some d), t)"
  then show "length d \<le> unat n"
    using assms by (auto simp: syscall_vfs_read_def with_payload_def Let_def split: option.splits prod.splits if_splits)
qed

interpretation direct_untrusted: untrusted_io "tee_io (direct_env env) mal snp" for env mal snp
  by (rule tee_untrusted) (auto simp: direct_read_def subbytes_def split: option.split)

section \<open>A client\<close>

text \<open>
  A client of the VFS, such as SQLite, keeps open files under numbers.  \<open>client_world\<close>: the rest of the
  system moves on its own.
\<close>

record 's client =
  cl_files :: "nat \<Rightarrow> DemoFile option"
  cl_world :: 's

inductive client_step :: "'s vfs_io \<Rightarrow> 's client \<Rightarrow> 's client \<Rightarrow> bool" for io c where
  client_open: "cl_files c k = None \<Longrightarrow> demoOpen io nm p flags (cl_world c) = ((rc, q, out), t) \<Longrightarrow>
    client_step io c (c\<lparr>cl_files := if rc = SQLITE_OK then (cl_files c)(k \<mapsto> q) else cl_files c, cl_world := t\<rparr>)"
| client_op: "cl_files c k = Some p \<Longrightarrow> op_in_range op \<Longrightarrow> run_op (demoio io) op p (cl_world c) = Inr (a, q, t) \<Longrightarrow>
    client_step io c (c\<lparr>cl_files := (cl_files c)(k \<mapsto> q), cl_world := t\<rparr>)"
| client_close: "cl_files c k = Some p \<Longrightarrow> xClose (demoio io) p (cl_world c) = Inr (rc, q, t) \<Longrightarrow>
    client_step io c (c\<lparr>cl_files := (cl_files c)(k := None), cl_world := t\<rparr>)"
| client_delete: "demoDelete io path sync (cl_world c) = Inr (rc, t) \<Longrightarrow> client_step io c (c\<lparr>cl_world := t\<rparr>)"
| client_access: "demoAccess io path flags (cl_world c) = Inr (rc, r, t) \<Longrightarrow> client_step io c (c\<lparr>cl_world := t\<rparr>)"
| client_fullpath: "demoFullPathname io path n out (cl_world c) = Inr (rc, out', t) \<Longrightarrow> client_step io c (c\<lparr>cl_world := t\<rparr>)"
| client_world: "client_step io c (c\<lparr>cl_world := t\<rparr>)"

definition new_client :: "'s \<Rightarrow> 's client" where
  "new_client s = \<lparr>cl_files = Map.empty, cl_world = s\<rparr>"

lemma open_file_ok: "demoOpen io nm p flags s = ((SQLITE_OK, q, out), t) \<Longrightarrow> file_ok q"
  by (cases nm) (auto simp: demoOpen_def Let_def zero_file_def file_ok_def SQLITE_TEEVFS_BUFFERSZ_def
      split: if_splits prod.splits option.splits)

context untrusted_io
begin

lemma op_keeps_ok:
  "file_ok p \<Longrightarrow> op_in_range op \<Longrightarrow> run_op (demoio io) op p s = Inr (a, q, t) \<Longrightarrow> file_ok q"
  using op_safe [of p op s] by auto

lemma client_step_ok:
  assumes "client_step io c d" and "\<forall>p \<in> ran (cl_files c). file_ok p"
  shows "\<forall>p \<in> ran (cl_files d). file_ok p"
  using assms(1)
proof cases
  case (client_open k nm p flags rc q out t)
  then show ?thesis using assms(2) by (auto simp: ran_def dest: open_file_ok)
next
  case (client_op k p op a q t)
  then have "file_ok q" using assms(2) by (auto intro: op_keeps_ok ranI)
  with client_op(1) assms(2) show ?thesis by (auto simp: ran_def)
qed (use assms(2) in \<open>auto simp: ran_def\<close>)

lemma client_reach_ok:
  assumes "(client_step io)\<^sup>*\<^sup>* (new_client s) c"
  shows "\<forall>p \<in> ran (cl_files c). file_ok p"
  using assms
proof induction
  case base
  then show ?case by (simp add: new_client_def)
next
  case (step c d)
  from step(2,3) show ?case by (rule client_step_ok)
qed

lemma client_never_faults:
  assumes "(client_step io)\<^sup>*\<^sup>* (new_client s) c" and "cl_files c k = Some p" and "op_in_range op"
  shows "file_ok p \<and> (\<exists>a q t. run_op (demoio io) op p (cl_world c) = Inr (a, q, t)) \<and>
    (\<exists>rc q t. xClose (demoio io) p (cl_world c) = Inr (rc, q, t))"
proof -
  have ok: "file_ok p" using client_reach_ok [OF assms(1)] assms(2) by (blast intro: ranI)
  with op_safe [OF ok assms(3), of "cl_world c"] close_safe [OF ok, of "cl_world c"] show ?thesis
    by (simp add: demoio_def) blast
qed

end

section \<open>Property\<close>

text \<open>C4. The normal world cannot make the file methods of the trusted application fault: whatever the
  supplicant answers to any request, and whatever it puts into shared memory, in every state a client
  can reach by opening files, operations on them, closing them, deleting and asking for paths, each
  open file is in order (its buffer of 8192 bytes is there if it has one and is filled within its
  bounds), and every further operation on it, and closing it, returns without a failed assertion, an
  access outside of a buffer or a signed overflow.\<close>

theorem hostile_host_cannot_fault:
  assumes "\<forall>m n s. length (mobj_read ce m n s) \<le> unat n"
    and "(client_step (tee_io ce mal snp))\<^sup>*\<^sup>* (new_client s) c" and "cl_files c k = Some p" and "op_in_range op"
  shows "file_ok p \<and> (\<exists>a q t. run_op (demoio (tee_io ce mal snp)) op p (cl_world c) = Inr (a, q, t)) \<and>
    (\<exists>rc q t. xClose (demoio (tee_io ce mal snp)) p (cl_world c) = Inr (rc, q, t))"
  by (rule untrusted_io.client_never_faults [OF tee_untrusted assms(2-4)]) (use assms(1) in blast)

section \<open>At a concrete input\<close>

text \<open>A host that answers every request with success and the number 7000, and fills every buffer with 255.\<close>

definition hostile_ce :: "unit core_env" where
  "hostile_ce =
     \<lparr>rpc_alloc = (\<lambda>n s. (Some \<lparr>mo_cookie = 1, mo_size = n\<rparr>, s)), rpc_free = (\<lambda>_ s. s),
      rpc_cmd = (\<lambda>_ _ ps s. ((TEEC_SUCCESS, map (\<lambda>_. PARAM_VALUE POUT 7000 7000 7000) ps), s)),
      mobj_write = (\<lambda>_ _ s. s), mobj_read = (\<lambda>_ n _. replicate (unat n) 255),
      core_malloc = (\<lambda>_ s. (True, s)), OPTEE_RPC_CMD_VFS = 30\<rparr>"

abbreviation hostile_io :: "unit vfs_io" where
  "hostile_io \<equiv> tee_io hostile_ce (\<lambda>n s. (Some (replicate (unat n) 0), s)) ref_snprintf"

lemma hostile_open:
  "\<exists>q. demoOpen hostile_io (Some [97]) zero_file SQLITE_OPEN_MAIN_JOURNAL () = ((SQLITE_OK, q, Some SQLITE_OPEN_MAIN_JOURNAL), ())"
  by (simp add: demoOpen_def tee_io_def hostile_ce_def syscall_vfs_open_def with_payload_def rpc_vfs_def)

theorem hostile_host_cannot_fault_witness:
  "\<exists>c p. (client_step hostile_io)\<^sup>*\<^sup>* (new_client ()) c \<and> cl_files c 0 = Some p \<and> file_ok p \<and>
     (\<exists>a q t. run_op (demoio hostile_io) (Write_op [1, 2] 5) p (cl_world c) = Inr (a, q, t)) \<and>
     (\<exists>rc q t. xClose (demoio hostile_io) p (cl_world c) = Inr (rc, q, t))"
proof -
  obtain q where "demoOpen hostile_io (Some [97]) zero_file SQLITE_OPEN_MAIN_JOURNAL (cl_world (new_client ())) =
      ((SQLITE_OK, q, Some SQLITE_OPEN_MAIN_JOURNAL), ())"
    using hostile_open by (auto simp: new_client_def)
  from client_open [OF _ this, of 0] obtain c where
    c: "client_step hostile_io (new_client ()) c" "cl_files c 0 = Some q"
    by (auto simp: new_client_def)
  then have reach: "(client_step hostile_io)\<^sup>*\<^sup>* (new_client ()) c" by simp
  have "file_ok q \<and> (\<exists>a q' t. run_op (demoio hostile_io) (Write_op [1, 2] 5) q (cl_world c) = Inr (a, q', t)) \<and>
     (\<exists>rc q' t. xClose (demoio hostile_io) q (cl_world c) = Inr (rc, q', t))"
    by (rule hostile_host_cannot_fault [OF _ reach c(2)]) (simp_all add: hostile_ce_def)
  with reach c(2) show ?thesis by blast
qed

end
