(* ===== verification/Vfs_Files.thy ===== *)
theory Vfs_Files
  imports Vfs_Session
begin

text \<open>
  Several open files at once, as SQLite has a database and its journal: operations on different files,
  in any order, do not disturb each other.  What a descriptor designates is a node; two descriptors
  are of different files when their nodes differ.
\<close>

section \<open>What is kept\<close>

text \<open>
  \<open>keeps view node fd s t\<close>: from \<open>s\<close> to \<open>t\<close> nothing happened to the open files of another node than that
  of \<open>fd\<close>, and \<open>fd\<close> is still open.
\<close>

definition keeps ::
    "('s \<Rightarrow> s32 \<Rightarrow> (byte list \<times> nat) option) \<Rightarrow> ('s \<Rightarrow> s32 \<Rightarrow> nat option) \<Rightarrow> s32 \<Rightarrow> 's \<Rightarrow> 's \<Rightarrow> bool" where
  "keeps view node fd s t \<longleftrightarrow> view t fd \<noteq> None \<and> node t fd = node s fd \<and>
     (\<forall>f. view s f \<noteq> None \<and> node s f \<noteq> node s fd \<longrightarrow> view t f = view s f \<and> node t f = node s f)"

lemma keeps_refl: "view s fd \<noteq> None \<Longrightarrow> keeps view node fd s s"
  by (simp add: keeps_def)

lemma keeps_trans: "keeps view node fd s t \<Longrightarrow> keeps view node fd t u \<Longrightarrow> keeps view node fd s u"
  unfolding keeps_def by metis

lemma keeps_open: "keeps view node fd s t \<Longrightarrow> view t fd \<noteq> None"
  by (simp add: keeps_def)

section \<open>The calls\<close>

locale files_io = file_io io view for io :: "'s vfs_io" and view +
  fixes node :: "'s \<Rightarrow> s32 \<Rightarrow> nat option"
  assumes lseek_keeps: "view s fd \<noteq> None \<Longrightarrow> io_lseek io fd ofst SEEK_SET s = (r, t) \<Longrightarrow> keeps view node fd s t"
    and write_keeps: "view s fd \<noteq> None \<Longrightarrow> unat n \<le> length buf \<Longrightarrow> io_write io fd buf n s = (r, t) \<Longrightarrow>
      keeps view node fd s t"
    and read_keeps: "view s fd \<noteq> None \<Longrightarrow> io_read io fd n s = (rd, t) \<Longrightarrow> keeps view node fd s t"
    and fsync_keeps: "view s fd \<noteq> None \<Longrightarrow> io_fsync io fd s = (r0, t) \<Longrightarrow> keeps view node fd s t"
    and filesize_keeps: "view s fd \<noteq> None \<Longrightarrow> io_filesize io fd s = (r, t) \<Longrightarrow> keeps view node fd s t"
begin

lemma stay_keeps: "view s fd = Some v \<Longrightarrow> keeps view node fd s s"
  by (rule keeps_refl) simp

lemma direct_keeps:
  assumes v: "view s (df_fd p) \<noteq> None" and run: "demoDirectWrite io p z n i s = Inr (rc, t)"
  shows "keeps view node (df_fd p) s t"
proof -
  obtain o' u where sk: "io_lseek io (df_fd p) (word_of_int i) SEEK_SET s = (o', u)" by fastforce
  note 1 = lseek_keeps [OF v sk]
  show ?thesis
  proof (cases "sint o' = i \<and> unat (word_of_int n :: u64) \<le> length z")
    case False
    with run sk 1 show ?thesis by (auto simp: demoDirectWrite_def split: if_splits)
  next
    case True
    obtain r w where wr: "io_write io (df_fd p) z (word_of_int n) u = (r, w)" by fastforce
    have "t = w" using run sk wr True by (auto simp: demoDirectWrite_def split: if_splits)
    with keeps_trans [OF 1 write_keeps [OF keeps_open [OF 1] _ wr]] True show ?thesis by simp
  qed
qed

lemma flush_keeps:
  assumes "view s (df_fd p) \<noteq> None" and "demoFlushBuffer io p s = Inr (rc, p', t)"
  shows "keeps view node (df_fd p) s t"
  using assms
  by (auto simp: demoFlushBuffer_def split: if_splits option.splits elim!: bind_outcome_InrE
      dest!: direct_keeps [OF assms(1)] intro: stay_keeps)

lemma chunk_keeps:
  assumes "view s (df_fd p) \<noteq> None" and "demoWrite_chunk io p z n i s = Inr (rc, k, p', t)"
  shows "keeps view node (df_fd p) s t"
proof -
  have "t = s \<or> (\<exists>rc' q. demoFlushBuffer io p s = Inr (rc', q, t))"
    using assms(2)
    by (auto simp: demoWrite_chunk_def Let_def split: if_splits option.splits elim!: bind_outcome_InrE)
  then show ?thesis using assms(1) flush_keeps by (auto intro: stay_keeps)
qed

lemma loop_keeps:
  assumes "view s (df_fd p) \<noteq> None" and "demoWrite_loop io p z n i s = Inr (rc, p', t)"
  shows "keeps view node (df_fd p) s t"
  using assms
proof (induction "nat n" arbitrary: p z n i s rule: less_induct)
  case less
  show ?case
  proof (cases "n \<le> 0")
    case True
    with less.prems(2) have "t = s" by (subst (asm) demoWrite_loop.simps) simp
    with less.prems(1) show ?thesis by (auto intro: stay_keeps)
  next
    case False
    with less.prems(2) obtain rc1 k q u where ch: "demoWrite_chunk io p z n i s = Inr (rc1, k, q, u)"
      by (subst (asm) demoWrite_loop.simps) (auto split: sum.splits)
    note 1 = chunk_keeps [OF less.prems(1) ch] and fd = chunk_fd [OF ch]
    show ?thesis
    proof (cases "rc1 = SQLITE_OK")
      case False
      with less.prems(2) ch \<open>\<not> n \<le> 0\<close> 1 show ?thesis by (subst (asm) demoWrite_loop.simps) simp
    next
      case True
      have k: "0 < k" using chunk_progress [OF ch [unfolded True]] \<open>\<not> n \<le> 0\<close> by simp
      from less.prems(2) ch True \<open>\<not> n \<le> 0\<close> obtain j where
        rest: "demoWrite_loop io q (drop (nat k) z) (n - k) j u = Inr (rc, p', t)"
        by (subst (asm) demoWrite_loop.simps) (auto split: sum.splits)
      have "keeps view node (df_fd q) u t"
        by (rule less.hyps [OF _ _ rest]) (use k \<open>\<not> n \<le> 0\<close> keeps_open [OF 1] fd in auto)
      with keeps_trans [OF 1] fd show ?thesis by simp
    qed
  qed
qed

lemma op_keeps:
  assumes v: "view s (df_fd p) \<noteq> None" and run: "run_op (demoio io) op p s = Inr (a, p', t)"
  shows "keeps view node (df_fd p) s t"
proof (cases op)
  case (Write_op bs ofs)
  with run show ?thesis
    by (auto simp: demoio_def demoWrite_def split: if_splits elim!: bind_outcome_InrE
        dest!: loop_keeps [OF v] direct_keeps [OF v])
next
  case (Truncate_op n)
  with v run show ?thesis by (auto simp: demoio_def demoTruncate_def intro: stay_keeps)
next
  case (Read_op n ofs)
  with run obtain rc q u where fl: "demoFlushBuffer io p s = Inr (rc, q, u)"
    by (auto simp: demoio_def demoRead_def elim!: bind_outcome_InrE)
  note 1 = flush_keeps [OF v fl] and fd = flush_fd [OF fl]
  show ?thesis
  proof (cases "rc = SQLITE_OK")
    case False
    with run Read_op fl 1 show ?thesis by (auto simp: demoio_def demoRead_def)
  next
    case True
    obtain o' w where sk: "io_lseek io (df_fd p) (word_of_int ofs) SEEK_SET u = (o', w)" by fastforce
    obtain r d x where rd: "io_read io (df_fd p) (word_of_int n) w = ((r, d), x)" by (metis surj_pair)
    note 2 = keeps_trans [OF 1 lseek_keeps [OF keeps_open [OF 1] sk]]
    note 3 = keeps_trans [OF 2 read_keeps [OF keeps_open [OF 2] rd]]
    have "t = w \<or> t = x"
      using run Read_op fl True sk rd fd by (auto simp: demoio_def demoRead_def Let_def split: if_splits)
    with 2 3 show ?thesis by auto
  qed
next
  case Sync_op
  with run obtain rc q u where fl: "demoFlushBuffer io p s = Inr (rc, q, u)"
    by (auto simp: demoio_def demoSync_def elim!: bind_outcome_InrE)
  note 1 = flush_keeps [OF v fl] and fd = flush_fd [OF fl]
  obtain r w where fs: "io_fsync io (df_fd p) u = (r, w)" by fastforce
  have "t = u \<or> t = w" using run Sync_op fl fs fd by (auto simp: demoio_def demoSync_def split: if_splits)
  with 1 keeps_trans [OF 1 fsync_keeps [OF keeps_open [OF 1] fs]] show ?thesis by auto
next
  case Size_op
  with run obtain rc q u where fl: "demoFlushBuffer io p s = Inr (rc, q, u)"
    by (auto simp: demoio_def demoFileSize_def elim!: bind_outcome_InrE)
  note 1 = flush_keeps [OF v fl] and fd = flush_fd [OF fl]
  obtain r w where fs: "io_filesize io (df_fd p) u = (r, w)" by fastforce
  have "t = u \<or> t = w" using run Size_op fl fs fd by (auto simp: demoio_def demoFileSize_def split: if_splits)
  with 1 keeps_trans [OF 1 filesize_keeps [OF keeps_open [OF 1] fs]] show ?thesis by auto
qed

end

section \<open>Interleaved operations\<close>

text \<open>The client keeps its open files under numbers; an operation names its file.  The run ends at the first
  failure.\<close>

primrec run_files ::
    "'s sqlite3_io_methods \<Rightarrow> (nat \<times> vfs_op) list \<Rightarrow> (nat \<Rightarrow> DemoFile) \<Rightarrow> 's \<Rightarrow>
       (vfs_answer list \<times> (nat \<Rightarrow> DemoFile) \<times> 's) outcome" where
  "run_files mt [] fs s = Inr ([], fs, s)"
| "run_files mt (x # xs) fs s =
     bind_outcome (run_op mt (snd x) (fs (fst x)) s) (\<lambda>(a, p, s).
     case a of
       Failed rc \<Rightarrow> Inr ([a], fs(fst x := p), s)
     | _ \<Rightarrow> bind_outcome (run_files mt xs (fs(fst x := p)) s) (\<lambda>(as, fs, s). Inr (a # as, fs, s)))"

text \<open>The answers, each from the bytes of its own file; the operations on one file.\<close>

primrec spec_answers :: "(nat \<times> vfs_op) list \<Rightarrow> (nat \<Rightarrow> byte list) \<Rightarrow> vfs_answer list" where
  "spec_answers [] bss = []"
| "spec_answers (x # xs) bss =
     (let (a, c) = spec_op (snd x) (bss (fst x)) in a # spec_answers xs (bss(fst x := c)))"

definition ops_of :: "nat \<Rightarrow> (nat \<times> vfs_op) list \<Rightarrow> vfs_op list" where
  "ops_of k xs = map snd (filter (\<lambda>x. fst x = k) xs)"

lemma ops_of_simps [simp]:
  "ops_of k [] = []" "ops_of k (x # xs) = (if fst x = k then [snd x] else []) @ ops_of k xs"
  by (simp_all add: ops_of_def)

lemma spec_session_Cons:
  "snd (spec_session (op # ops) c) = snd (spec_session ops (snd (spec_op op c)))"
  by (simp add: case_prod_unfold Let_def)

text \<open>Each open file shows its client a content of its own.\<close>

definition all_see ::
    "('s \<Rightarrow> s32 \<Rightarrow> (byte list \<times> nat) option) \<Rightarrow> ('s \<Rightarrow> s32 \<Rightarrow> nat option) \<Rightarrow> nat set \<Rightarrow> 's \<Rightarrow>
       (nat \<Rightarrow> DemoFile) \<Rightarrow> (nat \<Rightarrow> byte list) \<Rightarrow> bool" where
  "all_see view node K s fs bss \<longleftrightarrow>
     (\<forall>k \<in> K. sees view s (fs k) (bss k)) \<and>
     (\<forall>k \<in> K. \<forall>l \<in> K. k \<noteq> l \<longrightarrow> node s (df_fd (fs k)) \<noteq> node s (df_fd (fs l)))"

lemma sees_cong: "view t (df_fd p) = view s (df_fd p) \<Longrightarrow> sees view t p c = sees view s p c"
  by (simp add: sees_def)

context files_io
begin

lemma step_refines:
  assumes all: "all_see view node K s fs bss" and k: "k \<in> K" and op: "op_in_range op" "length (bss k) < 2 ^ 63"
  shows "\<exists>a p t. run_op (demoio io) op (fs k) s = Inr (a, p, t) \<and>
    (a = fst (spec_op op (bss k)) \<and> all_see view node K t (fs(k := p)) (bss(k := snd (spec_op op (bss k)))) \<or>
     (\<exists>rc. a = Failed rc))"
proof -
  have sees: "sees view s (fs k) (bss k)" using all k by (simp add: all_see_def)
  obtain a p t where run: "run_op (demoio io) op (fs k) s = Inr (a, p, t)"
    and a: "a = fst (spec_op op (bss k)) \<and> sees view t p (snd (spec_op op (bss k))) \<or> (\<exists>rc. a = Failed rc)"
    using op_refines [OF sees op] by blast
  have fd: "df_fd p = df_fd (fs k)" by (rule op_fd [OF run])
  have "view s (df_fd (fs k)) \<noteq> None" using sees by (auto simp: sees_def split: option.splits)
  note keep = op_keeps [OF this run]
  have other: "sees view t (fs l) (bss l) \<and> node t (df_fd (fs l)) = node s (df_fd (fs l))" if l: "l \<in> K" "l \<noteq> k" for l
  proof -
    have "sees view s (fs l) (bss l)" "node s (df_fd (fs l)) \<noteq> node s (df_fd (fs k))"
      using all k l by (auto simp: all_see_def)
    with keep sees_cong [of view t "fs l" s "bss l"] show ?thesis
      by (auto simp: keeps_def sees_def split: option.splits)
  qed
  have "all_see view node K t (fs(k := p)) (bss(k := c))" if "sees view t p c" for c
    using all k other fd keep that by (auto simp: all_see_def keeps_def)
  with run a show ?thesis by blast
qed

lemma files_refine:
  assumes "all_see view node K s fs bss" and "\<forall>(k, op) \<in> set xs. k \<in> K \<and> op_in_range op"
    and "\<forall>k \<in> K. length (bss k) < 2 ^ 63"
  shows "\<exists>as fs' t. run_files (demoio io) xs fs s = Inr (as, fs', t) \<and>
    (as = spec_answers xs bss \<and> all_see view node K t fs' (\<lambda>k. snd (spec_session (ops_of k xs) (bss k))) \<or>
     (\<exists>j rc. j < length xs \<and> as = take j (spec_answers xs bss) @ [Failed rc]))"
  using assms
proof (induction xs arbitrary: s fs bss)
  case Nil
  then show ?case by simp
next
  case (Cons x xs)
  obtain k op where x: "x = (k, op)" by fastforce
  have k: "k \<in> K" "op_in_range op" "length (bss k) < 2 ^ 63" using Cons.prems(2,3) by (auto simp: x)
  define b d where "b = fst (spec_op op (bss k))" and "d = bss(k := snd (spec_op op (bss k)))"
  have spec: "spec_answers (x # xs) bss = b # spec_answers xs d"
    by (simp add: x b_def d_def case_prod_unfold Let_def)
  have cont: "(\<lambda>l. snd (spec_session (ops_of l xs) (d l))) = (\<lambda>l. snd (spec_session (ops_of l (x # xs)) (bss l)))"
    by (rule ext) (simp add: x d_def spec_session_Cons del: spec_session.simps)
  obtain a q t where run: "run_op (demoio io) op (fs k) s = Inr (a, q, t)"
    and a: "a = b \<and> all_see view node K t (fs(k := q)) d \<or> (\<exists>rc. a = Failed rc)"
    using step_refines [OF Cons.prems(1) k] by (auto simp: b_def d_def)
  show ?case
  proof (cases "\<exists>rc. a = Failed rc")
    case True
    then show ?thesis using run by (auto simp: x intro!: exI [of _ 0])
  next
    case False
    with a have q: "a = b" "all_see view node K t (fs(k := q)) d" by auto
    have rest: "\<forall>(k, op) \<in> set xs. k \<in> K \<and> op_in_range op" "\<forall>k \<in> K. length (d k) < 2 ^ 63"
      using spec_op_size [OF k(2,3)] Cons.prems(2,3) by (auto simp: d_def)
    from Cons.IH [OF q(2) rest] obtain as fs' u where
      IH: "run_files (demoio io) xs (fs(k := q)) t = Inr (as, fs', u)"
      "as = spec_answers xs d \<and> all_see view node K u fs' (\<lambda>k. snd (spec_session (ops_of k xs) (d k))) \<or>
       (\<exists>j rc. j < length xs \<and> as = take j (spec_answers xs d) @ [Failed rc])" by blast
    have "run_files (demoio io) (x # xs) fs s = Inr (a # as, fs', u)"
      using run IH(1) False by (cases a) (auto simp: x)
    moreover have "a # as = spec_answers (x # xs) bss \<and>
        all_see view node K u fs' (\<lambda>k. snd (spec_session (ops_of k (x # xs)) (bss k))) \<or>
       (\<exists>j rc. j < length (x # xs) \<and> a # as = take j (spec_answers (x # xs) bss) @ [Failed rc])"
      using IH(2) q(1) unfolding spec cont by (elim disjE exE) (simp, force intro!: exI [of _ "Suc _"])
    ultimately show ?thesis by blast
  qed
qed

end

section \<open>The host's files\<close>

text \<open>
  \<open>pnode w fd\<close> is the file \<open>fd\<close> is open on.  A call on a file changes nothing of another file, and opens and
  closes nothing; managing shared memory leaves the open files on their nodes.
\<close>

locale posix_nodes = posix_files os pview for os :: "'w os" and pview +
  fixes pnode :: "'w \<Rightarrow> s32 \<Rightarrow> nat option"
  assumes node_file: "file_call fd c \<Longrightarrow> os c w = (q, w') \<Longrightarrow>
      pnode w' f = pnode w f \<and> (pview w' f = None \<longleftrightarrow> pview w f = None) \<and>
      (pnode w f \<noteq> pnode w fd \<longrightarrow> pview w' f = pview w f)"
    and node_shm: "shm_plain c \<or> (\<exists>d n. c = Ioctl_shm_alloc d n \<or> c = Ioctl_shm_register d n) \<or>
        (\<exists>g. c = Close g \<and> pview w g = None) \<Longrightarrow> os c w = (q, w') \<Longrightarrow> pview w f \<noteq> None \<Longrightarrow> pnode w' f = pnode w f"
begin

lemma file_keeps: "file_call fd c \<Longrightarrow> os c w = (q, w') \<Longrightarrow> pview w fd \<noteq> None \<Longrightarrow> keeps pview pnode fd w w'"
  unfolding keeps_def using node_file by metis

lemma file_keeps_Some: "os c w = (q, w') \<Longrightarrow> pview w fd = Some v \<Longrightarrow> file_call fd c \<Longrightarrow> keeps pview pnode fd w w'"
  by (rule file_keeps) simp_all

lemma shm_run_node:
  assumes "shm_run os F w G u" and "\<forall>f \<in> F. pview w f = None" and "pview w f \<noteq> None"
  shows "pnode u f = pnode w f"
  using assms
proof (induction rule: shm_run.induct)
  case (run_plain G u c r v)
  then have "pview u f \<noteq> None" using shm_run_view [OF run_plain(1)] by simp
  with run_plain node_shm [of c u r v f] show ?case by auto
next
  case (run_ioctl G u c d n r v H)
  then have "pview u f \<noteq> None" using shm_run_view [OF run_ioctl(1)] by simp
  then have "pnode v f = pnode u f" by (intro node_shm [OF _ run_ioctl(3)]) (use run_ioctl(2) in blast)+
  with run_ioctl show ?case by simp
next
  case (run_close G u g r v)
  then have "pview u f \<noteq> None" "pview u g = None" using shm_run_view [OF run_close(1)] by auto
  then have "pnode v f = pnode u f" by (intro node_shm [OF _ run_close(3)]) blast+
  with run_close show ?case by simp
qed simp

lemma shm_keeps:
  "shm_run os F w G u \<Longrightarrow> \<forall>f \<in> F. pview w f = None \<Longrightarrow> pview w fd \<noteq> None \<Longrightarrow> keeps pview pnode fd w u"
  using shm_run_view [of F w G u] shm_run_node [of F w G u] by (auto simp: keeps_def)

lemma call_keeps:
  assumes "one_call os c w q w'" and c: "file_call fd c" and v: "pview w fd \<noteq> None"
  shows "keeps pview pnode fd w w'"
proof -
  obtain F w1 w2 where a: "shm_run os {} w F w1" "os c w1 = (q, w2)" "shm_run os F w2 {} w'"
    using assms(1) by (auto simp: one_call_def)
  have 1: "keeps pview pnode fd w w1" "\<forall>f \<in> F. pview w1 f = None"
    using shm_keeps [OF a(1) _ v] shm_run_view [OF a(1)] by auto
  note 2 = file_keeps [OF c a(2) keeps_open [OF 1(1)]]
  have "\<forall>f \<in> F. pview w2 f = None" using posix_other [OF c _ a(2)] 1(2) by blast
  from shm_keeps [OF a(3) this keeps_open [OF 2]] show ?thesis
    using keeps_trans [OF keeps_trans [OF 1(1) 2]] by blast
qed

end

sublocale posix_nodes \<subseteq> hosted: files_io "host_io os mal snp" pview pnode for mal snp
  by unfold_locales (auto simp: host_io_def split: prod.splits intro!: file_keeps_Some)

text \<open>Through the supplicant.\<close>

definition tnode :: "('w \<Rightarrow> s32 \<Rightarrow> nat option) \<Rightarrow> 'w supp \<Rightarrow> s32 \<Rightarrow> nat option" where
  "tnode pnode s fd = pnode (world s) fd"

locale tee_nodes = tee_rpc ce env + posix_nodes "e_os env" pview pnode
  for ce :: "'w supp core_env" and env :: "'w supp_env" and pview and pnode

sublocale tee_nodes \<subseteq> tee_files ..

context tee_nodes
begin

lemma world_keeps:
  "supp_inv s \<Longrightarrow> supp_inv t \<Longrightarrow> keeps pview pnode fd (world s) (world t) \<Longrightarrow> keeps (tview pview) (tnode pnode) fd s t"
  by (simp add: keeps_def tview_def tnode_def)

lemma scalar_keeps:
  assumes v: "tview pview s fd \<noteq> None" and q: "os_call0 (e_os env) c s = (q, t)" and c: "file_call fd c"
  shows "keeps (tview pview) (tnode pnode) fd s t"
proof -
  obtain x where x: "tview pview s fd = Some x" using v by blast
  note a = tee_scalar_view [OF x q]
  show ?thesis
    by (rule world_keeps) (use a tview_world [OF x] file_keeps [OF c a(3)] in auto)
qed

lemma served_keeps:
  assumes v: "tview pview s fd \<noteq> None" and sv: "served (e_os env) c g fail s r t" and c: "file_call fd c"
  shows "keeps (tview pview) (tnode pnode) fd s t"
proof -
  obtain x where "tview pview s fd = Some x" using v by blast
  then have a: "supp_inv s" "pview (world s) fd \<noteq> None" using tview_world by auto
  have "keeps pview pnode fd (world s) (world t)"
    using sv shm_keeps [of "{}" "world s" "{}" "world t" fd] call_keeps [OF _ c a(2)] a(2)
    by (auto simp: served_def)
  then show ?thesis using sv a(1) by (intro world_keeps) (auto simp: served_def)
qed

lemma tee_inv: "tview pview s fd \<noteq> None \<Longrightarrow> supp_inv s"
  by (auto simp: tview_def split: if_splits)

end

sublocale tee_nodes \<subseteq> apart: files_io "tee_io ce mal snp" "tview pview" "tnode pnode" for mal snp
proof
  fix s t fd ofst r n buf rd r0
  show "tview pview s fd \<noteq> None \<Longrightarrow> io_lseek (tee_io ce mal snp) fd ofst SEEK_SET s = (r, t) \<Longrightarrow>
      keeps (tview pview) (tnode pnode) fd s t"
    by (auto simp: scalar_calls split: prod.splits intro: scalar_keeps)
  show "tview pview s fd \<noteq> None \<Longrightarrow> unat n \<le> length buf \<Longrightarrow> io_write (tee_io ce mal snp) fd buf n s = (r, t) \<Longrightarrow>
      keeps (tview pview) (tnode pnode) fd s t"
    by (simp split: prod.splits) (blast intro: served_keeps [OF _ write_call [OF tee_inv shm_size] file_calls(2)])
  show "tview pview s fd \<noteq> None \<Longrightarrow> io_read (tee_io ce mal snp) fd n s = (rd, t) \<Longrightarrow>
      keeps (tview pview) (tnode pnode) fd s t"
    using served_keeps [OF _ read_call [OF tee_inv shm_size posix_read_out] file_calls(3)] by auto
  show "tview pview s fd \<noteq> None \<Longrightarrow> io_fsync (tee_io ce mal snp) fd s = (r0, t) \<Longrightarrow>
      keeps (tview pview) (tnode pnode) fd s t"
    by (auto simp: scalar_calls split: prod.splits intro: scalar_keeps)
  show "tview pview s fd \<noteq> None \<Longrightarrow> io_filesize (tee_io ce mal snp) fd s = (r, t) \<Longrightarrow>
      keeps (tview pview) (tnode pnode) fd s t"
    by (auto simp: scalar_calls split: prod.splits intro: scalar_keeps)
qed

context tee_nodes
begin

lemma apart_files: "files_io (tee_io ce mal snp) (tview pview) (tnode pnode)"
  by (rule apart.files_io_axioms)

end

section \<open>Property\<close>

text \<open>C3. Open files of different nodes do not interfere: however the trusted application interleaves writes,
  reads, truncations, synchronisations and questions for the size on several of them, through system
  calls, RPC and supplicant, each answer is that of the sequence of bytes of its own file, and each file
  ends with the content that the operations on it alone give; if an operation fails, all the answers
  before it are so.\<close>

theorem files_do_not_interfere:
  assumes "tee_nodes ce env pview pnode" and "all_see (tview pview) (tnode pnode) K s fs bss"
    and "\<forall>(k, op) \<in> set xs. k \<in> K \<and> op_in_range op" and "\<forall>k \<in> K. length (bss k) < 2 ^ 63"
  shows "\<exists>as fs' t. run_files (demoio (tee_io ce mal snp)) xs fs s = Inr (as, fs', t) \<and>
    (as = spec_answers xs bss \<and>
       all_see (tview pview) (tnode pnode) K t fs' (\<lambda>k. snd (spec_session (ops_of k xs) (bss k))) \<or>
     (\<exists>j rc. j < length xs \<and> as = take j (spec_answers xs bss) @ [Failed rc]))"
proof -
  have "files_io (tee_io ce mal snp) (tview pview) (tnode pnode)"
    by (rule tee_nodes.apart_files) (rule assms(1))
  from files_io.files_refine [OF this assms(2-4)] show ?thesis .
qed

section \<open>At a concrete input\<close>

definition ref_node :: "ref_world \<Rightarrow> s32 \<Rightarrow> nat option" where
  "ref_node w fd = map_option fst (r_fds w fd)"

interpretation ref_nodes: posix_nodes ref_os ref_view ref_node
proof
  fix fd c w q w' f
  show "file_call fd c \<Longrightarrow> ref_os c w = (q, w') \<Longrightarrow>
      ref_node w' f = ref_node w f \<and> (ref_view w' f = None \<longleftrightarrow> ref_view w f = None) \<and>
      (ref_node w f \<noteq> ref_node w fd \<longrightarrow> ref_view w' f = ref_view w f)"
    by (auto simp: file_call_def ref_node_def ref_view_def ref_os_def ref_file_def Let_def
        split: if_splits option.splits)
  show "shm_plain c \<or> (\<exists>d n. c = Ioctl_shm_alloc d n \<or> c = Ioctl_shm_register d n) \<or>
        (\<exists>g. c = Close g \<and> ref_view w g = None) \<Longrightarrow> ref_os c w = (q, w') \<Longrightarrow> ref_view w f \<noteq> None \<Longrightarrow>
      ref_node w' f = ref_node w f"
    by (auto simp: shm_plain_def ref_node_def ref_view_def ref_os_def ref_file_def split: if_splits option.splits)
qed

interpretation ref_tee_nodes: tee_nodes "direct_env ref_env" ref_env ref_view ref_node
  by (rule tee_nodes.intro) (simp_all add: direct.tee_rpc_axioms ref_nodes.posix_nodes_axioms)

text \<open>A database of three bytes without a buffer, and a journal of one byte with a buffer.\<close>

definition two_files :: "ref_world supp" where
  "two_files = ref_s0\<lparr>world := ref_init\<lparr>r_data := (\<lambda>i. if i = 0 then [7, 8, 9] else [1]), r_fds := [3 \<mapsto> (0, 0), 4 \<mapsto> (1, 0)]\<rparr>\<rparr>"

definition two_open :: "nat \<Rightarrow> DemoFile" where
  "two_open k = (if k = 0 then plain_file else journal_file\<lparr>df_fd := 4\<rparr>)"

definition two_contents :: "nat \<Rightarrow> byte list" where
  "two_contents k = (if k = 0 then [7, 8, 9] else [1])"

lemma two_files_seen: "all_see (tview ref_view) (tnode ref_node) {0, 1} two_files two_open two_contents"
  by (auto simp: all_see_def sees_def file_ok_def journal_file_def plain_file_def SQLITE_TEEVFS_BUFFERSZ_def
      ref_view_def client_view_def pending_def tview_def two_files_def two_open_def two_contents_def tnode_def
      ref_node_def supp_inv_def ref_s0_def fresh_supp_def)

theorem files_do_not_interfere_witness:
  "\<exists>as fs' t. run_files (demoio ref_tee_io) [(1, Write_op [5] 1), (0, Write_op [6] 0), (1, Sync_op), (0, Size_op)] two_open two_files =
      Inr (as, fs', t) \<and>
    (as = [Ok, Ok, Ok, Number (Some 3)] \<and> sees (tview ref_view) t (fs' 0) [6, 8, 9] \<and> sees (tview ref_view) t (fs' 1) [1, 5] \<or>
     (\<exists>j rc. j < 4 \<and> as = take j [Ok, Ok, Ok, Number (Some 3)] @ [Failed rc]))"
proof -
  let ?xs = "[(1, Write_op [5] 1), (0, Write_op [6] 0), (1, Sync_op), (0, Size_op)]"
  have ans: "spec_answers ?xs two_contents = [Ok, Ok, Ok, Number (Some 3)]"
    and c0: "snd (spec_session (ops_of 0 ?xs) (two_contents 0)) = [6, 8, 9]"
    and c1: "snd (spec_session (ops_of 1 ?xs) (two_contents 1)) = [1, 5]"
    by (simp_all add: two_contents_def overwrite_def fit_def)
  have rng: "\<forall>(k, op) \<in> set ?xs. k \<in> {0, 1} \<and> op_in_range op" and len: "\<forall>k \<in> {0, 1}. length (two_contents k) < 2 ^ 63"
    by (auto simp: two_contents_def)
  from files_do_not_interfere [OF ref_tee_nodes.tee_nodes_axioms two_files_seen rng len, of "\<lambda>n s. (None, s)" ref_snprintf]
  show ?thesis
    unfolding ans all_see_def using c0 c1 by (elim exE conjE disjE) (fastforce, force)
qed

end
