(* ===== verification/Syscalls_Clean.thy ===== *)
theory Syscalls_Clean
  imports Witnesses
begin

text \<open>
  Every system call of the VFS, with any arguments, gives back the shared memory it took, whatever the
  supplicant answers and however its handler ends.
\<close>

section \<open>Bracketing\<close>

text \<open>\<open>clean s t\<close>: a supplicant in order in \<open>s\<close> is in order in \<open>t\<close>, with the same objects listed.\<close>

definition clean :: "'w supp \<Rightarrow> 'w supp \<Rightarrow> bool" where
  "clean s t \<longleftrightarrow> (supp_inv s \<longrightarrow> supp_inv t \<and> shm_head t = shm_head s)"

lemma clean_refl [simp]: "clean s s"
  by (simp add: clean_def)

lemma clean_trans: "clean s t \<Longrightarrow> clean t u \<Longrightarrow> clean s u"
  by (simp add: clean_def)

lemma clean_shape: "mem_shape s t \<Longrightarrow> clean s t"
  by (simp add: clean_def mem_shape_inv mem_shape_head supp_inv_shape)

text \<open>The result of a computation.\<close>

lemma clean_bind:
  assumes "clean s (snd x)" and "clean (snd x) (snd (f (fst x) (snd x)))"
  shows "clean s (snd (let (r, t) = x in f r t))"
  using clean_trans [OF assms] by (simp add: case_prod_unfold)

context tee_rpc
begin

lemma clean_write: "clean s (mobj_write ce m bs s)"
proof -
  have "mem_shape s (direct_write m bs s)"
    by (auto simp: direct_write_def mem_shape_store split: option.split sum.split)
  then show ?thesis by (simp add: write_law clean_shape)
qed

lemma clean_rpc: "clean s (snd (rpc_vfs ce n ps s))"
proof (cases "tee_supp_vfs_process (e_os env) n (map to_ioctl ps) s")
  case (Inl f)
  then show ?thesis by (simp add: rpc_vfs_def cmd_law number_law direct_cmd_def)
next
  case (Inr v)
  then obtain c qs t where v: "tee_supp_vfs_process (e_os env) n (map to_ioctl ps) s = Inr (c, qs, t)"
    by (cases v) auto
  then have "clean s t" by (auto simp: clean_def dest: vfs_process_inv)
  with v show ?thesis by (simp add: rpc_vfs_def cmd_law number_law direct_cmd_def)
qed

lemma clean_payload:
  assumes drv: "shm_alloc_rounds_up (e_os env)" and body: "\<And>m t. clean t (snd (body m t))"
  shows "clean s (snd (with_payload ce len fail body s))"
  unfolding clean_def
proof
  assume inv: "supp_inv s"
  show "supp_inv (snd (with_payload ce len fail body s)) \<and>
      shm_head (snd (with_payload ce len fail body s)) = shm_head s"
  proof (cases rule: direct_alloc_cases [OF inv drv, of len])
    case (1 u)
    then show ?thesis by (simp add: with_payload_def alloc_law free_law direct_free_def)
  next
    case (2 sh v)
    obtain r u where b: "body (payload_mobj sh len) (payload_state sh len v) = (r, u)" by fastforce
    have "supp_inv (payload_state sh len v)" using fresh_shm_push [OF 2(2)] by (simp add: payload_state_def)
    then have "supp_inv u" "shm_head u = shm_head (payload_state sh len v)"
      using body [of "payload_state sh len v" "payload_mobj sh len"] b by (simp_all add: clean_def)
    then have u: "supp_inv u" "shm_head u = sh\<lparr>shm_size := len\<rparr> # shm_head s"
      using 2(2) by (simp_all add: payload_state_def push_tshm_def fresh_shm_def)
    have "with_payload ce len fail body s = (r, direct_free env (Some (payload_mobj sh len)) u)"
      using 2(1) b by (simp add: with_payload_def alloc_law free_law payload_mobj_def)
    then show ?thesis using direct_free_payload(1,2) [OF u refl] by simp
  qed
qed

end

section \<open>The system calls\<close>

text \<open>One system call of the VFS, with any arguments.\<close>

inductive vfs_syscall :: "'w supp core_env \<Rightarrow> 'w supp \<Rightarrow> 'w supp \<Rightarrow> bool" for ce s where
  sc_open: "vfs_syscall ce s (snd (syscall_vfs_open ce path oflag arg1 s))"
| sc_close: "vfs_syscall ce s (snd (syscall_vfs_close ce fd s))"
| sc_access: "vfs_syscall ce s (snd (syscall_vfs_access ce name type s))"
| sc_getcwd: "vfs_syscall ce s (snd (syscall_vfs_getcwd ce sz s))"
| sc_stat: "vfs_syscall ce s (snd (syscall_vfs_stat ce file_name s))"
| sc_fstat: "vfs_syscall ce s (snd (syscall_vfs_fstat ce fd s))"
| sc_write: "vfs_syscall ce s (snd (syscall_vfs_write ce fd buf n s))"
| sc_mkdir: "vfs_syscall ce s (snd (syscall_vfs_mkdir ce path mode s))"
| sc_rmdir: "vfs_syscall ce s (snd (syscall_vfs_rmdir ce path s))"
| sc_unlink: "vfs_syscall ce s (snd (syscall_vfs_unlink ce name s))"
| sc_ftruncate: "vfs_syscall ce s (snd (syscall_vfs_ftruncate ce fd sz s))"
| sc_read: "vfs_syscall ce s (snd (syscall_vfs_read ce fd nByte s))"
| sc_fchmod: "vfs_syscall ce s (snd (syscall_vfs_fchmod ce fd mode s))"
| sc_fchown: "vfs_syscall ce s (snd (syscall_vfs_fchown ce fd owner grp s))"
| sc_geteuid: "vfs_syscall ce s (snd (syscall_vfs_geteuid ce s))"
| sc_getpid: "vfs_syscall ce s (snd (syscall_vfs_getpid ce s))"
| sc_getenv: "vfs_syscall ce s (snd (syscall_vfs_getenv ce name s))"
| sc_lseek: "vfs_syscall ce s (snd (syscall_vfs_lseek ce fd offset whence s))"
| sc_fsync: "vfs_syscall ce s (snd (syscall_vfs_fsync ce fd s))"
| sc_sleep: "vfs_syscall ce s (snd (syscall_vfs_sleep ce seconds s))"
| sc_pread: "vfs_syscall ce s (snd (syscall_vfs_pread ce fd nByte offset s))"
| sc_pwrite: "vfs_syscall ce s (snd (syscall_vfs_pwrite ce fd buf n offset s))"
| sc_truncate: "vfs_syscall ce s (snd (syscall_vfs_truncate ce path sz s))"
| sc_gettimeofday: "vfs_syscall ce s (snd (syscall_vfs_gettimeofday ce want_tz s))"
| sc_fcntl_void: "vfs_syscall ce s (snd (syscall_vfs_fcntl_void ce fd cmd s))"
| sc_fcntl_int: "vfs_syscall ce s (snd (syscall_vfs_fcntl_int ce fd cmd pa s))"
| sc_fcntl_flock: "vfs_syscall ce s (snd (syscall_vfs_fcntl_flock ce fd cmd pFlock s))"
| sc_utimes: "vfs_syscall ce s (snd (syscall_vfs_utimes ce filename tms s))"
| sc_time: "vfs_syscall ce s (snd (syscall_vfs_time ce want_t s))"
| sc_usleep: "vfs_syscall ce s (syscall_vfs_usleep ce usec s)"
| sc_filesize: "vfs_syscall ce s (snd (syscall_vfs_filesize ce fd s))"

context tee_rpc
begin

lemma clean_write_rpc: "clean s (snd (rpc_vfs ce n ps (mobj_write ce m bs s)))"
  by (rule clean_trans [OF clean_write clean_rpc])

lemma scalar_clean:
  "clean s (snd (syscall_vfs_close ce fd s))"
  "clean s (snd (syscall_vfs_ftruncate ce fd sz s))"
  "clean s (snd (syscall_vfs_fchmod ce fd mode s))"
  "clean s (snd (syscall_vfs_fchown ce fd owner grp s))"
  "clean s (snd (syscall_vfs_geteuid ce s))"
  "clean s (snd (syscall_vfs_getpid ce s))"
  "clean s (snd (syscall_vfs_lseek ce fd offset whence s))"
  "clean s (snd (syscall_vfs_fsync ce fd s))"
  "clean s (snd (syscall_vfs_sleep ce seconds s))"
  "clean s (snd (syscall_vfs_fcntl_void ce fd cmd s))"
  "clean s (snd (syscall_vfs_fcntl_int ce fd cmd pa s))"
  "clean s (snd (syscall_vfs_time ce want_t s))"
  "clean s (syscall_vfs_usleep ce usec s)"
  "clean s (snd (syscall_vfs_filesize ce fd s))"
  by (simp_all add: clean_rpc case_prod_unfold Let_def syscall_vfs_close_def syscall_vfs_ftruncate_def syscall_vfs_fchmod_def syscall_vfs_fchown_def syscall_vfs_geteuid_def syscall_vfs_getpid_def syscall_vfs_lseek_def syscall_vfs_fsync_def syscall_vfs_sleep_def syscall_vfs_fcntl_void_def syscall_vfs_fcntl_int_def syscall_vfs_time_def syscall_vfs_usleep_def syscall_vfs_filesize_def)

lemma payload_clean:
  assumes drv: "shm_alloc_rounds_up (e_os env)"
  shows
  "clean s (snd (syscall_vfs_open ce path oflag arg1 s))"
  "clean s (snd (syscall_vfs_access ce name type s))"
  "clean s (snd (syscall_vfs_getcwd ce sz s))"
  "clean s (snd (syscall_vfs_stat ce file_name s))"
  "clean s (snd (syscall_vfs_fstat ce fd s))"
  "clean s (snd (syscall_vfs_write ce fd buf n s))"
  "clean s (snd (syscall_vfs_mkdir ce path mode s))"
  "clean s (snd (syscall_vfs_rmdir ce path s))"
  "clean s (snd (syscall_vfs_unlink ce name s))"
  "clean s (snd (syscall_vfs_read ce fd nByte s))"
  "clean s (snd (syscall_vfs_pread ce fd nByte offset s))"
  "clean s (snd (syscall_vfs_pwrite ce fd buf n offset s))"
  "clean s (snd (syscall_vfs_truncate ce path sz s))"
  "clean s (snd (syscall_vfs_gettimeofday ce want_tz s))"
  "clean s (snd (syscall_vfs_utimes ce filename tms s))"
  unfolding syscall_vfs_open_def syscall_vfs_access_def syscall_vfs_getcwd_def syscall_vfs_stat_def syscall_vfs_fstat_def syscall_vfs_write_def syscall_vfs_mkdir_def syscall_vfs_rmdir_def syscall_vfs_unlink_def syscall_vfs_read_def syscall_vfs_pread_def syscall_vfs_pwrite_def syscall_vfs_truncate_def syscall_vfs_gettimeofday_def syscall_vfs_utimes_def
  by (intro clean_payload [OF drv] | simp add: clean_write_rpc case_prod_unfold Let_def
      | rule clean_trans [OF clean_write clean_payload [OF drv]])+

text \<open>\<open>malloc\<close> of the core does not touch the supplicant.\<close>

lemma getenv_clean:
  assumes drv: "shm_alloc_rounds_up (e_os env)" and mal: "\<And>n t. snd (core_malloc ce n t) = t"
  shows "clean s (snd (syscall_vfs_getenv ce name s))"
  unfolding syscall_vfs_getenv_def case_prod_unfold Let_def
  by (rule clean_payload [OF drv], rule clean_trans [OF clean_write_rpc clean_payload [OF drv]])
    (simp add: mal clean_rpc)

text \<open>The system call brackets its request by itself.\<close>

lemma flock_payload:
  "snd (syscall_vfs_fcntl_flock ce fd cmd pFlock s) =
   snd (with_payload ce sizeof_my_flock x (\<lambda>m t.
     (x, snd (rpc_vfs ce 3
        [PARAM_VALUE PINOUT (optee_vfs VFS_FCNTL_FLOCK) 0 0, PARAM_VALUE PIN (int_to_u64 fd) (int_to_u64 cmd) 0,
         PARAM_MEMREF PIN (Some m) 0 0] (mobj_write ce m (replicate (unat sizeof_my_flock) 0) t)))) s)"
  by (auto simp: syscall_vfs_fcntl_flock_def with_payload_def alloc_law free_law direct_alloc_def direct_free_def
      case_prod_unfold Let_def)

lemma flock_clean:
  assumes "shm_alloc_rounds_up (e_os env)"
  shows "clean s (snd (syscall_vfs_fcntl_flock ce fd cmd pFlock s))"
  unfolding flock_payload [where x = "()"]
  by (rule clean_payload [OF assms]) (simp add: clean_write_rpc)

lemma vfs_syscall_clean:
  assumes "vfs_syscall ce s t" and drv: "shm_alloc_rounds_up (e_os env)" and "\<And>n t. snd (core_malloc ce n t) = t"
  shows "clean s t"
  using assms(1)
  by cases (simp_all add: scalar_clean payload_clean [OF drv] getenv_clean [OF drv assms(3)] flock_clean [OF drv])

lemma vfs_syscalls_clean:
  assumes "(vfs_syscall ce)\<^sup>*\<^sup>* s t" and "shm_alloc_rounds_up (e_os env)" and "\<And>n t. snd (core_malloc ce n t) = t"
  shows "clean s t"
  using assms(1)
proof induction
  case (step t u)
  from vfs_syscall_clean [OF step(2) assms(2,3)] step(3) show ?case by (rule clean_trans [rotated])
qed simp

end

section \<open>Property\<close>



end
