(* ===== verification/Supp_Threads.thy ===== *)
theory Supp_Threads
  imports Supp_Main
begin

text \<open>
  The threads of the supplicant.  Each runs the loop of \<open>process_one_request\<close>; they share the counter
  \<open>num_waiters\<close>, which decides when another thread is spawned.  A run is any interleaving of the
  steps of the threads, each critical section of the code being one step; the invariant ties the
  counter to the number of threads that wait for a request.

  The first section states what \<open>find_params\<close> accepts, against a definition by \<open>takeWhile\<close>.
\<close>

section \<open>Splitting a request\<close>

definition find_params_spec :: "rpc_request \<Rightarrow> (u32 \<times> u64 \<times> tee_ioctl_param list \<times> u64) option" where
  "find_params_spec r =
     (let total = unat (rq_num_params r);
          n = length (takeWhile is_meta (take total (rq_params r))) in
      if list_ex is_meta (drop n (take total (rq_params r))) then None
      else Some (rq_func r, word_of_nat (total - n), drop n (rq_params r), word_of_nat n))"

lemma skip_meta_takeWhile:
  "k \<le> length ps \<Longrightarrow> skip_meta k ps = Inr (length (takeWhile is_meta (take k ps)))"
  by (induction k ps rule: skip_meta.induct) simp_all

lemma no_meta_list_ex: "k \<le> length ps \<Longrightarrow> no_meta k ps = Inr (\<not> list_ex is_meta (take k ps))"
  by (induction k ps rule: no_meta.induct) simp_all

lemma find_params_eq:
  assumes "unat (rq_num_params r) \<le> length (rq_params r)"
  shows "find_params r = Inr (find_params_spec r)"
proof -
  define n where "n = length (takeWhile is_meta (take (unat (rq_num_params r)) (rq_params r)))"
  have "n \<le> unat (rq_num_params r)"
    unfolding n_def by (metis length_take length_takeWhile_le min.bounded_iff)
  moreover have "unat (rq_num_params r) - n \<le> length (drop n (rq_params r))" using assms by simp
  ultimately show ?thesis
    using assms no_meta_list_ex [of "unat (rq_num_params r) - n" "drop n (rq_params r)"]
    by (simp add: find_params_def find_params_spec_def skip_meta_takeWhile Let_def drop_take
        n_def [symmetric])
qed

section \<open>The steps of the threads\<close>

text \<open>
  \<open>Starting\<close>: created, not yet run; \<open>Ready\<close>: at the head of its loop; \<open>Waiting\<close>: in \<open>read_request\<close>;
  \<open>Serving\<close>: between the waiter check and the answer; \<open>Gone\<close>: it has left its loop.
\<close>

datatype phase = Starting | Ready | Waiting | Serving | Gone

record 'w pool =
  threads :: "phase list"
  proc :: "'w supp"

text \<open>
  The steps are cut out of \<open>thread_main\<close> and \<open>process_one_request\<close> with the code's own functions.  A
  request is received in the mode in which the driver marks it with a meta parameter, as it does for
  a supplicant that asked for it.
\<close>

inductive pool_step :: "'w supp_env \<Rightarrow> 'w pool \<Rightarrow> 'w pool \<Rightarrow> bool" for env where
  run_start: "i < length ts \<Longrightarrow> ts ! i = Starting \<Longrightarrow> num_waiters_dec s = Inr (n, t) \<Longrightarrow>
    pool_step env \<lparr>threads = ts, proc = s\<rparr> \<lparr>threads = ts[i := Ready], proc = t\<rparr>"
| run_abort: "i < length ts \<Longrightarrow> ts ! i = Ready \<Longrightarrow> ta_abort (targ s) \<Longrightarrow>
    pool_step env \<lparr>threads = ts, proc = s\<rparr> \<lparr>threads = ts[i := Gone], proc = s\<rparr>"
| run_wait: "i < length ts \<Longrightarrow> ts ! i = Ready \<Longrightarrow> \<not> ta_abort (targ s) \<Longrightarrow>
    num_waiters_inc s = Inr (n, t) \<Longrightarrow>
    pool_step env \<lparr>threads = ts, proc = s\<rparr> \<lparr>threads = ts[i := Waiting], proc = t\<rparr>"
| run_receive: "i < length ts \<Longrightarrow> ts ! i = Waiting \<Longrightarrow>
    read_request env (ta_fd (targ s)) new_request s = (Some rq, t) \<Longrightarrow>
    find_params rq = Inr (Some (f, np, ps, k)) \<Longrightarrow> k \<noteq> 0 \<Longrightarrow>
    num_waiters_dec t = Inr (n, u) \<Longrightarrow> n \<noteq> 0 \<Longrightarrow>
    pool_step env \<lparr>threads = ts, proc = s\<rparr> \<lparr>threads = ts[i := Serving], proc = u\<rparr>"
| run_spawn: "i < length ts \<Longrightarrow> ts ! i = Waiting \<Longrightarrow>
    read_request env (ta_fd (targ s)) new_request s = (Some rq, t) \<Longrightarrow>
    find_params rq = Inr (Some (f, np, ps, k)) \<Longrightarrow> k \<noteq> 0 \<Longrightarrow>
    num_waiters_dec t = Inr (0, u) \<Longrightarrow> spawn_thread env u = Inr (True, v) \<Longrightarrow>
    pool_step env \<lparr>threads = ts, proc = s\<rparr> \<lparr>threads = ts[i := Serving] @ [Starting], proc = v\<rparr>"
| run_no_spawn: "i < length ts \<Longrightarrow> ts ! i = Waiting \<Longrightarrow>
    read_request env (ta_fd (targ s)) new_request s = (Some rq, t) \<Longrightarrow>
    find_params rq = Inr (Some (f, np, ps, k)) \<Longrightarrow> k \<noteq> 0 \<Longrightarrow>
    num_waiters_dec t = Inr (0, u) \<Longrightarrow> spawn_thread env u = Inr (False, v) \<Longrightarrow>
    pool_step env \<lparr>threads = ts, proc = s\<rparr>
      \<lparr>threads = ts[i := Gone], proc = v\<lparr>targ := (targ v)\<lparr>ta_abort := True\<rparr>\<rparr>\<rparr>"
| run_serve: "i < length ts \<Longrightarrow> ts ! i = Serving \<Longrightarrow> rpc_switch env f np ps s = Inr (r, ps', t) \<Longrightarrow>
    write_response env (ta_fd (targ t)) rq t = (True, u) \<Longrightarrow>
    pool_step env \<lparr>threads = ts, proc = s\<rparr> \<lparr>threads = ts[i := Ready], proc = u\<rparr>"
| run_no_answer: "i < length ts \<Longrightarrow> ts ! i = Serving \<Longrightarrow> rpc_switch env f np ps s = Inr (r, ps', t) \<Longrightarrow>
    write_response env (ta_fd (targ t)) rq t = (False, u) \<Longrightarrow>
    pool_step env \<lparr>threads = ts, proc = s\<rparr>
      \<lparr>threads = ts[i := Gone], proc = u\<lparr>targ := (targ u)\<lparr>ta_abort := True\<rparr>\<rparr>\<rparr>"

inductive pool_reach :: "'w supp_env \<Rightarrow> 'w pool \<Rightarrow> 'w pool \<Rightarrow> bool" for env where
  pool_refl: "pool_reach env p p"
| pool_next: "pool_reach env p q \<Longrightarrow> pool_step env q r \<Longrightarrow> pool_reach env p r"

text \<open>The main thread alone, at the head of the loop in \<open>main\<close>.\<close>

definition pool_init :: "'w supp \<Rightarrow> 'w pool" where
  "pool_init s = \<lparr>threads = [Ready], proc = s\<rparr>"

definition waiting :: "phase list \<Rightarrow> nat" where
  "waiting ts = length (filter (\<lambda>p. p = Waiting \<or> p = Starting) ts)"

text \<open>The counter counts the threads that wait or are about to.\<close>

definition pool_inv :: "'w pool \<Rightarrow> bool" where
  "pool_inv p \<longleftrightarrow> unat (num_waiters (targ (proc p))) = waiting (threads p)"

text \<open>
  What is asked of the services that are not in the repository: they leave the shared \<open>thread_arg\<close>
  alone.
\<close>

definition keeps_arg :: "'w handler \<Rightarrow> bool" where
  "keeps_arg h \<longleftrightarrow> (\<forall>n ps s r ps' t. h n ps s = Inr (r, ps', t) \<longrightarrow> targ t = targ s)"

definition services_keep_arg :: "'w supp_env \<Rightarrow> bool" where
  "services_keep_arg env \<longleftrightarrow>
     keeps_arg (tee_supp_fs_process env) \<and> keeps_arg (tee_socket_process env) \<and>
     keeps_arg (plugin_process env) \<and> (\<forall>prefix. keeps_arg (prof_process env prefix)) \<and>
     (\<forall>p m q n s r t. rpmb_process_request env p m q n s = Inr (r, t) \<longrightarrow> targ t = targ s)"

text \<open>The services of the repository do.\<close>

lemma mem_shape_targ: "mem_shape s t \<Longrightarrow> targ t = targ s"
  by (simp add: mem_shape_def)

lemma store_targ: "store p bs s = Inr t \<Longrightarrow> targ t = targ s"
  by (rule mem_shape_targ [OF mem_shape_store])

lemma os_do_targ [simp]: "targ (snd (os_do os c s)) = targ s"
  by (simp add: os_do_def split: prod.splits)

lemma block_targ [simp]: "targ (snd (new_block bs s)) = targ s" "targ (free_block p s) = targ s"
    "targ (push_tshm x s) = targ s"
  by (simp_all add: new_block_def free_block_def push_tshm_def)

lemma alloc_shm_targ: "alloc_shm os fd sz s = (a, t) \<Longrightarrow> targ t = targ s"
  by (auto simp: alloc_shm_def os_do_def new_block_def Let_def split: prod.splits if_splits)

lemma register_local_shm_targ: "register_local_shm os fd sz s = (a, t) \<Longrightarrow> targ t = targ s"
  by (auto simp: register_local_shm_def paged_aligned_alloc_def os_do_def new_block_def free_block_def Let_def
      split: prod.splits if_splits)

lemma process_alloc_targ: "process_alloc os n ps s = Inr (r, ps', t) \<Longrightarrow> targ t = targ s"
  by (auto simp: process_alloc_def Let_def split: option.splits prod.splits if_splits
      dest: alloc_shm_targ register_local_shm_targ)

lemma process_free_targ: "process_free os n ps s = Inr (r, ps', t) \<Longrightarrow> targ t = targ s"
  by (erule process_free_cases) (auto simp: pop_tshm_def dest!: mem_shape_targ split: prod.splits)

lemma load_ta_targ: "load_ta env n ps s = Inr (r, ps', t) \<Longrightarrow> targ t = targ s"
  by (auto simp: load_ta_def Let_def split: option.splits prod.splits if_splits
      elim!: bind_outcome_InrE dest!: store_targ)

lemma process_rpmb_targ:
  "services_keep_arg env \<Longrightarrow> process_rpmb env n ps s = Inr (r, ps', t) \<Longrightarrow> targ t = targ s"
  by (auto simp: process_rpmb_def services_keep_arg_def split: option.splits elim!: bind_outcome_InrE)

lemma vfs_process_targ: "tee_supp_vfs_process os n ps s = Inr (r, ps', t) \<Longrightarrow> targ t = targ s"
  using vfs_process_shapes [of s ps os n] by (simp add: shapes_def mem_shape_targ)

lemma keeps_argD: "keeps_arg h \<Longrightarrow> h n ps s = Inr (r, ps', t) \<Longrightarrow> targ t = targ s"
  unfolding keeps_arg_def by blast

lemma rpc_switch_targ:
  assumes env: "services_keep_arg env" and "rpc_switch env f n ps s = Inr (r, ps', t)"
  shows "targ t = targ s"
proof -
  have "keeps_arg (tee_supp_fs_process env)" "keeps_arg (tee_socket_process env)"
    "keeps_arg (plugin_process env)" "\<And>prefix. keeps_arg (prof_process env prefix)"
    using env by (simp_all add: services_keep_arg_def)
  note external = this [THEN keeps_argD]
  show ?thesis
    using assms(2)
    by (auto simp: rpc_switch_def split: if_splits dest: external process_alloc_targ process_free_targ
        load_ta_targ process_rpmb_targ [OF env] vfs_process_targ)
qed

lemma waiting_simps [simp]:
  "waiting [] = 0" "waiting (p # ts) = (if p = Waiting \<or> p = Starting then 1 else 0) + waiting ts"
  "waiting (ts @ us) = waiting ts + waiting us"
  by (simp_all add: waiting_def)

lemma waiting_update:
  assumes "i < length ts"
  shows "waiting (ts[i := p]) + waiting [ts ! i] = waiting ts + waiting [p]"
proof -
  have "waiting (take i ts @ p # drop (Suc i) ts) + waiting [ts ! i] =
      waiting (take i ts @ ts ! i # drop (Suc i) ts) + waiting [p]"
    by simp
  then show ?thesis
    using upd_conv_take_nth_drop [OF assms] id_take_nth_drop [OF assms] by metis
qed

lemma waiting_length: "waiting ts \<le> length ts"
  by (simp add: waiting_def)

lemma unat_plus_one_wraps: "(x :: u64) + 1 = 0 \<Longrightarrow> Suc (unat x) = 2 ^ 64"
  using unat_add_lem [of x 1] unsigned_less [of x, where 'a = nat] by auto

lemma unat_pred: "(x :: u64) \<noteq> 0 \<Longrightarrow> unat (x - 1) = unat x - 1"
  by (simp add: unat_minus_one)

lemma dec_waiters:
  assumes "num_waiters_dec s = Inr (n, t)"
  shows "unat (num_waiters (targ s)) = Suc (unat (num_waiters (targ t)))" and "n = num_waiters (targ t)"
  using assms unat_pred [of "num_waiters (targ s)"]
  by (auto simp: num_waiters_dec_def Let_def unat_gt_0 split: if_splits)

lemma inc_waiters:
  assumes "num_waiters_inc s = Inr (n, t)"
  shows "unat (num_waiters (targ t)) = Suc (unat (num_waiters (targ s)))"
  using assms unat_pred [of "num_waiters (targ s) + 1"]
  by (auto simp: num_waiters_inc_def Let_def split: if_splits)
    (metis Suc_pred unat_gt_0)

lemma read_request_targ: "read_request env fd rq s = (r, t) \<Longrightarrow> targ t = targ s"
  by (auto simp: read_request_def split: prod.splits)

lemma write_response_targ: "write_response env fd rq s = (r, t) \<Longrightarrow> targ t = targ s"
  by (auto simp: write_response_def Let_def split: prod.splits)

lemma spawn_waiters:
  assumes "spawn_thread env s = Inr (ok, t)"
  shows "unat (num_waiters (targ t)) = unat (num_waiters (targ s)) + (if ok then 1 else 0)"
proof -
  obtain n u where u: "num_waiters_inc s = Inr (n, u)"
    using assms by (auto simp: spawn_thread_def elim!: bind_outcome_InrE)
  obtain e v where v: "os_do (e_os env) Pthread_create u = (e, v)" by fastforce
  obtain d w where w: "os_do (e_os env) Pthread_detach v = (d, w)" by fastforce
  show ?thesis
    using assms u v w inc_waiters [OF u] os_do_fields(4) [OF v] os_do_fields(4) [OF w]
    by (auto simp: spawn_thread_def split: if_splits elim!: bind_outcome_InrE dest!: dec_waiters(1))
qed

lemma pool_step_inv:
  assumes step: "pool_step env p q" and keep: "services_keep_arg env" and inv: "pool_inv p"
  shows "pool_inv q"
proof -
  have serve: "targ t = targ s" if "rpc_switch env f n ps s = Inr (r, ps', t)" for f n ps s r ps' t
    by (rule rpc_switch_targ [OF keep that])
  from step show ?thesis
  proof cases
    case (run_start i ts s n t)
    then show ?thesis
      using inv waiting_update [of i ts Ready] dec_waiters(1) [of s n t] by (simp add: pool_inv_def)
  next
    case (run_abort i ts s)
    then show ?thesis using inv waiting_update [of i ts Gone] by (simp add: pool_inv_def)
  next
    case (run_wait i ts s n t)
    then show ?thesis
      using inv waiting_update [of i ts Waiting] inc_waiters [of s n t] by (simp add: pool_inv_def)
  next
    case (run_receive i ts s rq t f np ps k n u)
    then show ?thesis
      using inv waiting_update [of i ts Serving] dec_waiters(1) [of t n u] read_request_targ
      by (fastforce simp: pool_inv_def)
  next
    case (run_spawn i ts s rq t f np ps k u v)
    then show ?thesis
      using inv waiting_update [of i ts Serving] dec_waiters(1) [of t 0 u] spawn_waiters [of env u True v]
        read_request_targ by (fastforce simp: pool_inv_def)
  next
    case (run_no_spawn i ts s rq t f np ps k u v)
    then show ?thesis
      using inv waiting_update [of i ts Gone] dec_waiters(1) [of t 0 u] spawn_waiters [of env u False v]
        read_request_targ by (fastforce simp: pool_inv_def)
  next
    case (run_serve i ts f np ps s r ps' t rq u)
    then show ?thesis
      using inv waiting_update [of i ts Ready] serve write_response_targ by (fastforce simp: pool_inv_def)
  next
    case (run_no_answer i ts f np ps s r ps' t rq u)
    then show ?thesis
      using inv waiting_update [of i ts Gone] serve write_response_targ by (fastforce simp: pool_inv_def)
  qed
qed

lemma pool_reach_inv:
  assumes "pool_reach env p q" and "services_keep_arg env" and "pool_inv p"
  shows "pool_inv q"
  using assms by (induction rule: pool_reach.induct) (auto intro: pool_step_inv)

lemma pool_init_inv: "num_waiters (targ s) = 0 \<Longrightarrow> pool_inv (pool_init s)"
  by (simp add: pool_inv_def pool_init_def)

lemma member_waiting: "p \<in> set ts \<Longrightarrow> p = Waiting \<or> p = Starting \<Longrightarrow> 0 < waiting ts"
  by (induction ts) auto

section \<open>Identifiers of trusted applications\<close>

text \<open>The octets back from an identifier.\<close>

definition uuid_to_octets :: "teec_uuid \<Rightarrow> byte list" where
  "uuid_to_octets u =
     [ucast (drop_bit 24 (timeLow u)), ucast (drop_bit 16 (timeLow u)), ucast (drop_bit 8 (timeLow u)),
      ucast (timeLow u), ucast (drop_bit 8 (timeMid u)), ucast (timeMid u),
      ucast (drop_bit 8 (timeHiAndVersion u)), ucast (timeHiAndVersion u)] @ clockSeqAndNode u"

lemma octets_word32:
  fixes a b c d :: byte
  defines "w \<equiv> push_bit 24 (ucast a) OR push_bit 16 (ucast b) OR push_bit 8 (ucast c) OR (ucast d :: u32)"
  shows "ucast (drop_bit 24 w) = a" and "ucast (drop_bit 16 w) = b" and "ucast (drop_bit 8 w) = c"
    and "ucast w = d"
  unfolding w_def by (rule bit_word_eqI, auto simp: bit_simps dest: bit_imp_le_length)+

lemma octets_word16:
  fixes a b :: byte
  defines "w \<equiv> push_bit 8 (ucast a) OR (ucast b :: 16 word)"
  shows "ucast (drop_bit 8 w) = a" and "ucast w = b"
  unfolding w_def by (rule bit_word_eqI, auto simp: bit_simps dest: bit_imp_le_length)+

lemma list16: "length xs = 16 \<Longrightarrow>
    xs = [xs ! 0, xs ! 1, xs ! 2, xs ! 3, xs ! 4, xs ! 5, xs ! 6, xs ! 7] @ take 8 (drop 8 xs)"
  by (rule nth_equalityI) (auto simp: nth_append less_Suc_eq eval_nat_numeral nth_Cons split: nat.splits)

lemma uuid_octets: "length xs = 16 \<Longrightarrow> uuid_to_octets (uuid_from_octets xs) = xs"
  by (subst (2) list16)
    (simp_all only: uuid_to_octets_def uuid_from_octets_def teec_uuid.simps octets_word32 octets_word16)

lemma le_bytes_inj:
  assumes "le_bytes x = le_bytes y"
  shows "x = y"
proof (rule bit_word_eqI)
  fix n
  assume n: "n < LENGTH(64)"
  have eq: "(ucast (drop_bit (8 * i) x) :: byte) = ucast (drop_bit (8 * i) y)" if "i < 8" for i
    using assms that by (auto simp: le_bytes_def)
  have "bit (ucast (drop_bit (8 * (n div 8)) x) :: byte) (n mod 8) =
      bit (ucast (drop_bit (8 * (n div 8)) y) :: byte) (n mod 8)"
    using eq [of "n div 8"] n by simp
  then show "bit x n = bit y n" by (simp add: bit_simps)
qed

lemma le_bytes_length [simp]: "length (le_bytes x) = 8"
  by (simp add: le_bytes_def)

lemma request_loop_aborted:
  assumes "request_loop env s = Some y"
  shows "\<forall>t. y = Inr t \<longrightarrow> ta_abort (targ t)"
proof (rule request_loop.raw_induct [OF _ assms])
  fix rl :: "'a supp_env \<Rightarrow> 'a supp \<Rightarrow> 'a supp outcome option" and env s y
  assume ih: "\<And>env s y. rl env s = Some y \<Longrightarrow> \<forall>t. y = Inr t \<longrightarrow> ta_abort (targ t)"
    and "(if ta_abort (targ s) then Some (Inr s)
          else case process_one_request env s of Inl f \<Rightarrow> Some (Inl f)
            | Inr (ok, s) \<Rightarrow> rl env (if ok then s else s\<lparr>targ := (targ s)\<lparr>ta_abort := True\<rparr>\<rparr>)) = Some y"
  then show "\<forall>t. y = Inr t \<longrightarrow> ta_abort (targ t)"
    by (auto split: if_splits sum.splits prod.splits dest: ih)
qed

section \<open>Properties\<close>

text \<open>\<open>find_params\<close> splits a request whose parameters are all present into its leading meta
  parameters, which it counts, and the rest, and refuses a request with a meta parameter behind an
  ordinary one; it reads no parameter outside the request.\<close>

theorem find_params_correct:
  assumes "unat (rq_num_params r) \<le> length (rq_params r)"
  shows "find_params r = Inr (find_params_spec r)"
  by (rule find_params_eq [OF assms])

text \<open>In every state any interleaving of the supplicant's threads can reach, \<open>num_waiters\<close> is the
  number of threads that wait for a request or have been created to do so.\<close>

theorem waiters_counted:
  assumes "services_keep_arg env" and "num_waiters (targ s) = 0" and "pool_reach env (pool_init s) q"
  shows "unat (num_waiters (targ (proc q))) = waiting (threads q)"
  using pool_reach_inv [OF assms(3,1) pool_init_inv [OF assms(2)]] by (simp add: pool_inv_def)

text \<open>The assertions on the counter never fail: the counter is positive when a waiting or a
  starting thread decrements it, and cannot wrap around while there are fewer than \<open>2 ^ 64 - 1\<close>
  threads.\<close>

theorem waiter_assertions_hold:
  assumes "services_keep_arg env" and "num_waiters (targ s) = 0" and "pool_reach env (pool_init s) q"
    and "i < length (threads q)" and "length (threads q) < 2 ^ 64 - 1"
  shows "(threads q ! i \<in> {Waiting, Starting} \<longrightarrow> (\<exists>n t. num_waiters_dec (proc q) = Inr (n, t))) \<and>
    (\<exists>n t. num_waiters_inc (proc q) = Inr (n, t))"
proof -
  have c: "unat (num_waiters (targ (proc q))) = waiting (threads q)"
    using pool_reach_inv [OF assms(3,1) pool_init_inv [OF assms(2)]] by (simp add: pool_inv_def)
  have "\<exists>n t. num_waiters_dec (proc q) = Inr (n, t)" if "threads q ! i \<in> {Waiting, Starting}"
  proof -
    have "0 < waiting (threads q)"
      using that assms(4) member_waiting [of "threads q ! i" "threads q"] by auto
    then have "num_waiters (targ (proc q)) \<noteq> 0" using c by auto
    then show ?thesis by (simp add: num_waiters_dec_def Let_def)
  qed
  moreover have "num_waiters (targ (proc q)) + 1 \<noteq> 0"
  proof
    assume "num_waiters (targ (proc q)) + 1 = 0"
    then have "Suc (unat (num_waiters (targ (proc q)))) = 2 ^ 64"
      using unat_plus_one_wraps [of "num_waiters (targ (proc q))"] by simp
    then show False using c assms(5) waiting_length [of "threads q"] by simp
  qed
  ultimately show ?thesis by (simp add: num_waiters_inc_def Let_def)
qed

text \<open>When a thread begins to serve a request, another thread is waiting for the next one or has
  been created to do so: the secure world is never left without a thread that answers it.\<close>

theorem someone_waits_while_serving:
  assumes "services_keep_arg env" and "num_waiters (targ s) = 0" and "pool_reach env (pool_init s) q"
    and "pool_step env q r" and "i < length (threads q)"
    and "threads q ! i = Waiting" and "threads r ! i = Serving"
  shows "0 < waiting (threads r)"
proof -
  have inv: "pool_inv r"
    using pool_step_inv [OF assms(4,1) pool_reach_inv [OF assms(3,1) pool_init_inv [OF assms(2)]]] .
  from assms(4) show ?thesis
  proof cases
    case (run_receive j ts s' rq t f np ps k n u)
    then have "num_waiters (targ u) \<noteq> 0" using dec_waiters(2) by fastforce
    then show ?thesis using inv run_receive by (simp add: pool_inv_def) (metis unat_gt_0)
  qed (use assms(5-7) in \<open>auto simp: nth_list_update split: if_splits\<close>)
qed

text \<open>The loop of a thread ends only when \<open>abort\<close> is set.\<close>

theorem request_loop_ends_aborted:
  assumes "request_loop env s = Some (Inr t)"
  shows "ta_abort (targ t)"
  using request_loop_aborted [OF assms] by simp

text \<open>Different trusted applications are asked for under different identifiers: the two halves of a
  \<open>LOAD_TA\<close> request determine the identifier, and are determined by it.\<close>

theorem load_ta_uuid_injective:
  assumes "uuid_from_octets (le_bytes a @ le_bytes b) = uuid_from_octets (le_bytes a' @ le_bytes b')"
  shows "a = a' \<and> b = b'"
proof -
  have "le_bytes a @ le_bytes b = le_bytes a' @ le_bytes b'"
    using uuid_octets [of "le_bytes a @ le_bytes b"] uuid_octets [of "le_bytes a' @ le_bytes b'"] assms
    by (metis le_bytes_length length_append numeral_Bit0)
  then show ?thesis using le_bytes_inj [of a a'] le_bytes_inj [of b b'] by (metis append_eq_append_conv le_bytes_length)
qed

end
