(* ===== verification/Thread_Witnesses.thy ===== *)
theory Thread_Witnesses
  imports Supp_Threads Witnesses
begin

text \<open>
  Concrete runs at which the properties of the supplicant's threads apply: a driver that always has a
  request of one meta parameter for an unknown service, served by the reference system.
\<close>

definition busy_request :: rpc_request where
  "busy_request = \<lparr>rq_func = 99, rq_num_params = 1,
     rq_params = [zero_param\<lparr>p_attr := TEE_IOCTL_PARAM_ATTR_META\<rparr>]\<rparr>"

definition busy_env :: "ref_world supp_env" where
  "busy_env = ref_env\<lparr>suppl_recv := (\<lambda>_ _ w. (Some busy_request, w))\<rparr>"

lemma busy_keeps: "services_keep_arg busy_env"
  by (auto simp: services_keep_arg_def keeps_arg_def busy_env_def ref_env_def ret_code_def)

lemma ref_s0_idle: "num_waiters (targ ref_s0) = 0" "\<not> ta_abort (targ ref_s0)"
  by (simp_all add: ref_s0_def fresh_supp_def)

definition ref_waiting :: "ref_world supp" where
  "ref_waiting = ref_s0\<lparr>targ := (targ ref_s0)\<lparr>num_waiters := 1\<rparr>\<rparr>"

definition ref_pool :: "ref_world pool" where
  "ref_pool = \<lparr>threads = [Waiting], proc = ref_waiting\<rparr>"

lemma ref_pool_reach: "pool_reach busy_env (pool_init ref_s0) ref_pool"
proof -
  have "num_waiters_inc ref_s0 = Inr (1, ref_waiting)"
    by (simp add: num_waiters_inc_def ref_waiting_def ref_s0_idle)
  then have "pool_step busy_env \<lparr>threads = [Ready], proc = ref_s0\<rparr> \<lparr>threads = [Ready][0 := Waiting], proc = ref_waiting\<rparr>"
    by (intro run_wait) (simp_all add: ref_s0_idle)
  then show ?thesis
    using pool_next [OF pool_refl] by (simp add: pool_init_def ref_pool_def)
qed

theorem waiters_counted_witness:
  "unat (num_waiters (targ (proc ref_pool))) = waiting [Waiting]"
  using waiters_counted [OF busy_keeps ref_s0_idle(1) ref_pool_reach] by (simp add: ref_pool_def)

theorem waiter_assertions_hold_witness:
  "\<exists>n t. num_waiters_dec ref_waiting = Inr (n, t)"
  using waiter_assertions_hold [OF busy_keeps ref_s0_idle(1) ref_pool_reach, of 0] by (simp add: ref_pool_def)

text \<open>The waiting thread receives the request, is the last one, and creates another.\<close>

definition ref_serving :: "ref_world pool" where
  "ref_serving = \<lparr>threads = [Serving, Starting], proc = ref_waiting\<rparr>"

lemma busy_find: "find_params busy_request = Inr (Some (99, 0, [], 1))"
  by (simp add: find_params_def busy_request_def is_meta_def zero_param_def)

lemma ref_receive: "pool_step busy_env ref_pool ref_serving"
proof -
  have "pool_step busy_env \<lparr>threads = [Waiting], proc = ref_waiting\<rparr>
      \<lparr>threads = [Waiting][0 := Serving] @ [Starting], proc = ref_waiting\<rparr>"
  proof (rule run_spawn [OF _ _ _ busy_find])
    show "read_request busy_env (ta_fd (targ ref_waiting)) new_request ref_waiting = (Some busy_request, ref_waiting)"
      by (simp add: read_request_def busy_env_def)
    show "num_waiters_dec ref_waiting = Inr (0, ref_s0)"
      by (simp add: num_waiters_dec_def ref_waiting_def ref_s0_def fresh_supp_def)
    show "spawn_thread busy_env ref_s0 = Inr (True, ref_waiting)"
      by (simp add: spawn_thread_def num_waiters_inc_def os_do_def busy_env_def ref_os_def ok_ret_def
          simple_ret_def ref_waiting_def ref_s0_def fresh_supp_def)
  qed simp_all
  then show ?thesis by (simp add: ref_pool_def ref_serving_def)
qed

theorem someone_waits_while_serving_witness: "0 < waiting (threads ref_serving)"
  using someone_waits_while_serving [OF busy_keeps ref_s0_idle(1) ref_pool_reach ref_receive, of 0]
  by (simp add: ref_pool_def ref_serving_def)

theorem find_params_correct_witness:
  "find_params busy_request = Inr (find_params_spec busy_request)"
  by (rule find_params_correct) (simp add: busy_request_def)

text \<open>The driver of the reference system has no request: the loop ends at once.\<close>

lemma ref_loop_ends: "\<exists>t. request_loop ref_env ref_s0 = Some (Inr t)"
proof -
  obtain u where p: "process_one_request ref_env ref_s0 = Inr (False, u)"
    by (simp add: process_one_request_def num_waiters_inc_def read_request_def ref_env_def ref_s0_def
        fresh_supp_def)
  show ?thesis
    by (subst request_loop.simps)
      (simp add: p ref_s0_idle request_loop.simps [of ref_env "u\<lparr>targ := (targ u)\<lparr>ta_abort := True\<rparr>\<rparr>"])
qed

theorem request_loop_ends_aborted_witness:
  "\<exists>t. request_loop ref_env ref_s0 = Some (Inr t) \<and> ta_abort (targ t)"
  using ref_loop_ends request_loop_ends_aborted by blast

theorem load_ta_uuid_injective_witness:
  "uuid_from_octets (le_bytes 1 @ le_bytes 2) \<noteq> uuid_from_octets (le_bytes 1 @ le_bytes 3)"
  using load_ta_uuid_injective [of 1 2 1 3] by auto

end
