(* ===== verification/Request_Loop.thy ===== *)
theory Request_Loop
  imports Transport Thread_Witnesses
begin

text \<open>
  The request loop of the supplicant against the remote procedure call the secure world assumes: what
  \<open>process_one_request\<close> does with a message of the driver, from the receipt to the answer, is what
  \<open>direct_cmd\<close> of \<open>Transport\<close> says of the command, so the system calls of the secure world may rest on
  \<open>direct_cmd\<close>.
\<close>

section \<open>A message of the driver\<close>

text \<open>
  The driver puts its meta parameters before those of the command and announces all of them; the answer
  has the same layout with the result in the place of the command.
\<close>

definition rpc_message :: "nat \<Rightarrow> tee_ioctl_param list \<Rightarrow> u32 \<Rightarrow> tee_ioctl_param list \<Rightarrow> rpc_request" where
  "rpc_message n metas x ps =
     \<lparr>rq_func = x, rq_num_params = word_of_nat (length metas + n), rq_params = metas @ ps\<rparr>"

lemma to_ioctl_no_meta [simp]: "\<not> is_meta (to_ioctl p)"
proof (cases p)
  case (PARAM_VALUE d a b c)
  then show ?thesis by (cases d) (simp_all add: is_meta_def)
next
  case (PARAM_MEMREF d m offs sz)
  then show ?thesis by (cases d) (simp_all add: is_meta_def)
qed (simp add: is_meta_def zero_param_def)

lemma find_params_message:
  assumes "\<forall>p \<in> set metas. is_meta p" and "length metas + length params < 2 ^ 32"
  shows "find_params (rpc_message (length params) metas cmd (map to_ioctl params)) =
    Inr (Some (cmd, word_of_nat (length params), map to_ioctl params, word_of_nat (length metas)))"
proof -
  let ?r = "rpc_message (length params) metas cmd (map to_ioctl params)"
  have n: "unat (rq_num_params ?r) = length metas + length params"
    using assms(2) by (simp add: rpc_message_def unsigned_of_nat take_bit_nat_eq_self del: of_nat_add)
  have t: "takeWhile is_meta (metas @ map to_ioctl params) = metas"
    using assms(1) by (cases params) simp_all
  have "list_all (\<lambda>p. \<not> is_meta p) (map to_ioctl params)"
    by (simp add: list_all_iff)
  with n t show ?thesis
    by (simp add: find_params_eq find_params_spec_def rpc_message_def list_ex_iff list_all_iff Let_def)
qed

section \<open>One iteration\<close>

text \<open>
  \<open>s0\<close> is the process counted as waiting, \<open>s1\<close> the one after the check of the waiters, with another
  thread created if it was the last.
\<close>

text \<open>C5. An iteration of the request loop that receives a command of the secure world does what the secure
  world assumes of the remote procedure call: it answers, behind the driver's own parameters, with the
  result and the parameters that \<open>direct_cmd\<close> computes from the command, in the state \<open>direct_cmd\<close>
  leaves; where a service ends the process with a fault, \<open>direct_cmd\<close> reports a communication error.\<close>

theorem request_implements_direct_cmd:
  assumes wait: "num_waiters_inc s = Inr (k, s0)"
    and recv: "suppl_recv env (ta_fd (targ s)) new_request (world s) =
      (Some (rpc_message (length params) metas cmd (map to_ioctl params)), w)"
    and metas: "\<forall>p \<in> set metas. is_meta p" and small: "length metas + length params < 2 ^ 32"
    and check: "waiter_check env (word_of_nat (length metas)) (s0\<lparr>world := w\<rparr>) = Inr (False, s1)"
  shows "(\<exists>f. process_one_request env s = Inl f \<and>
        direct_cmd env cmd (word_of_nat (length params)) params s1 = ((TEEC_ERROR_COMMUNICATION, params), s1)) \<or>
    (\<exists>ret ips t. direct_cmd env cmd (word_of_nat (length params)) params s1 = ((ret, map2 from_ioctl params ips), t) \<and>
        process_one_request env s =
          Inr (write_response env (ta_fd (targ t)) (rpc_message (length params) metas ret ips) t))"
proof -
  let ?rq = "rpc_message (length params) metas cmd (map to_ioctl params)"
  have s0: "world s0 = world s" "ta_fd (targ s0) = ta_fd (targ s)"
    using wait by (auto simp: num_waiters_inc_def Let_def split: if_splits)
  then have rd: "read_request env (ta_fd (targ s0)) new_request s0 = (Some ?rq, s0\<lparr>world := w\<rparr>)"
    using recv by (simp add: read_request_def)
  have len: "unat (word_of_nat (length metas) :: u64) = length metas"
    using small by (simp add: unsigned_of_nat take_bit_nat_eq_self)
  have "process_one_request env s =
      bind_outcome (rpc_switch env cmd (word_of_nat (length params)) (map to_ioctl params) s1) (\<lambda>(ret, ips, t).
        Inr (write_response env (ta_fd (targ t)) (rpc_message (length params) metas ret ips) t))"
    using wait rd check find_params_message [OF metas small] len
    by (simp add: process_one_request_def) (simp add: rpc_message_def answer_request_def)
  then show ?thesis
    by (cases "rpc_switch env cmd (word_of_nat (length params)) (map to_ioctl params) s1")
      (auto simp: direct_cmd_def)
qed

text \<open>A driver that hands over the command \<open>getpid\<close>, with one parameter of its own.\<close>

definition getpid_params :: "thread_param list" where
  "getpid_params = [PARAM_VALUE PINOUT (optee_vfs VFS_GETPID) 0 0]"

definition meta_param :: tee_ioctl_param where
  "meta_param = zero_param\<lparr>p_attr := TEE_IOCTL_PARAM_ATTR_META\<rparr>"

definition getpid_env :: "ref_world supp_env" where
  "getpid_env = ref_env\<lparr>suppl_recv := (\<lambda>_ _ w. (Some (rpc_message 1 [meta_param] 30 (map to_ioctl getpid_params)), w))\<rparr>"

theorem request_implements_direct_cmd_witness:
  "\<exists>ips t. process_one_request getpid_env ref_waiting =
      Inr (write_response getpid_env (ta_fd (targ t)) (rpc_message 1 [meta_param] TEEC_SUCCESS ips) t) \<and>
    map2 from_ioctl getpid_params ips = [PARAM_VALUE PINOUT (optee_vfs VFS_GETPID) 0 0]"
proof -
  define s0 where "s0 = ref_waiting\<lparr>targ := (targ ref_waiting)\<lparr>num_waiters := 2\<rparr>\<rparr>"
  have w: "num_waiters_inc ref_waiting = Inr (2, s0)"
    by (simp add: num_waiters_inc_def ref_waiting_def s0_def)
  have c: "waiter_check getpid_env (word_of_nat (length [meta_param])) (s0\<lparr>world := world ref_waiting\<rparr>) =
      Inr (False, ref_waiting)"
    by (simp add: waiter_check_def num_waiters_dec_def s0_def ref_waiting_def)
  have run: "direct_cmd getpid_env 30 (word_of_nat (length getpid_params)) getpid_params ref_waiting =
      ((TEEC_SUCCESS, getpid_params), set_errno 0 ref_waiting)"
    by (simp add: direct_cmd_def getpid_params_def tee_supp_vfs_process_def value_defs getpid_env_def vfs_getpid_def
        os_call0_def os_do_def ref_os_def ok_ret_def put_bc_def ret_int_def set_errno_def ref_waiting_def ref_s0_def
        fresh_supp_def tee_supp_param_is_value_def errno64_def)
  show ?thesis
    using request_implements_direct_cmd [OF w, of getpid_env getpid_params "[meta_param]" 30 "world ref_waiting", OF _ _ _ c] run
    by (auto simp: getpid_env_def getpid_params_def meta_param_def is_meta_def)
qed

end
