(* ===== verification/Supp_Fits.thy ===== *)
theory Supp_Fits
  imports Supp_Vfs
begin

text \<open>
  Which requests the VFS service can serve.  The handlers check number and kind of the parameters and that
  a memory reference lies in its object, but not that the length a request gives fits the reference, nor
  that a path ends in it.  \<open>request_fits\<close> writes down what is left to the secure world; a request that
  fits is served without a fault, whatever the host answers, and one with too long a length is not.
\<close>

section \<open>What a request has to keep to\<close>

text \<open>The bytes a memory reference designates contain the end of the string.\<close>

definition terminated :: "tee_ioctl_param \<Rightarrow> 'w supp \<Rightarrow> bool" where
  "terminated p s \<longleftrightarrow>
     (case region (mem s) (tee_supp_param_to_va p s) (unat (p_b p)) of
        Inr (Some bs) \<Rightarrow> 0 \<in> set bs
      | _ \<Rightarrow> True)"

text \<open>
  Lengths against sizes, command by command; \<open>st\<close> is the size of \<open>struct stat\<close> on the host, the others
  are \<open>struct flock\<close> and two \<open>struct timeval\<close> of 32 bytes, one \<open>struct timeval\<close> of 16 and a
  \<open>struct timezone\<close> of 8.  No request of \<open>pwrite\<close> is served, and \<open>getenv\<close> depends on the environment of
  the daemon.
\<close>

primrec cmd_fits :: "nat \<Rightarrow> vfs_cmd \<Rightarrow> tee_ioctl_param list \<Rightarrow> 'w supp \<Rightarrow> bool" where
  "cmd_fits st VFS_OPEN ps s = terminated (ps ! 1) s"
| "cmd_fits st VFS_CLOSE ps s = True"
| "cmd_fits st VFS_ACCESS ps s = terminated (ps ! 2) s"
| "cmd_fits st VFS_GETCWD ps s = (p_a (ps ! 2) \<le> p_b (ps ! 1))"
| "cmd_fits st VFS_STAT ps s = (terminated (ps ! 1) s \<and> st \<le> unat (p_b (ps ! 2)))"
| "cmd_fits st VFS_WRITE ps s = (p_b (ps ! 1) \<le> p_b (ps ! 2))"
| "cmd_fits st VFS_MKDIR ps s = terminated (ps ! 1) s"
| "cmd_fits st VFS_RMDIR ps s = terminated (ps ! 1) s"
| "cmd_fits st VFS_UNLINK ps s = terminated (ps ! 1) s"
| "cmd_fits st VFS_FTRUNCATE ps s = True"
| "cmd_fits st VFS_READ ps s = (p_b (ps ! 2) \<le> p_b (ps ! 1))"
| "cmd_fits st VFS_FCHMOD ps s = True"
| "cmd_fits st VFS_FCHOWN ps s = True"
| "cmd_fits st VFS_GETEUID ps s = True"
| "cmd_fits st VFS_GETPID ps s = True"
| "cmd_fits st VFS_GETENV ps s = False"
| "cmd_fits st VFS_LSEEK ps s = True"
| "cmd_fits st VFS_FSYNC ps s = True"
| "cmd_fits st VFS_SLEEP ps s = True"
| "cmd_fits st VFS_PREAD ps s = (p_b (ps ! 2) \<le> p_b (ps ! 1))"
| "cmd_fits st VFS_PWRITE ps s = False"
| "cmd_fits st VFS_TRUNCATE ps s = terminated (ps ! 1) s"
| "cmd_fits st VFS_GETTIMEOFDAY ps s = (16 \<le> p_b (ps ! 1) \<and> 8 \<le> p_b (ps ! 2))"
| "cmd_fits st VFS_FSTAT ps s = (st \<le> unat (p_b (ps ! 2)))"
| "cmd_fits st VFS_FCNTL_VOID ps s = True"
| "cmd_fits st VFS_FCNTL_INT ps s = True"
| "cmd_fits st VFS_FCNTL_FLOCK ps s = (32 \<le> p_b (ps ! 2))"
| "cmd_fits st VFS_UTIMES ps s = (terminated (ps ! 1) s \<and> 32 \<le> p_b (ps ! 2))"
| "cmd_fits st VFS_TIME ps s = True"
| "cmd_fits st VFS_USLEEP ps s = True"
| "cmd_fits st VFS_FILESIZE ps s = True"

text \<open>A request of an unknown command, or with another number of parameters than its command has, fits.\<close>

definition request_fits :: "nat \<Rightarrow> u64 \<Rightarrow> tee_ioctl_param list \<Rightarrow> 'w supp \<Rightarrow> bool" where
  "request_fits st n ps s \<longleftrightarrow> ps \<noteq> [] \<and> unat n = length ps \<and>
     list_all (\<lambda>c. supp_vfs c = p_a (ps ! 0) \<and> n = vfs_arity c \<longrightarrow> cmd_fits st c ps s) vfs_cmds"

section \<open>What the host writes\<close>

text \<open>
  The C library stores through its pointer arguments at most what its manual says, and nothing through a
  null pointer.  \<open>getenv\<close> returns a string of its own.
\<close>

fun out_room :: "nat \<Rightarrow> os_call \<Rightarrow> nat" where
  "out_room st (Read fd b n) = (if b then unat n else 0)"
| "out_room st (Pread fd b n ofs) = (if b then unat n else 0)"
| "out_room st (Getcwd b n) = (if b then unat n else 0)"
| "out_room st (Stat p b) = (if b then st else 0)"
| "out_room st (Fstat fd b) = (if b then st else 0)"
| "out_room st (Gettimeofday b c) = (if b then 16 else 0)"
| "out_room st (Fcntl_flock fd cmd l) = (if l = None then 0 else 32)"
| "out_room st c = 0"

fun out_room2 :: "os_call \<Rightarrow> nat" where
  "out_room2 (Gettimeofday b c) = (if c then 8 else 0)"
| "out_room2 c = 0"

definition no_fault :: "'a outcome \<Rightarrow> bool" where
  "no_fault x \<longleftrightarrow> (\<exists>y. x = Inr y)"

lemma no_fault_Inr [simp]: "no_fault (Inr x)"
  by (simp add: no_fault_def)

locale bounded_host =
  fixes os :: "'w os" and st :: nat
  assumes out_bounded: "(\<forall>nm. c \<noteq> Getenv nm) \<Longrightarrow> length (o_out (fst (os c w))) \<le> out_room st c"
    and out2_bounded: "length (o_out2 (fst (os c w))) \<le> out_room2 c"
begin

lemma call0_out:
  assumes "os_call0 os c s = (r, t)" and "\<forall>nm. c \<noteq> Getenv nm"
  shows "length (o_out r) \<le> out_room st c" and "length (o_out2 r) \<le> out_room2 c"
  using assms out_bounded [of c "world s"] out2_bounded [of c "world s"] by (auto simp: os_call0_state)

lemma path_served:
  assumes "supp_inv s" and "terminated (ps ! i) s"
  shows "no_fault (path_arg ps i s)"
proof (cases "tee_supp_param_to_va (ps ! i) s")
  case Null
  then show ?thesis by (simp add: path_arg_def)
next
  case (Ptr b k)
  with to_va_ptr_ok [OF assms(1), of "ps ! i"] obtain bs
    where bs: "mem s b = Some bs" "k + unat (p_b (ps ! i)) \<le> length bs"
    by (auto split: option.splits)
  with Ptr assms(2) have "0 \<in> set (take (unat (p_b (ps ! i))) (drop k bs))"
    by (simp add: terminated_def subbytes_def)
  with bs Ptr show ?thesis by (auto simp: no_fault_def path_arg_def dest: in_set_takeD)
qed

lemma ptr_ok_le: "ptr_ok m p k \<Longrightarrow> n \<le> k \<Longrightarrow> ptr_ok m p n"
  by (cases p) (auto split: option.splits)

lemma data_served:
  assumes "supp_inv s" and "n \<le> p_b (ps ! i)"
  shows "no_fault (data_arg ps i n s)"
  unfolding data_arg_def no_fault_def
  by (rule ptr_ok_region [OF ptr_ok_le [OF to_va_ptr_ok [OF assms(1)]]]) (use assms(2) in \<open>simp add: word_le_nat_alt\<close>)

lemma get_param_size:
  "get_param n ps i s = Some m \<Longrightarrow> sm_buffer m = Null \<or> sm_size m = p_b (ps ! i)"
  by (auto simp: get_param_def zero_shared_mem_def Let_def split: if_splits option.splits)

lemma param_ptr_ok:
  assumes "supp_inv s" and "get_param n ps i s = Some m" and "mem_shape s t"
  shows "ptr_ok (mem t) (sm_buffer m) (unat (p_b (ps ! i)))"
proof (cases "sm_buffer m")
  case (Ptr b k)
  have "map_option length (mem t b) = map_option length (mem s b)" using assms(3) by (simp add: mem_shape_def)
  with get_param_ptr_ok [OF assms(1,2)] get_param_size [OF assms(2)] Ptr show ?thesis
    by (auto split: option.splits)
qed simp

lemma store_served:
  assumes "supp_inv s" and "get_param n ps i s = Some m" and "mem_shape s t"
    and "length bs \<le> (if sm_buffer m \<noteq> Null then unat (p_b (ps ! i)) else 0)"
  shows "no_fault (store (sm_buffer m) bs t)"
proof (cases "sm_buffer m = Null")
  case True
  with assms(4) show ?thesis by (simp add: store_def)
next
  case False
  with assms(4) have "length bs \<le> unat (p_b (ps ! i))" by simp
  from ptr_ok_poke [OF param_ptr_ok [OF assms(1-3)] False this] show ?thesis
    by (auto simp: no_fault_def store_def)
qed

text \<open>One rule per construct of the handlers.\<close>

lemma no_fault_bind:
  "no_fault m \<Longrightarrow> (\<And>x. m = Inr x \<Longrightarrow> no_fault (f x)) \<Longrightarrow> no_fault (bind_outcome m f)"
  by (auto simp: no_fault_def)

lemma no_fault_call0:
  "(\<And>r t. os_call0 os c s = (r, t) \<Longrightarrow> mem_shape s t \<Longrightarrow> no_fault (f r t)) \<Longrightarrow>
    no_fault (case os_call0 os c s of (r, t) \<Rightarrow> f r t)"
  by (cases "os_call0 os c s") (auto intro: mem_shape_os_call0)

lemma no_fault_do: "(\<And>r t. no_fault (f r t)) \<Longrightarrow> no_fault (case os_do os c s of (r, t) \<Rightarrow> f r t)"
  by (simp split: prod.split)

lemma no_fault_values1: "no_fault a \<Longrightarrow> no_fault (f i) \<Longrightarrow>
    no_fault (case values1 n k ps i of None \<Rightarrow> a | Some v \<Rightarrow> f v)"
  by (cases "values1 n k ps i") (auto dest: values1_Some)

lemma no_fault_values2: "no_fault a \<Longrightarrow> no_fault (f (i, j)) \<Longrightarrow>
    no_fault (case values2 n k ps i j of None \<Rightarrow> a | Some v \<Rightarrow> f v)"
  by (cases "values2 n k ps i j") (auto dest: values2_Some)

lemma no_fault_param: "no_fault a \<Longrightarrow> (\<And>m. get_param n ps i s = Some m \<Longrightarrow> no_fault (f m)) \<Longrightarrow>
    no_fault (case get_param n ps i s of None \<Rightarrow> a | Some m \<Rightarrow> f m)"
  by (cases "get_param n ps i s") auto

lemmas no_fault_intros =
  no_fault_call0 no_fault_do no_fault_values1 no_fault_values2 no_fault_param no_fault_bind no_fault_Inr

lemma no_fault_out:
  assumes "supp_inv s" and "get_param n ps i s = Some m" and "os_call0 os c u = (r, t)"
    and "mem_shape s t" and "\<forall>nm. c \<noteq> Getenv nm"
    and "out_room st c \<le> (if sm_buffer m \<noteq> Null then unat (p_b (ps ! i)) else 0)"
  shows "no_fault (store (sm_buffer m) (o_out r) t)"
  by (rule store_served [OF assms(1,2,4)]) (use call0_out [OF assms(3,5)] assms(6) in simp)

lemma plain_served:
  assumes "supp_inv s" and "cmd_fits st c ps s" and "c \<in> {VFS_OPEN, VFS_CLOSE, VFS_ACCESS, VFS_WRITE, VFS_MKDIR,
    VFS_RMDIR, VFS_UNLINK, VFS_FTRUNCATE, VFS_FCHMOD, VFS_FCHOWN, VFS_GETEUID, VFS_GETPID, VFS_LSEEK, VFS_FSYNC,
    VFS_SLEEP, VFS_TRUNCATE, VFS_FCNTL_VOID, VFS_FCNTL_INT, VFS_UTIMES, VFS_TIME, VFS_USLEEP, VFS_FILESIZE}"
    and "ps \<noteq> []" and "p_a (ps ! 0) = supp_vfs c"
  shows "no_fault (tee_supp_vfs_process os n ps s)"
  using assms(2-5) path_served [OF assms(1)] data_served [OF assms(1)]
  by (cases c; simp add: tee_supp_vfs_process_def vfs_handler_defs Let_def)
    (intro no_fault_intros | simp add: Let_def)+

lemma no_fault_region:
  assumes "supp_inv s" and "get_param n ps i s = Some m" and "k \<le> unat (p_b (ps ! i))"
  shows "no_fault (region (mem s) (sm_buffer m) k)"
  using ptr_ok_region [OF ptr_ok_le [OF param_ptr_ok [OF assms(1,2) mem_shape_refl] assms(3)]]
  by (simp add: no_fault_def)

lemma no_fault_out2:
  assumes "supp_inv s" and "get_param n ps i s = Some m" and "os_call0 os c u = (r, t)"
    and "mem_shape s t" and "store p bs t = Inr v"
    and "out_room2 c \<le> (if sm_buffer m \<noteq> Null then unat (p_b (ps ! i)) else 0)"
  shows "no_fault (store (sm_buffer m) (o_out2 r) v)"
proof (rule store_served [OF assms(1,2) mem_shape_trans [OF assms(4) mem_shape_store [OF assms(5)]]])
  have "length (o_out2 r) \<le> out_room2 c"
    using assms(3) out2_bounded [of c "world u"] by (auto simp: os_call0_state)
  with assms(6) show "length (o_out2 r) \<le> (if sm_buffer m \<noteq> Null then unat (p_b (ps ! i)) else 0)" by simp
qed

lemma region_Null_iff: "region m p k = Inr x \<Longrightarrow> x = None \<longleftrightarrow> p = Null"
  by (cases p) (auto split: option.splits if_splits)

lemma stored_served:
  assumes "supp_inv s" and "cmd_fits st c ps s"
    and "c \<in> {VFS_GETCWD, VFS_STAT, VFS_READ, VFS_PREAD, VFS_GETTIMEOFDAY, VFS_FSTAT, VFS_FCNTL_FLOCK}"
    and "ps \<noteq> []" and "p_a (ps ! 0) = supp_vfs c"
  shows "no_fault (tee_supp_vfs_process os n ps s)"
  using assms(2-5) path_served [OF assms(1)]
  by (cases c; simp add: tee_supp_vfs_process_def vfs_handler_defs)
    (intro no_fault_intros no_fault_out [OF assms(1)] no_fault_out2 [OF assms(1)] no_fault_region [OF assms(1)]
     | assumption | simp add: Let_def word_le_nat_alt region_Null_iff)+

lemma fitting_served:
  assumes "supp_inv s" and "request_fits st n ps s"
  shows "no_fault (tee_supp_vfs_process os n ps s)"
proof (cases "\<exists>c. p_a (ps ! 0) = supp_vfs c")
  case False
  then have "p_a (ps ! 0) \<notin> range supp_vfs" by blast
  moreover have "ps \<noteq> []" using assms(2) by (simp add: request_fits_def)
  ultimately have "tee_supp_vfs_process os n ps s = Inr (TEEC_ERROR_NOT_SUPPORTED, ps, s)"
    by (intro vfs_unknown_command)
  then show ?thesis by simp
next
  case True
  then obtain c where c: "p_a (ps ! 0) = supp_vfs c" ..
  show ?thesis
  proof (cases "n = vfs_arity c")
    case False
    moreover have "ps \<noteq> []" using assms(2) by (simp add: request_fits_def)
    ultimately show ?thesis using vfs_wrong_arity_refused [OF _ c, of n os s] by simp
  next
    case True
    then have "cmd_fits st c ps s" and "ps \<noteq> []"
      using assms(2) c in_vfs_cmds [of c] by (auto simp: request_fits_def list_all_iff)
    then show ?thesis
      using plain_served [OF assms(1) _ _ _ c] stored_served [OF assms(1) _ _ _ c] by (cases c) simp_all
  qed
qed

end

section \<open>Properties\<close>

text \<open>In every state the supplicant can reach, a VFS request that fits is answered, whatever the host
  does within the documented bounds of its calls: no handler follows a null pointer or leaves a shared
  memory object, and only the answer's fields of the request change.\<close>

theorem fitting_request_served:
  assumes "bounded_host os st" and "shm_alloc_rounds_up os" and "supp_reach os (fresh_supp w a) s"
    and "request_fits st n ps s"
  shows "\<exists>c ps' t. tee_supp_vfs_process os n ps s = Inr (c, ps', t) \<and> supp_reach os (fresh_supp w a) t \<and>
    answered ps ps'"
proof -
  have inv: "supp_inv s" by (rule supp_reach_inv [OF assms(3,2) supp_inv_fresh])
  from bounded_host.fitting_served [OF assms(1) inv assms(4)] obtain c ps' t
    where run: "tee_supp_vfs_process os n ps s = Inr (c, ps', t)" by (auto simp: no_fault_def)
  moreover have "supp_reach os (fresh_supp w a) t" by (rule reach_step [OF assms(3) step_vfs [OF run]])
  moreover have "answered ps ps'" using vfs_process_inv [OF inv run] by simp
  ultimately show ?thesis by blast
qed

text \<open>C20. The length of a read is not compared with the memory reference the bytes go to: when the host
  delivers as much as it was asked for, and this is more than the object holds behind the offset, the
  daemon writes past the end of the object.\<close>

theorem read_length_unchecked:
  assumes "ps \<noteq> []" and "p_a (ps ! 0) = supp_vfs VFS_READ"
    and "values2 3 3 ps 0 2 = Some (0, 2)" and "get_param 3 ps 1 s = Some m"
    and "sm_buffer m = Ptr b k" and "mem s b = Some obj"
    and "length (o_out (fst (os (Read (u64_to_int (p_a (ps ! 2))) True (p_b (ps ! 2))) (world s)))) = unat (p_b (ps ! 2))"
    and "0 < p_b (ps ! 2)" and "length obj < k + unat (p_b (ps ! 2))"
  shows "tee_supp_vfs_process os 3 ps s = Inl OutOfBounds"
proof -
  let ?r = "fst (os (Read (u64_to_int (p_a (ps ! 2))) True (p_b (ps ! 2))) (world s))"
  have "o_out ?r \<noteq> []" using assms(7,8) by (auto simp: unat_gt_0 simp flip: length_0_conv)
  then show ?thesis
    using assms(1-7,9) by (simp add: tee_supp_vfs_process_def vfs_read_def os_call0_state store_def Let_def)
qed

text \<open>The same of a write: more bytes than the object has are read from it and given to the host.\<close>

theorem write_length_unchecked:
  assumes "ps \<noteq> []" and "p_a (ps ! 0) = supp_vfs VFS_WRITE"
    and "values2 3 3 ps 0 1 = Some (0, 1)" and "tee_supp_param_to_va (ps ! 2) s = Ptr b k"
    and "mem s b = Some obj" and "length obj < k + unat (p_b (ps ! 1))"
  shows "tee_supp_vfs_process os 3 ps s = Inl OutOfBounds"
  using assms by (simp add: tee_supp_vfs_process_def vfs_write_def data_arg_def)

end
