(* ===== verification/Supp_Schedule.thy ===== *)
theory Supp_Schedule
  imports Supp_Threads Supp_Fits
begin

text \<open>
  The threads of the supplicant at the grain of the code: a step is one critical section on
  \<open>num_waiters\<close>, one call into the kernel, or one handler.  A thread carries the request it has received,
  and a log says who received which request and sent which answer.  A scheduler is any choice of the
  next thread.  The coarser steps of \<open>Supp_Threads\<close> receive and count in one go; here another thread may
  come in between.
\<close>

section \<open>One thread\<close>

text \<open>What \<open>find_params\<close> found in a request.\<close>

record job =
  jb_request :: rpc_request
  jb_func :: u32
  jb_num :: u64
  jb_params :: "tee_ioctl_param list"
  jb_meta :: u64

text \<open>
  Where a thread is.  \<open>Boot\<close>: created, before \<open>thread_main\<close> counts it down; \<open>Head\<close>: at the head of its
  loop; \<open>Reading\<close>: counted, in the call that receives; \<open>Got\<close>: before the check of the waiters; \<open>Last\<close>: it
  was the last that waited, before \<open>spawn_thread\<close>; \<open>Creating\<close>, \<open>Detaching\<close>, \<open>Uncreated\<close>: in
  \<open>spawn_thread\<close>, before each further call and after a failed one; \<open>Handling\<close>: before the handler;
  \<open>Replying\<close>: before the call that answers; \<open>Quit\<close>, \<open>Quit_reading\<close>: out of the loop, the latter without
  having been counted down.
\<close>

datatype act =
    Boot | Head | Reading | Got job | Last job | Creating job | Detaching job | Uncreated job
  | Handling job | Replying job rpc_request | Quit | Quit_reading

definition set_abort :: "'w supp \<Rightarrow> 'w supp" where
  "set_abort s = s\<lparr>targ := (targ s)\<lparr>ta_abort := True\<rparr>\<rparr>"

text \<open>
  The next step of a thread: what becomes of it, the threads it creates, and the process.  The lines of
  \<open>thread_main\<close>, \<open>process_one_request\<close> and \<open>spawn_thread\<close>, in their order.
\<close>

fun act_step :: "'w supp_env \<Rightarrow> act \<Rightarrow> 'w supp \<Rightarrow> (act \<times> act list \<times> 'w supp) outcome" where
  "act_step env Boot s = bind_outcome (num_waiters_dec s) (\<lambda>(_, s). Inr (Head, [], s))"
| "act_step env Head s =
     (if ta_abort (targ s) then Inr (Quit, [], s)
      else bind_outcome (num_waiters_inc s) (\<lambda>(_, s). Inr (Reading, [], s)))"
| "act_step env Reading s =
     (let (received, s) = read_request env (ta_fd (targ s)) new_request s in
      case received of
        None \<Rightarrow> Inr (Quit_reading, [], set_abort s)
      | Some request \<Rightarrow>
          bind_outcome (find_params request) (\<lambda>found.
          case found of
            None \<Rightarrow> Inr (Quit_reading, [], set_abort s)
          | Some (func, num_params, params, num_meta) \<Rightarrow>
              Inr (Got \<lparr>jb_request = request, jb_func = func, jb_num = num_params, jb_params = params,
                        jb_meta = num_meta\<rparr>, [], s)))"
| "act_step env (Got j) s =
     (if jb_meta j = 0 then Inr (Handling j, [], s)
      else bind_outcome (num_waiters_dec s) (\<lambda>(n, s). Inr (if n = 0 then Last j else Handling j, [], s)))"
| "act_step env (Last j) s = bind_outcome (num_waiters_inc s) (\<lambda>(_, s). Inr (Creating j, [], s))"
| "act_step env (Creating j) s =
     (let (e, s) = os_do (e_os env) Pthread_create s in
      if u64_to_int (o_ret e) \<noteq> 0 then Inr (Uncreated j, [], s) else Inr (Detaching j, [Boot], s))"
| "act_step env (Detaching j) s = (let (_, s) = os_do (e_os env) Pthread_detach s in Inr (Handling j, [], s))"
| "act_step env (Uncreated j) s = bind_outcome (num_waiters_dec s) (\<lambda>(_, s). Inr (Quit, [], set_abort s))"
| "act_step env (Handling j) s =
     bind_outcome (rpc_switch env (jb_func j) (jb_num j) (jb_params j) s) (\<lambda>(ret, params, s).
     Inr (Replying j (answer_request (jb_request j) (jb_meta j) ret params), [], s))"
| "act_step env (Replying j r) s =
     (let (sent, s) = write_response env (ta_fd (targ s)) r s in
      if sent then Inr (Head, [], s) else Inr (Quit, [], set_abort s))"
| "act_step env Quit s = Inr (Quit, [], s)"
| "act_step env Quit_reading s = Inr (Quit_reading, [], s)"

section \<open>Many threads\<close>

text \<open>
  A request counts as received when the thread that reads it gets it, and as answered when the call that
  sends its answer has succeeded.
\<close>

datatype event = Received nat rpc_request | Unmarked nat | Sent nat rpc_request

definition events :: "nat \<Rightarrow> act \<Rightarrow> act \<Rightarrow> event list" where
  "events i a b =
     (case a of
        Reading \<Rightarrow> (case b of Got j \<Rightarrow> [Received i (jb_request j)] | _ \<Rightarrow> [])
      | Got j \<Rightarrow> (if jb_meta j = 0 then [Unmarked i] else [])
      | Replying j r \<Rightarrow> (if b = Head then [Sent i r] else [])
      | _ \<Rightarrow> [])"

record 'w traffic =
  acts :: "act list"
  tproc :: "'w supp"
  log :: "event list"

inductive traffic_step :: "'w supp_env \<Rightarrow> 'w traffic \<Rightarrow> 'w traffic \<Rightarrow> bool" for env where
  thread_step: "i < length as \<Longrightarrow> act_step env (as ! i) s = Inr (a, new, t) \<Longrightarrow>
    traffic_step env \<lparr>acts = as, tproc = s, log = es\<rparr>
      \<lparr>acts = as[i := a] @ new, tproc = t, log = es @ events i (as ! i) a\<rparr>"

inductive traffic_reach :: "'w supp_env \<Rightarrow> 'w traffic \<Rightarrow> 'w traffic \<Rightarrow> bool" for env where
  traffic_refl: "traffic_reach env p p"
| traffic_next: "traffic_reach env p q \<Longrightarrow> traffic_step env q r \<Longrightarrow> traffic_reach env p r"

text \<open>The main thread alone, at the head of the loop in \<open>main\<close>.\<close>

definition traffic_init :: "'w supp \<Rightarrow> 'w traffic" where
  "traffic_init s = \<lparr>acts = [Head], tproc = s, log = []\<rparr>"

text \<open>A run by a list of the threads that take the next step.\<close>

fun run_schedule :: "'w supp_env \<Rightarrow> nat list \<Rightarrow> 'w traffic \<Rightarrow> 'w traffic outcome" where
  "run_schedule env [] p = Inr p"
| "run_schedule env (i # is) p =
     (if length (acts p) \<le> i then run_schedule env is p
      else bind_outcome (act_step env (acts p ! i) (tproc p)) (\<lambda>(a, new, t).
        run_schedule env is
          \<lparr>acts = (acts p)[i := a] @ new, tproc = t, log = log p @ events i (acts p ! i) a\<rparr>))"

lemma traffic_reach_trans: "traffic_reach env q r \<Longrightarrow> traffic_reach env p q \<Longrightarrow> traffic_reach env p r"
  by (induction rule: traffic_reach.induct) (auto intro: traffic_next)

lemma run_schedule_reach: "run_schedule env is p = Inr q \<Longrightarrow> traffic_reach env p q"
proof (induction "is" arbitrary: p)
  case (Cons i "is")
  show ?case
  proof (cases "length (acts p) \<le> i")
    case False
    with Cons.prems obtain a new t where st: "act_step env (acts p ! i) (tproc p) = Inr (a, new, t)"
      and rest: "run_schedule env is \<lparr>acts = (acts p)[i := a] @ new, tproc = t, log = log p @ events i (acts p ! i) a\<rparr> = Inr q"
      by (auto elim!: bind_outcome_InrE)
    have "traffic_step env p \<lparr>acts = (acts p)[i := a] @ new, tproc = t, log = log p @ events i (acts p ! i) a\<rparr>"
      using thread_step [of i "acts p" env "tproc p" a new t "log p"] False st by (cases p) simp
    then have "traffic_reach env p \<lparr>acts = (acts p)[i := a] @ new, tproc = t, log = log p @ events i (acts p ! i) a\<rparr>"
      by (rule traffic_next [OF traffic_refl])
    then show ?thesis by (rule traffic_reach_trans [OF Cons.IH [OF rest]])
  qed (use Cons in simp)
qed (simp add: traffic_refl)

section \<open>A thread that nobody disturbs\<close>

text \<open>\<open>n\<close> steps of one thread, with the threads it creates.\<close>

fun act_run :: "nat \<Rightarrow> 'w supp_env \<Rightarrow> act \<Rightarrow> 'w supp \<Rightarrow> (act \<times> act list \<times> 'w supp) outcome" where
  "act_run 0 env a s = Inr (a, [], s)"
| "act_run (Suc n) env a s =
     bind_outcome (act_step env a s) (\<lambda>(b, new, t).
     bind_outcome (act_run n env b t) (\<lambda>(c, more, u). Inr (c, new @ more, u)))"

text \<open>
  \<open>ends m env a s y\<close>: undisturbed from \<open>a\<close>, the thread comes in at most \<open>m\<close> steps to the end of its turn with the result \<open>y\<close> of
  \<open>process_one_request\<close>, back at its head if the result is true, out of the loop with \<open>abort\<close> set if not.
\<close>

definition ends :: "nat \<Rightarrow> 'w supp_env \<Rightarrow> act \<Rightarrow> 'w supp \<Rightarrow> (bool \<times> 'w supp) outcome \<Rightarrow> bool" where
  "ends m env a s y \<longleftrightarrow> (\<exists>n \<le> m. case y of
       Inl f \<Rightarrow> act_run n env a s = Inl f
     | Inr (ok, t) \<Rightarrow> (\<exists>b new. act_run n env a s = Inr (b, new, if ok then t else set_abort t) \<and>
         (if ok then b = Head else b \<in> {Quit, Quit_reading})))"

lemma ends_fault: "act_step env a s = Inl f \<Longrightarrow> 0 < m \<Longrightarrow> ends m env a s (Inl f)"
  unfolding ends_def by (rule exI [of _ 1]) simp

lemma ends_step:
  assumes "act_step env a s = Inr (b, new, t)" and "ends m env b t y" and "m < k"
  shows "ends k env a s y"
proof -
  from assms(2) obtain n where "n \<le> m" and n: "case y of Inl f \<Rightarrow> act_run n env b t = Inl f
     | Inr (ok, u) \<Rightarrow> (\<exists>c more. act_run n env b t = Inr (c, more, if ok then u else set_abort u) \<and>
         (if ok then c = Head else c \<in> {Quit, Quit_reading}))" by (auto simp: ends_def)
  show ?thesis
    unfolding ends_def
    by (rule exI [of _ "Suc n"]) (use \<open>n \<le> m\<close> \<open>m < k\<close> n assms(1) in \<open>auto split: sum.splits prod.splits\<close>)
qed

lemma ends_step_eq: "act_step env a s = Inr (b, new, t) \<Longrightarrow> y = z \<Longrightarrow> ends m env b t z \<Longrightarrow> m < k \<Longrightarrow> ends k env a s y"
  using ends_step by simp

lemma ends_now:
  assumes "act_step env a s = Inr (b, new, if ok then t else set_abort t)"
    and "if ok then b = Head else b \<in> {Quit, Quit_reading}"
    and "0 < m"
  shows "ends m env a s (Inr (ok, t))"
  unfolding ends_def by (rule exI [of _ 1]) (use assms in auto)

lemma ends_reply: "ends 1 env (Replying j r) s (Inr (write_response env (ta_fd (targ s)) r s))"
proof -
  obtain ok t where w: "write_response env (ta_fd (targ s)) r s = (ok, t)" by fastforce
  show ?thesis unfolding w by (rule ends_now [where b = "if ok then Head else Quit"]) (auto simp: w)
qed

definition handle :: "'w supp_env \<Rightarrow> job \<Rightarrow> 'w supp \<Rightarrow> (bool \<times> 'w supp) outcome" where
  "handle env j s =
     bind_outcome (rpc_switch env (jb_func j) (jb_num j) (jb_params j) s) (\<lambda>(ret, params, s).
     Inr (write_response env (ta_fd (targ s)) (answer_request (jb_request j) (jb_meta j) ret params) s))"

lemma ends_handle: "ends 2 env (Handling j) s (handle env j s)"
proof (cases "rpc_switch env (jb_func j) (jb_num j) (jb_params j) s")
  case (Inr y)
  obtain ret ps t where y: "y = (ret, ps, t)" by (cases y)
  show ?thesis
    unfolding handle_def by (simp add: Inr y) (rule ends_step [OF _ ends_reply], simp_all add: Inr y)
qed (simp add: handle_def ends_fault)

lemma ends_last:
  "ends 5 env (Last j) s (bind_outcome (spawn_thread env s) (\<lambda>(ok, s). if ok then handle env j s else Inr (False, s)))"
proof (cases "num_waiters_inc s")
  case (Inl f)
  then show ?thesis by (simp add: spawn_thread_def ends_fault)
next
  case (Inr y)
  obtain n t where y: "y = (n, t)" by (cases y)
  obtain e u where e: "os_do (e_os env) Pthread_create t = (e, u)" by fastforce
  obtain d v where d: "os_do (e_os env) Pthread_detach u = (d, v)" by fastforce
  have left: "ends 4 env (Creating j) t (bind_outcome (spawn_thread env s) (\<lambda>(ok, s). if ok then handle env j s else Inr (False, s)))"
  proof (cases "u64_to_int (o_ret e) = 0")
    case True
    have left: "ends 3 env (Detaching j) u (handle env j v)"
      by (rule ends_step [OF _ ends_handle]) (simp_all add: d)
    have act: "act_step env (Creating j) t = Inr (Detaching j, [Boot], u)" using True e by simp
    have eq: "bind_outcome (spawn_thread env s) (\<lambda>(ok, s). if ok then handle env j s else Inr (False, s)) =
        handle env j v" using True Inr y e d by (simp add: spawn_thread_def)
    show ?thesis by (rule ends_step_eq [OF act eq left]) simp
  next
    case False
    have left: "ends 3 env (Uncreated j) u (bind_outcome (num_waiters_dec u) (\<lambda>(_, s). Inr (False, s)))"
    proof (cases "num_waiters_dec u")
      case (Inr z)
      then show ?thesis by (cases z) (simp add: ends_now [where b = Quit])
    qed (simp add: ends_fault)
    have eq: "bind_outcome (spawn_thread env s) (\<lambda>(ok, s). if ok then handle env j s else Inr (False, s)) =
        bind_outcome (num_waiters_dec u) (\<lambda>(_, s). Inr (False, s))"
      using False Inr y e by (cases "num_waiters_dec u") (simp_all add: spawn_thread_def split: prod.splits)
    have act: "act_step env (Creating j) t = Inr (Uncreated j, [], u)" using False e by simp
    show ?thesis by (rule ends_step_eq [OF act eq left]) simp
  qed
  have act: "act_step env (Last j) s = Inr (Creating j, [], t)" using Inr y by simp
  show ?thesis by (rule ends_step [OF act left]) simp
qed

lemma ends_got:
  "ends 6 env (Got j) s (bind_outcome (waiter_check env (jb_meta j) s) (\<lambda>(failed, s).
     if failed then Inr (False, s) else handle env j s))"
proof (cases "jb_meta j = 0")
  case True
  then show ?thesis
    by (simp add: waiter_check_def) (rule ends_step [OF _ ends_handle], simp_all add: True)
next
  case False
  show ?thesis
  proof (cases "num_waiters_dec s")
    case (Inl f)
    with False show ?thesis by (simp add: waiter_check_def ends_fault)
  next
    case (Inr y)
    obtain n t where y: "y = (n, t)" by (cases y)
    have last: "bind_outcome (waiter_check env (jb_meta j) s) (\<lambda>(failed, s). if failed then Inr (False, s) else handle env j s) =
        bind_outcome (spawn_thread env t) (\<lambda>(ok, s). if ok then handle env j s else Inr (False, s))" if "n = 0"
      using False Inr y that by (cases "spawn_thread env t") (simp_all add: waiter_check_def split: prod.splits)
    show ?thesis
    proof (cases "n = 0")
      case True
      with False Inr y have "act_step env (Got j) s = Inr (Last j, [], t)" by simp
      then show ?thesis unfolding last [OF True] by (rule ends_step) (rule ends_last, simp)
    next
      case n: False
      with False Inr y have "act_step env (Got j) s = Inr (Handling j, [], t)" by simp
      moreover have "bind_outcome (waiter_check env (jb_meta j) s) (\<lambda>(failed, s). if failed then Inr (False, s) else handle env j s) =
          handle env j t" using False Inr y n by (simp add: waiter_check_def)
      ultimately show ?thesis by (rule ends_step_eq) (rule ends_handle, simp)
    qed
  qed
qed

definition after_reading :: "'w supp_env \<Rightarrow> rpc_request option \<Rightarrow> 'w supp \<Rightarrow> (bool \<times> 'w supp) outcome" where
  "after_reading env received s =
     (case received of
        None \<Rightarrow> Inr (False, s)
      | Some request \<Rightarrow>
          bind_outcome (find_params request) (\<lambda>found.
          case found of
            None \<Rightarrow> Inr (False, s)
          | Some (func, num_params, params, num_meta) \<Rightarrow>
              bind_outcome (waiter_check env num_meta s) (\<lambda>(failed, s).
              if failed then Inr (False, s)
              else handle env \<lparr>jb_request = request, jb_func = func, jb_num = num_params, jb_params = params,
                               jb_meta = num_meta\<rparr> s)))"

lemma process_one_request_after:
  "process_one_request env s =
     bind_outcome (num_waiters_inc s) (\<lambda>(_, s).
     let (received, s) = read_request env (ta_fd (targ s)) new_request s in after_reading env received s)"
  by (simp add: process_one_request_def after_reading_def handle_def cong: if_cong option.case_cong)

lemma ends_reading:
  assumes "read_request env (ta_fd (targ s)) new_request s = (received, t)"
  shows "ends 7 env Reading s (after_reading env received t)"
proof (cases received)
  case None
  with assms show ?thesis by (simp add: after_reading_def ends_now [where b = Quit_reading])
next
  case (Some rq)
  show ?thesis
  proof (cases "find_params rq")
    case (Inl f)
    with assms Some show ?thesis by (simp add: after_reading_def ends_fault)
  next
    case (Inr found)
    show ?thesis
    proof (cases found)
      case None
      with assms Some Inr show ?thesis by (simp add: after_reading_def ends_now [where b = Quit_reading])
    next
      case (Some y)
      obtain f n ps k where y: "y = (f, n, ps, k)" by (cases y)
      let ?j = "\<lparr>jb_request = rq, jb_func = f, jb_num = n, jb_params = ps, jb_meta = k\<rparr>"
      have "act_step env Reading s = Inr (Got ?j, [], t)"
        using assms \<open>received = Some rq\<close> Inr Some y by simp
      moreover have "after_reading env received t = bind_outcome (waiter_check env (jb_meta ?j) t)
          (\<lambda>(failed, s). if failed then Inr (False, s) else handle env ?j s)"
        using \<open>received = Some rq\<close> Inr Some y by (simp add: after_reading_def)
      ultimately show ?thesis by (rule ends_step_eq) (rule ends_got, simp)
    qed
  qed
qed

lemma ends_head:
  assumes "\<not> ta_abort (targ s)"
  shows "ends 8 env Head s (process_one_request env s)"
proof (cases "num_waiters_inc s")
  case (Inl f)
  with assms show ?thesis by (simp add: process_one_request_after ends_fault)
next
  case (Inr y)
  obtain n t where y: "y = (n, t)" by (cases y)
  obtain received u where rd: "read_request env (ta_fd (targ t)) new_request t = (received, u)" by fastforce
  have "act_step env Head s = Inr (Reading, [], t)" using assms Inr y by simp
  moreover have "process_one_request env s = after_reading env received u"
    using Inr y rd by (simp add: process_one_request_after)
  ultimately show ?thesis by (rule ends_step_eq) (rule ends_reading [OF rd], simp)
qed

end
