(* ===== verification/Supp_Traffic.thy ===== *)
theory Supp_Traffic
  imports Supp_Schedule
begin

text \<open>
  What holds in every interleaving of the steps of \<open>Supp_Schedule\<close>: the counter of waiting threads, the
  supply of threads that wait, the match of answers and requests, and the shared memory.
\<close>

section \<open>The counter\<close>

text \<open>The threads the counter counts.\<close>

definition counted :: "act \<Rightarrow> nat" where
  "counted a =
     (case a of Boot \<Rightarrow> 1 | Reading \<Rightarrow> 1 | Got j \<Rightarrow> 1 | Creating j \<Rightarrow> 1 | Uncreated j \<Rightarrow> 1 | Quit_reading \<Rightarrow> 1
      | _ \<Rightarrow> 0)"

lemma counted_simps [simp]:
  "counted Boot = 1" "counted Head = 0" "counted Reading = 1" "counted (Got j) = 1" "counted (Last j) = 0"
  "counted (Creating j) = 1" "counted (Detaching j) = 0" "counted (Uncreated j) = 1" "counted (Handling j) = 0"
  "counted (Replying j r) = 0" "counted Quit = 0" "counted Quit_reading = 1"
  by (simp_all add: counted_def)

definition counts :: "act list \<Rightarrow> nat" where
  "counts as = sum_list (map counted as)"

lemma counts_append [simp]: "counts (as @ bs) = counts as + counts bs" "counts [] = 0" "counts [a] = counted a"
  by (simp_all add: counts_def)

lemma counts_update: "i < length as \<Longrightarrow> counts (as[i := b]) + counted (as ! i) = counts as + counted b"
proof -
  assume i: "i < length as"
  have "counts (take i as @ b # drop (Suc i) as) + counted (as ! i) =
      counts (take i as @ as ! i # drop (Suc i) as) + counted b"
    by (simp add: counts_def)
  then show ?thesis using upd_conv_take_nth_drop [OF i] id_take_nth_drop [OF i] by metis
qed

lemma counts_le_length: "counts as \<le> length as"
proof (induction as)
  case (Cons a as)
  have "counted a \<le> 1" by (cases a) simp_all
  with Cons show ?case by (simp add: counts_def)
qed simp

lemma counted_le: "i < length as \<Longrightarrow> counted (as ! i) \<le> counts as"
  by (simp add: counts_def member_le_sum_list)

text \<open>
  A request without meta parameters is served without the thread being counted down, so each leaves the
  counter one too high.
\<close>

definition unmarked :: "event list \<Rightarrow> nat" where
  "unmarked es = length (filter (\<lambda>e. case e of Unmarked i \<Rightarrow> True | _ \<Rightarrow> False) es)"

lemma unmarked_append [simp]: "unmarked (es @ fs) = unmarked es + unmarked fs" "unmarked [] = 0"
  by (simp_all add: unmarked_def)

abbreviation waiters :: "'w supp \<Rightarrow> nat" where
  "waiters s \<equiv> unat (num_waiters (targ s))"

lemma set_abort_targ [simp]: "num_waiters (targ (set_abort s)) = num_waiters (targ s)"
    "ta_abort (targ (set_abort s))" "shm_head (set_abort s) = shm_head s" "mem (set_abort s) = mem s"
  by (simp_all add: set_abort_def)

lemma os_do_waiters: "os_do os c s = (r, t) \<Longrightarrow> targ t = targ s"
  using os_do_targ [of os c s] by simp

lemma dec_both: "num_waiters_dec s = Inr (n, t) \<Longrightarrow> waiters s = Suc (waiters t) \<and> n = num_waiters (targ t)"
  using dec_waiters by blast

lemma step_counts:
  assumes keep: "services_keep_arg env" and step: "act_step env a s = Inr (b, new, t)"
  shows "waiters t + counted a = waiters s + counted b + counts new + unmarked (events i a b)"
proof (cases a)
  case (Handling j)
  with step show ?thesis
    by (auto simp: events_def elim!: bind_outcome_InrE dest!: rpc_switch_targ [OF keep])
qed (use step in \<open>auto simp: events_def unmarked_def Let_def split: if_splits option.splits prod.splits
    elim!: bind_outcome_InrE dest!: dec_both inc_waiters read_request_targ write_response_targ os_do_waiters\<close>)

definition count_inv :: "'w traffic \<Rightarrow> bool" where
  "count_inv p \<longleftrightarrow> waiters (tproc p) = counts (acts p) + unmarked (log p)"

lemma traffic_step_count:
  assumes keep: "services_keep_arg env" and step: "traffic_step env p q" and inv: "count_inv p"
  shows "count_inv q"
  using step
proof cases
  case (thread_step i as s a new t es)
  then show ?thesis
    using inv step_counts [OF keep thread_step(4), of i] counts_update [of i as a] counted_le [of i as]
    by (simp add: count_inv_def)
qed

lemma traffic_count:
  assumes "traffic_reach env p q" and "services_keep_arg env" and "count_inv p"
  shows "count_inv q"
  using assms by (induction rule: traffic_reach.induct) (auto intro: traffic_step_count)

lemma counter_inv_of:
  assumes "services_keep_arg env" and "num_waiters (targ s) = 0" and "traffic_reach env (traffic_init s) q"
  shows "waiters (tproc q) = counts (acts q) + unmarked (log q)"
  using traffic_count [OF assms(3,1)] assms(2) by (simp add: count_inv_def traffic_init_def)

lemma traffic_init_count: "num_waiters (targ s) = 0 \<Longrightarrow> count_inv (traffic_init s)"
  by (simp add: count_inv_def traffic_init_def)

section \<open>A thread for the next request\<close>

text \<open>
  Threads that will come to the call that receives, those that are about to create one included; a
  thread whose \<open>pthread_create\<close> failed will set \<open>abort\<close>.
\<close>

definition coming :: "act \<Rightarrow> bool" where
  "coming a =
     (case a of Boot \<Rightarrow> True | Head \<Rightarrow> True | Reading \<Rightarrow> True | Got j \<Rightarrow> True | Last j \<Rightarrow> True | Creating j \<Rightarrow> True
      | _ \<Rightarrow> False)"

definition failing :: "act \<Rightarrow> bool" where
  "failing a = (case a of Uncreated j \<Rightarrow> True | _ \<Rightarrow> False)"

lemma coming_simps [simp]:
  "coming Boot" "coming Head" "coming Reading" "coming (Got j)" "coming (Last j)" "coming (Creating j)"
  "\<not> coming (Detaching j)" "\<not> coming (Uncreated j)" "\<not> coming (Handling j)" "\<not> coming (Replying j r)"
  "\<not> coming Quit" "\<not> coming Quit_reading" "failing (Uncreated j)"
  by (simp_all add: coming_def failing_def)

lemma counted_coming: "0 < counted a \<Longrightarrow> coming a \<or> failing a \<or> a = Quit_reading"
  by (cases a) simp_all

lemma dec_abort: "num_waiters_dec s = Inr (n, t) \<Longrightarrow> ta_abort (targ t) = ta_abort (targ s)"
  by (auto simp: num_waiters_dec_def Let_def split: if_splits)

lemma inc_abort: "num_waiters_inc s = Inr (n, t) \<Longrightarrow> ta_abort (targ t) = ta_abort (targ s)"
  by (auto simp: num_waiters_inc_def Let_def split: if_splits)

lemma step_abort:
  assumes keep: "services_keep_arg env" and step: "act_step env a s = Inr (b, new, t)" and "ta_abort (targ s)"
  shows "ta_abort (targ t)"
proof (cases a)
  case (Handling j)
  with step assms(3) show ?thesis by (auto elim!: bind_outcome_InrE dest!: rpc_switch_targ [OF keep])
qed (use step assms(3) in \<open>auto simp: Let_def split: if_splits option.splits prod.splits
    elim!: bind_outcome_InrE dest!: dec_abort inc_abort read_request_targ write_response_targ os_do_waiters\<close>)

lemma step_quit_reading:
  "act_step env a s = Inr (Quit_reading, new, t) \<Longrightarrow> a = Quit_reading \<and> t = s \<or> ta_abort (targ t)"
  by (cases a) (auto simp: Let_def split: if_splits option.splits prod.splits elim!: bind_outcome_InrE)

lemma step_coming:
  assumes "act_step env a s = Inr (b, new, t)" and "coming a \<or> failing a" and "unmarked (events i a b) = 0"
  shows "ta_abort (targ t) \<or> coming b \<or> failing b \<or> (\<exists>c \<in> set new. coming c) \<or> num_waiters (targ t) \<noteq> 0"
proof (cases a)
  case (Got j)
  with assms show ?thesis
    by (auto simp: events_def unmarked_def split: if_splits elim!: bind_outcome_InrE dest!: dec_both)
qed (use assms in \<open>auto simp: Let_def failing_def split: if_splits option.splits prod.splits elim!: bind_outcome_InrE\<close>)

definition supply_inv :: "'w traffic \<Rightarrow> bool" where
  "supply_inv p \<longleftrightarrow> (Quit_reading \<in> set (acts p) \<longrightarrow> ta_abort (targ (tproc p))) \<and>
     (unmarked (log p) = 0 \<longrightarrow> ta_abort (targ (tproc p)) \<or> (\<exists>a \<in> set (acts p). coming a \<or> failing a))"

lemma new_acts: "act_step env a s = Inr (b, new, t) \<Longrightarrow> new = [] \<or> new = [Boot]"
  by (cases a) (auto simp: Let_def split: if_splits option.splits prod.splits elim!: bind_outcome_InrE)

lemma counts_pos: "0 < counts as \<Longrightarrow> \<exists>a \<in> set as. 0 < counted a"
  by (induction as) (auto simp: counts_def)

lemma traffic_step_supply:
  assumes keep: "services_keep_arg env" and step: "traffic_step env p q" and count: "count_inv q"
    and inv: "supply_inv p"
  shows "supply_inv q"
  using step
proof cases
  case (thread_step i as s a new t es)
  let ?as = "as[i := a] @ new"
  note mono = step_abort [OF keep thread_step(4)]
  have quit: "Quit_reading \<in> set ?as \<longrightarrow> ta_abort (targ t)"
  proof
    assume "Quit_reading \<in> set ?as"
    then have "Quit_reading = a \<or> Quit_reading \<in> set as"
      using new_acts [OF thread_step(4)] set_update_subset_insert [of as i a] by auto
    then show "ta_abort (targ t)"
    proof
      assume "Quit_reading = a"
      then have "as ! i = Quit_reading \<and> t = s \<or> ta_abort (targ t)"
        using step_quit_reading thread_step(4) by metis
      moreover have "ta_abort (targ s)" if "as ! i = Quit_reading"
        using inv thread_step(1) nth_mem [OF thread_step(3)] unfolding that by (simp add: supply_inv_def)
      ultimately show ?thesis by blast
    next
      assume "Quit_reading \<in> set as"
      then show ?thesis using inv thread_step(1) mono by (simp add: supply_inv_def)
    qed
  qed
  have "ta_abort (targ t) \<or> (\<exists>c \<in> set ?as. coming c \<or> failing c)" if "unmarked (es @ events i (as ! i) a) = 0"
  proof -
    have "ta_abort (targ s) \<or> (\<exists>c \<in> set as. coming c \<or> failing c)"
      using inv thread_step(1) that by (simp add: supply_inv_def)
    then consider "ta_abort (targ s)" | k where "k < length as" "k \<noteq> i" "coming (as ! k) \<or> failing (as ! k)"
      | "coming (as ! i) \<or> failing (as ! i)" by (metis in_set_conv_nth)
    then show ?thesis
    proof cases
      case 1
      with mono show ?thesis by simp
    next
      case (2 k)
      then have "as ! k \<in> set (as[i := a])" by (metis length_list_update nth_list_update_neq nth_mem)
      with 2 show ?thesis by auto
    next
      case 3
      from step_coming [OF thread_step(4) 3, of i] that
      consider "ta_abort (targ t)" | "coming a \<or> failing a" | "\<exists>c \<in> set new. coming c" | "0 < waiters t" by (auto simp: unat_gt_0)
      then show ?thesis
      proof cases
        case 2
        then show ?thesis using set_update_memI [OF thread_step(3)] by fastforce
      next
        case 4
        have "waiters t = counts ?as" using count thread_step(2) that by (simp add: count_inv_def)
        with 4 counts_pos [of ?as] obtain c where "c \<in> set ?as" "0 < counted c" by auto
        then show ?thesis using counted_coming quit by blast
      qed auto
    qed
  qed
  with quit show ?thesis using thread_step(2) by (simp add: supply_inv_def)
qed

lemma traffic_supply:
  assumes "traffic_reach env p q" and "services_keep_arg env" and "count_inv p" and "supply_inv p"
  shows "supply_inv q"
  using assms
proof (induction rule: traffic_reach.induct)
  case (traffic_next p q r)
  then show ?case using traffic_step_supply traffic_step_count traffic_count by metis
qed

lemma traffic_init_supply: "supply_inv (traffic_init s)"
  by (simp add: supply_inv_def traffic_init_def)

section \<open>Requests and answers\<close>

definition received_by :: "nat \<Rightarrow> event list \<Rightarrow> rpc_request list" where
  "received_by i es = concat (map (\<lambda>e. case e of Received k r \<Rightarrow> if k = i then [r] else [] | _ \<Rightarrow> []) es)"

definition sent_by :: "nat \<Rightarrow> event list \<Rightarrow> rpc_request list" where
  "sent_by i es = concat (map (\<lambda>e. case e of Sent k r \<Rightarrow> if k = i then [r] else [] | _ \<Rightarrow> []) es)"

lemma by_append [simp]:
  "received_by i (es @ fs) = received_by i es @ received_by i fs" "received_by i [] = []"
  "sent_by i (es @ fs) = sent_by i es @ sent_by i fs" "sent_by i [] = []"
  by (simp_all add: received_by_def sent_by_def)

lemma events_other: "k \<noteq> i \<Longrightarrow> received_by k (events i a b) = [] \<and> sent_by k (events i a b) = []"
  by (auto simp: events_def received_by_def sent_by_def split: act.splits)

text \<open>The driver's parameters at the head of a request; an answer brings them back, so the driver finds the
  call it belongs to.\<close>

definition metas :: "rpc_request \<Rightarrow> tee_ioctl_param list" where
  "metas r = takeWhile is_meta (take (unat (rq_num_params r)) (rq_params r))"

text \<open>\<open>r\<close> is what the handler the request \<open>q\<close> asks for made of it, in some state of the process.\<close>

definition answers :: "'w supp_env \<Rightarrow> rpc_request \<Rightarrow> rpc_request \<Rightarrow> bool" where
  "answers env q r \<longleftrightarrow> (\<exists>f n ps k s ret ps' t.
     find_params q = Inr (Some (f, n, ps, k)) \<and> rpc_switch env f n ps s = Inr (ret, ps', t) \<and>
     r = answer_request q k ret ps' \<and> rq_num_params r = rq_num_params q \<and>
     take (length (metas q)) (rq_params r) = metas q)"

lemma skip_meta_metas: "skip_meta k ps = Inr n \<Longrightarrow> n = length (takeWhile is_meta (take k ps))"
  by (induction k ps arbitrary: n rule: skip_meta.induct) (auto split: if_splits elim!: bind_outcome_InrE)

lemma metas_prefix: "take (length (metas q)) (rq_params q) = metas q"
proof -
  let ?xs = "take (unat (rq_num_params q)) (rq_params q)"
  have "metas q = take (length (metas q)) ?xs" by (metis metas_def takeWhile_eq_take)
  moreover have "length (metas q) \<le> unat (rq_num_params q)"
    unfolding metas_def by (metis length_take length_takeWhile_le min.bounded_iff)
  ultimately show ?thesis by (simp add: min_absorb1)
qed

lemma find_params_meta:
  assumes "find_params q = Inr (Some (f, n, ps, k))"
  shows "unat k = length (metas q)"
proof -
  have k: "k = word_of_nat (length (metas q))"
    using assms
    by (auto simp: find_params_def Let_def metas_def elim!: bind_outcome_InrE dest!: skip_meta_metas split: if_splits)
  have "length (metas q) \<le> unat (rq_num_params q)"
    unfolding metas_def by (metis length_take length_takeWhile_le min.bounded_iff)
  also have "unat (rq_num_params q) < 2 ^ 32" using unsigned_less [of "rq_num_params q"] by simp
  finally have "length (metas q) < 2 ^ 64" by simp
  with k show ?thesis by (simp add: unsigned_of_nat take_bit_nat_eq_self)
qed

lemma answersI:
  assumes "find_params q = Inr (Some (f, n, ps, k))" and "rpc_switch env f n ps s = Inr (ret, ps', t)"
  shows "answers env q (answer_request q k ret ps')"
proof -
  have "take (length (metas q)) (rq_params (answer_request q k ret ps')) = metas q"
    by (simp add: answer_request_def find_params_meta [OF assms(1)] metas_prefix)
  moreover have "rq_num_params (answer_request q k ret ps') = rq_num_params q" by (simp add: answer_request_def)
  ultimately show ?thesis using assms unfolding answers_def by blast
qed

definition job_ok :: "job \<Rightarrow> bool" where
  "job_ok j \<longleftrightarrow> find_params (jb_request j) = Inr (Some (jb_func j, jb_num j, jb_params j, jb_meta j))"

text \<open>What a thread has received and not answered.\<close>

definition pending_of :: "'w supp_env \<Rightarrow> act \<Rightarrow> rpc_request list \<Rightarrow> bool" where
  "pending_of env a rest \<longleftrightarrow>
     (case a of
        Got j \<Rightarrow> rest = [jb_request j] \<and> job_ok j
      | Last j \<Rightarrow> rest = [jb_request j] \<and> job_ok j
      | Creating j \<Rightarrow> rest = [jb_request j] \<and> job_ok j
      | Detaching j \<Rightarrow> rest = [jb_request j] \<and> job_ok j
      | Uncreated j \<Rightarrow> rest = [jb_request j] \<and> job_ok j
      | Handling j \<Rightarrow> rest = [jb_request j] \<and> job_ok j
      | Replying j r \<Rightarrow> rest = [jb_request j] \<and> answers env (jb_request j) r
      | Quit \<Rightarrow> length rest \<le> 1
      | _ \<Rightarrow> rest = [])"

definition matched :: "'w supp_env \<Rightarrow> act \<Rightarrow> rpc_request list \<Rightarrow> rpc_request list \<Rightarrow> bool" where
  "matched env a rs ss \<longleftrightarrow> (\<exists>done rest. rs = done @ rest \<and> list_all2 (answers env) done ss \<and> pending_of env a rest)"

lemma matched_same:
  "(\<And>rest. pending_of env a rest \<Longrightarrow> pending_of env b rest) \<Longrightarrow> matched env a rs ss \<Longrightarrow> matched env b rs ss"
  unfolding matched_def by blast

lemma step_matched:
  assumes step: "act_step env a s = Inr (b, new, t)" and "matched env a rs ss"
  shows "matched env b (rs @ received_by i (events i a b)) (ss @ sent_by i (events i a b))"
proof -
  obtain don rest where rs: "rs = don @ rest" and all: "list_all2 (answers env) don ss" and p: "pending_of env a rest"
    using assms(2) by (auto simp: matched_def)
  have quiet: "received_by i (events i a b) = [] \<and> sent_by i (events i a b) = []"
    if "a \<noteq> Reading" "\<forall>j r. a \<noteq> Replying j r"
    using that by (cases a) (auto simp: events_def received_by_def sent_by_def)
  have keep: "pending_of env b rest" if "a \<noteq> Reading" "\<forall>j r. a \<noteq> Replying j r" "\<forall>j. a \<noteq> Handling j"
    using step p that
    by (cases a) (auto simp: pending_of_def Let_def split: if_splits prod.splits elim!: bind_outcome_InrE)
  show ?thesis
  proof (cases a)
    case Reading
    with step p rs all show ?thesis
      by (auto simp: matched_def pending_of_def job_ok_def events_def received_by_def sent_by_def Let_def
          split: option.splits prod.splits elim!: bind_outcome_InrE)
  next
    case (Handling j)
    with step obtain ret ps where b: "b = Replying j (answer_request (jb_request j) (jb_meta j) ret ps)"
      and run: "rpc_switch env (jb_func j) (jb_num j) (jb_params j) s = Inr (ret, ps, t)"
      by (auto elim!: bind_outcome_InrE)
    from Handling p have "rest = [jb_request j]" and "job_ok j" by (simp_all add: pending_of_def)
    with answersI [OF _ run] have "pending_of env b rest" by (simp add: b pending_of_def job_ok_def)
    with rs all Handling show ?thesis by (auto simp: matched_def events_def)
  next
    case (Replying j r)
    with p have r: "rest = [jb_request j]" "answers env (jb_request j) r" by (simp_all add: pending_of_def)
    from Replying step consider "b = Head" | "b = Quit" by (auto simp: Let_def split: prod.splits if_splits)
    then show ?thesis
    proof cases
      case 1
      with Replying r rs all show ?thesis
        by (auto simp: matched_def pending_of_def events_def received_by_def sent_by_def list_all2_appendI)
    next
      case 2
      with r have "pending_of env b rest" by (simp add: pending_of_def)
      with rs all Replying 2 show ?thesis by (auto simp: matched_def events_def)
    qed
  qed (use quiet keep rs all in \<open>auto simp: matched_def\<close>)
qed

definition match_inv :: "'w supp_env \<Rightarrow> 'w traffic \<Rightarrow> bool" where
  "match_inv env p \<longleftrightarrow>
     (\<forall>i < length (acts p). matched env (acts p ! i) (received_by i (log p)) (sent_by i (log p))) \<and>
     (\<forall>i \<ge> length (acts p). received_by i (log p) = [] \<and> sent_by i (log p) = [])"

lemma matched_fresh: "matched env Boot [] []"
  by (simp add: matched_def pending_of_def)

lemma traffic_step_match:
  assumes step: "traffic_step env p q" and inv: "match_inv env p"
  shows "match_inv env q"
  using step
proof cases
  case (thread_step i as s a new t es)
  note new = new_acts [OF thread_step(4)]
  have other: "received_by k (log q) = received_by k es" "sent_by k (log q) = sent_by k es" if "k \<noteq> i" for k
    using thread_step(2) events_other [OF that] by simp_all
  have "matched env (acts q ! k) (received_by k (log q)) (sent_by k (log q))" if k: "k < length (acts q)" for k
  proof -
    have "k = length as \<and> acts q ! k = Boot" if "\<not> k < length as"
      using that k thread_step(2) new by (auto simp: nth_append)
    then consider "k = i" | "k \<noteq> i" "k < length as" | "k = length as" "acts q ! k = Boot" by blast
    then show ?thesis
    proof cases
      case 1
      then show ?thesis
        using step_matched [OF thread_step(4)] inv thread_step(1-3) by (simp add: match_inv_def nth_append)
    next
      case 2
      then show ?thesis using other inv thread_step(1,2) by (simp add: match_inv_def nth_append)
    next
      case 3
      then have "k \<noteq> i" using thread_step(3) by simp
      with 3 show ?thesis using other inv thread_step(1) matched_fresh by (simp add: match_inv_def)
    qed
  qed
  moreover have "received_by k (log q) = [] \<and> sent_by k (log q) = []" if "length (acts q) \<le> k" for k
  proof -
    from that have "length as \<le> k" "k \<noteq> i" using thread_step(2,3) by auto
    with other inv thread_step(1) show ?thesis by (simp add: match_inv_def)
  qed
  ultimately show ?thesis by (simp add: match_inv_def)
qed

lemma traffic_match: "traffic_reach env p q \<Longrightarrow> match_inv env p \<Longrightarrow> match_inv env q"
  by (induction rule: traffic_reach.induct) (auto intro: traffic_step_match)

lemma traffic_init_match: "match_inv env (traffic_init s)"
  by (simp add: match_inv_def traffic_init_def matched_def pending_of_def)

section \<open>The shared memory\<close>

text \<open>The services of other files are asked to leave the shared memory in order.\<close>

definition keeps_shm :: "'w handler \<Rightarrow> bool" where
  "keeps_shm h \<longleftrightarrow> (\<forall>n ps s r ps' t. h n ps s = Inr (r, ps', t) \<longrightarrow> supp_inv s \<longrightarrow> supp_inv t)"

definition services_keep_shm :: "'w supp_env \<Rightarrow> bool" where
  "services_keep_shm env \<longleftrightarrow>
     keeps_shm (tee_supp_fs_process env) \<and> keeps_shm (tee_socket_process env) \<and>
     keeps_shm (plugin_process env) \<and> (\<forall>prefix. keeps_shm (prof_process env prefix)) \<and>
     (\<forall>p m q n s r t. rpmb_process_request env p m q n s = Inr (r, t) \<longrightarrow> supp_inv s \<longrightarrow> supp_inv t)"

lemma supp_inv_fields: "supp_inv (s\<lparr>world := w\<rparr>) = supp_inv s" "supp_inv (s\<lparr>targ := a\<rparr>) = supp_inv s"
  by (simp_all add: supp_inv_def)

lemma shape_inv: "mem_shape s t \<Longrightarrow> supp_inv s \<Longrightarrow> supp_inv t"
  using mem_shape_inv by blast

lemma load_ta_shm: "load_ta env n ps s = Inr (r, ps', t) \<Longrightarrow> supp_inv s \<Longrightarrow> supp_inv t"
  by (auto simp: load_ta_def Let_def supp_inv_fields split: option.splits prod.splits if_splits
      elim!: bind_outcome_InrE dest!: mem_shape_store intro: shape_inv)

lemma rpmb_shm: "services_keep_shm env \<Longrightarrow> process_rpmb env n ps s = Inr (r, ps', t) \<Longrightarrow> supp_inv s \<Longrightarrow> supp_inv t"
  by (auto simp: process_rpmb_def services_keep_shm_def split: option.splits elim!: bind_outcome_InrE)

lemma rpc_switch_shm:
  assumes env: "services_keep_shm env" and os: "shm_alloc_rounds_up (e_os env)"
    and run: "rpc_switch env f n ps s = Inr (r, ps', t)" and inv: "supp_inv s"
  shows "supp_inv t"
proof -
  have ext: "h n ps s = Inr (r, ps', t) \<Longrightarrow> supp_inv t" if "keeps_shm h" for h
    using that inv unfolding keeps_shm_def by blast
  have "keeps_shm (tee_supp_fs_process env)" "keeps_shm (tee_socket_process env)"
    "keeps_shm (plugin_process env)" "\<And>prefix. keeps_shm (prof_process env prefix)"
    using env by (simp_all add: services_keep_shm_def)
  note external = this [THEN ext]
  show ?thesis
    using run inv
    by (auto simp: rpc_switch_def split: if_splits
        dest: external load_ta_shm rpmb_shm [OF env] process_alloc_inv [OF inv os] process_free_inv [OF inv] vfs_process_inv [OF inv])
qed

lemma waiters_shm:
  "num_waiters_dec s = Inr (n, t) \<Longrightarrow> supp_inv t = supp_inv s"
  "num_waiters_inc s = Inr (n, t) \<Longrightarrow> supp_inv t = supp_inv s"
  "read_request env fd rq s = (x, t) \<Longrightarrow> supp_inv t = supp_inv s"
  "write_response env fd r s = (ok, t) \<Longrightarrow> supp_inv t = supp_inv s"
  "supp_inv (set_abort s) = supp_inv s"
  by (auto simp: num_waiters_dec_def num_waiters_inc_def read_request_def write_response_def set_abort_def
      Let_def supp_inv_fields split: if_splits prod.splits)

lemma step_shm:
  assumes env: "services_keep_shm env" and os: "shm_alloc_rounds_up (e_os env)"
    and step: "act_step env a s = Inr (b, new, t)" and inv: "supp_inv s"
  shows "supp_inv t"
proof (cases a)
  case (Handling j)
  with step inv show ?thesis by (auto elim!: bind_outcome_InrE dest: rpc_switch_shm [OF env os])
qed (use step inv in \<open>auto simp: Let_def waiters_shm split: if_splits option.splits prod.splits
    elim!: bind_outcome_InrE dest: waiters_shm(1-4) intro: shape_inv [OF mem_shape_os_do]\<close>)

lemma traffic_shm:
  assumes "traffic_reach env p q" and "services_keep_shm env" and "shm_alloc_rounds_up (e_os env)"
    and "supp_inv (tproc p)"
  shows "supp_inv (tproc q)"
  using assms
proof (induction rule: traffic_reach.induct)
  case (traffic_next p q r)
  then have "supp_inv (tproc q)" by simp
  with traffic_next(2) show ?case
    by cases (simp, metis step_shm traffic_next.prems(1,2))
qed

section \<open>Properties\<close>


text \<open>C9. In every interleaving, \<open>num_waiters\<close> is the number of threads that read a request or are counted
  to do so, plus the number of requests served without a mark of the driver, which no thread takes back.\<close>

theorem counter_in_all_interleavings:
  assumes "services_keep_arg env" and "num_waiters (targ s) = 0" and "traffic_reach env (traffic_init s) q"
  shows "unat (num_waiters (targ (tproc q))) = counts (acts q) + unmarked (log q)"
  by (rule counter_inv_of [OF assms])

text \<open>C11. No assertion on the counter fails in any interleaving: a thread that decrements it, at the start,
  with a request, or after a failed \<open>pthread_create\<close>, finds it positive, and a thread that increments it
  finds room, while threads and unmarked requests are fewer than \<open>2 ^ 64 - 1\<close>.\<close>

theorem counter_never_asserts:
  assumes "services_keep_arg env" and "num_waiters (targ s) = 0" and "traffic_reach env (traffic_init s) q"
    and "i < length (acts q)" and "length (acts q) + unmarked (log q) < 2 ^ 64 - 1"
    and "acts q ! i \<in> {Boot, Head, Got j, Last j, Uncreated j}"
  shows "no_fault (act_step env (acts q ! i) (tproc q))"
proof -
  have c: "waiters (tproc q) = counts (acts q) + unmarked (log q)"
    using counter_inv_of [OF assms(1-3)] .
  have "0 < waiters (tproc q)" if "0 < counted (acts q ! i)"
    using c counted_le [OF assms(4)] that by simp
  then have dec: "num_waiters (targ (tproc q)) \<noteq> 0" if "0 < counted (acts q ! i)"
    using that by (simp add: unat_gt_0)
  have "counts (acts q) \<le> length (acts q)" by (rule counts_le_length)
  then have "Suc (waiters (tproc q)) \<noteq> 2 ^ 64" using c assms(5) by simp
  then have inc: "num_waiters (targ (tproc q)) + 1 \<noteq> 0" using unat_plus_one_wraps by blast
  show ?thesis
    using assms(6) dec inc
    by (auto simp: num_waiters_dec_def num_waiters_inc_def Let_def)
qed


text \<open>C6. Answers match requests: in every interleaving, what a thread has sent are the answers to the
  requests it has received, one for each and in their order, each made by the handler the request asks
  for and with the driver's parameters in front; at most the last request is unanswered, and none when
  the thread is ready for the next.\<close>

theorem answers_match_requests:
  assumes "traffic_reach env (traffic_init s) q" and "i < length (acts q)"
  shows "\<exists>done rest. received_by i (log q) = done @ rest \<and> list_all2 (answers env) done (sent_by i (log q)) \<and>
    length rest \<le> 1 \<and> (acts q ! i \<in> {Head, Reading} \<longrightarrow> rest = [])"
proof -
  have "matched env (acts q ! i) (received_by i (log q)) (sent_by i (log q))"
    using traffic_match [OF assms(1) traffic_init_match] assms(2) by (simp add: match_inv_def)
  then obtain don rest where m: "received_by i (log q) = don @ rest" "list_all2 (answers env) don (sent_by i (log q))"
    and p: "pending_of env (acts q ! i) rest" by (auto simp: matched_def)
  have "length rest \<le> 1 \<and> (acts q ! i \<in> {Head, Reading} \<longrightarrow> rest = [])"
    using p by (cases "acts q ! i") (simp_all add: pending_of_def)
  with m show ?thesis by blast
qed


end
