(* ===== verification/Fits_Witnesses.thy ===== *)
theory Fits_Witnesses
  imports Supp_Fits Witnesses
begin

text \<open>
  The properties of \<open>Supp_Fits\<close> at concrete requests, over the reference system, which keeps to the
  bounds of its calls.
\<close>

interpretation ref_host: bounded_host ref_os 144
proof
  fix c and w :: ref_world
  show "\<forall>nm. c \<noteq> Getenv nm \<Longrightarrow> length (o_out (fst (ref_os c w))) \<le> out_room 144 c"
    by (cases c) (auto simp: ref_os_def ref_file_def ref_open_def Let_def word_le_nat_alt split: option.splits)
  show "length (o_out2 (fst (ref_os c w))) \<le> out_room2 c"
    by (cases c) (auto simp: ref_os_def ref_file_def ref_open_def ok_ret_def err_ret_def Let_def split: option.splits)
qed

definition read_req :: "u64 \<Rightarrow> tee_ioctl_param list" where
  "read_req n = [value_req (supp_vfs VFS_READ), memref_at 4 8, (value_req 3)\<lparr>p_b := n\<rparr>]"

lemma read_req_fits: "request_fits 144 3 (read_req 8) ref_s1"
  by (simp add: request_fits_def vfs_cmds_def vfs_arity_def read_req_def value_req_def memref_at_def)

theorem fitting_request_served_witness:
  "\<exists>c ps' t. tee_supp_vfs_process ref_os 3 (read_req 8) ref_s1 = Inr (c, ps', t)"
  using fitting_request_served [OF ref_host.bounded_host_axioms ref.shm_size ref_s1_reach read_req_fits] by blast

text \<open>A host with an open file of 20 bytes, and a request for 13 bytes into an object of 16, at offset 4.\<close>

definition long_world :: ref_world where
  "long_world = ref_init\<lparr>r_data := (\<lambda>_. replicate 20 1), r_fds := [3 \<mapsto> (0, 0)]\<rparr>"

theorem read_length_unchecked_witness:
  "tee_supp_vfs_process ref_os 3 (read_req 13) (ref_s1\<lparr>world := long_world\<rparr>) = Inl OutOfBounds"
proof -
  let ?s = "ref_s1\<lparr>world := long_world\<rparr>" and ?ps = "read_req 13"
  have v: "values2 3 3 ?ps 0 2 = Some (0, 2)"
    by (simp add: values2_def get_value_def read_req_def value_req_def attr_type_def)
  have g: "get_param 3 ?ps 1 ?s = Some \<lparr>sm_buffer = Ptr 0 4, sm_size = 8, sm_flags = 3, sm_id = 1\<rparr>"
    by (simp add: get_param_def read_req_def memref_at_def attr_type_def find_tshm_def ref_s1_def ref_shm_def)
  show ?thesis
  proof (rule read_length_unchecked [OF _ _ v g])
    show "sm_buffer \<lparr>sm_buffer = Ptr 0 4, sm_size = 8, sm_flags = 3, sm_id = 1\<rparr> = Ptr 0 4" by simp
    show "mem ?s 0 = Some (replicate 16 0)" by (simp add: ref_s1_def)
    show "length (o_out (fst (ref_os (Read (u64_to_int (p_a (?ps ! 2))) True (p_b (?ps ! 2))) (world ?s)))) =
        unat (p_b (?ps ! 2))"
      by (simp add: read_req_def value_req_def ref_os_def ref_file_def long_world_def)
  qed (simp_all add: read_req_def value_req_def)
qed

theorem write_length_unchecked_witness:
  "tee_supp_vfs_process ref_os 3 [value_req (supp_vfs VFS_WRITE), (value_req 3)\<lparr>p_b := 13\<rparr>, memref_at 4 8] ref_s1 =
    Inl OutOfBounds"
  by (rule write_length_unchecked [where b = 0 and k = 4 and obj = "replicate 16 0"])
    (simp_all add: values2_def get_value_def value_req_def memref_at_def attr_type_def tee_supp_param_to_va_def
      tee_supp_param_is_memref_def find_tshm_def ref_s1_def ref_shm_def)

end
