(* ===== verification/Traffic_Witnesses.thy ===== *)
theory Traffic_Witnesses
  imports Supp_Traffic Thread_Witnesses Fits_Witnesses
begin

text \<open>
  The properties of the interleavings at a concrete schedule: a driver that hands out marked requests for
  \<open>getpid\<close> and takes every answer.
\<close>

definition getpid_req :: tee_ioctl_param where
  "getpid_req = value_req (supp_vfs VFS_GETPID)"

definition pid_request :: rpc_request where
  "pid_request = \<lparr>rq_func = 30, rq_num_params = 2,
     rq_params = [zero_param\<lparr>p_attr := TEE_IOCTL_PARAM_ATTR_META\<rparr>, getpid_req]\<rparr>"

definition pid_env :: "ref_world supp_env" where
  "pid_env = ref_env\<lparr>suppl_recv := (\<lambda>_ _ w. (Some pid_request, w)), suppl_send := (\<lambda>_ _ _ w. (True, w))\<rparr>"

definition pid_job :: job where
  "pid_job = \<lparr>jb_request = pid_request, jb_func = 30, jb_num = 1, jb_params = [getpid_req], jb_meta = 1\<rparr>"

definition pid_answer :: rpc_request where
  "pid_answer = pid_request\<lparr>rq_func := 0\<rparr>"

lemma pid_find: "find_params pid_request = Inr (Some (30, 1, [getpid_req], 1))"
  by (simp add: find_params_eq find_params_spec_def pid_request_def is_meta_def zero_param_def getpid_req_def
      value_req_def)

lemma pid_keeps: "services_keep_arg pid_env" "services_keep_shm pid_env"
  by (auto simp: services_keep_arg_def keeps_arg_def services_keep_shm_def keeps_shm_def pid_env_def ref_env_def
      ret_code_def)

lemma pid_recv: "read_request pid_env fd rq s = (Some pid_request, s)"
  by (simp add: read_request_def pid_env_def)

lemma pid_send: "write_response pid_env fd r s = (True, s)"
  by (simp add: write_response_def pid_env_def)

lemma pid_create: "os_do (e_os pid_env) Pthread_create s = (ok_ret 0, s)" "os_do (e_os pid_env) Pthread_detach s = (ok_ret 0, s)"
  by (simp_all add: os_do_def pid_env_def ref_os_def)

lemma pid_serve: "tee_supp_vfs_process (e_os pid_env) 1 [getpid_req] s = Inr (0, [getpid_req], set_errno 0 s)"
  by (simp add: pid_env_def tee_supp_vfs_process_def vfs_getpid_def getpid_req_def value_req_def
      values1_def get_value_def attr_type_def os_call0_def os_do_def ref_os_def put_bc_def ret_int_def errno64_def
      set_errno_def)

definition waiting_state :: "u64 \<Rightarrow> ref_world supp" where
  "waiting_state n = ref_s0\<lparr>targ := (targ ref_s0)\<lparr>num_waiters := n\<rparr>\<rparr>"

lemma waiting_steps:
  "num_waiters_inc (waiting_state n) = (if n + 1 = 0 then Inl AssertFailed else Inr (n + 1, waiting_state (n + 1)))"
  "num_waiters_dec (waiting_state n) = (if n = 0 then Inl AssertFailed else Inr (n - 1, waiting_state (n - 1)))"
  "\<not> ta_abort (targ (waiting_state n))" "set_errno 0 (waiting_state n) = waiting_state n"
  by (simp_all add: num_waiters_inc_def num_waiters_dec_def waiting_state_def ref_s0_def fresh_supp_def set_errno_def
      Let_def)

lemma ref_s0_waiting: "ref_s0 = waiting_state 0"
  by (simp add: waiting_state_def ref_s0_def fresh_supp_def)

lemmas pid_simps = pid_find pid_recv pid_send pid_create pid_serve waiting_steps events_def traffic_init_def

text \<open>The first thread takes a request and creates a second one, which comes to read while the first is
  still before its handler.\<close>

definition pid_handling :: "ref_world traffic" where
  "pid_handling = \<lparr>acts = [Handling pid_job, Reading], tproc = waiting_state 1, log = [Received 0 pid_request]\<rparr>"

lemma pid_handling_reach: "traffic_reach pid_env (traffic_init ref_s0) pid_handling"
proof (rule run_schedule_reach)
  show "run_schedule pid_env [0, 0, 0, 0, 0, 0, 1, 1] (traffic_init ref_s0) = Inr pid_handling"
    unfolding ref_s0_waiting by (simp add: pid_simps pid_handling_def pid_job_def)
qed

text \<open>The second receives a request as well before the first has answered.\<close>

definition pid_both :: "ref_world traffic" where
  "pid_both = \<lparr>acts = [Head, Got pid_job], tproc = waiting_state 1,
     log = [Received 0 pid_request, Received 1 pid_request, Sent 0 pid_answer]\<rparr>"

lemma pid_both_reach: "traffic_reach pid_env (traffic_init ref_s0) pid_both"
proof (rule run_schedule_reach)
  show "run_schedule pid_env [0, 0, 0, 0, 0, 0, 1, 1, 1, 0, 0] (traffic_init ref_s0) = Inr pid_both"
    unfolding ref_s0_waiting
    by (simp add: pid_simps pid_both_def pid_job_def answer_request_def pid_answer_def pid_request_def [symmetric])
      (simp add: pid_request_def)
qed


theorem counter_in_all_interleavings_witness:
  "unat (num_waiters (targ (tproc pid_both))) = 1 \<and> counts [Head, Got pid_job] + unmarked (log pid_both) = 1"
  using counter_in_all_interleavings [OF pid_keeps(1) ref_s0_idle(1) pid_both_reach]
  by (simp add: pid_both_def waiting_state_def counts_def)

theorem counter_never_asserts_witness: "no_fault (act_step pid_env (Got pid_job) (waiting_state 1))"
  using counter_never_asserts [OF pid_keeps(1) ref_s0_idle(1) pid_both_reach, of 1 pid_job]
  by (simp add: pid_both_def unmarked_def)


theorem answers_match_requests_witness:
  "\<exists>done rest. [pid_request] = done @ rest \<and> list_all2 (answers pid_env) done [pid_answer] \<and>
    length rest \<le> 1 \<and> rest = []"
  using answers_match_requests [OF pid_both_reach, of 0]
  by (simp add: pid_both_def received_by_def sent_by_def)


end
