(* ===== verification/Scall_Memory.thy ===== *)
theory Scall_Memory
  imports Scall_Props
begin

text \<open>
  The stubs with memory arguments, executed by a trusted application: a path, the data of \<open>write\<close> and
  the buffer of \<open>read\<close> are in the memory of the application, which the system calls access directly.
\<close>

section \<open>The memory of the application\<close>

definition mem_bytes :: "(u64 \<Rightarrow> byte) \<Rightarrow> u64 \<Rightarrow> nat \<Rightarrow> byte list" where
  "mem_bytes m p n = map (\<lambda>i. m (p + word_of_nat i)) [0..<n]"

definition store_bytes :: "(u64 \<Rightarrow> byte) \<Rightarrow> u64 \<Rightarrow> byte list \<Rightarrow> u64 \<Rightarrow> byte" where
  "store_bytes m p bs a = (if unat (a - p) < length bs then bs ! unat (a - p) else m a)"

definition cstring_at :: "(u64 \<Rightarrow> byte) \<Rightarrow> u64 \<Rightarrow> byte list \<Rightarrow> bool" where
  "cstring_at m p bs \<longleftrightarrow> 0 \<notin> set bs \<and> mem_bytes m p (Suc (length bs)) = bs @ [0]"

lemma length_mem_bytes [simp]: "length (mem_bytes m p n) = n"
  by (simp add: mem_bytes_def)

lemma mem_store_bytes:
  assumes "length bs < 2 ^ 64"
  shows "mem_bytes (store_bytes m p bs) p (length bs) = bs"
proof (rule nth_equalityI)
  fix i
  assume "i < length (mem_bytes (store_bytes m p bs) p (length bs))"
  then have i: "i < length bs" by simp
  then have "unat (word_of_nat i :: u64) = i" using assms by (simp add: unsigned_of_nat take_bit_nat_eq_self)
  with i show "mem_bytes (store_bytes m p bs) p (length bs) ! i = bs ! i"
    by (simp add: mem_bytes_def store_bytes_def)
qed simp

lemma store_bytes_outside: "\<not> unat (a - p) < length bs \<Longrightarrow> store_bytes m p bs a = m a"
  by (simp add: store_bytes_def)

section \<open>The calls with a path\<close>

fun run_path :: "'s core_env \<Rightarrow> vfs_cmd \<Rightarrow> byte list \<Rightarrow> (nat \<Rightarrow> u64) \<Rightarrow> 's \<Rightarrow> (s32 \<times> 's) option" where
  "run_path ce VFS_OPEN path x s = Some (syscall_vfs_open ce path (u64_to_int (x 1)) (u64_to_int (x 2)) s)"
| "run_path ce VFS_ACCESS path x s = Some (syscall_vfs_access ce path (u64_to_int (x 1)) s)"
| "run_path ce VFS_MKDIR path x s = Some (syscall_vfs_mkdir ce path (u64_to_int (x 1)) s)"
| "run_path ce VFS_RMDIR path x s = Some (syscall_vfs_rmdir ce path s)"
| "run_path ce c path x s = None"

fun path_call :: "vfs_cmd \<Rightarrow> byte list \<Rightarrow> (nat \<Rightarrow> u64) \<Rightarrow> os_call option" where
  "path_call VFS_OPEN path x = Some (Open (Some path) (u64_to_int (x 1)) (u64_to_int (x 2)))"
| "path_call VFS_ACCESS path x = Some (Access (Some path) (u64_to_int (x 1)))"
| "path_call VFS_MKDIR path x = Some (Mkdir (Some path) (u64_to_int (x 1)))"
| "path_call VFS_RMDIR path x = Some (Rmdir (Some path))"
| "path_call c path x = None"

section \<open>The architecture\<close>

text \<open>
  The functions are called with the argument registers; \<open>umem\<close> is the memory of the application, kept
  with its registers.
\<close>

locale scall_memory = scall_arch ce env a arg ret_of conv
  for ce :: "'w supp core_env" and env and a :: "('r, u64, 'w supp) arch" and arg and ret_of and conv +
  fixes umem :: "'r \<Rightarrow> u64 \<Rightarrow> byte" and set_umem :: "(u64 \<Rightarrow> byte) \<Rightarrow> 'r \<Rightarrow> 'r"
  assumes path_law: "cstring_at (umem regs) (arg regs 0) path \<Longrightarrow> length path + 1 < 2 ^ 64 \<Longrightarrow>
      run_path ce c path (arg regs) (core_state t) = Some (r, s) \<Longrightarrow>
      scall_do_call a (Vfs c) regs t = (int_to_u64 r, regs, t\<lparr>core_state := s\<rparr>)"
    and write_reg_law: "syscall_vfs_write ce (u64_to_int (arg regs 0))
        (mem_bytes (umem regs) (arg regs 1) (unat (arg regs 2))) (arg regs 2) (core_state t) = (v, s) \<Longrightarrow>
      scall_do_call a (Vfs VFS_WRITE) regs t = (v, regs, t\<lparr>core_state := s\<rparr>)"
    and read_reg_law: "syscall_vfs_read ce (u64_to_int (arg regs 0)) (arg regs 2) (core_state t) = ((v, data), s) \<Longrightarrow>
      scall_do_call a (Vfs VFS_READ) regs t =
        (v, case data of None \<Rightarrow> regs | Some bs \<Rightarrow> set_umem (store_bytes (umem regs) (arg regs 1) bs) regs,
         t\<lparr>core_state := s\<rparr>)"
    and umem_set: "umem (set_umem m regs) = m"
    and umem_ret: "umem (scall_set_retval a v regs) = umem regs"
begin

lemma path_stub:
  assumes stub: "scall_get_max_args a regs = utee_vfs c" and call: "path_call c path (arg regs) = Some oc"
    and path: "cstring_at (umem regs) (arg regs 0) path" "length path + 1 < 2 ^ 64"
    and inv: "supp_inv (core_state t)" and drv: "shm_alloc_rounds_up (e_os env)"
  shows "\<exists>regs' t' r. scall_handle_user_ta cfg a regs t = (True, regs', t') \<and> ret_of regs' = conv (int_to_u64 r) \<and>
    served (e_os env) oc (\<lambda>q. u64_to_int (o_ret q)) (- 1) (core_state t) r (core_state t')"
proof -
  have z: "0 \<notin> set path" using path(1) by (simp add: cstring_at_def)
  obtain r u where run: "run_path ce c path (arg regs) (core_state t) = Some (r, u)"
    and served: "served (e_os env) oc (\<lambda>q. u64_to_int (o_ret q)) (- 1) (core_state t) r u"
    using call path_calls [OF inv drv z path(2)] by (cases c) fastforce+
  have "scall_do_call a (Vfs c) regs t1 = (int_to_u64 r, regs, t1\<lparr>core_state := u\<rparr>)"
    if "core_state t1 = core_state t" for t1
    by (rule path_law [OF path]) (simp add: that run)
  from vfs_handled [OF stub this] ret_law served show ?thesis by metis
qed

lemma write_stub:
  assumes stub: "scall_get_max_args a regs = utee_vfs VFS_WRITE"
    and inv: "supp_inv (core_state t)" and drv: "shm_alloc_rounds_up (e_os env)"
  shows "\<exists>regs' t' v. scall_handle_user_ta cfg a regs t = (True, regs', t') \<and> ret_of regs' = conv v \<and>
    served (e_os env)
      (Write (u64_to_int (arg regs 0)) (Some (mem_bytes (umem regs) (arg regs 1) (unat (arg regs 2)))) (arg regs 2))
      (\<lambda>q. int_to_u64 (u64_to_int (o_ret q))) (- 1) (core_state t) v (core_state t')"
proof -
  let ?buf = "mem_bytes (umem regs) (arg regs 1) (unat (arg regs 2))"
  obtain v u where run: "syscall_vfs_write ce (u64_to_int (arg regs 0)) ?buf (arg regs 2) (core_state t) = (v, u)"
    by fastforce
  have "scall_do_call a (Vfs VFS_WRITE) regs t1 = (v, regs, t1\<lparr>core_state := u\<rparr>)"
    if "core_state t1 = core_state t" for t1
    by (rule write_reg_law) (use run that in simp)
  from vfs_handled [OF stub this] obtain t' where
    "scall_handle_user_ta cfg a regs t = (True, scall_set_retval a v regs, t')" "core_state t' = u" by blast
  with write_call [OF inv drv _ run] ret_law show ?thesis
    by (intro exI [of _ "scall_set_retval a v regs"] exI [of _ t'] exI [of _ v]) simp
qed

lemma read_stub:
  assumes stub: "scall_get_max_args a regs = utee_vfs VFS_READ"
    and inv: "supp_inv (core_state t)" and drv: "shm_alloc_rounds_up (e_os env)"
    and q: "\<And>w. length (o_out (fst (e_os env (Read (u64_to_int (arg regs 0)) True (arg regs 2)) w))) \<le> unat (arg regs 2)"
  shows "\<exists>regs' t' v. scall_handle_user_ta cfg a regs t = (True, regs', t') \<and> ret_of regs' = conv v \<and>
    (v = - 1 \<and> umem regs' = umem regs \<and>
        shm_run (e_os env) {} (world (core_state t)) {} (world (core_state t')) \<or>
     (\<exists>q. one_call (e_os env) (Read (u64_to_int (arg regs 0)) True (arg regs 2))
          (world (core_state t)) q (world (core_state t')) \<and> v = o_ret q \<and>
        umem regs' = store_bytes (umem regs) (arg regs 1)
          (o_out q @ replicate (unat (arg regs 2) - length (o_out q)) 0)))"
proof -
  obtain v data u where run: "syscall_vfs_read ce (u64_to_int (arg regs 0)) (arg regs 2) (core_state t) = ((v, data), u)"
    by (metis prod.exhaust)
  define regs1 where
    "regs1 = (case data of None \<Rightarrow> regs | Some bs \<Rightarrow> set_umem (store_bytes (umem regs) (arg regs 1) bs) regs)"
  have "scall_do_call a (Vfs VFS_READ) regs t1 = (v, regs1, t1\<lparr>core_state := u\<rparr>)"
    if "core_state t1 = core_state t" for t1
    unfolding regs1_def by (rule read_reg_law) (use run that in simp)
  from vfs_handled [OF stub this] obtain t' where
    t': "scall_handle_user_ta cfg a regs t = (True, scall_set_retval a v regs1, t')" "core_state t' = u" by blast
  have m: "umem (scall_set_retval a v regs1) =
      (case data of None \<Rightarrow> umem regs | Some bs \<Rightarrow> store_bytes (umem regs) (arg regs 1) bs)"
    by (simp add: umem_ret umem_set regs1_def split: option.split)
  show ?thesis
    using read_call [OF inv drv q run] t' ret_law m unfolding served_def
    by (intro exI [of _ "scall_set_retval a v regs1"] exI [of _ t'] exI [of _ v]) auto
qed

end

section \<open>A register file with a memory\<close>

record mem_regfile = regfile +
  x_mem :: "u64 \<Rightarrow> byte"

text \<open>The bytes up to the first zero.\<close>

definition mem_cstring :: "(u64 \<Rightarrow> byte) \<Rightarrow> u64 \<Rightarrow> nat \<Rightarrow> byte list" where
  "mem_cstring m p n = takeWhile (\<lambda>b. b \<noteq> 0) (mem_bytes m p n)"

lemma mem_cstring_at:
  assumes "cstring_at m p bs" and "length bs < n"
  shows "mem_cstring m p n = bs"
proof -
  have "mem_bytes m p n = mem_bytes m p (Suc (length bs)) @ map (\<lambda>i. m (p + word_of_nat i)) [Suc (length bs)..<n]"
    using assms(2) upt_add_eq_append [of 0 "Suc (length bs)" "n - Suc (length bs)"]
    by (simp add: mem_bytes_def flip: map_append del: upt_Suc map_append)
  with assms(1) have "mem_bytes m p n = bs @ 0 # map (\<lambda>i. m (p + word_of_nat i)) [Suc (length bs)..<n]" "\<forall>b \<in> set bs. b \<noteq> 0"
    by (auto simp: cstring_at_def)
  then show ?thesis by (simp add: mem_cstring_def takeWhile_append2)
qed

definition memory_arch :: "'w supp core_env \<Rightarrow> (mem_regfile, u64, 'w supp) arch" where
  "memory_arch ce =
     \<lparr>scall_get_max_args = (\<lambda>r. (x_num r, x_args r)), scall_set_retval = (\<lambda>v r. r\<lparr>x_ret := v\<rparr>),
      of_result = uint_to_u64,
      scall_do_call = (\<lambda>f r t.
        case f of
          Vfs c \<Rightarrow>
            (case run_scalar ce c (x_arg r) (core_state t) of
               Some (v, s) \<Rightarrow> (v, r, t\<lparr>core_state := s\<rparr>)
             | None \<Rightarrow>
                 (case run_path ce c (mem_cstring (x_mem r) (x_arg r 0) (2 ^ 64)) (x_arg r) (core_state t) of
                    Some (v, s) \<Rightarrow> (int_to_u64 v, r, t\<lparr>core_state := s\<rparr>)
                  | None \<Rightarrow>
                      if c = VFS_WRITE then
                        let (v, s) = syscall_vfs_write ce (u64_to_int (x_arg r 0))
                              (mem_bytes (x_mem r) (x_arg r 1) (unat (x_arg r 2))) (x_arg r 2) (core_state t)
                        in (v, r, t\<lparr>core_state := s\<rparr>)
                      else if c = VFS_READ then
                        let ((v, data), s) = syscall_vfs_read ce (u64_to_int (x_arg r 0)) (x_arg r 2) (core_state t)
                        in (v, case data of None \<Rightarrow> r | Some bs \<Rightarrow> r\<lparr>x_mem := store_bytes (x_mem r) (x_arg r 1) bs\<rparr>,
                            t\<lparr>core_state := s\<rparr>)
                      else (uint_to_u64 TEE_ERROR_GENERIC, r, t)))
        | _ \<Rightarrow> (uint_to_u64 TEE_ERROR_GENERIC, r, t)),
      scall_save_panic_stack = (\<lambda>_ t. t), scall_set_sys_return_regs = (\<lambda>_ _ r. r)\<rparr>"

lemma run_path_no_scalar: "run_path ce c path x s = Some v \<Longrightarrow> run_scalar ce c x s = None"
  by (cases c) simp_all

interpretation mem_arch: scall_memory "direct_env env" env "memory_arch (direct_env env)" x_arg x_ret "\<lambda>v. v"
    x_mem "\<lambda>m r. r\<lparr>x_mem := m\<rparr>"
  for env
proof
  fix c regs t v s m data r path
  let ?a = "memory_arch (direct_env env)"
  show "run_scalar (direct_env env) c (x_arg regs) (core_state t) = Some (v, s) \<Longrightarrow>
      scall_do_call ?a (Vfs c) regs t = (v, regs, t\<lparr>core_state := s\<rparr>)"
    by (simp add: memory_arch_def)
  show "x_ret (scall_set_retval ?a v regs) = v" "x_mem (scall_set_retval ?a v regs) = x_mem regs"
    by (simp_all add: memory_arch_def)
  show "cstring_at (x_mem regs) (x_arg regs 0) path \<Longrightarrow> length path + 1 < 2 ^ 64 \<Longrightarrow>
      run_path (direct_env env) c path (x_arg regs) (core_state t) = Some (r, s) \<Longrightarrow>
      scall_do_call ?a (Vfs c) regs t = (int_to_u64 r, regs, t\<lparr>core_state := s\<rparr>)"
    using mem_cstring_at [of "x_mem regs" "x_arg regs 0" path "2 ^ 64"]
    by (simp add: memory_arch_def run_path_no_scalar)
  show "syscall_vfs_write (direct_env env) (u64_to_int (x_arg regs 0))
        (mem_bytes (x_mem regs) (x_arg regs 1) (unat (x_arg regs 2))) (x_arg regs 2) (core_state t) = (v, s) \<Longrightarrow>
      scall_do_call ?a (Vfs VFS_WRITE) regs t = (v, regs, t\<lparr>core_state := s\<rparr>)"
    by (simp add: memory_arch_def)
  show "syscall_vfs_read (direct_env env) (u64_to_int (x_arg regs 0)) (x_arg regs 2) (core_state t) = ((v, data), s) \<Longrightarrow>
      scall_do_call ?a (Vfs VFS_READ) regs t =
        (v, case data of None \<Rightarrow> regs | Some bs \<Rightarrow> regs\<lparr>x_mem := store_bytes (x_mem regs) (x_arg regs 1) bs\<rparr>,
         t\<lparr>core_state := s\<rparr>)"
    by (simp add: memory_arch_def)
qed simp


section \<open>Properties\<close>


text \<open>C12. The stub of \<open>write\<close> makes the host system write the bytes of the application's memory from the address
  on, as many as asked for, to the descriptor given, in one call.\<close>

theorem write_stub_is_host_call:
  assumes "scall_memory ce env a arg ret_of conv umem set_umem"
    and "scall_get_max_args a regs = utee_vfs VFS_WRITE"
    and "supp_inv (core_state t)" and "shm_alloc_rounds_up (e_os env)"
  shows "\<exists>regs' t' v. scall_handle_user_ta cfg a regs t = (True, regs', t') \<and> ret_of regs' = conv v \<and>
    served (e_os env)
      (Write (u64_to_int (arg regs 0)) (Some (mem_bytes (umem regs) (arg regs 1) (unat (arg regs 2)))) (arg regs 2))
      (\<lambda>q. int_to_u64 (u64_to_int (o_ret q))) (- 1) (core_state t) v (core_state t')"
  by (rule scall_memory.write_stub [OF assms])

text \<open>C36. The stub of \<open>read\<close> puts what the host system read, in one call, into the application's memory at the
  address given, followed by zeros up to the size asked for, and changes no other byte of it.\<close>

theorem read_stub_is_host_call:
  assumes "scall_memory ce env a arg ret_of conv umem set_umem"
    and "scall_get_max_args a regs = utee_vfs VFS_READ"
    and "supp_inv (core_state t)" and "shm_alloc_rounds_up (e_os env)"
    and "\<forall>w. length (o_out (fst (e_os env (Read (u64_to_int (arg regs 0)) True (arg regs 2)) w))) \<le> unat (arg regs 2)"
  shows "\<exists>regs' t' v. scall_handle_user_ta cfg a regs t = (True, regs', t') \<and> ret_of regs' = conv v \<and>
    (v = - 1 \<and> umem regs' = umem regs \<and>
        shm_run (e_os env) {} (world (core_state t)) {} (world (core_state t')) \<or>
     (\<exists>q. one_call (e_os env) (Read (u64_to_int (arg regs 0)) True (arg regs 2))
          (world (core_state t)) q (world (core_state t')) \<and> v = o_ret q \<and>
        umem regs' = store_bytes (umem regs) (arg regs 1)
          (o_out q @ replicate (unat (arg regs 2) - length (o_out q)) 0)))"
  using scall_memory.read_stub [OF assms(1-4)] assms(5) by blast

section \<open>At concrete inputs\<close>

text \<open>The bytes 97 and 0 at address 100.\<close>

definition path_regs :: mem_regfile where
  "path_regs = \<lparr>x_num = TEE_SCN VFS_OPEN, x_args = 3, x_arg = (\<lambda>i. [100, 0, 0] ! i), x_ret = 0,
     x_mem = (\<lambda>a. if a = 100 then 97 else 0)\<rparr>"

definition write_regs :: mem_regfile where
  "write_regs = path_regs\<lparr>x_num := TEE_SCN VFS_WRITE, x_arg := (\<lambda>i. [3, 100, 2] ! i)\<rparr>"

definition read_regs :: mem_regfile where
  "read_regs = path_regs\<lparr>x_num := TEE_SCN VFS_READ, x_arg := (\<lambda>i. [3, 100, 2] ! i)\<rparr>"

lemma path_regs_cstring: "cstring_at (x_mem path_regs) (x_arg path_regs 0) [97]"
  by (simp add: cstring_at_def mem_bytes_def path_regs_def)

lemma idle_core_inv: "supp_inv (core_state idle_core)"
  by (simp add: idle_core_def)

lemmas ref_mem_arch = mem_arch.scall_memory_axioms [of ref_env]


theorem write_stub_is_host_call_witness:
  "\<exists>regs t v. scall_handle_user_ta plain_config (memory_arch ref_ce) write_regs idle_core = (True, regs, t) \<and>
     x_ret regs = v \<and>
     served ref_os (Write 3 (Some [97, 0]) 2) (\<lambda>q. int_to_u64 (u64_to_int (o_ret q))) (- 1) ref_s0 v (core_state t)"
  using write_stub_is_host_call [OF ref_mem_arch _ idle_core_inv ref_env_size, of write_regs]
  by (simp add: idle_core_def) (simp add: write_regs_def path_regs_def memory_arch_def mem_bytes_def upt_rec)

theorem read_stub_is_host_call_witness:
  "\<exists>regs t v. scall_handle_user_ta plain_config (memory_arch ref_ce) read_regs idle_core = (True, regs, t) \<and>
     x_ret regs = v \<and>
     (v = - 1 \<or> (\<exists>q. one_call ref_os (Read 3 True 2) ref_init q (world (core_state t)) \<and>
        x_mem regs = store_bytes (x_mem read_regs) 100 (o_out q @ replicate (2 - length (o_out q)) 0)))"
proof -
  have r: "scall_get_max_args (memory_arch ref_ce) read_regs = utee_vfs VFS_READ"
    by (simp add: memory_arch_def read_regs_def path_regs_def)
  show ?thesis
    using read_stub_is_host_call [OF ref_mem_arch r idle_core_inv ref_env_size, of plain_config]
      ref.posix_read_out [of 3 2]
    by (simp add: idle_core_def ref_s0_def fresh_supp_def read_regs_def) blast
qed

end
