(* ===== verification/Scall_Numbers.thy ===== *)
theory Scall_Numbers
  imports Core_Scall
begin

text \<open>
  The three places that have to agree for a system call to reach its function: the number a stub of
  \<open>utee_syscalls_asm.S\<close> loads, the place of the function in the table of \<open>kernel/scall.c\<close>, and the
  parameters its prototype in \<open>utee_syscalls.h\<close> declares.
\<close>

text \<open>The function a stub is for, by its name.\<close>

definition function_of :: "string \<Rightarrow> string" where
  "function_of stub =
     (if stub = ''_utee_return'' then ''syscall_sys_return''
      else if stub = ''__utee_panic'' then ''syscall_panic''
      else if stub = ''_utee_cryp_obj_generate_key'' then ''syscall_obj_generate_key''
      else ''syscall_'' @ drop 6 stub)"

text \<open>\<open>__utee_panic\<close> is called from assembler code of the library and has no prototype.\<close>

definition stub_agrees :: "string \<times> string \<times> u64 \<Rightarrow> bool" where
  "stub_agrees x =
     (let (stub, number, n) = x in
      n \<le> TEE_SVC_MAX_ARGS \<and>
      map_of utee_prototypes stub = (if stub = ''__utee_panic'' then None else Some n) \<and>
      (case map_of tee_scn_numbers number of
         None \<Rightarrow> False
       | Some k \<Rightarrow> get_tee_syscall_func k = Sys (function_of stub)))"

text \<open>Every number of the header is taken once, and the table has an entry for each.\<close>

definition scn_values :: "u64 list" where
  "scn_values = map snd tee_scn_numbers @ map TEE_SCN vfs_cmds"

lemma stubs_agree: "list_all stub_agrees utee_stubs"
  by code_simp

lemma scn_values_complete: "distinct scn_values \<and> length scn_values = length tee_syscall_table"
  by (simp add: scn_values_def tee_scn_numbers_def vfs_cmds_def tee_syscall_table_def)

text \<open>The numbers of the retired secure element calls.\<close>

lemma retired_refused: "list_all (\<lambda>k. get_tee_syscall_func k = Not_supported) (map word_of_nat [55..<70])"
  by (simp add: upt_conv_Cons get_tee_syscall_func_def tee_syscall_table_def)


end
