(* ===== verification/Codec_Witnesses.thy ===== *)
theory Codec_Witnesses
  imports Host_Witnesses
begin

text \<open>
  The properties of the hash map and of the codec at concrete inputs: maps of five lists, a cipher that
  adds the first byte of the key, and a pager that does nothing.
\<close>

section \<open>The hash map\<close>

definition map5 :: hashmap where
  "map5 = \<lparr>hm_items = Some (replicate 5 (Some 0)), hm_count = 0, hm_size = 5, hm_load = 1, hm_step = 13\<rparr>"

definition cell_heap :: heap where
  "cell_heap = \<lparr>ints = [1 \<mapsto> 2], blobs = [2 \<mapsto> replicate 16 7], nodes = Map.empty, locals = {}, fresh = 3\<rparr>"

lemma five: "(i :: nat) < 5 \<longleftrightarrow> i = 0 \<or> i = 1 \<or> i = 2 \<or> i = 3 \<or> i = 4"
  by auto

lemma map5_head [simp]: "i < 5 \<Longrightarrow> head map5 i = 0"
  by (simp add: head_def map5_def)

lemma map5_empty [simp]: "nodes h 0 = None \<Longrightarrow> val_at map5 h i = None"
  by (simp add: val_at_def map5_def head_def)

lemma map5_inv: "heap_ok h \<Longrightarrow> hm_inv map5 h"
  unfolding hm_inv_def by (auto simp: map5_def head_def bucket_ok_def val_at_def nodes_null)

lemma cell_heap_ok: "heap_ok cell_heap"
  by (simp add: heap_ok_def cell_heap_def)

theorem hm_refines_map_witness:
  "\<exists>m' h'. hm_set (\<lambda>x. x) ample map5 1 2 cell_heap = ret (1, m', h') \<and> hm_inv m' h' \<and>
     val_at m' h' = [2 \<mapsto> 2] \<and> hm_get m' 1 h' = ret (2, h')"
proof -
  have key: "good_key map5 cell_heap 1 2" by (simp add: good_key_def map5_def cell_heap_def)
  have val: "good_value map5 cell_heap 2 2" by (simp add: good_value_def cell_heap_def)
  have "val_at map5 cell_heap = Map.empty" by (rule ext) (simp add: cell_heap_def)
  then show ?thesis
    using hm_refines_map [OF map5_inv [OF cell_heap_ok] key val key, of "\<lambda>x. x"] by simp
qed

text \<open>A chain of two items, for the numbers 0 and 5; the key asked for is 9.\<close>

definition chain_heap :: heap where
  "chain_heap = \<lparr>ints = [1 \<mapsto> 0, 2 \<mapsto> 5, 3 \<mapsto> 9], blobs = Map.empty,
     nodes = [4 \<mapsto> \<lparr>it_key = 1, it_value = 0, it_next = 5\<rparr>, 5 \<mapsto> \<lparr>it_key = 2, it_value = 0, it_next = 0\<rparr>],
     locals = {}, fresh = 6\<rparr>"

theorem get_item_ignores_key_witness:
  "\<exists>h'. get_item 4 3 chain_heap = ret (5, h')"
proof -
  have "links chain_heap 4 [4, 5]" by (simp add: chain_heap_def)
  moreover have "3 \<notin> key_cells chain_heap [4, 5]" by (auto simp: key_cells_def chain_heap_def)
  ultimately show ?thesis
    using get_item_ignores_key [of chain_heap 4 "[4, 5]" 3] by (simp add: key_of_def chain_heap_def)
qed

theorem hm_key_out_of_bounds_witness:
  "hm_get map5 1 (cell_heap\<lparr>ints := [1 \<mapsto> 7]\<rparr>) = Some (Inl OutOfBounds)"
  using hm_key_out_of_bounds [of map5 "replicate 5 (Some 0)" 1 "cell_heap\<lparr>ints := [1 \<mapsto> 7]\<rparr>" 7]
  by (simp add: map5_def)

section \<open>Pages\<close>

definition first_byte :: "byte list \<Rightarrow> byte" where
  "first_byte key = (case key of [] \<Rightarrow> 0 | k # _ \<Rightarrow> k)"

definition toy_enc :: "byte list \<Rightarrow> byte list \<Rightarrow> byte list \<times> byte list" where
  "toy_enc key d = (map (\<lambda>b. b + first_byte key) d, replicate 16 (first_byte key))"

definition tee_out :: "u64 \<Rightarrow> byte list \<Rightarrow> byte list \<Rightarrow> tee_ret" where
  "tee_out hnd out mac = \<lparr>t_res = 0, t_handle = hnd, t_out = out, t_tag = mac\<rparr>"

text \<open>The world is the key that was set last.\<close>

fun toy_tee :: "byte list tee" where
  "toy_tee (TEE_PopulateTransientObject hnd key) w = (tee_out 0 [] [], key)"
| "toy_tee (TEE_AEEncryptFinal op d) w = (tee_out 0 (fst (toy_enc w d)) (snd (toy_enc w d)), w)"
| "toy_tee (TEE_AEDecryptFinal op d mac) w = (tee_out 0 (map (\<lambda>b. b - first_byte w) d) [], w)"
| "toy_tee c w = (tee_out 1 [] [], w)"

definition toy_env :: "byte list codec_env" where
  "toy_env = \<lparr>tee_api = toy_tee, tee_vfs = host_io (\<lambda>_ w. (ok_ret 0, w)) ref_malloc ref_snprintf,
     avail = ample, float_round = (\<lambda>x. x), max_page_size = 65536\<rparr>"

lemma toy_env_sel [simp]:
  "tee_api toy_env = toy_tee" "avail toy_env = ample" "float_round toy_env = (\<lambda>x. x)"
  "max_page_size toy_env = 65536"
  by (simp_all add: toy_env_def)

lemma toy_reset:
  "reset toy_env c e key s = ret (c', s') \<Longrightarrow> tee_world s' = key"
  by (auto simp: reset_def tee_do_def Let_def split: option.splits if_splits)

lemma toy_aead: "aead_ok toy_env toy_enc"
  unfolding aead_ok_def
  by (auto simp: toy_enc_def tee_do_def tee_out_def comp_def dest!: toy_reset)

definition toy_key :: "byte list" where
  "toy_key = replicate 16 1"

definition toy_codec :: Codec where
  "toy_codec = (raw_codec 65536)\<lparr>m_isEncrypted := 1, m_hasReadKey := 1, m_readKey := Some toy_key,
     m_hasWriteKey := 1, m_writeKey := Some toy_key, test_op_handle := Some 0, test_key_handle := Some 0,
     m_bt := Some 3\<rparr>"

lemma toy_codec_sel [simp]:
  "codec_ready toy_codec" "m_readKey toy_codec = Some toy_key" "m_writeKey toy_codec = Some toy_key"
  "m_isEncrypted toy_codec = 1" "m_hasReadKey toy_codec = 1" "m_bt toy_codec = Some 3"
  by (simp_all add: toy_codec_def codec_ready_def)

definition no_tags :: "byte list cstate" where
  "no_tags = \<lparr>tags = Some map5,
     heap_of = \<lparr>ints = Map.empty, blobs = Map.empty, nodes = Map.empty, locals = {}, fresh = 1\<rparr>, tee_world = []\<rparr>"

lemma no_tags_inv: "hm_inv map5 (heap_of no_tags)"
  by (rule map5_inv) (simp add: heap_ok_def no_tags_def)

definition page_bytes :: "byte list" where
  "page_bytes = replicate 24 7"

lemma toy_encrypts:
  "\<exists>c' d' s'. CodecEncrypt toy_env toy_codec 2 page_bytes 24 1 no_tags = ret (c', d', s')"
proof -
  obtain pp h1 where 1: "local_int 2 (heap_of no_tags) = (pp, h1)" by fastforce
  obtain mp h2 where 2: "local_blob (replicate 16 0) h1 = (mp, h2)" by fastforce
  obtain c' t where run: "CodecAES toy_env toy_codec CODEC_TYPE 1 (Some toy_key) (subbytes page_bytes 0 24)
      (replicate 16 0) 1 (no_tags\<lparr>heap_of := h2\<rparr>) =
      ret (c', fst (toy_enc toy_key (subbytes page_bytes 0 24)), snd (toy_enc toy_key (subbytes page_bytes 0 24)), t)"
    and t: "heap_of t = h2" "tags t = tags no_tags"
    by (rule aes_encrypt [OF toy_aead, of toy_codec 1 toy_key "Some toy_key" "subbytes page_bytes 0 24"
          "replicate 16 0" "no_tags\<lparr>heap_of := h2\<rparr>"]) auto
  have pp: "pp = 1" "mp = 2" "tags t = Some map5"
    "heap_of t = \<lparr>ints = [1 \<mapsto> 2], blobs = [2 \<mapsto> replicate 16 0], nodes = Map.empty, locals = {2, 1}, fresh = 3\<rparr>"
    using 1 2 t by (auto simp: local_int_def local_blob_def no_tags_def eval_nat_numeral)
  have tag: "\<exists>u. tag_set toy_env pp mp (put_blob mp mac t) = ret u" for mac
    using pp by (simp add: tag_set_def put_blob_def hm_set_def hash_def lookup_def bucket_def map5_def
        set_item.simps ample_def set_bucket_def Let_def)
  obtain u where "tag_set toy_env pp mp (put_blob mp (snd (toy_enc toy_key (subbytes page_bytes 0 24))) t) = ret u"
    using tag by blast
  with 1 2 run show ?thesis
    by (auto simp: CodecEncrypt_def Let_def page_bytes_def)
qed

text \<open>The map with the tag of page 2.\<close>

definition tagged :: "byte list cstate" where
  "tagged = \<lparr>tags = Some (map5\<lparr>hm_items := Some [Some 0, Some 0, Some 3, Some 0, Some 0], hm_count := 1\<rparr>),
     heap_of = \<lparr>ints = [1 \<mapsto> 2], blobs = [2 \<mapsto> page_tag (toy_enc toy_key) 2 page_bytes],
       nodes = [3 \<mapsto> \<lparr>it_key = 1, it_value = 2, it_next = 0\<rparr>], locals = {}, fresh = 4\<rparr>, tee_world = []\<rparr>"

lemma tagged_inv: "hm_inv (the (tags tagged)) (heap_of tagged)"
proof -
  have "heap_ok (heap_of tagged)" by (simp add: heap_ok_def tagged_def)
  then show ?thesis
    unfolding hm_inv_def
    by (auto simp: tagged_def map5_def head_def bucket_ok_def val_at_def five)
qed


theorem encrypted_page_unreadable_witness:
  "\<exists>c' data' s'. CodecEncrypt toy_env toy_codec 2 page_bytes 24 1 no_tags = ret (c', data', s') \<and>
     CodecDecrypt toy_env toy_codec 2 data' 24 s' = Some (Inl UseAfterFree)"
proof -
  obtain c' d' s' where e: "CodecEncrypt toy_env toy_codec 2 page_bytes 24 1 no_tags = ret (c', d', s')"
    using toy_encrypts by blast
  have "CodecDecrypt toy_env toy_codec 2 d' 24 s' = Some (Inl UseAfterFree)"
    by (rule encrypted_page_unreadable [OF _ _ no_tags_inv _ _ _ _ e])
      (simp_all add: no_tags_def map5_def will_grow_def val_at_def head_def)
  with e show ?thesis by blast
qed

section \<open>Keys\<close>

text \<open>A pager with one codec, whose database has one page; \<open>rc\<close> is the result of the commit.\<close>

definition toy_sqlite :: "int \<Rightarrow> byte list sqlite_env" where
  "toy_sqlite rc =
     \<lparr>codec_e = toy_env, sq_malloc = (\<lambda>_. True), btree_pager = (\<lambda>b. b), page_size = (\<lambda>_ _. 24),
      pager_get_codec = (\<lambda>_ _. 1), pager_set_codec = (\<lambda>_ _ s. s), begin_trans = (\<lambda>_ s. (0, s)),
      page_count = (\<lambda>_ s. (0, s)), page_get = (\<lambda>_ _ s. ((0, 1), s)), page_write = (\<lambda>_ s. (0, s)),
      page_unref = (\<lambda>_ s. s), bt_commit = (\<lambda>_ s. (rc, s)), bt_rollback = (\<lambda>_ s. s), pending_byte = 2 ^ 30\<rparr>"

definition toy_dbs :: "sqlite_db list" where
  "toy_dbs = [\<lparr>db_name = main_name, db_bt = 3\<rparr>]"

definition toy_ext :: "byte list ext" where
  "toy_ext = \<lparr>cs = no_tags, codecs = [1 \<mapsto> toy_codec], next_codec = 2\<rparr>"

lemma toy_keeps: "sqlite_keeps (toy_sqlite rc)"
  by (simp add: sqlite_keeps_def toy_sqlite_def)

definition new_key :: "byte list" where
  "new_key = replicate 16 2"

lemma toy_rekey:
  "\<exists>s'. sqlite3_rekey_v2 (toy_sqlite 0) toy_dbs None (Some new_key) 16 toy_ext = ret (SQLITE_OK, s')"
  by (simp add: sqlite3_rekey_v2_def dbFindIndex_def db_at_def toy_dbs_def rekey_prepare_def toy_sqlite_def
      get_c_def lookup_def toy_ext_def CodecIsEncrypted_def CodecGenerateWriteKey_def CodecSetHasWriteKey_def
      CodecGenerateEncryptionKey_def new_key_def put_c_def rekey_pages_def rekey_loop.simps rekey_finish_def
      CodecHasWriteKey_def CodecCopyKey_def CodecSetHasReadKey_def)


lemma toy_unkey:
  "\<exists>s'. sqlite3_rekey_v2 (toy_sqlite 5) toy_dbs None None 0 toy_ext = ret (5, s')"
  by (simp add: sqlite3_rekey_v2_def dbFindIndex_def db_at_def toy_dbs_def rekey_prepare_def toy_sqlite_def
      get_c_def lookup_def toy_ext_def CodecIsEncrypted_def CodecSetHasWriteKey_def
      put_c_def rekey_pages_def rekey_loop.simps rekey_finish_def CodecHasReadKey_def
      CodecHasWriteKey_def CodecCopyKey_def CodecSetHasReadKey_def)

theorem failed_decryption_writes_plaintext_witness:
  "\<exists>s'. sqlite3_rekey_v2 (toy_sqlite 5) toy_dbs None None 0 toy_ext = ret (5, s') \<and>
     sqlite3Codec (toy_sqlite 5) 1 page_bytes 2 6 s' = ret (In_place page_bytes, s')"
proof -
  obtain s' where r: "sqlite3_rekey_v2 (toy_sqlite 5) toy_dbs None None 0 toy_ext = ret (5, s')"
    using toy_unkey by blast
  have "sqlite3Codec (toy_sqlite 5) 1 page_bytes 2 6 s' = ret (In_place page_bytes, s')"
    by (rule failed_decryption_writes_plaintext [where c = toy_codec, OF toy_keeps refl _ _ _ _ _ _ r])
      (simp_all add: toy_sqlite_def toy_ext_def toy_dbs_def dbFindIndex_def)
  with r show ?thesis by blast
qed

lemma toy_attach:
  "\<exists>s'. sqlite3CodecAttach (toy_sqlite 0) toy_dbs 0 (Some new_key) 16 toy_ext = ret (SQLITE_OK, s')"
  by (simp add: sqlite3CodecAttach_def new_codec_def toy_sqlite_def get_c_def lookup_def toy_ext_def
      CodecGenerateReadKey_def CodecGenerateEncryptionKey_def new_key_def db_at_def toy_dbs_def put_c_def)

theorem attached_codec_uninitialised_witness:
  "\<exists>s'. sqlite3CodecAttach (toy_sqlite 0) toy_dbs 0 (Some new_key) 16 toy_ext = ret (SQLITE_OK, s') \<and>
     sqlite3Codec (toy_sqlite 0) 2 page_bytes 2 6 s' = Some (Inl UninitRead)"
proof -
  obtain s' where r: "sqlite3CodecAttach (toy_sqlite 0) toy_dbs 0 (Some new_key) 16 toy_ext = ret (SQLITE_OK, s')"
    using toy_attach by blast
  have "sqlite3Codec (toy_sqlite 0) (next_codec toy_ext) page_bytes 2 6 s' = Some (Inl UninitRead)"
    by (rule attached_codec_uninitialised [OF r]) (simp_all add: toy_sqlite_def toy_ext_def page_bytes_def)
  with r show ?thesis by (auto simp: toy_ext_def)
qed

end
