(* ===== verification/Hashmap_Clear.thy ===== *)
theory Hashmap_Clear
  imports Hashmap_Props
begin

text \<open>
  The end of the hash map: \<open>hm_clear\<close> and \<open>hm_delete\<close> on a map within its limits give back the nodes,
  the cells of the keys and the values of the entries, each once, and nothing else.
\<close>

section \<open>What the entries own\<close>

definition entry_nodes :: "hashmap \<Rightarrow> heap \<Rightarrow> nat set \<Rightarrow> nat set" where
  "entry_nodes m h I = {p. \<exists>i \<in> I. p = head m i \<and> nodes h (head m i) \<noteq> None}"

definition entry_keys :: "hashmap \<Rightarrow> heap \<Rightarrow> nat set \<Rightarrow> nat set" where
  "entry_keys m h I = {p. \<exists>i \<in> I. \<exists>n. nodes h (head m i) = Some n \<and> p = it_key n}"

definition entry_values :: "hashmap \<Rightarrow> heap \<Rightarrow> nat set \<Rightarrow> nat set" where
  "entry_values m h I = {p. \<exists>i \<in> I. \<exists>n. nodes h (head m i) = Some n \<and> p = it_value n}"

text \<open>The heap without them.\<close>

definition release :: "hashmap \<Rightarrow> heap \<Rightarrow> nat set \<Rightarrow> heap" where
  "release m h I =
     h\<lparr>nodes := nodes h |` (- entry_nodes m h I), ints := ints h |` (- entry_keys m h I),
       blobs := blobs h |` (- entry_values m h I)\<rparr>"

lemmas entry_defs = entry_nodes_def entry_keys_def entry_values_def

lemma restrict_UNIV [simp]: "f |` UNIV = f"
  by (simp add: restrict_map_def)

lemma release_empty [simp]: "release m h {} = h"
  by (simp add: release_def entry_defs)

lemma release_null: "nodes h (head m i) = None \<Longrightarrow> release m h {i} = h"
  by (simp add: release_def entry_defs)

lemma entry_single:
  "nodes h (head m i) = Some n \<Longrightarrow> entry_nodes m h {i} = {head m i}"
  "nodes h (head m i) = Some n \<Longrightarrow> entry_keys m h {i} = {it_key n}"
  "nodes h (head m i) = Some n \<Longrightarrow> entry_values m h {i} = {it_value n}"
  by (auto simp: entry_defs)

lemma entry_insert:
  "entry_nodes m h (insert i I) = entry_nodes m h {i} \<union> entry_nodes m h I"
  "entry_keys m h (insert i I) = entry_keys m h {i} \<union> entry_keys m h I"
  "entry_values m h (insert i I) = entry_values m h {i} \<union> entry_values m h I"
  by (auto simp: entry_defs)

section \<open>One list\<close>

text \<open>The functions \<open>free_value\<close> considered: none, and one that calls \<open>TEE_Free\<close>.\<close>

definition frees_value :: "(nat \<Rightarrow> heap \<Rightarrow> heap run) option \<Rightarrow> bool" where
  "frees_value fv \<longleftrightarrow> (case fv of None \<Rightarrow> True | Some f \<Rightarrow> f = free_blob)"

lemma bucket_node:
  assumes "hm_inv m h" and "i < unat (hm_size m)" and "head m i \<noteq> 0"
  obtains n where "nodes h (head m i) = Some n" "it_next n = 0" "it_key n \<noteq> 0" "it_key n \<notin> locals h"
    "ints h (it_key n) = Some (word_of_nat i)" "unat (word_of_nat i :: s32) = i" "0 < i"
    "it_value n \<noteq> 0" "it_value n \<notin> locals h" "blobs h (it_value n) \<noteq> None" "head m i \<notin> locals h"
    "val_at m h i = Some (it_value n)"
proof (rule bucket_ok_key [OF bucket_head(2) [OF assms(1,2)] assms(3) size_bound [OF assms(2)]])
qed (use assms(2) that in \<open>auto simp: val_at_def\<close>)

lemma remove_items_bucket:
  assumes inv: "hm_inv m h" and i: "i < unat (hm_size m)" and fv: "frees_value fv"
  shows "\<exists>c'. remove_items (head m i) fv c h = ret (0, c', release m h {i})"
proof (cases "head m i = 0")
  case True
  moreover have "nodes h 0 = None" by (rule nodes_null) (use inv in \<open>simp add: hm_inv_def\<close>)
  ultimately show ?thesis by (simp add: remove_items.simps release_null)
next
  case False
  obtain n where n: "nodes h (head m i) = Some n" "it_next n = 0" "it_key n \<noteq> 0" "it_key n \<notin> locals h"
    "ints h (it_key n) = Some (word_of_nat i)" "it_value n \<noteq> 0" "it_value n \<notin> locals h"
    "blobs h (it_value n) \<noteq> None" "head m i \<notin> locals h"
    by (rule bucket_node [OF inv i False])
  show ?thesis
    using n fv False
    by (subst remove_items.simps)
      (auto simp: release_def entry_single free_blob_def free_key_def free_node_def may_free_def
        frees_value_def restrict_complement_singleton_eq split: option.splits)
qed

text \<open>The other entries stay.\<close>

lemma release_others:
  assumes inv: "hm_inv m h" and i: "i < unat (hm_size m)" and j: "j < unat (hm_size m)" "j \<noteq> i"
  shows "nodes (release m h {i}) (head m j) = nodes h (head m j)" and "bucket_ok (release m h {i}) j (head m j)"
proof -
  have ok: "nodes h 0 = None" by (rule nodes_null) (use inv in \<open>simp add: hm_inv_def\<close>)
  have "nodes (release m h {i}) (head m j) = nodes h (head m j) \<and> bucket_ok (release m h {i}) j (head m j)"
  proof (cases "head m i = 0 \<or> head m j = 0")
    case True
    then show ?thesis
      using ok bucket_head(2) [OF inv j(1)]
      by (auto simp: release_null bucket_ok_def) (simp add: release_def restrict_map_def)
  next
    case False
    obtain n where n: "nodes h (head m i) = Some n" "ints h (it_key n) = Some (word_of_nat i)"
      "unat (word_of_nat i :: s32) = i" "val_at m h i = Some (it_value n)"
      by (rule bucket_node [OF inv i]) (use False in auto)
    obtain l where l: "nodes h (head m j) = Some l" "ints h (it_key l) = Some (word_of_nat j)"
      "unat (word_of_nat j :: s32) = j" "val_at m h j = Some (it_value l)"
      by (rule bucket_node [OF inv j(1)]) (use False in auto)
    have "it_key l \<noteq> it_key n" "head m j \<noteq> head m i" using l n j(2) by auto
    moreover have "it_value l \<noteq> it_value n" using distinct_values [OF inv j(2)] l(4) n(4) by auto
    ultimately show ?thesis
      using bucket_head(2) [OF inv j(1)] l(1) n(1) by (auto simp: release_def entry_single bucket_ok_def)
  qed
  then show "nodes (release m h {i}) (head m j) = nodes h (head m j)"
    and "bucket_ok (release m h {i}) j (head m j)" by auto
qed


section \<open>All lists\<close>

lemma heap_ok_release: "heap_ok h \<Longrightarrow> heap_ok (release m h I)"
  by (auto simp: heap_ok_def release_def restrict_map_def dom_def)

lemma release_bucket:
  assumes inv: "hm_inv m h" and i: "i < unat (hm_size m)"
  shows "hm_inv (with_head m i 0) (release m h {i})" and "head (with_head m i 0) j = (if j = i then 0 else head m j)"
    and "hm_size (with_head m i 0) = hm_size m"
proof -
  have ok: "heap_ok (release m h {i})" by (rule heap_ok_release) (use inv in \<open>simp add: hm_inv_def\<close>)
  have new: "bucket_ok (release m h {i}) i 0" by (simp add: bucket_ok_def)
  have "hm_inv (with_head m i 0\<lparr>hm_count := hm_count m\<rparr>) (release m h {i})"
    using hm_inv_change(1) [OF inv i ok new, of "hm_count m"] release_others [OF inv i] by auto
  then show "hm_inv (with_head m i 0) (release m h {i})" by (simp add: with_head_def)
  obtain xs where "hm_items m = Some xs" "unat (hm_size m) \<le> length xs" using inv by (auto simp: hm_inv_def)
  with i show "head (with_head m i 0) j = (if j = i then 0 else head m j)" by (simp add: head_def with_head_def)
  show "hm_size (with_head m i 0) = hm_size m" by (simp add: with_head_def)
qed

lemma release_release:
  assumes inv: "hm_inv m h" and i: "i < unat (hm_size m)" and J: "J \<subseteq> {..<unat (hm_size m)}" "i \<notin> J"
  shows "release (with_head m i 0) (release m h {i}) J = release m h (insert i J)"
proof -
  have eq: "head (with_head m i 0) j = head m j" "nodes (release m h {i}) (head m j) = nodes h (head m j)" if "j \<in> J" for j
    using that J release_bucket(2) [OF inv i] release_others(1) [OF inv i] by auto
  have "entry_nodes (with_head m i 0) (release m h {i}) J = entry_nodes m h J"
    "entry_keys (with_head m i 0) (release m h {i}) J = entry_keys m h J"
    "entry_values (with_head m i 0) (release m h {i}) J = entry_values m h J"
    by (simp_all add: entry_defs eq cong: bex_cong)
  then have "release (with_head m i 0) (release m h {i}) J =
      (release m h {i})\<lparr>nodes := nodes (release m h {i}) |` (- entry_nodes m h J),
        ints := ints (release m h {i}) |` (- entry_keys m h J),
        blobs := blobs (release m h {i}) |` (- entry_values m h J)\<rparr>"
    by (simp only: release_def [of "with_head m i 0"])
  then show ?thesis
    by (simp add: release_def [of m h] entry_insert [of m h i J])
qed

lemma clear_buckets_spec:
  assumes "hm_inv m h" and "set ks \<subseteq> {..<unat (hm_size m)}" and "distinct ks" and fv: "frees_value fv"
  shows "\<exists>c' m'. clear_buckets fv ks c m h = ret (c', m', release m h (set ks)) \<and>
    hm_inv m' (release m h (set ks)) \<and> hm_size m' = hm_size m \<and>
    (\<forall>j. head m' j = (if j \<in> set ks then 0 else head m j))"
  using assms(1-3)
proof (induction ks arbitrary: c m h)
  case Nil
  then show ?case by simp
next
  case (Cons i ks)
  then have i: "i < unat (hm_size m)" by simp
  note b = bucket_head [OF Cons.prems(1) i]
  note r = release_bucket [OF Cons.prems(1) i]
  obtain c1 where c1: "remove_items (head m i) fv c h = ret (0, c1, release m h {i})"
    using remove_items_bucket [OF Cons.prems(1) i fv] by blast
  have "clear_buckets fv (i # ks) c m h = clear_buckets fv ks c1 (with_head m i 0) (release m h {i})"
    using b c1 by (simp add: with_head_def)
  moreover have "release (with_head m i 0) (release m h {i}) (set ks) = release m h (set (i # ks))"
    using release_release [OF Cons.prems(1) i, of "set ks"] Cons.prems(2,3) by simp
  moreover obtain c' m' where "clear_buckets fv ks c1 (with_head m i 0) (release m h {i}) =
      ret (c', m', release (with_head m i 0) (release m h {i}) (set ks))"
    "hm_inv m' (release (with_head m i 0) (release m h {i}) (set ks))" "hm_size m' = hm_size m"
    "\<forall>j. head m' j = (if j \<in> set ks then 0 else head (with_head m i 0) j)"
    using Cons.IH [OF r(1), of c1] Cons.prems(2,3) r(3) by auto
  ultimately show ?case
    using r(2) by (intro exI [of _ c'] exI [of _ m']) auto
qed

lemma hm_clear_spec:
  assumes "hm_inv m h" and "frees_value fv"
  shows "\<exists>m'. hm_clear fv m h = ret (1, m', release m h {..<unat (hm_size m)}) \<and>
    (\<forall>i < unat (hm_size m). head m' i = 0)"
proof -
  have "set [0..<unat (hm_size m)] = {..<unat (hm_size m)}" by auto
  with clear_buckets_spec [OF assms(1) _ _ assms(2), of "[0..<unat (hm_size m)]" 0] show ?thesis
    by (fastforce simp: hm_clear_def head_def)
qed

lemma hm_delete_spec:
  assumes "hm_inv m h" and "frees_value fv"
  shows "hm_delete fv m h = ret (1, release m h {..<unat (hm_size m)})"
  using hm_clear_spec [OF assms] by (auto simp: hm_delete_def)

section \<open>Property\<close>

text \<open>C40. \<open>hm_delete\<close> on a map within its limits returns and leaves nothing behind: the node, the cell of the
  key and the value of every entry are released, each exactly once, and no other object is touched.\<close>

theorem hm_delete_releases_entries:
  assumes "hm_inv m h" and "frees_value fv"
  shows "\<exists>h'. hm_delete fv m h = ret (1, h') \<and>
    dom (nodes h') = dom (nodes h) - entry_nodes m h {..<unat (hm_size m)} \<and>
    dom (ints h') = dom (ints h) - entry_keys m h {..<unat (hm_size m)} \<and>
    dom (blobs h') = dom (blobs h) - entry_values m h {..<unat (hm_size m)} \<and>
    nodes h' \<subseteq>\<^sub>m nodes h \<and> ints h' \<subseteq>\<^sub>m ints h \<and> blobs h' \<subseteq>\<^sub>m blobs h \<and>
    locals h' = locals h \<and> fresh h' = fresh h"
  unfolding hm_delete_spec [OF assms] by (auto simp: release_def map_le_def)

end
