(* ===== verification/Codec_Tags.thy ===== *)
theory Codec_Tags
  imports Codec_Props Hashmap_Clear
begin

text \<open>
  The file of tags, \<open>closeMap\<close> and \<open>createMap\<close> of \<open>codec.c\<close>: what the one writes when the database is
  closed, the other reads when it is opened again.  A record is the number of a page, 4 bytes, and the
  tag, 16 bytes.
\<close>

section \<open>Records\<close>

lemma length_int_bytes [simp]: "length (int_bytes x) = 4"
  by (simp add: int_bytes_def)

lemma byte_position:
  assumes "(n :: nat) < 32"
  obtains "n < 8" | k where "n = 8 + k" "k < 8" | k where "n = 16 + k" "k < 8" | k where "n = 24 + k" "k < 8"
proof (cases "n < 8 \<or> n < 16 \<or> n < 24")
  case True
  then show thesis using that(1) that(2) [of "n - 8"] that(3) [of "n - 16"] by (cases "n < 8"; cases "n < 16") auto
next
  case False
  then show thesis using assms that(4) [of "n - 24"] by auto
qed

lemma bytes_int_bytes [simp]: "bytes_int (int_bytes x) = x"
proof -
  let ?b = "\<lambda>k. ucast (ucast (drop_bit k x) :: byte) :: s32"
  have "bytes_int (int_bytes x) = ?b 0 OR push_bit 8 (?b 8 OR push_bit 8 (?b 16 OR push_bit 8 (?b 24)))"
    by (simp add: bytes_int_def int_bytes_def upt_rec)
  also have "\<dots> = x"
  proof (rule bit_word_eqI)
    fix n :: nat
    assume "n < LENGTH(32)"
    then consider "n < 8" | k where "n = 8 + k" "k < 8" | k where "n = 16 + k" "k < 8" | k where "n = 24 + k" "k < 8"
      using byte_position [of n] by auto
    then show "bit (?b 0 OR push_bit 8 (?b 8 OR push_bit 8 (?b 16 OR push_bit 8 (?b 24)))) n \<longleftrightarrow> bit x n"
      by cases (simp_all add: bit_simps)
  qed
  finally show ?thesis .
qed

definition tag_record :: "nat \<times> byte list \<Rightarrow> byte list" where
  "tag_record e = int_bytes (word_of_nat (fst e)) @ snd e"

definition tag_file_of :: "(nat \<times> byte list) list \<Rightarrow> byte list" where
  "tag_file_of es = concat (map tag_record es)"

lemma tag_file_of_simps [simp]:
  "tag_file_of [] = []" "tag_file_of (e # es) = tag_record e @ tag_file_of es"
  by (simp_all add: tag_file_of_def)

text \<open>The tags a map holds, and its entries in the order of the lists.\<close>

definition tag_view :: "hashmap \<Rightarrow> heap \<Rightarrow> nat \<Rightarrow> byte list option" where
  "tag_view m h i = Option.bind (val_at m h i) (\<lambda>v. map_option (take 16) (blobs h v))"

definition tags_long :: "hashmap \<Rightarrow> heap \<Rightarrow> bool" where
  "tags_long m h \<longleftrightarrow> (\<forall>i t. tag_view m h i = Some t \<longrightarrow> length t = 16)"

definition tag_list :: "hashmap \<Rightarrow> heap \<Rightarrow> nat list \<Rightarrow> (nat \<times> byte list) list" where
  "tag_list m h ks = [(i, the (tag_view m h i)). i \<leftarrow> ks, tag_view m h i \<noteq> None]"

abbreviation tag_entries :: "hashmap \<Rightarrow> heap \<Rightarrow> (nat \<times> byte list) list" where
  "tag_entries m h \<equiv> tag_list m h [0..<unat (hm_size m)]"

lemma tag_list_simps [simp]:
  "tag_list m h [] = []"
  "tag_list m h (i # ks) = (case tag_view m h i of None \<Rightarrow> tag_list m h ks | Some t \<Rightarrow> (i, t) # tag_list m h ks)"
  by (auto simp: tag_list_def split: option.split)

lemma map_of_tag_list: "map_of (tag_list m h ks) = tag_view m h |` set ks"
  by (induction ks) (auto simp: fun_eq_iff restrict_map_def split: option.split)

lemma fst_tag_list: "set (map fst (tag_list m h ks)) \<subseteq> set ks"
  by (induction ks) (auto split: option.split)

lemma distinct_tag_list: "distinct ks \<Longrightarrow> distinct (map fst (tag_list m h ks))"
  using fst_tag_list [of m h] by (induction ks) (fastforce split: option.split)+

lemma tag_view_outside: "\<not> i < unat (hm_size m) \<Longrightarrow> tag_view m h i = None"
  by (simp add: tag_view_def val_at_def)

lemma map_of_tag_entries: "map_of (tag_entries m h) = tag_view m h"
  by (auto simp: map_of_tag_list fun_eq_iff restrict_map_def tag_view_outside)

lemma val_blob: "hm_inv m h \<Longrightarrow> val_at m h i = Some v \<Longrightarrow> \<exists>b. blobs h v = Some b"
proof -
  assume inv: "hm_inv m h" and v: "val_at m h i = Some v"
  then have i: "i < unat (hm_size m)" by (simp add: val_at_def split: if_splits)
  have "nodes h 0 = None" by (rule nodes_null) (use inv in \<open>simp add: hm_inv_def\<close>)
  then show ?thesis
    using bucket_head(2) [OF inv i] v i by (auto simp: bucket_ok_def val_at_def)
qed

lemma tag_view_None: "hm_inv m h \<Longrightarrow> tag_view m h i = None \<longleftrightarrow> val_at m h i = None"
  using val_blob [of m h i] by (cases "val_at m h i") (auto simp: tag_view_def)

lemma tag_list_entry:
  assumes "hm_inv m h" and "tags_long m h" and "(i, t) \<in> set (tag_entries m h)"
  shows "0 < i" and "i < unat (hm_size m)" and "length t = 16"
proof -
  have v: "tag_view m h i = Some t"
    using assms(3) distinct_tag_list [of "[0..<unat (hm_size m)]" m h]
    by (simp flip: map_of_tag_entries)
  then show "length t = 16" using assms(2) by (simp add: tags_long_def)
  show i: "i < unat (hm_size m)" using v by (rule contrapos_pp) (simp add: tag_view_outside)
  have "nodes h 0 = None" by (rule nodes_null) (use assms(1) in \<open>simp add: hm_inv_def\<close>)
  with v i show "0 < i"
    using bucket_head(2) [OF assms(1) i] by (auto simp: tag_view_def val_at_def bucket_ok_def bind_eq_Some_conv)
qed


section \<open>The file as an interface\<close>

text \<open>
  What a file system without failures promises of the file of tags: \<open>content s\<close> is what it holds and
  \<open>pos s fd\<close> where the descriptor \<open>fd\<close>, open on it, stands.  Whether an open succeeds is left open.
\<close>

locale tag_file =
  fixes io :: "'s vfs_io" and content :: "'s \<Rightarrow> byte list" and pos :: "'s \<Rightarrow> s32 \<Rightarrow> nat option"
  assumes open_keeps: "io_open io mac_log 0x42 0x1FF s = (fd, t) \<Longrightarrow> 0 \<le> sint fd \<Longrightarrow>
      content t = content s \<and> pos t fd = Some 0"
    and open_truncates: "io_open io mac_log 0x202 0x1FF s = (fd, t) \<Longrightarrow> 0 \<le> sint fd \<Longrightarrow>
      content t = [] \<and> pos t fd = Some 0"
    and write_law: "pos s fd = Some p \<Longrightarrow> length bs \<le> 16 \<Longrightarrow> io_write io fd bs (word_of_nat (length bs)) s = (r, t) \<Longrightarrow>
      content t = overwrite (content s) p bs \<and> pos t fd = Some (p + length bs)"
    and read_law: "pos s fd = Some p \<Longrightarrow> unat n \<le> 16 \<Longrightarrow> io_read io fd n s = ((r, out), t) \<Longrightarrow>
      r = word_of_nat (length (subbytes (content s) p (unat n))) \<and>
      (\<exists>d. out = Some (subbytes (content s) p (unat n) @ d) \<and> length (subbytes (content s) p (unat n) @ d) \<le> unat n) \<and>
      content t = content s \<and> pos t fd = Some (p + length (subbytes (content s) p (unat n)))"
    and seek_law: "pos s fd = Some p \<Longrightarrow> 0 \<le> sint off \<Longrightarrow> io_lseek io fd off 0 s = (r, t) \<Longrightarrow>
      content t = content s \<and> pos t fd = Some (unat off)"
    and close_law: "pos s fd = Some p \<Longrightarrow> io_close io fd s = (rc, t) \<Longrightarrow> content t = content s"

lemma overwrite_end [simp]: "overwrite xs (length xs) ys = xs @ ys"
  by (simp add: overwrite_def fit_def)

text \<open>The list of one bucket has at most one item.\<close>

lemma dump_chain_bucket:
  assumes inv: "hm_inv m h" and long: "tags_long m h" and i: "i < unat (hm_size m)"
  shows "dump_chain wr None (head m i) h w =
    ret (case tag_view m h i of None \<Rightarrow> w | Some t \<Rightarrow> wr t (wr (int_bytes (word_of_nat i)) w))"
proof (cases "head m i = 0")
  case True
  moreover have "nodes h 0 = None" by (rule nodes_null) (use inv in \<open>simp add: hm_inv_def\<close>)
  ultimately show ?thesis by (simp add: dump_chain.simps tag_view_def val_at_def)
next
  case False
  obtain n where n: "nodes h (head m i) = Some n" "it_next n = 0" "it_key n \<noteq> 0"
    "ints h (it_key n) = Some (word_of_nat i)" "it_value n \<noteq> 0" "val_at m h i = Some (it_value n)"
    by (rule bucket_node [OF inv i False])
  obtain b where b: "blobs h (it_value n) = Some b" using val_blob [OF inv n(6)] by blast
  then have v: "tag_view m h i = Some (take 16 b)" using n(6) by (simp add: tag_view_def)
  with long have "length (take 16 b) = 16" unfolding tags_long_def by blast
  then have "16 \<le> length b" by simp
  then show ?thesis
    using False n b v by (subst dump_chain.simps) (simp add: dump_chain.simps [where temp = 0] Let_def)
qed

context tag_file
begin

text \<open>The write of \<open>hm_dump\<close>.\<close>

lemma dump_writes:
  assumes inv: "hm_inv m h" and long: "tags_long m h" and ks: "set ks \<subseteq> {..<unat (hm_size m)}"
    and p: "pos w fd = Some (length (content w))"
  shows "\<exists>w'. dump_buckets (\<lambda>bs w. snd (io_write io fd bs (word_of_nat (length bs)) w)) None ks m h w = ret w' \<and>
    content w' = content w @ tag_file_of (tag_list m h ks) \<and> pos w' fd = Some (length (content w'))"
  using ks p
proof (induction ks arbitrary: w)
  case Nil
  then show ?case by simp
next
  case (Cons i ks)
  let ?wr = "\<lambda>bs w. snd (io_write io fd bs (word_of_nat (length bs)) w)"
  have i: "i < unat (hm_size m)" "set ks \<subseteq> {..<unat (hm_size m)}" using Cons.prems by auto
  note step = bucket_head(1) [OF inv i(1)] dump_chain_bucket [OF inv long i(1), of ?wr w]
  have wr: "content (?wr bs u) = content u @ bs" "pos (?wr bs u) fd = Some (length (content u @ bs))"
    if "pos u fd = Some (length (content u))" "length bs \<le> 16" for u bs
    using write_law [OF that, of "fst (io_write io fd bs (word_of_nat (length bs)) u)" "?wr bs u"] by auto
  show ?case
  proof (cases "tag_view m h i")
    case None
    with step Cons.IH [OF i(2) Cons.prems(2)] show ?thesis by simp
  next
    case (Some t)
    define u where "u = ?wr t (?wr (int_bytes (word_of_nat i)) w)"
    have t: "length t = 16" using long Some by (simp add: tags_long_def)
    have 1: "content (?wr (int_bytes (word_of_nat i)) w) = content w @ int_bytes (word_of_nat i)"
      "pos (?wr (int_bytes (word_of_nat i)) w) fd = Some (length (content (?wr (int_bytes (word_of_nat i)) w)))"
      using wr [OF Cons.prems(2), of "int_bytes (word_of_nat i)"] by simp_all
    have u: "content u = content w @ tag_record (i, t)" "pos u fd = Some (length (content u))"
      using wr [OF 1(2), of t] t 1(1) by (simp_all add: u_def tag_record_def)
    have "dump_buckets ?wr None (i # ks) m h w = dump_buckets ?wr None ks m h u"
      using step Some by (simp add: u_def)
    with Cons.IH [OF i(2) u(2)] u(1) Some show ?thesis by simp
  qed
qed

lemma closeMap_spec:
  assumes "tee_vfs env = io" and "tags s = Some m" and inv: "hm_inv m (heap_of s)" and long: "tags_long m (heap_of s)"
    and count: "hm_counted m (heap_of s)"
    and opens: "0 \<le> sint (fst (io_open io mac_log 0x202 0x1FF (tee_world s)))"
  shows "\<exists>t. closeMap env s = ret t \<and> tags t = None \<and>
    content (tee_world t) = tag_file_of (tag_entries m (heap_of s)) \<and>
    heap_of t = release m (heap_of s) {..<unat (hm_size m)}"
proof -
  obtain fd w where o: "io_open io mac_log 0x202 0x1FF (tee_world s) = (fd, w)" by fastforce
  then have w: "content w = []" "pos w fd = Some 0" using open_truncates [OF o] opens by auto
  let ?wr = "\<lambda>bs w. snd (io_write io fd bs (word_of_nat (length bs)) w)"
  let ?data = "tag_file_of (tag_entries m (heap_of s))"
  obtain w' where w': "hm_dump ?wr None m (heap_of s) w = ret w'" "content w' = ?data" "\<exists>p. pos w' fd = Some p"
  proof (cases "hm_count m = 0")
    case True
    then have "tag_list m (heap_of s) ks = []" for ks
      using counted_empty [OF count] by (simp add: tag_list_def tag_view_def)
    with True w show ?thesis by (intro that [of w]) (simp_all add: hm_dump_def)
  next
    case False
    then show ?thesis
      using dump_writes [OF inv long, of "[0..<unat (hm_size m)]" w fd] w that by (force simp: hm_dump_def)
  qed
  obtain rc v where v: "io_close io fd w' = (rc, v)" by fastforce
  have "content v = ?data" using close_law [OF _ v] w'(2,3) by auto
  moreover have "frees_value (Some free_int)" by (simp add: frees_value_def free_int_def fun_eq_iff)
  ultimately show ?thesis
    using assms(1,2) o w'(1) v by (simp add: closeMap_def hm_delete_spec [OF inv])
qed

end

section \<open>Reading the file\<close>

lemma drop_tag_file:
  "\<forall>e \<in> set es. length (snd e) = 16 \<Longrightarrow> drop (20 * k) (tag_file_of es) = tag_file_of (drop k es)"
proof (induction k arbitrary: es)
  case (Suc k)
  then show ?case
    by (cases es) (simp_all add: tag_file_of_def tag_record_def)
qed simp

lemma subbytes_tag_file:
  assumes "\<forall>e \<in> set es. length (snd e) = 16" and "k < length es"
  shows "subbytes (tag_file_of es) (20 * k) 4 = int_bytes (word_of_nat (fst (es ! k)))"
    and "subbytes (tag_file_of es) (20 * k + 4) 16 = snd (es ! k)"
proof -
  have d: "drop k es = es ! k # drop (Suc k) es" using assms(2) by (simp add: Cons_nth_drop_Suc)
  have "length (snd (es ! k)) = 16" using assms by simp
  then show "subbytes (tag_file_of es) (20 * k) 4 = int_bytes (word_of_nat (fst (es ! k)))"
    "subbytes (tag_file_of es) (20 * k + 4) 16 = snd (es ! k)"
    using drop_tag_file [OF assms(1), of k]
    by (simp_all add: subbytes_def d add.commute [of _ 4] flip: drop_drop) (simp_all add: tag_file_of_def tag_record_def)
qed

lemma subbytes_tag_file_end:
  "\<forall>e \<in> set es. length (snd e) = 16 \<Longrightarrow> subbytes (tag_file_of es) (20 * length es) n = []"
  using drop_tag_file [of es "length es"] by (simp add: subbytes_def tag_file_of_def)

text \<open>A cell that may hold any number, as no entry has it for its key.\<close>

definition spare_key :: "hashmap \<Rightarrow> heap \<Rightarrow> nat \<Rightarrow> bool" where
  "spare_key m h p \<longleftrightarrow> p \<noteq> 0 \<and> p \<notin> locals h \<and> ints h p \<noteq> None \<and> (\<forall>v. hm_inv m (h\<lparr>ints := (ints h)(p \<mapsto> v)\<rparr>))"

lemma fresh_cell:
  assumes "hm_inv m h"
  shows "hm_inv m (h\<lparr>ints := (ints h)(fresh h \<mapsto> v), fresh := Suc (fresh h)\<rparr>)"
proof -
  let ?h = "h\<lparr>ints := (ints h)(fresh h \<mapsto> v), fresh := Suc (fresh h)\<rparr>"
  have ok: "heap_ok h" using assms by (simp add: hm_inv_def)
  then have "heap_ok ?h" by (auto simp: heap_ok_def)
  moreover have "bucket_ok ?h i q" if "bucket_ok h i q" for i q
    by (rule bucket_ok_grow(1) [OF that ok]) simp_all
  moreover have "val_at m ?h = val_at m h" by (rule ext) (simp add: val_at_def)
  ultimately show ?thesis using assms unfolding hm_inv_def by metis
qed

lemma spare_fresh:
  assumes "hm_inv m h"
  shows "spare_key m (h\<lparr>ints := (ints h)(fresh h \<mapsto> v), fresh := Suc (fresh h)\<rparr>) (fresh h)"
proof -
  let ?h = "h\<lparr>ints := (ints h)(fresh h \<mapsto> v), fresh := Suc (fresh h)\<rparr>"
  have "0 < fresh h" "fresh h \<notin> locals h" using assms by (auto simp: hm_inv_def heap_ok_def)
  moreover have "hm_inv m (?h\<lparr>ints := (ints ?h)(fresh h \<mapsto> u)\<rparr>)" for u
  proof -
    have "?h\<lparr>ints := (ints ?h)(fresh h \<mapsto> u)\<rparr> = h\<lparr>ints := (ints h)(fresh h \<mapsto> u), fresh := Suc (fresh h)\<rparr>" by simp
    with fresh_cell [OF assms, of u] show ?thesis by (simp only:)
  qed
  ultimately show ?thesis unfolding spare_key_def by auto
qed

lemma fresh_value:
  assumes "hm_inv m h"
  shows "hm_inv m (h\<lparr>blobs := (blobs h)(fresh h \<mapsto> b), fresh := Suc (fresh h)\<rparr>)"
    and "val_at m h j \<noteq> Some (fresh h)"
    and "tag_view m (h\<lparr>blobs := (blobs h)(fresh h \<mapsto> b), fresh := Suc (fresh h)\<rparr>) = tag_view m h"
proof -
  let ?h = "h\<lparr>blobs := (blobs h)(fresh h \<mapsto> b), fresh := Suc (fresh h)\<rparr>"
  have ok: "heap_ok h" using assms by (simp add: hm_inv_def)
  then have "heap_ok ?h" by (auto simp: heap_ok_def)
  moreover have "bucket_ok ?h i q" if "bucket_ok h i q" for i q
    using that by (auto simp: bucket_ok_def)
  moreover have v: "val_at m ?h = val_at m h" by (rule ext) (simp add: val_at_def)
  ultimately show "hm_inv m ?h" using assms unfolding hm_inv_def by metis
  show n: "val_at m h j \<noteq> Some (fresh h)" for j
    using val_blob [OF assms, of j] ok by (force simp: heap_ok_def)
  show "tag_view m ?h = tag_view m h"
  proof
    fix i
    show "tag_view m ?h i = tag_view m h i"
      using n [of i] by (cases "val_at m h i") (auto simp: tag_view_def v)
  qed
qed


section \<open>The loop of createMap\<close>

text \<open>What a readable file has: pages of the map \<open>hm_create (500, \<dots>)\<close> makes, none twice, and whole tags.\<close>

definition tag_file_ok :: "(nat \<times> byte list) list \<Rightarrow> bool" where
  "tag_file_ok es \<longleftrightarrow> distinct (map fst es) \<and> (\<forall>e \<in> set es. 0 < fst e \<and> fst e < 769 \<and> length (snd e) = 16)"

text \<open>The first \<open>k\<close> records are in the map; \<open>p\<close> is the cell for the next number.\<close>

definition loading :: "(nat \<times> byte list) list \<Rightarrow> nat \<Rightarrow> nat \<Rightarrow> 's cstate \<Rightarrow> bool" where
  "loading es k p s \<longleftrightarrow>
     (\<exists>m. tags s = Some m \<and> hm_inv m (heap_of s) \<and> 769 \<le> unat (hm_size m) \<and>
        hm_counted m (heap_of s) \<and> tag_view m (heap_of s) = map_of (take k es) \<and> spare_key m (heap_of s) p)"

lemma map_of_take_Suc:
  assumes "distinct (map fst es)" and "k < length es"
  shows "map_of (take (Suc k) es) = (map_of (take k es))(fst (es ! k) \<mapsto> snd (es ! k))"
    and "map_of (take k es) (fst (es ! k)) = None"
proof -
  have t: "take (Suc k) es = take k es @ [es ! k]" using assms(2) by (rule take_Suc_conv_app_nth)
  have "distinct (map fst (take (Suc k) es))" using assms(1) by (simp add: distinct_take flip: take_map)
  then have n: "fst (es ! k) \<notin> fst ` set (take k es)" by (simp add: t)
  then show "map_of (take k es) (fst (es ! k)) = None" by (simp add: map_of_eq_None_iff)
  then show "map_of (take (Suc k) es) = (map_of (take k es))(fst (es ! k) \<mapsto> snd (es ! k))"
    unfolding t map_of_append by (cases "es ! k") (simp add: map_add_upd_left map_add_def fun_eq_iff split: option.split)
qed

lemma tag_view_cong: "val_at m' h' = val_at m h \<Longrightarrow> blobs h' = blobs h \<Longrightarrow> tag_view m' h' = tag_view m h"
  by (simp add: tag_view_def fun_eq_iff)

lemma tag_view_ints [simp]: "tag_view m (h\<lparr>ints := f\<rparr>) = tag_view m h"
  by (rule tag_view_cong) (simp_all add: val_at_def fun_eq_iff)

lemma hm_counted_ints: "hm_counted m (h\<lparr>ints := f\<rparr>) = hm_counted m h"
proof -
  have "val_at m (h\<lparr>ints := f\<rparr>) = val_at m h" by (rule ext) (simp add: val_at_def)
  then show ?thesis by (simp add: hm_counted_def)
qed

text \<open>A new entry, of a number in a spare cell and a tag in a new block, and another spare cell.\<close>

lemma add_tag:
  assumes inv: "hm_inv m h" and spare: "spare_key m h p" and room: "room av"
    and i: "0 < i" "i < unat (hm_size m)" "tag_view m h i = None" and t: "length t = 16" and count: "hm_counted m h"
  defines "h2 \<equiv> h\<lparr>ints := (ints h)(p \<mapsto> word_of_nat i), blobs := (blobs h)(fresh h \<mapsto> t), fresh := Suc (fresh h)\<rparr>"
  obtains m' h' where "hm_set fl av m p (fresh h) h2 = ret (1, m', h')" and "hm_inv m' h'"
    and "unat (hm_size m) \<le> unat (hm_size m')" and "tag_view m' h' = (tag_view m h)(i \<mapsto> t)" and "hm_counted m' h'"
proof -
  define h1 where "h1 = h\<lparr>ints := (ints h)(p \<mapsto> word_of_nat i)\<rparr>"
  have inv1: "hm_inv m h1" using spare by (simp add: spare_key_def h1_def)
  have h2: "h2 = h1\<lparr>blobs := (blobs h1)(fresh h1 \<mapsto> t), fresh := Suc (fresh h1)\<rparr>" by (simp add: h2_def h1_def)
  have v1: "val_at m h1 = val_at m h" by (rule ext) (simp add: val_at_def h1_def)
  have t1: "tag_view m h1 = tag_view m h" by (rule tag_view_cong) (simp_all add: v1, simp add: h1_def)
  have v2: "val_at m h2 = val_at m h" by (rule ext) (simp add: val_at_def h2_def)
  note f = fresh_value(1,3) [OF inv1, where b = t, folded h2]
  have u: "unat (word_of_nat i :: s32) = i"
    using size_bound [OF i(2)] by (simp add: unsigned_of_nat take_bit_nat_eq_self)
  have key: "good_key m h2 p (word_of_nat i)"
    using spare i(1,2) u by (simp add: good_key_def spare_key_def h2_def)
  have "0 < fresh h1" "fresh h1 \<notin> locals h1" using inv1 by (auto simp: hm_inv_def heap_ok_def)
  then have val: "good_value m h2 (word_of_nat i) (fresh h)"
    using fresh_value(2) [OF inv1] by (simp add: good_value_def v2 v1 [symmetric]) (simp add: h2_def h1_def)
  obtain m' h' where s: "hm_set fl av m p (fresh h) h2 = ret (1, m', h')" "hm_inv m' h'"
    "val_at m' h' = (val_at m h2)(i \<mapsto> fresh h)" "val_at m h2 i = None \<longrightarrow> blobs h' = blobs h2" "hm_size m \<le> hm_size m'"
    "hm_count m' = hm_count m + (if val_at m h2 i = None then 1 else 0)"
    using hm_set_full [OF f(1) room key val, of fl] u by auto
  have "val_at m h2 i = None" using i(3) tag_view_None [OF inv] by (simp add: v2)
  with s(4) have b: "blobs h' = blobs h2" by blast
  have "tag_view m' h' j = ((tag_view m h)(i \<mapsto> t)) j" for j
  proof (cases "j = i")
    case True
    then show ?thesis using s(3) b t by (simp add: tag_view_def h2_def)
  next
    case False
    then have "tag_view m' h' j = tag_view m h2 j" by (simp add: tag_view_def s(3) b)
    with False f(2) t1 show ?thesis by simp
  qed
  moreover have "hm_counted m' h'"
    by (rule hm_set_counted [OF _ s(3,6)]) (use count in \<open>simp add: hm_counted_def v2\<close>)
  ultimately show ?thesis using s(1,2,5) by (intro that [of m' h']) (auto simp: word_le_nat_alt)
qed


context tag_file
begin

text \<open>One iteration, which reads the record \<open>k\<close>.\<close>

lemma load_step:
  assumes env: "tee_vfs env = io" and room: "room (avail env)" and es: "tag_file_ok es" and k: "k < length es" "k < 100"
    and load: "loading es k p s" and w: "content (tee_world s) = tag_file_of es" "pos (tee_world s) fd = Some (20 * k)"
  obtains q t where "loading es (Suc k) q t" and "content (tee_world t) = tag_file_of es"
    and "pos (tee_world t) fd = Some (20 * Suc k)"
    and "create_loop env fd (Suc n) k p s =
      (if 99 \<le> k then Some (Inl OutOfBounds) else create_loop env fd n (Suc k) q t)"
proof -
  let ?h = "heap_of s"
  obtain i t where e: "es ! k = (i, t)" by fastforce
  have "(i, t) \<in> set es" using k(1) e by (metis nth_mem)
  then have it: "0 < i" "i < 769" "length t = 16" and len: "\<forall>e \<in> set es. length (snd e) = 16" and d: "distinct (map fst es)"
    using es by (auto simp: tag_file_ok_def)
  note sb = subbytes_tag_file [OF len k(1), unfolded e fst_conv snd_conv]
  obtain m where m: "tags s = Some m" "hm_inv m ?h" "769 \<le> unat (hm_size m)" "tag_view m ?h = map_of (take k es)"
    "spare_key m ?h p" "hm_counted m ?h"
    using load by (auto simp: loading_def)
  then obtain old where old: "p \<noteq> 0" "ints ?h p = Some old" by (auto simp: spare_key_def)
  obtain r1 o1 w1 where r1: "io_read io fd 4 (tee_world s) = ((r1, o1), w1)" by (metis prod.exhaust)
  have 1: "r1 = 4" "o1 = Some (int_bytes (word_of_nat i))" "content w1 = tag_file_of es" "\<exists>x. pos w1 fd = Some x"
    using read_law [OF w(2) _ r1] sb(1) by (auto simp: w(1))
  obtain r2 w2 where r2: "io_lseek io fd (word_of_nat ((k + 1) * 4 + k * 16)) 0 w1 = (r2, w2)" by fastforce
  have o: "unat (word_of_nat x :: s64) = x" "0 \<le> sint (word_of_nat x :: s64)" if "x < 2 ^ 31" for x
    using that by (simp_all add: unsigned_of_nat take_bit_nat_eq_self signed_of_nat signed_take_bit_int_eq_self)
  have 2: "content w2 = tag_file_of es" "pos w2 fd = Some (20 * k + 4)"
    using 1(3,4) seek_law [OF _ _ r2] o [of "(k + 1) * 4 + k * 16"] k(2) by auto
  obtain r3 o3 w3 where r3: "io_read io fd 16 w2 = ((r3, o3), w3)" by (metis prod.exhaust)
  have 3: "o3 = Some t" "content w3 = tag_file_of es" "\<exists>x. pos w3 fd = Some x"
    using read_law [OF 2(2) _ r3] sb(2) it(3) by (auto simp: 2(1))
  obtain r4 w4 where r4: "io_lseek io fd (word_of_nat ((k + 1) * 4 + (k + 1) * 16)) 0 w3 = (r4, w4)" by fastforce
  have 4: "content w4 = tag_file_of es" "pos w4 fd = Some (20 * Suc k)"
    using 3(2,3) seek_law [OF _ _ r4] o [of "(k + 1) * 4 + (k + 1) * 16"] k(2) by auto
  define h2 where "h2 = ?h\<lparr>ints := (ints ?h)(p \<mapsto> word_of_nat i), blobs := (blobs ?h)(fresh ?h \<mapsto> t), fresh := Suc (fresh ?h)\<rparr>"
  have i: "i < unat (hm_size m)" "tag_view m ?h i = None"
    using it(2) m(3,4) map_of_take_Suc(2) [OF d k(1)] e by auto
  obtain m' h' where h': "hm_set (float_round env) (avail env) m p (fresh ?h) h2 = ret (1, m', h')" "hm_inv m' h'"
    "unat (hm_size m) \<le> unat (hm_size m')" "tag_view m' h' = (tag_view m ?h)(i \<mapsto> t)" "hm_counted m' h'"
    unfolding h2_def by (rule add_tag [OF m(2,5) room it(1) i it(3) m(6)])
  define u where "u = s\<lparr>tee_world := w4, tags := Some m', heap_of := h'\<lparr>ints := (ints h')(fresh h' \<mapsto> 0), fresh := Suc (fresh h')\<rparr>\<rparr>"
  have vu: "val_at m' (heap_of u) = val_at m' h'" by (rule ext) (simp add: u_def val_at_def)
  then have view: "tag_view m' (heap_of u) = map_of (take (Suc k) es)" and "hm_counted m' (heap_of u)"
    using tag_view_cong [of m' "heap_of u" m' h'] h'(4,5) m(4) map_of_take_Suc(1) [OF d k(1)] e
    by (simp_all add: u_def hm_counted_def)
  then have "loading es (Suc k) (fresh h') u"
    using fresh_cell [OF h'(2)] spare_fresh [OF h'(2)] h'(3) m(3) view
    by (auto simp: loading_def u_def)
  moreover have "create_loop env fd (Suc n) k p s =
      (if 99 \<le> k then Some (Inl OutOfBounds) else create_loop env fd n (Suc k) (fresh h') u)"
    using old m(1) r1 r2 r3 r4 1(1,2) 3(1) h'(1) room k(2) it(3) env
    by (simp add: overwrite_all room_def tag_set_def h2_def split del: if_split) (simp add: u_def Let_def)
  ultimately show ?thesis using 4 by (intro that) (simp_all add: u_def)
qed

text \<open>At the end of the file the read returns 0 and the loop ends.\<close>

lemma load_end:
  assumes env: "tee_vfs env = io" and es: "tag_file_ok es"
    and load: "loading es (length es) p s" and w: "content (tee_world s) = tag_file_of es"
    "pos (tee_world s) fd = Some (20 * length es)"
  shows "\<exists>u m. create_loop env fd (Suc n) k p s = ret u \<and> tags u = Some m \<and> hm_inv m (heap_of u) \<and>
    hm_counted m (heap_of u) \<and> tag_view m (heap_of u) = map_of es \<and> content (tee_world u) = tag_file_of es \<and> pos (tee_world u) fd \<noteq> None"
proof -
  obtain m where m: "tags s = Some m" "hm_inv m (heap_of s)" "tag_view m (heap_of s) = map_of es"
    "spare_key m (heap_of s) p" "hm_counted m (heap_of s)"
    using load by (auto simp: loading_def)
  then obtain old where old: "p \<noteq> 0" "ints (heap_of s) p = Some old" by (auto simp: spare_key_def)
  obtain r1 o1 w1 where r1: "io_read io fd 4 (tee_world s) = ((r1, o1), w1)" by (metis prod.exhaust)
  have "subbytes (tag_file_of es) (20 * length es) 4 = []"
    by (rule subbytes_tag_file_end) (use es in \<open>auto simp: tag_file_ok_def\<close>)
  then obtain d where "r1 = 0" "o1 = Some d" "content w1 = tag_file_of es" "pos w1 fd \<noteq> None" "length d \<le> 4"
    using read_law [OF w(2) _ r1] by (auto simp: w(1))
  then show ?thesis
    using old m r1 env
    by (simp add: spare_key_def hm_counted_ints)
qed

lemma load_all:
  assumes "tee_vfs env = io" and "room (avail env)" and es: "tag_file_ok es" and len: "length es < 100"
    and "loading es k p s" and "k \<le> length es" and "content (tee_world s) = tag_file_of es"
    and "pos (tee_world s) fd = Some (20 * k)"
  shows "\<exists>u m. create_loop env fd (20000 - k) k p s = ret u \<and> tags u = Some m \<and> hm_inv m (heap_of u) \<and>
    hm_counted m (heap_of u) \<and> tag_view m (heap_of u) = map_of es \<and> content (tee_world u) = tag_file_of es \<and> pos (tee_world u) fd \<noteq> None"
  using assms(5-8)
proof (induction "length es - k" arbitrary: k p s)
  case 0
  then have "k = length es" "20000 - k = Suc (19999 - k)" using len by auto
  with load_end [OF assms(1) es, of p s fd "19999 - k"] 0 show ?case by auto
next
  case (Suc x)
  then have k: "k < length es" "k < 100" "20000 - k = Suc (19999 - k)" "\<not> 99 \<le> k" using len by auto
  obtain q t where "loading es (Suc k) q t" "content (tee_world t) = tag_file_of es"
    "pos (tee_world t) fd = Some (20 * Suc k)"
    "create_loop env fd (Suc (19999 - k)) k p s = create_loop env fd (19999 - k) (Suc k) q t"
    using load_step [OF assms(1,2) es k(1,2) Suc.prems(1,3,4), of "19999 - k"] k(4) by metis
  with Suc.hyps(1) [of "Suc k" q t] Suc.hyps(2) k(1,3) show ?case by auto
qed

lemma load_too_many:
  assumes "tee_vfs env = io" and "room (avail env)" and es: "tag_file_ok es" and len: "100 \<le> length es"
    and "loading es k p s" and "k < 100" and "content (tee_world s) = tag_file_of es"
    and "pos (tee_world s) fd = Some (20 * k)"
  shows "create_loop env fd (20000 - k) k p s = Some (Inl OutOfBounds)"
  using assms(5-8)
proof (induction "99 - k" arbitrary: k p s)
  case 0
  then have k: "k < length es" "20000 - k = Suc (19999 - k)" "99 \<le> k" using len by auto
  from load_step [OF assms(1,2) es k(1) 0(3,2,4,5), of "19999 - k"] k(2,3) show ?case by metis
next
  case (Suc x)
  then have k: "k < length es" "20000 - k = Suc (19999 - k)" "\<not> 99 \<le> k" using len by auto
  obtain q t where "loading es (Suc k) q t" "content (tee_world t) = tag_file_of es"
    "pos (tee_world t) fd = Some (20 * Suc k)"
    "create_loop env fd (Suc (19999 - k)) k p s = create_loop env fd (19999 - k) (Suc k) q t"
    using load_step [OF assms(1,2) es k(1) Suc.prems(2,1,3,4), of "19999 - k"] k(3) by metis
  with Suc.hyps(1) [of "Suc k" q t] Suc.hyps(2) k(2,3) show ?case by auto
qed

text \<open>\<open>createMap\<close>: a new map, then the loop.\<close>

lemma hm_create_500:
  "room av \<Longrightarrow> hm_create av 500 1 13 h =
    ret (Some \<lparr>hm_items = Some (replicate 769 (Some 0)), hm_count = 0, hm_size = 769, hm_load = 1, hm_step = 13\<rparr>)"
  by (simp add: hm_create_def next_size_def sizes_def room_def)

lemma createMap_start:
  assumes env: "tee_vfs env = io" and room: "room (avail env)" and ok: "heap_ok (heap_of s)"
    and stored: "content (tee_world s) = tag_file_of es"
    and opens: "0 \<le> sint (fst (io_open io mac_log 0x42 0x1FF (tee_world s)))"
  obtains fd p t where "loading es 0 p t" and "content (tee_world t) = tag_file_of es" and "pos (tee_world t) fd = Some 0"
    and "createMap env s = run_bind (create_loop env fd 20000 0 p t) (\<lambda>s.
      let (_, w) = io_close io fd (tee_world s) in ret (s\<lparr>tee_world := w\<rparr>))"
proof -
  obtain fd w where o: "io_open io mac_log 0x42 0x1FF (tee_world s) = (fd, w)" by fastforce
  then have w: "content w = tag_file_of es" "pos w fd = Some 0" using open_keeps [OF o] opens stored by auto
  define m where "m = \<lparr>hm_items = Some (replicate 769 (Some 0)), hm_count = 0, hm_size = 769, hm_load = 1, hm_step = 13\<rparr>"
  let ?h = "heap_of s"
  have hd: "head m i = 0" if "i < 769" for i using that by (simp add: head_def m_def)
  have null: "nodes ?h 0 = None" by (rule nodes_null [OF ok])
  have v: "val_at m ?h = Map.empty" using hd null by (auto simp: val_at_def fun_eq_iff m_def)
  have inv: "hm_inv m ?h"
    unfolding hm_inv_def v using ok hd by (auto simp: bucket_ok_def) (auto simp: m_def)
  define t where "t = s\<lparr>tee_world := w, tags := Some m,
      heap_of := ?h\<lparr>ints := (ints ?h)(fresh ?h \<mapsto> 0), fresh := Suc (fresh ?h)\<rparr>\<rparr>"
  have vt: "val_at m (heap_of t) = Map.empty" unfolding v [symmetric] by (rule ext) (simp add: val_at_def t_def)
  then have tv: "tag_view m (heap_of t) = Map.empty" by (simp add: tag_view_def fun_eq_iff)
  have "hm_counted m (heap_of t)" by (simp add: hm_counted_def vt) (simp add: m_def)
  moreover have "769 \<le> unat (hm_size m)" by (simp add: m_def)
  ultimately have "loading es 0 (fresh ?h) t"
    using fresh_cell [OF inv] spare_fresh [OF inv] tv by (auto simp: loading_def t_def)
  moreover have "createMap env s = run_bind (create_loop env fd 20000 0 (fresh ?h) t) (\<lambda>s.
      let (_, w) = io_close io fd (tee_world s) in ret (s\<lparr>tee_world := w\<rparr>))"
    using o env room hm_create_500 [OF room, of ?h]
    by (simp add: createMap_def t_def m_def room_def Let_def)
  ultimately show ?thesis using w by (intro that) (simp_all add: t_def)
qed

lemma createMap_spec:
  assumes "tee_vfs env = io" and "room (avail env)" and "heap_ok (heap_of s)"
    and "content (tee_world s) = tag_file_of es" and es: "tag_file_ok es"
    and "0 \<le> sint (fst (io_open io mac_log 0x42 0x1FF (tee_world s)))"
  shows "length es < 100 \<Longrightarrow> \<exists>u m. createMap env s = ret u \<and> tags u = Some m \<and> hm_inv m (heap_of u) \<and>
      hm_counted m (heap_of u) \<and> tag_view m (heap_of u) = map_of es \<and> content (tee_world u) = tag_file_of es"
    and "100 \<le> length es \<Longrightarrow> createMap env s = Some (Inl OutOfBounds)"
proof -
  obtain fd p t where t: "loading es 0 p t" "content (tee_world t) = tag_file_of es" "pos (tee_world t) fd = Some 0"
    and run: "createMap env s = run_bind (create_loop env fd 20000 0 p t) (\<lambda>s.
      let (_, w) = io_close io fd (tee_world s) in ret (s\<lparr>tee_world := w\<rparr>))"
    by (rule createMap_start [OF assms(1-4,6)])
  show "\<exists>u m. createMap env s = ret u \<and> tags u = Some m \<and> hm_inv m (heap_of u) \<and>
      hm_counted m (heap_of u) \<and> tag_view m (heap_of u) = map_of es \<and> content (tee_world u) = tag_file_of es" if l: "length es < 100"
  proof -
    obtain u m where u: "create_loop env fd 20000 0 p t = ret u" "tags u = Some m" "hm_inv m (heap_of u)"
      "hm_counted m (heap_of u)" "tag_view m (heap_of u) = map_of es" "content (tee_world u) = tag_file_of es" "\<exists>x. pos (tee_world u) fd = Some x"
      using load_all [OF assms(1,2) es l t(1), of fd] t(2,3) by auto
    obtain rc w where c: "io_close io fd (tee_world u) = (rc, w)" by fastforce
    have "content w = tag_file_of es" using close_law [OF _ c] u(6,7) by auto
    with u(1-5) c run show ?thesis by simp
  qed
  show "createMap env s = Some (Inl OutOfBounds)" if l: "100 \<le> length es"
    using load_too_many [OF assms(1,2) es l t(1), of fd] t(2,3) run by simp
qed

end


lemma tag_entries_ok:
  assumes "hm_inv m h" and "tags_long m h" and "unat (hm_size m) \<le> 769"
  shows "tag_file_ok (tag_entries m h)"
  using tag_list_entry [OF assms(1,2)] distinct_tag_list [of "[0..<unat (hm_size m)]" m h] assms(3)
  by (fastforce simp: tag_file_ok_def)

text \<open>As long as the reads do not return 0 the loop goes on, past the ends of the arrays.\<close>

lemma create_loop_no_return:
  assumes "\<forall>w. fst (fst (io_read (tee_vfs env) fd 4 w)) \<noteq> 0"
  shows "100 \<le> n + k \<Longrightarrow> k < 100 \<Longrightarrow> create_loop env fd n k p s \<noteq> ret u"
proof (induction n arbitrary: k p s)
  case (Suc n)
  have "create_loop env fd n (Suc k) q t \<noteq> ret u" if "\<not> 99 \<le> k" for q t
    using Suc.IH [of "Suc k" q t] Suc.prems that by simp
  moreover have "fst (fst (io_read (tee_vfs env) fd 4 (tee_world s))) \<noteq> 0" using assms by simp
  ultimately show ?case
    by (auto simp: run_bind_ret Let_def split: prod.splits if_splits)
qed simp

section \<open>Properties\<close>


text \<open>C39. With 100 entries or more the map is lost: \<open>closeMap\<close> writes all of them, and every later
  \<open>createMap\<close> leaves its arrays of 100 pointers.\<close>

theorem createMap_overflows:
  assumes "tag_file (tee_vfs env) content pos" and "room (avail env)"
    and "tags s = Some m" and "hm_inv m (heap_of s)" and "tags_long m (heap_of s)" and "unat (hm_size m) \<le> 769"
    and "hm_counted m (heap_of s)" and "100 \<le> length (tag_entries m (heap_of s))"
    and "0 \<le> sint (fst (io_open (tee_vfs env) mac_log 0x202 0x1FF (tee_world s)))"
  shows "\<exists>t. closeMap env s = ret t \<and>
    (\<forall>s'. heap_ok (heap_of s') \<and> content (tee_world s') = content (tee_world t) \<and>
        0 \<le> sint (fst (io_open (tee_vfs env) mac_log 0x42 0x1FF (tee_world s'))) \<longrightarrow>
      createMap env s' = Some (Inl OutOfBounds))"
proof -
  obtain t where t: "closeMap env s = ret t" "content (tee_world t) = tag_file_of (tag_entries m (heap_of s))"
    using tag_file.closeMap_spec [OF assms(1) refl assms(3-5,7,9)] by blast
  have "tag_file_ok (tag_entries m (heap_of s))" by (rule tag_entries_ok [OF assms(4-6)])
  then show ?thesis
    using t tag_file.createMap_spec(2) [OF assms(1) refl assms(2) _ _ _ _ assms(8)] by fastforce
qed

text \<open>When the file cannot be opened, and reads from the descriptor -1 fail with a result other than 0,
  \<open>createMap\<close> never returns normally: the failed reads are taken for records.\<close>

theorem createMap_needs_file:
  assumes "fst (io_open (tee_vfs env) mac_log 0x42 0x1FF (tee_world s)) = - 1"
    and "\<forall>w. fst (fst (io_read (tee_vfs env) (- 1) 4 w)) \<noteq> 0"
  shows "createMap env s \<noteq> ret u"
proof -
  have "create_loop env (- 1) 20000 0 p t \<noteq> ret v" for p t v
    by (rule create_loop_no_return [OF assms(2)]) simp_all
  with assms(1) show ?thesis
    by (auto simp: createMap_def Let_def run_bind_ret split: prod.splits if_splits)
qed

end
