(* ===== verification/Tag_Witnesses.thy ===== *)
theory Tag_Witnesses
  imports Codec_Tags Posix_Ref
begin

text \<open>
  The properties of the file of tags at concrete inputs: maps with the first \<open>n\<close> pages, over the files
  of \<open>Posix_Ref\<close>.
\<close>

section \<open>The file of tags in the reference system\<close>

definition ref_content :: "ref_world \<Rightarrow> byte list" where
  "ref_content w = (case r_path w mac_log of None \<Rightarrow> [] | Some ino \<Rightarrow> r_data w ino)"

definition ref_pos :: "ref_world \<Rightarrow> s32 \<Rightarrow> nat option" where
  "ref_pos w fd =
     (case r_fds w fd of
        None \<Rightarrow> None
      | Some (ino, p) \<Rightarrow> if fd \<noteq> 1000 \<and> r_path w mac_log = Some ino then Some p else None)"

abbreviation ref_host_io :: "ref_world vfs_io" where
  "ref_host_io \<equiv> host_io ref_os (\<lambda>n w. (None, w)) (\<lambda>n bs. bs)"

lemma ref_posE:
  assumes "ref_pos w fd = Some p"
  obtains ino where "fd \<noteq> 1000" "r_fds w fd = Some (ino, p)" "r_path w mac_log = Some ino" "ref_content w = r_data w ino"
  using assms by (auto simp: ref_pos_def ref_content_def split: if_splits option.splits)

lemma small_fd: "n < 1000 \<Longrightarrow> (word_of_nat n :: s32) \<noteq> 1000"
  by (simp add: word_unat_eq_iff unsigned_of_nat take_bit_nat_eq_self)

declare minus_one_int [simp]

interpretation ref_tag: tag_file ref_host_io ref_content ref_pos
proof
  fix s t fd p bs r n out off rc
  show "io_open ref_host_io mac_log 0x42 0x1FF s = (fd, t) \<Longrightarrow> 0 \<le> sint fd \<Longrightarrow>
      ref_content t = ref_content s \<and> ref_pos t fd = Some 0"
    by (auto simp: host_io_def ref_os_def ref_open_def ref_content_def ref_pos_def Let_def small_fd
        split: if_splits option.splits)
  show "io_open ref_host_io mac_log 0x202 0x1FF s = (fd, t) \<Longrightarrow> 0 \<le> sint fd \<Longrightarrow>
      ref_content t = [] \<and> ref_pos t fd = Some 0"
    by (auto simp: host_io_def ref_os_def ref_open_def ref_content_def ref_pos_def Let_def small_fd
        split: if_splits option.splits)
  show "ref_pos s fd = Some p \<Longrightarrow> length bs \<le> 16 \<Longrightarrow>
      io_write ref_host_io fd bs (word_of_nat (length bs)) s = (r, t) \<Longrightarrow>
      ref_content t = overwrite (ref_content s) p bs \<and> ref_pos t fd = Some (p + length bs)"
    by (elim ref_posE) (auto simp: host_io_def ref_os_def ref_file_def ref_content_def ref_pos_def
        unsigned_of_nat take_bit_nat_eq_self)
  show "ref_pos s fd = Some p \<Longrightarrow> unat n \<le> 16 \<Longrightarrow> io_read ref_host_io fd n s = ((r, out), t) \<Longrightarrow>
      r = word_of_nat (length (subbytes (ref_content s) p (unat n))) \<and>
      (\<exists>d. out = Some (subbytes (ref_content s) p (unat n) @ d) \<and>
        length (subbytes (ref_content s) p (unat n) @ d) \<le> unat n) \<and>
      ref_content t = ref_content s \<and> ref_pos t fd = Some (p + length (subbytes (ref_content s) p (unat n)))"
    by (elim ref_posE) (auto simp: host_io_def ref_os_def ref_file_def ref_content_def ref_pos_def Let_def)
  show "ref_pos s fd = Some p \<Longrightarrow> 0 \<le> sint off \<Longrightarrow> io_lseek ref_host_io fd off 0 s = (r, t) \<Longrightarrow>
      ref_content t = ref_content s \<and> ref_pos t fd = Some (unat off)"
    by (elim ref_posE) (auto simp: host_io_def ref_os_def ref_file_def ref_content_def ref_pos_def)
  show "ref_pos s fd = Some p \<Longrightarrow> io_close ref_host_io fd s = (rc, t) \<Longrightarrow> ref_content t = ref_content s"
    by (elim ref_posE) (auto simp: host_io_def ref_os_def ref_file_def ref_content_def)
qed


section \<open>Maps of the first pages\<close>

text \<open>Page \<open>i\<close> has its item at \<open>i\<close>, its number at \<open>1000 + i\<close> and its tag at \<open>2000 + i\<close>.\<close>

definition page_tag7 :: "byte list" where
  "page_tag7 = replicate 16 7"

definition many_map :: "nat \<Rightarrow> hashmap" where
  "many_map n = \<lparr>hm_items = Some (map (\<lambda>i. Some (if 1 \<le> i \<and> i \<le> n then i else 0)) [0..<769]),
     hm_count = word_of_nat n, hm_size = 769, hm_load = 1, hm_step = 13\<rparr>"

definition many_heap :: "nat \<Rightarrow> heap" where
  "many_heap n = \<lparr>ints = (\<lambda>a. if 1001 \<le> a \<and> a \<le> 1000 + n then Some (word_of_nat (a - 1000)) else None),
     blobs = (\<lambda>a. if 2001 \<le> a \<and> a \<le> 2000 + n then Some page_tag7 else None),
     nodes = (\<lambda>a. if 1 \<le> a \<and> a \<le> n then Some \<lparr>it_key = 1000 + a, it_value = 2000 + a, it_next = 0\<rparr> else None),
     locals = {}, fresh = 3000\<rparr>"

lemma many_size [simp]: "unat (hm_size (many_map n)) = 769"
  by (simp add: many_map_def)

lemma many_head: "i < 769 \<Longrightarrow> head (many_map n) i = (if 1 \<le> i \<and> i \<le> n then i else 0)"
  by (simp add: head_def many_map_def)

lemma many_val: "n < 769 \<Longrightarrow> val_at (many_map n) (many_heap n) i = (if 1 \<le> i \<and> i \<le> n then Some (2000 + i) else None)"
  by (simp add: val_at_def many_head) (simp add: many_heap_def)

lemma many_inv:
  assumes "n < 769"
  shows "hm_inv (many_map n) (many_heap n)"
  unfolding hm_inv_def many_val [OF assms]
proof (intro conjI)
  show "heap_ok (many_heap n)"
    using assms by (auto simp: heap_ok_def many_heap_def split: if_splits)
  show "\<exists>xs. hm_items (many_map n) = Some xs \<and> unat (hm_size (many_map n)) \<le> length xs \<and>
      (\<forall>i < unat (hm_size (many_map n)). xs ! i \<noteq> None)"
    by (simp add: many_map_def)
  show "\<forall>i < unat (hm_size (many_map n)). bucket_ok (many_heap n) i (head (many_map n) i)"
    by (simp add: many_head bucket_ok_def) (simp add: many_heap_def)
qed auto

lemma many_view: "n < 769 \<Longrightarrow> tag_view (many_map n) (many_heap n) i = (if 1 \<le> i \<and> i \<le> n then Some page_tag7 else None)"
  by (simp add: tag_view_def many_val) (simp add: many_heap_def page_tag7_def)

lemma many_long: "n < 769 \<Longrightarrow> tags_long (many_map n) (many_heap n)"
  by (simp add: tags_long_def many_view) (simp add: page_tag7_def)

lemma filter_upt_interval: "n < c \<Longrightarrow> filter (\<lambda>i. 1 \<le> i \<and> i \<le> n) [0..<c] = [1..<Suc n]"
proof -
  assume "n < c"
  then have "[0..<c] = [0..<Suc n] @ [Suc n..<c]"
    using upt_add_eq_append [of 0 "Suc n" "c - Suc n"] by simp
  also have "[0..<Suc n] = 0 # [1..<Suc n]" by (simp add: upt_conv_Cons del: upt_Suc)
  finally show ?thesis by (simp del: upt_Suc)
qed

lemma many_entries: "n < 769 \<Longrightarrow> length (tag_entries (many_map n) (many_heap n)) = n"
proof -
  assume n: "n < 769"
  have l: "length (tag_list (many_map n) (many_heap n) ks) = length (filter (\<lambda>i. 1 \<le> i \<and> i \<le> n) ks)" for ks
    using n by (induction ks) (simp_all add: many_view)
  have "filter (\<lambda>i. 1 \<le> i \<and> i \<le> n) [0..<769] = [1..<Suc n]"
    using n by (rule filter_upt_interval)
  then show ?thesis by (simp add: l)
qed


section \<open>Closing and opening again\<close>

definition tag_env :: "ref_world codec_env" where
  "tag_env = \<lparr>tee_api = (\<lambda>_ w. (\<lparr>t_res = 0, t_handle = 0, t_out = [], t_tag = []\<rparr>, w)), tee_vfs = ref_host_io,
     avail = ample, float_round = (\<lambda>x. x), max_page_size = 65536\<rparr>"

lemma tag_env_sel [simp]: "tee_vfs tag_env = ref_host_io" "avail tag_env = ample"
  by (simp_all add: tag_env_def)

text \<open>A world in which the file exists, with the given content, and is not open.\<close>

definition log_world :: "byte list \<Rightarrow> ref_world" where
  "log_world bs = ref_init\<lparr>r_path := [mac_log \<mapsto> 0], r_data := (\<lambda>_. bs), r_next_ino := 1\<rparr>"

definition many_state :: "nat \<Rightarrow> ref_world cstate" where
  "many_state n = \<lparr>tags = Some (many_map n), heap_of = many_heap n, tee_world = log_world []\<rparr>"

text \<open>A new instance of the application that finds the file another one left.\<close>

definition reopened :: "ref_world cstate \<Rightarrow> ref_world cstate" where
  "reopened t = \<lparr>tags = None,
     heap_of = \<lparr>ints = Map.empty, blobs = Map.empty, nodes = Map.empty, locals = {}, fresh = 1\<rparr>,
     tee_world = log_world (ref_content (tee_world t))\<rparr>"

lemma reopened_heap: "heap_ok (heap_of (reopened t))"
  by (simp add: reopened_def heap_ok_def)

lemma reopened_content: "ref_content (tee_world (reopened t)) = ref_content (tee_world t)"
  by (simp add: reopened_def log_world_def ref_content_def)

lemma log_opens: "0 \<le> sint (fst (io_open ref_host_io mac_log fl md (log_world bs)))" if "fl \<in> {0x42, 0x202}"
  using that by (auto simp: host_io_def ref_os_def ref_open_def log_world_def ref_init_def Let_def)

lemma many_opens: "0 \<le> sint (fst (io_open (tee_vfs tag_env) mac_log 0x202 0x1FF (tee_world (many_state n))))"
  by (simp add: many_state_def log_opens)

lemma reopened_opens: "0 \<le> sint (fst (io_open (tee_vfs tag_env) mac_log 0x42 0x1FF (tee_world (reopened t))))"
  by (simp add: reopened_def log_opens)

lemma many_count: "n < 769 \<Longrightarrow> hm_counted (many_map n) (many_heap n)"
proof -
  assume n: "n < 769"
  then have "dom (val_at (many_map n) (many_heap n)) = {1..n}" by (auto simp: many_val split: if_splits)
  then show ?thesis by (simp add: hm_counted_def many_map_def)
qed

lemma many_state_sel: "tags (many_state n) = Some (many_map n)" "heap_of (many_state n) = many_heap n"
  by (simp_all add: many_state_def)

lemma tag_env_file: "tag_file (tee_vfs tag_env) ref_content ref_pos" "room (avail tag_env)"
  using ref_tag.tag_file_axioms by simp_all


theorem createMap_overflows_witness:
  "\<exists>t. closeMap tag_env (many_state 100) = ret t \<and> createMap tag_env (reopened t) = Some (Inl OutOfBounds)"
proof -
  have "\<exists>t. closeMap tag_env (many_state 100) = ret t \<and>
    (\<forall>s'. heap_ok (heap_of s') \<and> ref_content (tee_world s') = ref_content (tee_world t) \<and>
        0 \<le> sint (fst (io_open (tee_vfs tag_env) mac_log 0x42 0x1FF (tee_world s'))) \<longrightarrow>
      createMap tag_env s' = Some (Inl OutOfBounds))"
    using createMap_overflows [OF tag_env_file many_state_sel(1) _ _ _ _ _ many_opens]
      many_inv [of 100] many_long [of 100] many_count [of 100] many_entries [of 100] by (simp add: many_state_sel)
  then show ?thesis using reopened_heap reopened_content reopened_opens by blast
qed

text \<open>A system without a free descriptor, in which reads from the descriptor -1 fail.\<close>

definition full_env :: "ref_world codec_env" where
  "full_env = tag_env\<lparr>tee_vfs := ref_host_io\<lparr>io_read := (\<lambda>fd n w.
     if fd = - 1 then ((- 1, None), w) else io_read ref_host_io fd n w)\<rparr>\<rparr>"

theorem createMap_needs_file_witness:
  "createMap full_env ((reopened (many_state 0))\<lparr>tee_world := ref_init\<lparr>r_next_fd := 1000\<rparr>\<rparr>) \<noteq> ret (many_state 0)"
  by (rule createMap_needs_file)
    (simp_all add: full_env_def host_io_def ref_os_def ref_open_def ref_init_def)

text \<open>The map of two pages, deleted.\<close>

theorem hm_delete_releases_entries_witness:
  "\<exists>h'. hm_delete None (many_map 2) (many_heap 2) = ret (1, h') \<and> dom (nodes h') = {} \<and> dom (blobs h') = {}"
proof -
  let ?m = "many_map 2" and ?h = "many_heap 2"
  obtain h' where h': "hm_delete None ?m ?h = ret (1, h')" "dom (nodes h') = dom (nodes ?h) - entry_nodes ?m ?h {..<769}"
    "dom (blobs h') = dom (blobs ?h) - entry_values ?m ?h {..<769}"
    using hm_delete_releases_entries [OF many_inv, of 2 None] by (auto simp: frees_value_def)
  have p: "x \<in> entry_nodes ?m ?h {..<769}" "2000 + x \<in> entry_values ?m ?h {..<769}" if "x = 1 \<or> x = 2" for x
    using that many_head [of x 2] by (auto simp: entry_defs many_heap_def intro!: bexI [of _ x])
  have "dom (nodes ?h) \<subseteq> {1, 2}" "dom (blobs ?h) \<subseteq> {2001, 2002}"
    by (auto simp: many_heap_def split: if_splits)
  moreover have "{1, 2} \<subseteq> entry_nodes ?m ?h {..<769}" "{2001, 2002} \<subseteq> entry_values ?m ?h {..<769}"
    using p [of 1] p [of 2] by simp_all
  ultimately have "dom (nodes h') = {}" "dom (blobs h') = {}" unfolding h'(2,3) by blast+
  with h'(1) show ?thesis by blast
qed

end
